(* ===== verification/Prelude.thy ===== *)
theory Prelude
  imports Main "HOL-Library.Word"
begin

text \<open>
  Shared vocabulary of the development.

  \<^item> The integer operations of Rust the contracts use, at their width: \<open>i128\<close> values are
    \<open>int\<close>, \<open>u64\<close> and \<open>u32\<close> values are \<open>nat\<close>, and every checked, saturating or
    panicking operation spells its bound out.
  \<^item> A computation of a contract: a function from the ledger state to a result and a state.
    A result is a value, an error the code returns (\<open>Err\<close>), or a trap of the host
    (\<open>Panic\<close>: a failed \<open>require_auth\<close>, \<open>unwrap\<close> of \<open>None\<close>, an arithmetic overflow
    under \<open>overflow-checks = true\<close>). The state that comes with an error is the one the body
    had written so far; \<open>invoke\<close> is the host's frame around an entry point, which keeps the
    state only when the call succeeds.
  \<^item> \<open>wp\<close>, the weakest precondition of a successful run, with one equation per combinator, so
    that the simplifier turns a statement about a handler into one about its guards and writes.
  \<^item> Reachable states of a contract and the interface \<open>contract_invariant\<close>, from which
    every invariant of a contract is obtained.
\<close>

named_theorems wp_simps \<open>weakest-precondition equations\<close>
named_theorems run_simps \<open>equations that evaluate a computation on a state\<close>

section \<open>Names\<close>

type_synonym addr = nat
type_synonym byte = "8 word"
type_synonym bytes = "byte list"
type_synonym hash = bytes
type_synonym sym = string

section \<open>Rust integers\<close>

definition u32_max :: nat where "u32_max = 4294967295"
definition u64_max :: nat where "u64_max = 18446744073709551615"
definition i128_max :: int where "i128_max = 170141183460469231731687303715884105727"
definition i128_min :: int where "i128_min = - 170141183460469231731687303715884105728"

definition in_i128 :: "int \<Rightarrow> bool" where
  "in_i128 a \<longleftrightarrow> i128_min \<le> a \<and> a \<le> i128_max"

definition i128_checked_add :: "int \<Rightarrow> int \<Rightarrow> int option" where
  "i128_checked_add a b = (if in_i128 (a + b) then Some (a + b) else None)"

definition i128_checked_sub :: "int \<Rightarrow> int \<Rightarrow> int option" where
  "i128_checked_sub a b = (if in_i128 (a - b) then Some (a - b) else None)"

definition i128_checked_mul :: "int \<Rightarrow> int \<Rightarrow> int option" where
  "i128_checked_mul a b = (if in_i128 (a * b) then Some (a * b) else None)"

definition i128_saturating_add :: "int \<Rightarrow> int \<Rightarrow> int" where
  "i128_saturating_add a b = max i128_min (min i128_max (a + b))"

text \<open>The quotient of \<open>i128\<close> division, which truncates towards zero.\<close>

definition i128_quot :: "int \<Rightarrow> int \<Rightarrow> int" where
  "i128_quot a b = sgn a * sgn b * (\<bar>a\<bar> div \<bar>b\<bar>)"

definition u32_checked_add :: "nat \<Rightarrow> nat \<Rightarrow> nat option" where
  "u32_checked_add a b = (if a + b \<le> u32_max then Some (a + b) else None)"

definition u64_checked_add :: "nat \<Rightarrow> nat \<Rightarrow> nat option" where
  "u64_checked_add a b = (if a + b \<le> u64_max then Some (a + b) else None)"

definition u32_saturating_add :: "nat \<Rightarrow> nat \<Rightarrow> nat" where
  "u32_saturating_add a b = min u32_max (a + b)"

definition u64_saturating_add :: "nat \<Rightarrow> nat \<Rightarrow> nat" where
  "u64_saturating_add a b = min u64_max (a + b)"

text \<open>\<open>saturating_sub\<close> on unsigned integers is subtraction on \<open>nat\<close>, which stops at 0.\<close>

definition saturating_sub :: "nat \<Rightarrow> nat \<Rightarrow> nat" where
  "saturating_sub a b = a - b"

lemma i128_checked_add_Some [simp]:
  "i128_checked_add a b = Some c \<longleftrightarrow> in_i128 (a + b) \<and> c = a + b"
  by (auto simp: i128_checked_add_def)

lemma i128_checked_sub_Some [simp]:
  "i128_checked_sub a b = Some c \<longleftrightarrow> in_i128 (a - b) \<and> c = a - b"
  by (auto simp: i128_checked_sub_def)

lemma i128_checked_mul_Some [simp]:
  "i128_checked_mul a b = Some c \<longleftrightarrow> in_i128 (a * b) \<and> c = a * b"
  by (auto simp: i128_checked_mul_def)

lemma u64_checked_add_Some [simp]:
  "u64_checked_add a b = Some c \<longleftrightarrow> a + b \<le> u64_max \<and> c = a + b"
  by (auto simp: u64_checked_add_def)

lemma u32_checked_add_Some [simp]:
  "u32_checked_add a b = Some c \<longleftrightarrow> a + b \<le> u32_max \<and> c = a + b"
  by (auto simp: u32_checked_add_def)

lemma i128_quot_pos: "0 \<le> a \<Longrightarrow> 0 < b \<Longrightarrow> i128_quot a b = a div b"
  by (cases "a = 0") (auto simp: i128_quot_def sgn_if)

section \<open>Computations\<close>

datatype 'e failure = Err 'e | Panic

type_synonym ('s, 'e, 'a) comp = "'s \<Rightarrow> ('e failure + 'a) \<times> 's"

definition ret :: "'a \<Rightarrow> ('s, 'e, 'a) comp" where
  "ret x = (\<lambda>s. (Inr x, s))"

definition throw :: "'e \<Rightarrow> ('s, 'e, 'a) comp" where
  "throw e = (\<lambda>s. (Inl (Err e), s))"

definition panic :: "('s, 'e, 'a) comp" where
  "panic = (\<lambda>s. (Inl Panic, s))"

definition bind :: "('s, 'e, 'a) comp \<Rightarrow> ('a \<Rightarrow> ('s, 'e, 'b) comp) \<Rightarrow> ('s, 'e, 'b) comp" where
  "bind m f = (\<lambda>s. case m s of (Inl e, t) \<Rightarrow> (Inl e, t) | (Inr x, t) \<Rightarrow> f x t)"

text \<open>\<open>m?; n\<close>: run \<open>m\<close>, drop its value, go on with \<open>n\<close>.\<close>

definition andthen :: "('s, 'e, 'a) comp \<Rightarrow> ('s, 'e, 'b) comp \<Rightarrow> ('s, 'e, 'b) comp" where
  "andthen m n = bind m (\<lambda>_. n)"

text \<open>A block of statements, run in order.\<close>

fun do_all :: "('s, 'e, unit) comp list \<Rightarrow> ('s, 'e, unit) comp" where
  "do_all [] = ret ()"
| "do_all (m # ms) = andthen m (do_all ms)"

definition gets :: "('s \<Rightarrow> 'a) \<Rightarrow> ('s, 'e, 'a) comp" where
  "gets f = (\<lambda>s. (Inr (f s), s))"

definition modify :: "('s \<Rightarrow> 's) \<Rightarrow> ('s, 'e, unit) comp" where
  "modify f = (\<lambda>s. (Inr (), f s))"

text \<open>\<open>if b { return Err(e) }\<close>, with \<open>b\<close> a value or a test of the state.\<close>

definition fail_if :: "bool \<Rightarrow> 'e \<Rightarrow> ('s, 'e, unit) comp" where
  "fail_if b e = (if b then throw e else ret ())"

definition fail_when :: "('s \<Rightarrow> bool) \<Rightarrow> 'e \<Rightarrow> ('s, 'e, unit) comp" where
  "fail_when p e = (\<lambda>s. if p s then (Inl (Err e), s) else (Inr (), s))"

text \<open>
  \<open>if b { m?; }\<close>. \<open>guard_if\<close> is the same for an \<open>m\<close> that only tests the state; the two
  have different weakest-precondition equations.
\<close>

definition only_if :: "bool \<Rightarrow> ('s, 'e, unit) comp \<Rightarrow> ('s, 'e, unit) comp" where
  "only_if b m = (if b then m else ret ())"

definition guard_if :: "bool \<Rightarrow> ('s, 'e, unit) comp \<Rightarrow> ('s, 'e, unit) comp" where
  "guard_if b m = (if b then m else ret ())"

text \<open>\<open>Option::ok_or\<close> followed by \<open>?\<close>, and \<open>Option::unwrap\<close>.\<close>

definition ok_or :: "'a option \<Rightarrow> 'e \<Rightarrow> ('s, 'e, 'a) comp" where
  "ok_or x e = (case x of None \<Rightarrow> throw e | Some v \<Rightarrow> ret v)"

definition unwrap :: "'a option \<Rightarrow> ('s, 'e, 'a) comp" where
  "unwrap x = (case x of None \<Rightarrow> panic | Some v \<Rightarrow> ret v)"

text \<open>
  \<open>match m { Ok(x) => .., Err(e) => .. }\<close>: a returned error becomes a value, a trap does not.
\<close>

definition attempt :: "('s, 'e, 'a) comp \<Rightarrow> ('s, 'e, 'e + 'a) comp" where
  "attempt m = (\<lambda>s. case m s of
      (Inl (Err e), t) \<Rightarrow> (Inr (Inl e), t)
    | (Inl Panic, t) \<Rightarrow> (Inl Panic, t)
    | (Inr x, t) \<Rightarrow> (Inr (Inr x), t))"

text \<open>A \<open>for\<close> loop over a vector whose body may return an error.\<close>

fun for_each :: "'x list \<Rightarrow> ('x \<Rightarrow> ('s, 'e, unit) comp) \<Rightarrow> ('s, 'e, unit) comp" where
  "for_each [] f = ret ()"
| "for_each (x # xs) f = andthen (f x) (for_each xs f)"

text \<open>\<open>map_err(f)\<close>: translate the error of a computation.\<close>

definition map_err :: "('d \<Rightarrow> 'e) \<Rightarrow> ('s, 'd, 'a) comp \<Rightarrow> ('s, 'e, 'a) comp" where
  "map_err f m = (\<lambda>s. case m s of
      (Inl (Err e), t) \<Rightarrow> (Inl (Err (f e)), t)
    | (Inl Panic, t) \<Rightarrow> (Inl Panic, t)
    | (Inr x, t) \<Rightarrow> (Inr x, t))"

definition void :: "('s, 'e, 'a) comp \<Rightarrow> ('s, 'e, unit) comp" where
  "void m = andthen m (ret ())"

text \<open>
  Operators of Rust that trap on overflow: \<open>+\<close> and \<open>-\<close> on \<open>i128\<close>, \<open>+\<close> on unsigned
  integers, \<open>/\<close> on \<open>i128\<close>.
\<close>

definition i128_add :: "int \<Rightarrow> int \<Rightarrow> ('s, 'e, int) comp" where
  "i128_add a b = unwrap (i128_checked_add a b)"

definition i128_sub :: "int \<Rightarrow> int \<Rightarrow> ('s, 'e, int) comp" where
  "i128_sub a b = unwrap (i128_checked_sub a b)"

definition u64_add :: "nat \<Rightarrow> nat \<Rightarrow> ('s, 'e, nat) comp" where
  "u64_add a b = unwrap (u64_checked_add a b)"

definition u32_add :: "nat \<Rightarrow> nat \<Rightarrow> ('s, 'e, nat) comp" where
  "u32_add a b = unwrap (u32_checked_add a b)"

definition i128_div :: "int \<Rightarrow> int \<Rightarrow> ('s, 'e, int) comp" where
  "i128_div a b = (if b = 0 \<or> (a = i128_min \<and> b = - 1) then panic else ret (i128_quot a b))"

text \<open>The host frame of an entry point: a call that fails leaves the ledger as it was.\<close>

definition invoke :: "('s, 'e, 'a) comp \<Rightarrow> ('s, 'e, 'a) comp" where
  "invoke m = (\<lambda>s. case m s of (Inl e, _) \<Rightarrow> (Inl e, s) | (Inr x, t) \<Rightarrow> (Inr x, t))"

section \<open>Evaluation\<close>

lemma bind_simps [run_simps]:
  "bind (ret x) f s = f x s"
  "bind (throw e) f s = (Inl (Err e), s)"
  "bind panic f s = (Inl Panic, s)"
  "bind (gets g) f s = f (g s) s"
  "bind (modify h) k s = k () (h s)"
  "bind (fail_when p e) k s = (if p s then (Inl (Err e), s) else k () s)"
  "bind (fail_if b e) k s = (if b then (Inl (Err e), s) else k () s)"
  "bind (ok_or v e) f s = (case v of None \<Rightarrow> (Inl (Err e), s) | Some y \<Rightarrow> f y s)"
  "bind (unwrap v) f s = (case v of None \<Rightarrow> (Inl Panic, s) | Some y \<Rightarrow> f y s)"
  "bind (bind m0 g0) f s = bind m0 (\<lambda>x. bind (g0 x) f) s"
  "bind (if b then m1 else m2) f s = (if b then bind m1 f s else bind m2 f s)"
  by (auto simp: bind_def ret_def throw_def panic_def gets_def modify_def fail_when_def
      fail_if_def ok_or_def unwrap_def split: option.splits sum.splits prod.splits)

lemma run_atoms [run_simps]:
  "ret x s = (Inr x, s)"
  "throw e s = (Inl (Err e), s)"
  "panic s = (Inl Panic, s)"
  "gets g s = (Inr (g s), s)"
  "modify h s = (Inr (), h s)"
  "fail_when p e s = (if p s then (Inl (Err e), s) else (Inr (), s))"
  "fail_if b e s = (if b then (Inl (Err e), s) else (Inr (), s))"
  "andthen m1 m2 s = bind m1 (\<lambda>_. m2) s"
  "only_if b n s = (if b then n s else (Inr (), s))"
  "guard_if b n s = (if b then n s else (Inr (), s))"
  by (simp_all add: guard_if_def ret_def throw_def panic_def gets_def modify_def fail_when_def fail_if_def
      andthen_def only_if_def)

lemma bind_defs [run_simps]:
  "bind (andthen m1 m2) f s = bind m1 (\<lambda>_. bind m2 f) s"
  "bind (only_if b n) k s = (if b then bind n k s else k () s)"
  "bind (guard_if b n) k s = (if b then bind n k s else k () s)"
  "bind (attempt m) h s = (case m s of (Inl (Err e), t) \<Rightarrow> h (Inl e) t
      | (Inl Panic, t) \<Rightarrow> (Inl Panic, t) | (Inr x, t) \<Rightarrow> h (Inr x) t)"
  by (auto simp: bind_def andthen_def only_if_def guard_if_def ret_def attempt_def
      split: sum.splits prod.splits failure.splits)

lemma arith_run [run_simps]:
  "bind (i128_sub a b) f s = (if in_i128 (a - b) then f (a - b) s else (Inl Panic, s))"
  "bind (i128_add a b) f s = (if in_i128 (a + b) then f (a + b) s else (Inl Panic, s))"
  "bind (u64_add c d) g s = (if c + d \<le> u64_max then g (c + d) s else (Inl Panic, s))"
  "bind (u32_add c d) g s = (if c + d \<le> u32_max then g (c + d) s else (Inl Panic, s))"
  by (simp_all add: i128_sub_def i128_add_def u64_add_def u32_add_def i128_checked_sub_def
      i128_checked_add_def u64_checked_add_def u32_checked_add_def bind_simps)

lemma invoke_Inr [simp]: "invoke m s = (Inr x, t) \<longleftrightarrow> m s = (Inr x, t)"
  by (auto simp: invoke_def split: sum.splits prod.splits)

lemma invoke_Inl: "invoke m s = (Inl e, t) \<Longrightarrow> t = s"
  by (auto simp: invoke_def split: sum.splits prod.splits)

section \<open>Weakest preconditions of successful runs\<close>

definition wp :: "('s, 'e, 'a) comp \<Rightarrow> ('a \<Rightarrow> 's \<Rightarrow> bool) \<Rightarrow> 's \<Rightarrow> bool" where
  "wp m Q s = (case m s of (Inl _, _) \<Rightarrow> True | (Inr x, t) \<Rightarrow> Q x t)"

lemma wpD: "wp m Q s \<Longrightarrow> m s = (Inr x, t) \<Longrightarrow> Q x t"
  by (simp add: wp_def)

lemma wpI: "(\<And>x t. m s = (Inr x, t) \<Longrightarrow> Q x t) \<Longrightarrow> wp m Q s"
  by (auto simp: wp_def split: sum.splits prod.splits)

lemma wp_mono: "wp m P s \<Longrightarrow> (\<And>x t. P x t \<Longrightarrow> Q x t) \<Longrightarrow> wp m Q s"
  by (auto simp: wp_def split: sum.splits prod.splits)

lemma wp_True [wp_simps]: "wp m (\<lambda>_ _. True) s"
  by (auto simp: wp_def split: sum.splits prod.splits)

lemma wp_top: "wp m (\<lambda>_ _. True) = (\<lambda>_. True)"
  by (simp add: fun_eq_iff wp_True)

lemma wp_conj: "wp m P s \<Longrightarrow> wp m Q s \<Longrightarrow> wp m (\<lambda>x t. P x t \<and> Q x t) s"
  by (auto simp: wp_def split: sum.splits prod.splits)

text \<open>
  The equations are between predicates on states, so that they also rewrite a \<open>wp\<close> that stands as
  the postcondition of another.
\<close>

lemma wp_basic [wp_simps]:
  "wp (ret x) Q = Q x"
  "wp (throw e) Q = (\<lambda>s. True)"
  "wp panic Q = (\<lambda>s. True)"
  "wp (gets g) Q = (\<lambda>s. Q (g s) s)"
  "wp (modify h) K = (\<lambda>s. K () (h s))"
  "wp (fail_when p e) K = (\<lambda>s. \<not> p s \<longrightarrow> K () s)"
  "wp (fail_if b e) K = (\<lambda>s. \<not> b \<longrightarrow> K () s)"
  by (simp_all add: fun_eq_iff wp_def ret_def throw_def panic_def gets_def modify_def fail_when_def
      fail_if_def)

text \<open>The equation of a guard under a condition, from the equation of the guard.\<close>

lemma wp_guard_if:
  "(\<And>K s. wp m K s = (ok s \<longrightarrow> K () s)) \<Longrightarrow>
   wp (guard_if b m) K = (\<lambda>s. (b \<longrightarrow> ok s) \<longrightarrow> K () s)"
  by (auto simp: guard_if_def wp_basic)

lemma wp_guard_if_fail [wp_simps]:
  "wp (guard_if b (fail_when p e)) K = (\<lambda>s. (b \<longrightarrow> \<not> p s) \<longrightarrow> K () s)"
  "wp (guard_if b (fail_if c e)) K = (\<lambda>s. (b \<longrightarrow> \<not> c) \<longrightarrow> K () s)"
  by (auto simp: fun_eq_iff guard_if_def wp_basic)

lemma wp_bind [wp_simps]: "wp (bind m f) Q = wp m (\<lambda>x. wp (f x) Q)"
  by (auto simp: fun_eq_iff wp_def bind_def split: sum.splits prod.splits)

lemma wp_andthen [wp_simps]: "wp (andthen m n) Q = wp m (\<lambda>_. wp n Q)"
  by (simp add: andthen_def wp_bind)

lemma wp_control [wp_simps]:
  "wp (only_if b n) K = (\<lambda>s. if b then wp n K s else K () s)"
  "wp (if b then m1 else m2) Q = (\<lambda>s. if b then wp m1 Q s else wp m2 Q s)"
  "wp (do_all []) K = K ()"
  "wp (do_all (n # ns)) K = wp n (\<lambda>_. wp (do_all ns) K)"
  by (simp_all add: fun_eq_iff wp_basic wp_andthen only_if_def)

lemma wp_void [wp_simps]: "wp (void m) K = wp m (\<lambda>_. K ())"
  by (simp add: void_def wp_andthen wp_basic)

lemma wp_option [wp_simps]:
  "wp (ok_or v e) Q = (\<lambda>s. \<forall>y. v = Some y \<longrightarrow> Q y s)"
  "wp (unwrap v) Q = (\<lambda>s. \<forall>y. v = Some y \<longrightarrow> Q y s)"
  by (auto simp: fun_eq_iff wp_basic ok_or_def unwrap_def split: option.splits)

lemma wp_attempt [wp_simps]:
  "wp (attempt m) Q =
     (\<lambda>s. wp m (\<lambda>x. Q (Inr x)) s \<and> (\<forall>e t. m s = (Inl (Err e), t) \<longrightarrow> Q (Inl e) t))"
  by (auto simp: fun_eq_iff wp_def attempt_def split: sum.splits prod.splits failure.splits)

lemma wp_map_err [wp_simps]: "wp (map_err f m) Q = wp m Q"
  by (auto simp: fun_eq_iff wp_def map_err_def split: sum.splits prod.splits failure.splits)

lemma wp_invoke [wp_simps]: "wp (invoke m) Q = wp m Q"
  by (auto simp: fun_eq_iff wp_def invoke_def split: sum.splits prod.splits)

lemma wp_arith [wp_simps]:
  "wp (i128_add a b) R = (\<lambda>s. in_i128 (a + b) \<longrightarrow> R (a + b) s)"
  "wp (i128_sub a b) R = (\<lambda>s. in_i128 (a - b) \<longrightarrow> R (a - b) s)"
  "wp (u64_add c d) S = (\<lambda>s. c + d \<le> u64_max \<longrightarrow> S (c + d) s)"
  "wp (u32_add c d) S = (\<lambda>s. c + d \<le> u32_max \<longrightarrow> S (c + d) s)"
  "wp (i128_div a b) R =
     (\<lambda>s. b \<noteq> 0 \<and> (a = i128_min \<longrightarrow> b \<noteq> - 1) \<longrightarrow> R (i128_quot a b) s)"
  by (auto simp: fun_eq_iff i128_add_def i128_sub_def u64_add_def u32_add_def i128_div_def
      wp_option wp_basic wp_control)

lemma wp_for_each_simps [wp_simps]:
  "wp (for_each [] g) K = K ()"
  "wp (for_each (x # xs) g) K = wp (g x) (\<lambda>_. wp (for_each xs g) K)"
  by (simp_all add: wp_basic wp_andthen)

text \<open>The rule for a \<open>for\<close> loop: an invariant the body keeps.\<close>

lemma wp_for_each:
  assumes "I s" and "\<And>x t. x \<in> set xs \<Longrightarrow> I t \<Longrightarrow> wp (f x) (\<lambda>_. I) t"
  shows "wp (for_each xs f) (\<lambda>_. I) s"
  using assms
proof (induction xs arbitrary: s)
  case Nil
  then show ?case by (simp add: wp_simps)
next
  case (Cons x xs)
  then have "wp (f x) (\<lambda>_. I) s" by simp
  then have "wp (f x) (\<lambda>_ t. wp (for_each xs f) (\<lambda>_. I) t) s"
    by (rule wp_mono) (use Cons in simp)
  then show ?case by (simp add: wp_simps)
qed

section \<open>Frames\<close>

text \<open>
  \<open>frame v m\<close>: a successful run of \<open>m\<close> leaves the part \<open>v\<close> of the state as it was. The rules go by
  the shape of \<open>m\<close>; what is left are the writes.
\<close>

named_theorems frame_rules \<open>rules for frames, by the shape of the computation\<close>

definition frame :: "('s \<Rightarrow> 'v) \<Rightarrow> ('s, 'e, 'a) comp \<Rightarrow> bool" where
  "frame v m \<longleftrightarrow> (\<forall>s. wp m (\<lambda>_ t. v t = v s) s)"

lemma frameD: "frame v m \<Longrightarrow> m s = (Inr x, t) \<Longrightarrow> v t = v s"
  by (auto simp: frame_def dest: wpD)

lemma frame_atoms [frame_rules]:
  "frame v (ret x)" "frame v (throw e)" "frame v panic" "frame v (gets g)"
  "frame v (fail_if b e)" "frame v (fail_when p e)" "frame v (ok_or y e)" "frame v (unwrap y)"
  "frame v (i128_add a c)" "frame v (i128_sub a c)" "frame v (u64_add m n)" "frame v (u32_add m n)"
  "frame v (i128_div a c)"
  by (simp_all add: frame_def wp_simps)

lemma frame_modify [frame_rules]: "(\<And>s. v (h s) = v s) \<Longrightarrow> frame v (modify h)"
  by (simp add: frame_def wp_simps)

lemma frame_bind [frame_rules]:
  assumes "frame v m" "\<And>x. frame v (f x)"
  shows "frame v (bind m f)"
  unfolding frame_def wp_bind
proof
  fix s
  have "wp (f x) (\<lambda>_ u. v u = v s) t" if "v t = v s" for x t
    using assms(2) [of x] that by (metis frame_def)
  with assms(1) show "wp m (\<lambda>x. wp (f x) (\<lambda>_ t. v t = v s)) s"
    by (auto simp: frame_def intro: wp_mono [of m "\<lambda>_ t. v t = v s" s])
qed

lemma frame_andthen [frame_rules]: "frame v m \<Longrightarrow> frame v n \<Longrightarrow> frame v (andthen m n)"
  unfolding andthen_def by (rule frame_bind)

lemma frame_do_all [frame_rules]:
  "frame v (do_all [])" "frame v m \<Longrightarrow> frame v (do_all ms) \<Longrightarrow> frame v (do_all (m # ms))"
  by (simp_all add: frame_atoms frame_andthen)

lemma frame_if [frame_rules]:
  "(b \<Longrightarrow> frame v m) \<Longrightarrow> (\<not> b \<Longrightarrow> frame v n) \<Longrightarrow> frame v (if b then m else n)"
  by simp

lemma frame_only_if [frame_rules]:
  "(b \<Longrightarrow> frame v m) \<Longrightarrow> frame v (only_if b m)" "(b \<Longrightarrow> frame v m) \<Longrightarrow> frame v (guard_if b m)"
  by (simp_all add: only_if_def guard_if_def frame_atoms)

lemma frame_cases [frame_rules]:
  "frame v m \<Longrightarrow> (\<And>y. frame v (f y)) \<Longrightarrow> frame v (case x of None \<Rightarrow> m | Some y \<Rightarrow> f y)"
  "(\<And>a c. frame v (g a c)) \<Longrightarrow> frame v (case p of (a, c) \<Rightarrow> g a c)"
  "frame v (h z) \<Longrightarrow> frame v (Let z h)"
  by (auto split: option.splits prod.splits)

lemma frame_for_each [frame_rules]: "(\<And>x. frame v (f x)) \<Longrightarrow> frame v (for_each xs f)"
  by (induction xs) (simp_all add: frame_atoms frame_andthen)

lemma frame_wrappers [frame_rules]:
  "frame v m \<Longrightarrow> frame v (void m)" "frame v m \<Longrightarrow> frame v (map_err g m)"
  by (simp_all add: frame_def wp_void wp_map_err)

text \<open>A frame of a part is a frame of what depends on it.\<close>

lemma frame_part: "frame v m \<Longrightarrow> (\<And>s t. v t = v s \<Longrightarrow> u t = u s) \<Longrightarrow> frame u m"
  unfolding frame_def by (rule allI, rule wp_mono, erule spec) blast

lemma frame_wp:
  "frame v m \<Longrightarrow> (\<And>x t. v t = v s \<Longrightarrow> Q x t) \<Longrightarrow> wp m Q s"
  by (rule wp_mono [of m "\<lambda>_ t. v t = v s"]) (simp_all add: frame_def)

section \<open>Triples\<close>

definition triple :: "('s \<Rightarrow> bool) \<Rightarrow> ('s, 'e, 'a) comp \<Rightarrow> ('a \<Rightarrow> 's \<Rightarrow> bool) \<Rightarrow> bool" where
  "triple P m Q \<longleftrightarrow> (\<forall>s. P s \<longrightarrow> wp m Q s)"

lemma tripleI: "(\<And>s. P s \<Longrightarrow> wp m Q s) \<Longrightarrow> triple P m Q"
  by (simp add: triple_def)

lemma tripleD: "triple P m Q \<Longrightarrow> P s \<Longrightarrow> wp m Q s"
  by (simp add: triple_def)

lemma triple_conseq:
  "triple P' m Q' \<Longrightarrow> (\<And>s. P s \<Longrightarrow> P' s) \<Longrightarrow> (\<And>x s. Q' x s \<Longrightarrow> Q x s) \<Longrightarrow> triple P m Q"
  by (auto simp: triple_def intro: wp_mono [of m Q'])

lemma triple_bind: "triple P m R \<Longrightarrow> (\<And>x. triple (R x) (f x) Q) \<Longrightarrow> triple P (bind m f) Q"
  by (auto simp: triple_def wp_bind elim!: wp_mono)

lemma triple_andthen: "triple P m (\<lambda>_. R) \<Longrightarrow> triple R n Q \<Longrightarrow> triple P (andthen m n) Q"
  unfolding andthen_def by (rule triple_bind)

lemma triple_if:
  "(b \<Longrightarrow> triple P m Q) \<Longrightarrow> (\<not> b \<Longrightarrow> triple P n Q) \<Longrightarrow> triple P (if b then m else n) Q"
  by simp

lemma triple_only_if:
  "(b \<Longrightarrow> triple P m (\<lambda>_. R)) \<Longrightarrow> (\<not> b \<Longrightarrow> (\<And>s. P s \<Longrightarrow> R s)) \<Longrightarrow> triple P (only_if b m) (\<lambda>_. R)"
  by (auto simp: only_if_def triple_def wp_simps)

lemma triple_for_each:
  "(\<And>x. x \<in> set xs \<Longrightarrow> triple P (f x) (\<lambda>_. P)) \<Longrightarrow> triple P (for_each xs f) (\<lambda>_. P)"
  unfolding triple_def by (auto intro: wp_for_each)

text \<open>A test that lets the run go on only under its condition.\<close>

lemma triple_test:
  assumes "\<And>K s. wp m K s = (ok s \<longrightarrow> K () s)" "triple (\<lambda>s. P s \<and> ok s) n Q"
  shows "triple P (andthen m n) Q"
  using assms by (simp add: triple_def wp_andthen)

section \<open>Kept predicates\<close>

text \<open>\<open>keeps P m\<close>: a successful run of \<open>m\<close> from a state with \<open>P\<close> ends in one.\<close>

named_theorems keeps_rules \<open>rules for kept predicates, by the shape of the computation\<close>

definition keeps :: "('s \<Rightarrow> bool) \<Rightarrow> ('s, 'e, 'a) comp \<Rightarrow> bool" where
  "keeps P m \<longleftrightarrow> triple P m (\<lambda>_. P)"

lemma keepsD: "keeps P m \<Longrightarrow> P s \<Longrightarrow> wp m (\<lambda>_. P) s"
  by (simp add: keeps_def triple_def)

lemma keeps_frame: "frame v m \<Longrightarrow> (\<And>s t. v t = v s \<Longrightarrow> P t = P s) \<Longrightarrow> keeps P m"
  unfolding keeps_def by (rule tripleI, erule frame_wp) blast

lemma keeps_atoms [keeps_rules]:
  "keeps P (ret x)" "keeps P (throw e)" "keeps P panic" "keeps P (gets g)"
  "keeps P (fail_if b e)" "keeps P (fail_when p e)" "keeps P (ok_or y e)" "keeps P (unwrap y)"
  by (simp_all add: keeps_def triple_def wp_simps)

lemma keeps_modify [keeps_rules]: "(\<And>s. P s \<Longrightarrow> P (h s)) \<Longrightarrow> keeps P (modify h)"
  by (simp add: keeps_def triple_def wp_simps)

lemma keeps_bind [keeps_rules]: "keeps P m \<Longrightarrow> (\<And>x. keeps P (f x)) \<Longrightarrow> keeps P (bind m f)"
  unfolding keeps_def by (rule triple_bind)

lemma keeps_andthen [keeps_rules]: "keeps P m \<Longrightarrow> keeps P n \<Longrightarrow> keeps P (andthen m n)"
  unfolding andthen_def by (rule keeps_bind)

lemma keeps_do_all [keeps_rules]:
  "keeps P (do_all [])" "keeps P m \<Longrightarrow> keeps P (do_all ms) \<Longrightarrow> keeps P (do_all (m # ms))"
  by (simp_all add: keeps_atoms keeps_andthen)

lemma keeps_conditional [keeps_rules]:
  "keeps P m \<Longrightarrow> keeps P n \<Longrightarrow> keeps P (if b then m else n)"
  "keeps P k \<Longrightarrow> keeps P (only_if b k)" "keeps P k \<Longrightarrow> keeps P (guard_if b k)"
  by (simp_all add: only_if_def guard_if_def keeps_atoms)

lemma keeps_cases [keeps_rules]:
  "keeps P m \<Longrightarrow> (\<And>y. keeps P (f y)) \<Longrightarrow> keeps P (case x of None \<Rightarrow> m | Some y \<Rightarrow> f y)"
  "(\<And>a c. keeps P (g a c)) \<Longrightarrow> keeps P (case p of (a, c) \<Rightarrow> g a c)"
  "keeps P (h z) \<Longrightarrow> keeps P (Let z h)"
  by (auto split: option.splits prod.splits)

lemma keeps_for_each [keeps_rules]: "(\<And>x. keeps P (f x)) \<Longrightarrow> keeps P (for_each xs f)"
  by (induction xs) (simp_all add: keeps_atoms keeps_andthen)

lemma keeps_wrappers [keeps_rules]:
  "keeps P m \<Longrightarrow> keeps P (void m)" "keeps P m \<Longrightarrow> keeps P (map_err g m)"
  by (simp_all add: keeps_def triple_def wp_void wp_map_err)

section \<open>Reachable states of a contract\<close>

text \<open>
  An entry table gives the computation of each call. A run is a sequence of host-framed calls,
  each of them legal: its arguments decode and its environment is one the host can offer.
\<close>

inductive reachable :: "('c \<Rightarrow> bool) \<Rightarrow> ('c \<Rightarrow> ('s, 'e, 'a) comp) \<Rightarrow> 's \<Rightarrow> 's \<Rightarrow> bool"
  for legal :: "'c \<Rightarrow> bool" and entry :: "'c \<Rightarrow> ('s, 'e, 'a) comp" and init :: 's where
  start: "reachable legal entry init init"
| call: "reachable legal entry init s \<Longrightarrow> legal c \<Longrightarrow> invoke (entry c) s = (r, t) \<Longrightarrow>
    reachable legal entry init t"

fun run_calls :: "('c \<Rightarrow> ('s, 'e, 'a) comp) \<Rightarrow> 'c list \<Rightarrow> 's \<Rightarrow> 's" where
  "run_calls entry [] s = s"
| "run_calls entry (c # cs) s = run_calls entry cs (snd (invoke (entry c) s))"

lemma run_calls_reachable_from:
  "reachable legal entry init s \<Longrightarrow> list_all legal cs \<Longrightarrow>
   reachable legal entry init (run_calls entry cs s)"
proof (induction cs arbitrary: s)
  case Nil
  then show ?case by simp
next
  case (Cons c cs)
  obtain r t where "invoke (entry c) s = (r, t)" by (cases "invoke (entry c) s")
  with Cons show ?case by (auto intro: reachable.call)
qed

lemma run_calls_reachable:
  "list_all legal cs \<Longrightarrow> reachable legal entry init (run_calls entry cs init)"
  by (rule run_calls_reachable_from [OF reachable.start])

text \<open>
  The interface of an invariant: it holds initially and every successful legal call keeps it.
  Calls that fail are undone by the host, so nothing is asked of them.
\<close>

locale contract_invariant =
  fixes legal :: "'c \<Rightarrow> bool"
    and entry :: "'c \<Rightarrow> ('s, 'e, 'a) comp"
    and init :: 's
    and Inv :: "'s \<Rightarrow> bool"
  assumes Inv_init: "Inv init"
    and Inv_entry: "Inv s \<Longrightarrow> legal c \<Longrightarrow> wp (entry c) (\<lambda>_. Inv) s"
begin

lemma Inv_invoke: "Inv s \<Longrightarrow> legal c \<Longrightarrow> invoke (entry c) s = (r, t) \<Longrightarrow> Inv t"
  using Inv_entry [of s c] by (cases r) (auto dest: invoke_Inl wpD)

lemma Inv_reachable: "reachable legal entry init s \<Longrightarrow> Inv s"
  by (induction rule: reachable.induct) (auto intro: Inv_init Inv_invoke)

lemma Inv_run_calls: "list_all legal cs \<Longrightarrow> Inv (run_calls entry cs init)"
  by (rule Inv_reachable [OF run_calls_reachable])

end

end
