(* ===== verification/Host.thy ===== *)
theory Host
  imports Prelude
begin

text \<open>
  The Soroban host as the contracts see it: the ledger the invocation runs in, the addresses that
  authorised it, and the values an event carries. Events and time-to-live requests are calls to
  the host; the contracts' states keep the trace of them.
\<close>

text \<open>
  The environment of one invocation: \<open>env.ledger().timestamp()\<close>,
  \<open>env.ledger().sequence()\<close>, \<open>env.current_contract_address()\<close>, and the addresses whose
  authorisation the host has verified for it.
\<close>

record ledger_env =
  timestamp :: nat
  sequence :: nat
  self :: addr
  authorized :: "addr \<Rightarrow> bool"

text \<open>\<open>Address::require_auth\<close> traps when the authorisation is missing.\<close>

definition require_auth :: "'z ledger_env_scheme \<Rightarrow> addr \<Rightarrow> ('s, 'e, unit) comp" where
  "require_auth E a = (if authorized E a then ret () else panic)"

lemma wp_require_auth [wp_simps]:
  "wp (require_auth E a) K = (\<lambda>s. authorized E a \<longrightarrow> K () s)"
  by (simp add: fun_eq_iff require_auth_def wp_simps)

lemma run_require_auth [run_simps]:
  "require_auth E a s = (if authorized E a then (Inr (), s) else (Inl Panic, s))"
  "bind (require_auth E a) k s = (if authorized E a then k () s else (Inl Panic, s))"
  by (simp_all add: require_auth_def run_simps)

text \<open>Values of an event's data tuple; \<open>VEnum\<close> holds a value of the contract's own enums.\<close>

datatype 'x val =
    VAddr addr
  | VU32 nat
  | VU64 nat
  | VI128 int
  | VBool bool
  | VBytes bytes
  | VSym sym
  | VStr string
  | VEnum 'x

type_synonym 'x event = "sym \<times> 'x val list"

text \<open>
  A request \<open>extend_ttl(key, threshold, extend_to)\<close> to the host, for a storage key of type
  \<open>'k\<close>. The life time of an entry is the host's business: the model keeps the requests.
\<close>

type_synonym 'k ttl_request = "'k \<times> nat \<times> nat"

section \<open>The token a contract pays with\<close>

text \<open>
  What a client of a token relies on: a transfer that succeeds moves exactly the amount, which the
  payer had, and changes no other balance.
\<close>

locale token_ledger =
  fixes pay :: "addr \<Rightarrow> addr \<Rightarrow> int \<Rightarrow> 't \<Rightarrow> 't option"
    and held :: "addr \<Rightarrow> 't \<Rightarrow> int"
  assumes pay_covered: "pay f t v s = Some u \<Longrightarrow> 0 \<le> v \<and> v \<le> held f s"
    and pay_moves: "pay f t v s = Some u \<Longrightarrow>
      held a u = held a s - (if a = f then v else 0) + (if a = t then v else 0)"
begin

lemma pay_payer: "pay f t v s = Some u \<Longrightarrow> f \<noteq> t \<Longrightarrow> held f u = held f s - v"
  using pay_moves [of f t v s u f] by simp

lemma pay_payee: "pay f t v s = Some u \<Longrightarrow> held t s \<le> held t u"
  using pay_moves [of f t v s u t] pay_covered [of f t v s u] by (auto split: if_splits)

lemma pay_payer_bound: "pay f t v s = Some u \<Longrightarrow> held f s - v \<le> held f u"
  using pay_moves [of f t v s u f] pay_covered [of f t v s u] by (auto split: if_splits)

lemma pay_payee_exact: "pay f t v s = Some u \<Longrightarrow> f \<noteq> t \<Longrightarrow> held t u = held t s + v"
  using pay_moves [of f t v s u t] by simp

end

text \<open>An environment to evaluate calls in: ledger 10, at time 1000, everyone has signed.\<close>

definition sample_env :: ledger_env where
  "sample_env = \<lparr>timestamp = 1000, sequence = 10, self = 99, authorized = (\<lambda>_. True)\<rparr>"

lemma sample_env_simps [simp]:
  "timestamp sample_env = 1000" "sequence sample_env = 10" "self sample_env = 99"
  "authorized sample_env a"
  by (simp_all add: sample_env_def)

end
