(* ===== verification/Token.thy ===== *)
theory Token
  imports Host
begin

text \<open>
  The payment token contract, \<^verbatim>\<open>contracts/token\<close>: its storage (\<open>storage.rs\<close>), its errors
  (\<open>errors.rs\<close>) and its entry points (\<open>lib.rs\<close>). Functions keep their source names; those of
  \<open>storage.rs\<close> that an entry point shares its name with are written \<open>storage_\<dots>\<close>. The main
  invariant is \<open>token_inv\<close>: balances are non-negative and add up to the total supply.
\<close>

section \<open>Errors and storage\<close>

datatype TokenError =
    TAlreadyInitialized
  | TNotInitialized
  | TUnauthorized
  | TInvalidAmount
  | TInsufficientBalance
  | TInsufficientAllowance
  | TSameAccount
  | TInvalidExpirationLedger
  | TContractPaused
  | TOverflow

datatype MetadataError =
    MNotInitialized
  | MUnauthorized
  | MKeyNotAllowed
  | MKeyNotFound
  | MKeyAlreadyExists
  | MInvalidKey
  | MInvalidValue

record AllowanceValue =
  amount :: int
  expiration_ledger :: nat

datatype token_key = KBalance addr | KAllowance addr addr

text \<open>One field per storage key; a value that may be absent is an \<open>option\<close> or a map.\<close>

record token_state =
  tk_Admin :: "addr option"
  tk_Name :: "string option"
  tk_Symbol :: "string option"
  tk_TotalSupply :: "int option"
  tk_Balance :: "addr \<Rightarrow> int option"
  tk_Allowance :: "addr \<times> addr \<Rightarrow> AllowanceValue option"
  tk_AllowedMetadataKey :: "sym \<Rightarrow> bool option"
  tk_Metadata :: "sym \<Rightarrow> string option"
  tk_Paused :: "bool option"
  tk_events :: "unit event list"
  tk_ttl :: "token_key ttl_request list"

definition token_init :: token_state where
  "token_init = \<lparr>tk_Admin = None, tk_Name = None, tk_Symbol = None, tk_TotalSupply = None,
     tk_Balance = Map.empty, tk_Allowance = Map.empty, tk_AllowedMetadataKey = Map.empty,
     tk_Metadata = Map.empty, tk_Paused = None, tk_events = [], tk_ttl = []\<rparr>"

type_synonym ('e, 'a) tcomp = "(token_state, 'e, 'a) comp"

definition publish :: "sym \<Rightarrow> unit val list \<Rightarrow> token_state \<Rightarrow> token_state" where
  "publish topic payload s = s\<lparr>tk_events := tk_events s @ [(topic, payload)]\<rparr>"

definition is_initialized :: "token_state \<Rightarrow> bool" where
  "is_initialized s \<longleftrightarrow> tk_Admin s \<noteq> None"

definition storage_get_admin :: "('e, addr) tcomp" where
  "storage_get_admin = bind (gets tk_Admin) unwrap"

definition set_admin :: "addr \<Rightarrow> token_state \<Rightarrow> token_state" where
  "set_admin a s = s\<lparr>tk_Admin := Some a\<rparr>"

definition get_name :: "('e, string) tcomp" where
  "get_name = bind (gets tk_Name) unwrap"

definition set_name :: "string \<Rightarrow> token_state \<Rightarrow> token_state" where
  "set_name n s = s\<lparr>tk_Name := Some n\<rparr>"

definition get_symbol :: "('e, string) tcomp" where
  "get_symbol = bind (gets tk_Symbol) unwrap"

definition set_symbol :: "string \<Rightarrow> token_state \<Rightarrow> token_state" where
  "set_symbol n s = s\<lparr>tk_Symbol := Some n\<rparr>"

definition get_total_supply :: "('e, int) tcomp" where
  "get_total_supply = bind (gets tk_TotalSupply) unwrap"

definition set_total_supply :: "int \<Rightarrow> token_state \<Rightarrow> token_state" where
  "set_total_supply v s = s\<lparr>tk_TotalSupply := Some v\<rparr>"

definition get_balance :: "addr \<Rightarrow> token_state \<Rightarrow> int" where
  "get_balance a s = (case tk_Balance s a of None \<Rightarrow> 0 | Some b \<Rightarrow> b)"

definition set_balance :: "addr \<Rightarrow> int \<Rightarrow> token_state \<Rightarrow> token_state" where
  "set_balance a b s = s\<lparr>tk_Balance := (tk_Balance s)(a \<mapsto> b)\<rparr>"

definition get_allowance :: "'z ledger_env_scheme \<Rightarrow> addr \<Rightarrow> addr \<Rightarrow> token_state \<Rightarrow> int" where
  "get_allowance E owner spender s =
     (case tk_Allowance s (owner, spender) of
        Some v \<Rightarrow> if sequence E \<le> expiration_ledger v then amount v else 0
      | None \<Rightarrow> 0)"

definition get_allowance_raw :: "addr \<Rightarrow> addr \<Rightarrow> token_state \<Rightarrow> AllowanceValue option" where
  "get_allowance_raw owner spender s = tk_Allowance s (owner, spender)"

definition set_allowance :: "addr \<Rightarrow> addr \<Rightarrow> int \<Rightarrow> nat \<Rightarrow> token_state \<Rightarrow> token_state" where
  "set_allowance owner spender a exp s =
     s\<lparr>tk_Allowance := (tk_Allowance s)((owner, spender) \<mapsto>
         \<lparr>amount = a, expiration_ledger = exp\<rparr>)\<rparr>"

definition extend_allowance_ttl ::
    "addr \<Rightarrow> addr \<Rightarrow> nat \<Rightarrow> nat \<Rightarrow> token_state \<Rightarrow> token_state" where
  "extend_allowance_ttl owner spender threshold extend_to s =
     (if tk_Allowance s (owner, spender) \<noteq> None
      then s\<lparr>tk_ttl := tk_ttl s @ [(KAllowance owner spender, threshold, extend_to)]\<rparr> else s)"

definition extend_balance_ttl :: "addr \<Rightarrow> nat \<Rightarrow> nat \<Rightarrow> token_state \<Rightarrow> token_state" where
  "extend_balance_ttl a threshold extend_to s =
     (if tk_Balance s a \<noteq> None
      then s\<lparr>tk_ttl := tk_ttl s @ [(KBalance a, threshold, extend_to)]\<rparr> else s)"

fun extend_balance_ttl_for :: "addr list \<Rightarrow> nat \<Rightarrow> nat \<Rightarrow> token_state \<Rightarrow> token_state" where
  "extend_balance_ttl_for [] threshold extend_to s = s"
| "extend_balance_ttl_for (a # as) threshold extend_to s =
     extend_balance_ttl_for as threshold extend_to (extend_balance_ttl a threshold extend_to s)"

definition storage_is_paused :: "token_state \<Rightarrow> bool" where
  "storage_is_paused s = (case tk_Paused s of None \<Rightarrow> False | Some b \<Rightarrow> b)"

definition set_paused :: "bool \<Rightarrow> token_state \<Rightarrow> token_state" where
  "set_paused b s = s\<lparr>tk_Paused := Some b\<rparr>"

definition storage_is_metadata_key_allowed :: "sym \<Rightarrow> token_state \<Rightarrow> bool" where
  "storage_is_metadata_key_allowed k s \<longleftrightarrow> tk_AllowedMetadataKey s k \<noteq> None"

definition storage_add_allowed_metadata_key :: "sym \<Rightarrow> token_state \<Rightarrow> token_state" where
  "storage_add_allowed_metadata_key k s =
     s\<lparr>tk_AllowedMetadataKey := (tk_AllowedMetadataKey s)(k \<mapsto> True)\<rparr>"

definition storage_remove_allowed_metadata_key :: "sym \<Rightarrow> token_state \<Rightarrow> token_state" where
  "storage_remove_allowed_metadata_key k s =
     s\<lparr>tk_AllowedMetadataKey := (tk_AllowedMetadataKey s)(k := None)\<rparr>"

definition storage_set_metadata :: "sym \<Rightarrow> string \<Rightarrow> token_state \<Rightarrow> token_state" where
  "storage_set_metadata k v s = s\<lparr>tk_Metadata := (tk_Metadata s)(k \<mapsto> v)\<rparr>"

definition storage_get_metadata :: "sym \<Rightarrow> token_state \<Rightarrow> string option" where
  "storage_get_metadata k s = tk_Metadata s k"

definition storage_remove_metadata :: "sym \<Rightarrow> token_state \<Rightarrow> token_state" where
  "storage_remove_metadata k s = s\<lparr>tk_Metadata := (tk_Metadata s)(k := None)\<rparr>"

definition has_metadata :: "sym \<Rightarrow> token_state \<Rightarrow> bool" where
  "has_metadata k s \<longleftrightarrow> tk_Metadata s k \<noteq> None"

section \<open>Entry points\<close>

definition require_initialized :: "(TokenError, unit) tcomp" where
  "require_initialized = fail_when (\<lambda>s. \<not> is_initialized s) TNotInitialized"

definition require_not_paused :: "(TokenError, unit) tcomp" where
  "require_not_paused = fail_when storage_is_paused TContractPaused"

definition initialize ::
    "addr \<Rightarrow> string \<Rightarrow> string \<Rightarrow> int \<Rightarrow> (TokenError, unit) tcomp" where
  "initialize admin nm sy supply = do_all [
     fail_when is_initialized TAlreadyInitialized,
     fail_if (supply \<le> 0) TInvalidAmount,
     modify (set_admin admin),
     modify (set_name nm),
     modify (set_symbol sy),
     modify (set_total_supply supply),
     modify (set_balance admin supply),
     modify (publish ''init'' [VAddr admin, VI128 supply])]"

definition get_admin :: "(TokenError, addr) tcomp" where
  "get_admin = andthen require_initialized storage_get_admin"

definition name :: "(TokenError, string) tcomp" where
  "name = andthen require_initialized get_name"

definition decimals :: "(TokenError, nat) tcomp" where
  "decimals = ret 7"

definition symbol :: "(TokenError, string) tcomp" where
  "symbol = andthen require_initialized get_symbol"

definition total_supply :: "(TokenError, int) tcomp" where
  "total_supply = andthen require_initialized get_total_supply"

definition balance :: "addr \<Rightarrow> (TokenError, int) tcomp" where
  "balance a = andthen require_initialized (gets (get_balance a))"

definition transfer ::
    "'z ledger_env_scheme \<Rightarrow> addr \<Rightarrow> addr \<Rightarrow> int \<Rightarrow> (TokenError, unit) tcomp" where
  "transfer E from to amt =
     andthen require_initialized
    (andthen require_not_paused
    (andthen (require_auth E from)
    (andthen (fail_if (amt \<le> 0) TInvalidAmount)
    (andthen (fail_if (from = to) TSameAccount)
    (bind (gets (get_balance from)) (\<lambda>from_balance.
     andthen (fail_if (from_balance < amt) TInsufficientBalance)
    (bind (ok_or (i128_checked_sub from_balance amt) TOverflow) (\<lambda>new_from_balance.
     bind (gets (get_balance to)) (\<lambda>to_balance.
     bind (ok_or (i128_checked_add to_balance amt) TOverflow) (\<lambda>new_to_balance.
     do_all [
       modify (set_balance from new_from_balance),
       modify (set_balance to new_to_balance),
       modify (extend_balance_ttl_for [from, to] 1000 500000),
       modify (publish ''transfer'' [VAddr from, VAddr to, VI128 amt])]))))))))))"

definition kept_expiration :: "addr \<Rightarrow> addr \<Rightarrow> token_state \<Rightarrow> nat" where
  "kept_expiration owner spender s =
     (case get_allowance_raw owner spender s of None \<Rightarrow> 0 | Some v \<Rightarrow> expiration_ledger v)"

definition transfer_from ::
    "'z ledger_env_scheme \<Rightarrow> addr \<Rightarrow> addr \<Rightarrow> addr \<Rightarrow> int \<Rightarrow> (TokenError, unit) tcomp" where
  "transfer_from E spender from to amt =
     andthen require_initialized
    (andthen require_not_paused
    (andthen (require_auth E spender)
    (andthen (fail_if (amt \<le> 0) TInvalidAmount)
    (andthen (fail_if (from = to) TSameAccount)
    (bind (gets (get_allowance E from spender)) (\<lambda>alw.
     andthen (fail_if (alw < amt) TInsufficientAllowance)
    (bind (gets (get_balance from)) (\<lambda>from_balance.
     andthen (fail_if (from_balance < amt) TInsufficientBalance)
    (bind (gets (kept_expiration from spender)) (\<lambda>exp.
     bind (i128_sub from_balance amt) (\<lambda>nf.
     andthen (modify (set_balance from nf))
    (bind (gets (get_balance to)) (\<lambda>to_balance.
     bind (i128_add to_balance amt) (\<lambda>nt.
     andthen (modify (set_balance to nt))
    (bind (i128_sub alw amt) (\<lambda>na.
     do_all [
       modify (set_allowance from spender na exp),
       modify (publish ''tr_from'' [VAddr from, VAddr to, VAddr spender, VI128 amt])]))))))))))))))))"

definition approve ::
    "'z ledger_env_scheme \<Rightarrow> addr \<Rightarrow> addr \<Rightarrow> int \<Rightarrow> nat \<Rightarrow> (TokenError, unit) tcomp" where
  "approve E from spender amt exp = do_all [
     require_initialized,
     require_not_paused,
     require_auth E from,
     fail_if (amt < 0) TInvalidAmount,
     fail_if (from = spender) TSameAccount,
     fail_if (amt > 0 \<and> exp < sequence E) TInvalidExpirationLedger,
     modify (set_allowance from spender amt exp),
     modify (extend_allowance_ttl from spender 1000 500000),
     modify (publish ''approve'' [VAddr from, VAddr spender, VI128 amt, VU32 exp])]"

definition allowance :: "'z ledger_env_scheme \<Rightarrow> addr \<Rightarrow> addr \<Rightarrow> (TokenError, int) tcomp" where
  "allowance E from spender = andthen require_initialized (gets (get_allowance E from spender))"

definition increase_allowance ::
    "'z ledger_env_scheme \<Rightarrow> addr \<Rightarrow> addr \<Rightarrow> int \<Rightarrow> (TokenError, unit) tcomp" where
  "increase_allowance E owner spender delta =
     andthen require_initialized
    (andthen (require_auth E owner)
    (andthen (fail_if (delta \<le> 0) TInvalidAmount)
    (andthen (fail_if (owner = spender) TSameAccount)
    (bind (gets (get_allowance E owner spender)) (\<lambda>current.
     bind (ok_or (i128_checked_add current delta) TOverflow) (\<lambda>new_allowance.
     bind (gets (kept_expiration owner spender)) (\<lambda>exp.
     do_all [
       modify (set_allowance owner spender new_allowance exp),
       modify (extend_allowance_ttl owner spender 1000 500000),
       modify (publish ''inc_alw''
         [VAddr owner, VAddr spender, VI128 delta, VI128 new_allowance])])))))))"

definition decrease_allowance ::
    "'z ledger_env_scheme \<Rightarrow> addr \<Rightarrow> addr \<Rightarrow> int \<Rightarrow> (TokenError, unit) tcomp" where
  "decrease_allowance E owner spender delta =
     andthen require_initialized
    (andthen (require_auth E owner)
    (andthen (fail_if (delta \<le> 0) TInvalidAmount)
    (andthen (fail_if (owner = spender) TSameAccount)
    (bind (gets (get_allowance E owner spender)) (\<lambda>current.
     andthen (fail_if (delta > current) TInsufficientAllowance)
    (bind (ok_or (i128_checked_sub current delta) TOverflow) (\<lambda>new_allowance.
     bind (gets (kept_expiration owner spender)) (\<lambda>exp.
     do_all [
       modify (set_allowance owner spender new_allowance exp),
       modify (extend_allowance_ttl owner spender 1000 500000),
       modify (publish ''dec_alw''
         [VAddr owner, VAddr spender, VI128 delta, VI128 new_allowance])]))))))))"

definition require_token_admin :: "'e \<Rightarrow> addr \<Rightarrow> ('e, unit) tcomp" where
  "require_token_admin e admin = bind storage_get_admin (\<lambda>a. fail_if (a \<noteq> admin) e)"

definition transfer_admin ::
    "'z ledger_env_scheme \<Rightarrow> addr \<Rightarrow> addr \<Rightarrow> (TokenError, unit) tcomp" where
  "transfer_admin E current_admin new_admin = do_all [
     require_initialized,
     require_auth E current_admin,
     require_token_admin TUnauthorized current_admin,
     modify (set_admin new_admin),
     modify (publish ''admin_tr'' [VAddr current_admin, VAddr new_admin])]"

definition mint ::
    "'z ledger_env_scheme \<Rightarrow> addr \<Rightarrow> addr \<Rightarrow> int \<Rightarrow> (TokenError, unit) tcomp" where
  "mint E admin to amt =
     andthen require_initialized
    (andthen require_not_paused
    (andthen (require_auth E admin)
    (andthen (require_token_admin TUnauthorized admin)
    (andthen (fail_if (amt \<le> 0) TInvalidAmount)
    (bind get_total_supply (\<lambda>current_supply.
     bind (ok_or (i128_checked_add current_supply amt) TOverflow) (\<lambda>new_supply.
     bind (gets (get_balance to)) (\<lambda>to_balance.
     bind (ok_or (i128_checked_add to_balance amt) TOverflow) (\<lambda>new_to_balance.
     do_all [
       modify (set_total_supply new_supply),
       modify (set_balance to new_to_balance),
       modify (extend_balance_ttl to 1000 500000),
       modify (publish ''mint'' [VAddr to, VI128 amt])])))))))))"

definition admin_burn ::
    "'z ledger_env_scheme \<Rightarrow> addr \<Rightarrow> addr \<Rightarrow> int \<Rightarrow> (TokenError, unit) tcomp" where
  "admin_burn E admin from amt =
     andthen require_initialized
    (andthen require_not_paused
    (andthen (require_auth E admin)
    (andthen (require_token_admin TUnauthorized admin)
    (andthen (fail_if (amt \<le> 0) TInvalidAmount)
    (bind (gets (get_balance from)) (\<lambda>from_balance.
     andthen (fail_if (from_balance < amt) TInsufficientBalance)
    (bind get_total_supply (\<lambda>current_supply.
     bind (ok_or (i128_checked_sub current_supply amt) TOverflow) (\<lambda>new_supply.
     bind (ok_or (i128_checked_sub from_balance amt) TOverflow) (\<lambda>new_from_balance.
     do_all [
       modify (set_total_supply new_supply),
       modify (set_balance from new_from_balance),
       modify (extend_balance_ttl from 1000 500000),
       modify (publish ''adm_burn'' [VAddr from, VI128 amt])]))))))))))"

definition burn :: "'z ledger_env_scheme \<Rightarrow> addr \<Rightarrow> int \<Rightarrow> (TokenError, unit) tcomp" where
  "burn E from amt =
     andthen require_initialized
    (andthen require_not_paused
    (andthen (require_auth E from)
    (andthen (fail_if (amt \<le> 0) TInvalidAmount)
    (bind (gets (get_balance from)) (\<lambda>from_balance.
     andthen (fail_if (from_balance < amt) TInsufficientBalance)
    (bind get_total_supply (\<lambda>current_supply.
     bind (i128_sub current_supply amt) (\<lambda>ns.
     andthen (modify (set_total_supply ns))
    (bind (i128_sub from_balance amt) (\<lambda>nf.
     do_all [
       modify (set_balance from nf),
       modify (publish ''burn'' [VAddr from, VI128 amt])]))))))))))"

definition burn_from ::
    "'z ledger_env_scheme \<Rightarrow> addr \<Rightarrow> addr \<Rightarrow> int \<Rightarrow> (TokenError, unit) tcomp" where
  "burn_from E spender from amt =
     andthen require_initialized
    (andthen require_not_paused
    (andthen (require_auth E spender)
    (andthen (fail_if (amt \<le> 0) TInvalidAmount)
    (bind (gets (get_allowance E from spender)) (\<lambda>alw.
     andthen (fail_if (alw < amt) TInsufficientAllowance)
    (bind (gets (get_balance from)) (\<lambda>from_balance.
     andthen (fail_if (from_balance < amt) TInsufficientBalance)
    (bind (gets (kept_expiration from spender)) (\<lambda>exp.
     bind get_total_supply (\<lambda>current_supply.
     bind (i128_sub current_supply amt) (\<lambda>ns.
     andthen (modify (set_total_supply ns))
    (bind (i128_sub from_balance amt) (\<lambda>nf.
     andthen (modify (set_balance from nf))
    (bind (i128_sub alw amt) (\<lambda>na.
     do_all [
       modify (set_allowance from spender na exp),
       modify (publish ''burn_from'' [VAddr from, VAddr spender, VI128 amt])])))))))))))))))"

definition pause :: "'z ledger_env_scheme \<Rightarrow> addr \<Rightarrow> (TokenError, unit) tcomp" where
  "pause E admin = do_all [
     require_initialized,
     require_auth E admin,
     require_token_admin TUnauthorized admin,
     modify (set_paused True),
     modify (publish ''paused'' [VAddr admin])]"

definition unpause :: "'z ledger_env_scheme \<Rightarrow> addr \<Rightarrow> (TokenError, unit) tcomp" where
  "unpause E admin = do_all [
     require_initialized,
     require_auth E admin,
     require_token_admin TUnauthorized admin,
     modify (set_paused False),
     modify (publish ''unpaused'' [VAddr admin])]"

definition is_paused :: "(TokenError, bool) tcomp" where
  "is_paused = andthen require_initialized (gets storage_is_paused)"

text \<open>The two loops of \<open>batch_transfer\<close>: validate and total the legs, then credit them.\<close>

fun batch_total :: "addr \<Rightarrow> (addr \<times> int) list \<Rightarrow> int \<Rightarrow> (TokenError, int) tcomp" where
  "batch_total from [] tot = ret tot"
| "batch_total from ((to, amt) # rs) tot =
     andthen (fail_if (amt \<le> 0) TInvalidAmount)
    (andthen (fail_if (to = from) TSameAccount)
    (bind (ok_or (i128_checked_add tot amt) TInvalidAmount) (batch_total from rs)))"

definition batch_credit :: "addr \<times> int \<Rightarrow> (TokenError, unit) tcomp" where
  "batch_credit leg = (case leg of (to, amt) \<Rightarrow>
     bind (gets (get_balance to)) (\<lambda>b. bind (i128_add b amt) (\<lambda>v. modify (set_balance to v))))"

definition batch_transfer ::
    "'z ledger_env_scheme \<Rightarrow> addr \<Rightarrow> (addr \<times> int) list \<Rightarrow> (TokenError, unit) tcomp" where
  "batch_transfer E from recipients =
     andthen require_initialized
    (andthen require_not_paused
    (andthen (require_auth E from)
    (andthen (fail_if (recipients = []) TInvalidAmount)
    (bind (batch_total from recipients 0) (\<lambda>tot.
     bind (gets (get_balance from)) (\<lambda>from_balance.
     andthen (fail_if (from_balance < tot) TInsufficientBalance)
    (bind (i128_sub from_balance tot) (\<lambda>nf.
     do_all [
       modify (set_balance from nf),
       for_each recipients batch_credit,
       modify (publish ''batch_tr'' [VAddr from, VU32 (length recipients)])]))))))))"

definition require_metadata_initialized :: "(MetadataError, unit) tcomp" where
  "require_metadata_initialized = fail_when (\<lambda>s. \<not> is_initialized s) MNotInitialized"

definition add_allowed_metadata_key ::
    "'z ledger_env_scheme \<Rightarrow> addr \<Rightarrow> sym \<Rightarrow> (MetadataError, unit) tcomp" where
  "add_allowed_metadata_key E admin key = do_all [
     require_metadata_initialized,
     require_auth E admin,
     require_token_admin MUnauthorized admin,
     fail_if (key = []) MInvalidKey,
     fail_when (storage_is_metadata_key_allowed key) MKeyAlreadyExists,
     modify (storage_add_allowed_metadata_key key),
     modify (publish ''meta_add'' [VAddr admin, VSym key])]"

definition remove_allowed_metadata_key ::
    "'z ledger_env_scheme \<Rightarrow> addr \<Rightarrow> sym \<Rightarrow> (MetadataError, unit) tcomp" where
  "remove_allowed_metadata_key E admin key = do_all [
     require_metadata_initialized,
     require_auth E admin,
     require_token_admin MUnauthorized admin,
     fail_when (\<lambda>s. \<not> storage_is_metadata_key_allowed key s) MKeyNotFound,
     modify (storage_remove_allowed_metadata_key key),
     modify (publish ''meta_rm'' [VAddr admin, VSym key])]"

definition is_metadata_key_allowed :: "sym \<Rightarrow> (MetadataError, bool) tcomp" where
  "is_metadata_key_allowed key =
     andthen require_metadata_initialized (gets (storage_is_metadata_key_allowed key))"

definition set_metadata ::
    "'z ledger_env_scheme \<Rightarrow> addr \<Rightarrow> sym \<Rightarrow> string \<Rightarrow> (MetadataError, unit) tcomp" where
  "set_metadata E admin key v = do_all [
     require_metadata_initialized,
     require_auth E admin,
     require_token_admin MUnauthorized admin,
     fail_when (\<lambda>s. \<not> storage_is_metadata_key_allowed key s) MKeyNotAllowed,
     fail_if (v = []) MInvalidValue,
     modify (storage_set_metadata key v),
     modify (publish ''meta_set'' [VAddr admin, VSym key, VStr v])]"

definition get_metadata :: "sym \<Rightarrow> (MetadataError, string option) tcomp" where
  "get_metadata key = andthen require_metadata_initialized (gets (storage_get_metadata key))"

definition remove_metadata ::
    "'z ledger_env_scheme \<Rightarrow> addr \<Rightarrow> sym \<Rightarrow> (MetadataError, unit) tcomp" where
  "remove_metadata E admin key = do_all [
     require_metadata_initialized,
     require_auth E admin,
     require_token_admin MUnauthorized admin,
     fail_when (\<lambda>s. \<not> has_metadata key s) MKeyNotFound,
     modify (storage_remove_metadata key),
     modify (publish ''meta_del'' [VAddr admin, VSym key])]"

section \<open>The contract as a state machine\<close>

text \<open>One constructor per entry point that writes; the views never change the state.\<close>

datatype token_call =
    Initialize addr string string int
  | Transfer addr addr int
  | Transfer_from addr addr addr int
  | Approve addr addr int nat
  | Increase_allowance addr addr int
  | Decrease_allowance addr addr int
  | Transfer_admin addr addr
  | Mint addr addr int
  | Admin_burn addr addr int
  | Burn addr int
  | Burn_from addr addr int
  | Pause addr
  | Unpause addr
  | Batch_transfer addr "(addr \<times> int) list"
  | Add_allowed_metadata_key addr sym
  | Remove_allowed_metadata_key addr sym
  | Set_metadata addr sym string
  | Remove_metadata addr sym

fun token_exec ::
    "'z ledger_env_scheme \<Rightarrow> token_call \<Rightarrow> (TokenError + MetadataError, unit) tcomp" where
  "token_exec E (Initialize a n y v) = map_err Inl (initialize a n y v)"
| "token_exec E (Transfer f t v) = map_err Inl (transfer E f t v)"
| "token_exec E (Transfer_from p f t v) = map_err Inl (transfer_from E p f t v)"
| "token_exec E (Approve f p v x) = map_err Inl (approve E f p v x)"
| "token_exec E (Increase_allowance f p v) = map_err Inl (increase_allowance E f p v)"
| "token_exec E (Decrease_allowance f p v) = map_err Inl (decrease_allowance E f p v)"
| "token_exec E (Transfer_admin a b) = map_err Inl (transfer_admin E a b)"
| "token_exec E (Mint a t v) = map_err Inl (mint E a t v)"
| "token_exec E (Admin_burn a f v) = map_err Inl (admin_burn E a f v)"
| "token_exec E (Burn f v) = map_err Inl (burn E f v)"
| "token_exec E (Burn_from p f v) = map_err Inl (burn_from E p f v)"
| "token_exec E (Pause a) = map_err Inl (pause E a)"
| "token_exec E (Unpause a) = map_err Inl (unpause E a)"
| "token_exec E (Batch_transfer f rs) = map_err Inl (batch_transfer E f rs)"
| "token_exec E (Add_allowed_metadata_key a k) = map_err Inr (add_allowed_metadata_key E a k)"
| "token_exec E (Remove_allowed_metadata_key a k) =
     map_err Inr (remove_allowed_metadata_key E a k)"
| "token_exec E (Set_metadata a k v) = map_err Inr (set_metadata E a k v)"
| "token_exec E (Remove_metadata a k) = map_err Inr (remove_metadata E a k)"

text \<open>The host decodes the arguments of a call: an amount is an \<open>i128\<close>.\<close>

fun call_amounts :: "token_call \<Rightarrow> int list" where
  "call_amounts (Initialize a n y v) = [v]"
| "call_amounts (Transfer f t v) = [v]"
| "call_amounts (Transfer_from p f t v) = [v]"
| "call_amounts (Approve f p v x) = [v]"
| "call_amounts (Increase_allowance f p v) = [v]"
| "call_amounts (Decrease_allowance f p v) = [v]"
| "call_amounts (Mint a t v) = [v]"
| "call_amounts (Admin_burn a f v) = [v]"
| "call_amounts (Burn f v) = [v]"
| "call_amounts (Burn_from p f v) = [v]"
| "call_amounts (Batch_transfer f rs) = map snd rs"
| "call_amounts _ = []"

definition token_legal :: "ledger_env \<times> token_call \<Rightarrow> bool" where
  "token_legal c \<longleftrightarrow> list_all in_i128 (call_amounts (snd c))"

definition token_entry ::
    "ledger_env \<times> token_call \<Rightarrow> (TokenError + MetadataError, unit) tcomp" where
  "token_entry c = token_exec (fst c) (snd c)"

section \<open>The supply invariant\<close>

definition supply_of :: "token_state \<Rightarrow> int" where
  "supply_of s = (case tk_TotalSupply s of None \<Rightarrow> 0 | Some v \<Rightarrow> v)"

definition balances_sum :: "token_state \<Rightarrow> int" where
  "balances_sum s = (\<Sum>a\<in>dom (tk_Balance s). get_balance a s)"

definition allowances_ok :: "token_state \<Rightarrow> bool" where
  "allowances_ok s \<longleftrightarrow>
     (\<forall>k v. tk_Allowance s k = Some v \<longrightarrow> 0 \<le> amount v \<and> amount v \<le> i128_max)"

definition token_inv :: "token_state \<Rightarrow> bool" where
  "token_inv s \<longleftrightarrow>
     finite (dom (tk_Balance s)) \<and>
     (\<forall>a. 0 \<le> get_balance a s) \<and>
     balances_sum s = supply_of s \<and>
     supply_of s \<le> i128_max \<and>
     (tk_Admin s = None \<longleftrightarrow> tk_TotalSupply s = None) \<and>
     (tk_Admin s = None \<longrightarrow> tk_Balance s = Map.empty)"

subsection \<open>Effect of the writes\<close>

lemma get_balance_set [simp]:
  "get_balance a (set_balance b v s) = (if a = b then v else get_balance a s)"
  by (simp add: get_balance_def set_balance_def)

lemma extend_balance_ttl_for_eq:
  "\<exists>r. extend_balance_ttl_for as th ex s = s\<lparr>tk_ttl := r\<rparr>"
proof (induction as arbitrary: s)
  case Nil
  have "extend_balance_ttl_for [] th ex s = s\<lparr>tk_ttl := tk_ttl s\<rparr>" by simp
  then show ?case ..
next
  case (Cons a as)
  then show ?case
    by (simp add: extend_balance_ttl_def) (metis token_state.update_convs(11) token_state.surjective)
qed

text \<open>The writes that touch neither a balance nor the supply nor the administrator.\<close>

definition same_money :: "token_state \<Rightarrow> token_state \<Rightarrow> bool" where
  "same_money s t \<longleftrightarrow> tk_Balance s = tk_Balance t \<and> tk_TotalSupply s = tk_TotalSupply t \<and>
     tk_Admin s = tk_Admin t"

lemma same_money_inv: "same_money s t \<Longrightarrow> token_inv s = token_inv t"
  by (simp add: same_money_def token_inv_def balances_sum_def supply_of_def get_balance_def)

lemma same_money_balance: "same_money s t \<Longrightarrow> get_balance a s = get_balance a t"
  by (simp add: same_money_def get_balance_def)

lemma same_money_writes:
  "same_money (publish k p s) s"
  "same_money (set_allowance f q v x s) s"
  "same_money (extend_allowance_ttl f q th ex s) s"
  "same_money (extend_balance_ttl a th ex s) s"
  "same_money (extend_balance_ttl_for as th ex s) s"
  "same_money (set_paused b s) s"
  "same_money (set_name n s) s"
  "same_money (set_symbol n s) s"
  "same_money (storage_add_allowed_metadata_key key s) s"
  "same_money (storage_remove_allowed_metadata_key key s) s"
  "same_money (storage_set_metadata key val s) s"
  "same_money (storage_remove_metadata key s) s"
  using extend_balance_ttl_for_eq [of as th ex s]
  by (auto simp: same_money_def publish_def set_allowance_def extend_allowance_ttl_def
      extend_balance_ttl_def set_paused_def set_name_def set_symbol_def
      storage_add_allowed_metadata_key_def storage_remove_allowed_metadata_key_def
      storage_set_metadata_def storage_remove_metadata_def)

lemmas inv_writes [simp] = same_money_writes [THEN same_money_inv]
lemmas balance_writes [simp] = same_money_writes [THEN same_money_balance]

lemma balances_sum_set:
  assumes "finite (dom (tk_Balance s))"
  shows "balances_sum (set_balance a v s) = balances_sum s - get_balance a s + v"
proof -
  have dom: "dom (tk_Balance (set_balance a v s)) = insert a (dom (tk_Balance s))"
    by (simp add: set_balance_def)
  have rest: "(\<Sum>b\<in>dom (tk_Balance s) - {a}. get_balance b (set_balance a v s)) =
      (\<Sum>b\<in>dom (tk_Balance s) - {a}. get_balance b s)"
    by (rule sum.cong) auto
  have "(\<Sum>b\<in>dom (tk_Balance s) - {a}. get_balance b s) = balances_sum s - get_balance a s"
    using assms by (cases "a \<in> dom (tk_Balance s)")
      (auto simp: balances_sum_def sum_diff1 get_balance_def domIff)
  with rest show ?thesis
    using assms by (simp add: balances_sum_def dom sum.insert_remove)
qed

lemma balance_le_sum:
  assumes "finite (dom (tk_Balance s))" "\<forall>a. 0 \<le> get_balance a s"
  shows "get_balance a s \<le> balances_sum s"
proof (cases "a \<in> dom (tk_Balance s)")
  case True
  then show ?thesis
    using assms unfolding balances_sum_def by (intro member_le_sum) auto
next
  case False
  then have "get_balance a s = 0" by (simp add: get_balance_def domIff)
  then show ?thesis using assms by (simp add: balances_sum_def sum_nonneg)
qed

lemma set_balance_frame [simp]:
  "tk_Admin (set_balance a v s) = tk_Admin s"
  "tk_TotalSupply (set_balance a v s) = tk_TotalSupply s"
  "supply_of (set_balance a v s) = supply_of s"
  "dom (tk_Balance (set_balance a v s)) = insert a (dom (tk_Balance s))"
  by (simp_all add: set_balance_def supply_of_def)

lemma set_total_supply_frame [simp]:
  "tk_Admin (set_total_supply v s) = tk_Admin s"
  "tk_Balance (set_total_supply v s) = tk_Balance s"
  "tk_TotalSupply (set_total_supply v s) = Some v"
  "supply_of (set_total_supply v s) = v"
  "get_balance a (set_total_supply v s) = get_balance a s"
  "balances_sum (set_total_supply v s) = balances_sum s"
  by (simp_all add: set_total_supply_def supply_of_def get_balance_def balances_sum_def)

lemma token_inv_set_admin [simp]:
  "tk_Admin s \<noteq> None \<Longrightarrow> token_inv (set_admin a s) = token_inv s"
  by (auto simp: token_inv_def set_admin_def balances_sum_def supply_of_def get_balance_def)

subsection \<open>Every entry point keeps the invariant\<close>

lemma token_invD:
  assumes "token_inv s"
  shows "finite (dom (tk_Balance s))" "0 \<le> get_balance a s" "balances_sum s = supply_of s"
    "supply_of s \<le> i128_max" "get_balance a s \<le> supply_of s" "0 \<le> supply_of s"
    "tk_Admin s = None \<longleftrightarrow> tk_TotalSupply s = None"
    "tk_Admin s = None \<Longrightarrow> tk_Balance s = Map.empty"
proof -
  note inv = assms [unfolded token_inv_def]
  show "finite (dom (tk_Balance s))" "0 \<le> get_balance a s" "balances_sum s = supply_of s"
    "supply_of s \<le> i128_max" "tk_Admin s = None \<longleftrightarrow> tk_TotalSupply s = None"
    "tk_Admin s = None \<Longrightarrow> tk_Balance s = Map.empty" using inv by blast+
  show le: "get_balance a s \<le> supply_of s" using inv balance_le_sum [of s a] by simp
  with inv show "0 \<le> supply_of s" by (meson order_trans)
qed

lemma inv_move:
  assumes "token_inv s" "tk_Admin s \<noteq> None" "a \<noteq> b" "0 \<le> v" "v \<le> get_balance a s"
  shows "token_inv (set_balance b (get_balance b s + v) (set_balance a (get_balance a s - v) s))"
  using assms by (auto simp: token_inv_def balances_sum_set)

lemma inv_supply:
  assumes "token_inv s" "tk_Admin s \<noteq> None" "0 \<le> get_balance a s + d"
    "supply_of s + d \<le> i128_max"
  shows "token_inv (set_balance a (get_balance a s + d) (set_total_supply (supply_of s + d) s))"
  using assms by (auto simp: token_inv_def balances_sum_set)

lemma total_supply_of: "tk_TotalSupply s = Some v \<Longrightarrow> v = supply_of s"
  by (simp add: supply_of_def)

lemmas entry_guards = require_initialized_def require_not_paused_def require_token_admin_def
  storage_get_admin_def get_total_supply_def require_metadata_initialized_def is_initialized_def

lemma transfer_inv: "token_inv s \<Longrightarrow> wp (transfer E f t v) (\<lambda>_. token_inv) s"
  by (auto simp: transfer_def entry_guards wp_simps intro!: inv_move)

lemma transfer_from_inv: "token_inv s \<Longrightarrow> wp (transfer_from E p f t v) (\<lambda>_. token_inv) s"
  by (auto simp: transfer_from_def entry_guards wp_simps intro!: inv_move)

lemma allowance_entries_inv:
  "token_inv s \<Longrightarrow> wp (approve E f p v x) (\<lambda>_. token_inv) s"
  "token_inv s \<Longrightarrow> wp (increase_allowance E f p v) (\<lambda>_. token_inv) s"
  "token_inv s \<Longrightarrow> wp (decrease_allowance E f p v) (\<lambda>_. token_inv) s"
  by (auto simp: approve_def increase_allowance_def decrease_allowance_def entry_guards wp_simps)

lemma admin_entries_inv:
  "token_inv s \<Longrightarrow> wp (transfer_admin E a b) (\<lambda>_. token_inv) s"
  "token_inv s \<Longrightarrow> wp (pause E a) (\<lambda>_. token_inv) s"
  "token_inv s \<Longrightarrow> wp (unpause E a) (\<lambda>_. token_inv) s"
  by (auto simp: transfer_admin_def pause_def unpause_def entry_guards wp_simps)

lemma metadata_entries_inv:
  "token_inv s \<Longrightarrow> wp (add_allowed_metadata_key E a k) (\<lambda>_. token_inv) s"
  "token_inv s \<Longrightarrow> wp (remove_allowed_metadata_key E a k) (\<lambda>_. token_inv) s"
  "token_inv s \<Longrightarrow> wp (set_metadata E a k v) (\<lambda>_. token_inv) s"
  "token_inv s \<Longrightarrow> wp (remove_metadata E a k) (\<lambda>_. token_inv) s"
  by (auto simp: add_allowed_metadata_key_def remove_allowed_metadata_key_def set_metadata_def
      remove_metadata_def entry_guards wp_simps)

lemma mint_inv: "token_inv s \<Longrightarrow> wp (mint E a t v) (\<lambda>_. token_inv) s"
  by (auto simp: mint_def entry_guards wp_simps in_i128_def total_supply_of token_invD
      intro!: inv_supply dest!: total_supply_of)

lemma inv_burn:
  assumes "token_inv s" "tk_Admin s \<noteq> None" "0 \<le> v" "v \<le> get_balance a s"
  shows "token_inv (set_balance a (get_balance a s - v) (set_total_supply (supply_of s - v) s))"
  using inv_supply [of s a "- v"] token_invD [OF assms(1)] assms by simp

lemma burn_entries_inv:
  "token_inv s \<Longrightarrow> wp (burn E a v) (\<lambda>_. token_inv) s"
  "token_inv s \<Longrightarrow> wp (burn_from E p a v) (\<lambda>_. token_inv) s"
  "token_inv s \<Longrightarrow> wp (admin_burn E q a v) (\<lambda>_. token_inv) s"
  by (auto simp: burn_def burn_from_def admin_burn_def entry_guards wp_simps
      intro!: inv_burn dest!: total_supply_of)

lemma initialize_inv:
  assumes "token_inv s" "in_i128 v"
  shows "wp (initialize a n y v) (\<lambda>_. token_inv) s"
proof -
  have "token_inv (set_balance a v (set_total_supply v (set_symbol y (set_name n (set_admin a s)))))"
    if "tk_Admin s = None" "0 < v"
    using that assms
    by (auto simp: token_inv_def set_balance_def set_total_supply_def set_symbol_def set_name_def
        set_admin_def balances_sum_def supply_of_def get_balance_def in_i128_def)
  then show ?thesis by (auto simp: initialize_def entry_guards wp_simps)
qed

text \<open>
  \<open>batch_transfer\<close> debits the sender once and credits the legs one by one; between the two
  the balances fall short of the supply by what is still owed.
\<close>

definition owing :: "int \<Rightarrow> token_state \<Rightarrow> bool" where
  "owing d s \<longleftrightarrow>
     finite (dom (tk_Balance s)) \<and> (\<forall>a. 0 \<le> get_balance a s) \<and>
     balances_sum s + d = supply_of s \<and> supply_of s \<le> i128_max \<and>
     tk_Admin s \<noteq> None \<and> tk_TotalSupply s \<noteq> None"

definition legs_to :: "addr \<Rightarrow> (addr \<times> int) list \<Rightarrow> int" where
  "legs_to a rs = (\<Sum>(t, v)\<leftarrow>rs. if t = a then v else 0)"

lemma legs_to_simps [simp]:
  "legs_to a [] = 0"
  "legs_to a ((t, v) # rs) = (if t = a then v else 0) + legs_to a rs"
  by (simp_all add: legs_to_def)

lemma owing_0: "owing 0 s \<Longrightarrow> token_inv s"
  by (auto simp: owing_def token_inv_def)

lemma wp_batch_total:
  "wp (batch_total f rs tot) (\<lambda>r t. t = s \<and> r = tot + sum_list (map snd rs) \<and>
     (\<forall>(to, amt)\<in>set rs. 0 < amt \<and> to \<noteq> f)) s"
proof (induction rs arbitrary: tot)
  case Nil
  then show ?case by (simp add: wp_simps)
next
  case (Cons leg rs)
  obtain to amt where leg: "leg = (to, amt)" by fastforce
  show ?case
    unfolding leg by (auto simp: wp_simps intro!: wp_mono [OF Cons.IH])
qed

lemma wp_batch_credit [wp_simps]:
  "wp (batch_credit (a, v)) Q =
     (\<lambda>s. in_i128 (get_balance a s + v) \<longrightarrow> Q () (set_balance a (get_balance a s + v) s))"
  by (simp add: fun_eq_iff batch_credit_def wp_simps)

lemma owing_credit: "owing (d + v) s \<Longrightarrow> 0 \<le> v \<Longrightarrow> owing d (set_balance a (get_balance a s + v) s)"
  by (auto simp: owing_def balances_sum_set)

lemma wp_batch_credits:
  assumes "owing (d + sum_list (map snd rs)) s" "\<forall>(to, amt)\<in>set rs. 0 < amt \<and> to \<noteq> f"
  shows "wp (for_each rs batch_credit) (\<lambda>_. owing d) s"
  using assms
proof (induction rs arbitrary: s)
  case Nil
  then show ?case by (simp add: wp_simps)
next
  case (Cons leg rs)
  obtain to amt where leg: "leg = (to, amt)" by fastforce
  have "owing (d + sum_list (map snd rs)) (set_balance to (get_balance to s + amt) s)"
    using Cons.prems unfolding leg by (intro owing_credit) (auto simp: algebra_simps)
  with Cons show ?case unfolding leg by (simp add: wp_simps)
qed

lemma wp_batch_credits_exact:
  "wp (for_each rs batch_credit) (\<lambda>_ t. \<forall>a. get_balance a t = get_balance a s + legs_to a rs) s"
proof (induction rs arbitrary: s)
  case Nil
  then show ?case by (simp add: wp_simps)
next
  case (Cons leg rs)
  obtain to amt where leg: "leg = (to, amt)" by fastforce
  show ?case unfolding leg
    by (auto simp: wp_simps intro!: wp_mono [OF Cons.IH])
qed

text \<open>What \<open>batch_transfer\<close> does, with the loops replaced by what they establish.\<close>

lemma wp_batch_transfer:
  assumes "\<And>t. \<lbrakk>tk_Admin s \<noteq> None; \<not> storage_is_paused s; authorized E f;
      \<forall>(to, amt)\<in>set rs. 0 < amt \<and> to \<noteq> f; sum_list (map snd rs) \<le> get_balance f s;
      t = set_balance f (get_balance f s - sum_list (map snd rs)) s\<rbrakk> \<Longrightarrow>
      wp (for_each rs batch_credit) (\<lambda>_ u. Q (publish ''batch_tr'' [VAddr f, VU32 (length rs)] u)) t"
  shows "wp (batch_transfer E f rs) (\<lambda>_. Q) s"
  by (auto simp: batch_transfer_def entry_guards wp_simps intro!: assms
      wp_mono [OF wp_batch_total])

lemma batch_transfer_inv:
  assumes "token_inv s"
  shows "wp (batch_transfer E f rs) (\<lambda>_. token_inv) s"
proof (rule wp_batch_transfer)
  fix t
  assume legs: "\<forall>(to, amt)\<in>set rs. 0 < amt \<and> to \<noteq> f" and "tk_Admin s \<noteq> None"
    and "sum_list (map snd rs) \<le> get_balance f s"
    and t: "t = set_balance f (get_balance f s - sum_list (map snd rs)) s"
  then have "owing (0 + sum_list (map snd rs)) t"
    using assms by (auto simp: token_inv_def owing_def balances_sum_set)
  from wp_batch_credits [OF this legs]
  show "wp (for_each rs batch_credit)
      (\<lambda>_ u. token_inv (publish ''batch_tr'' [VAddr f, VU32 (length rs)] u)) t"
    by (rule wp_mono) (simp add: owing_0)
qed

lemmas token_entries_inv = initialize_inv transfer_inv transfer_from_inv allowance_entries_inv
  admin_entries_inv metadata_entries_inv mint_inv burn_entries_inv batch_transfer_inv

lemma token_exec_inv:
  "token_inv s \<Longrightarrow> list_all in_i128 (call_amounts c) \<Longrightarrow> wp (token_exec E c) (\<lambda>_. token_inv) s"
  by (cases c) (simp_all add: wp_simps token_entries_inv)

interpretation navin: contract_invariant token_legal token_entry token_init token_inv
proof
  show "token_inv token_init"
    by (simp add: token_inv_def token_init_def balances_sum_def supply_of_def get_balance_def
        i128_max_def)
next
  fix s :: token_state and c :: "ledger_env \<times> token_call"
  assume "token_inv s" "token_legal c"
  then show "wp (token_entry c) (\<lambda>_. token_inv) s"
    by (simp add: token_entry_def token_legal_def token_exec_inv)
qed

subsection \<open>Transfers as a ledger interface\<close>

definition navin_transfer ::
    "'z ledger_env_scheme \<Rightarrow> addr \<Rightarrow> addr \<Rightarrow> int \<Rightarrow> token_state \<Rightarrow> token_state option" where
  "navin_transfer E f t v s = (case transfer E f t v s of (Inr _, u) \<Rightarrow> Some u | _ \<Rightarrow> None)"

lemma navin_transfer_Some: "navin_transfer E f t v s = Some u \<longleftrightarrow> transfer E f t v s = (Inr (), u)"
  by (auto simp: navin_transfer_def split: prod.splits sum.splits)

lemma transfer_effect:
  "wp (transfer E f t v) (\<lambda>_ u. 0 < v \<and> f \<noteq> t \<and> v \<le> get_balance f s \<and>
     (\<forall>a. get_balance a u =
        get_balance a s - (if a = f then v else 0) + (if a = t then v else 0))) s"
  by (auto simp: transfer_def entry_guards wp_simps)

interpretation navin_ledger: token_ledger "navin_transfer E" get_balance for E
proof
  fix f t v s u
  assume "navin_transfer E f t v s = Some u"
  note eff = wpD [OF transfer_effect this [unfolded navin_transfer_Some]]
  from eff show "0 \<le> v \<and> v \<le> get_balance f s" by auto
  from eff show "get_balance a u =
      get_balance a s - (if a = f then v else 0) + (if a = t then v else 0)" for a by auto
qed

lemma move_in_range:
  assumes "token_inv s" "tk_Admin s \<noteq> None" "f \<noteq> t" "0 \<le> v" "v \<le> get_balance f s"
  shows "in_i128 (get_balance t s + v)" "in_i128 (get_balance f s - v)"
proof -
  note moved = token_invD [OF inv_move [OF assms]]
  show "in_i128 (get_balance t s + v)"
    using moved(2) [of t] moved(5) [of t] moved(4) assms(3)
    by (simp add: in_i128_def i128_min_def)
  show "in_i128 (get_balance f s - v)"
    using token_invD(4) [OF assms(1)] token_invD(5) [OF assms(1), of f] assms(4,5)
    by (simp add: in_i128_def i128_min_def)
qed

subsection \<open>Allowances stay in range\<close>

lemma allowances_ok_writes [simp]:
  "allowances_ok (publish k p s) = allowances_ok s"
  "allowances_ok (set_balance a v s) = allowances_ok s"
  "allowances_ok (set_total_supply v s) = allowances_ok s"
  "allowances_ok (set_admin a s) = allowances_ok s"
  "allowances_ok (set_name n s) = allowances_ok s"
  "allowances_ok (set_symbol n s) = allowances_ok s"
  "allowances_ok (set_paused b s) = allowances_ok s"
  "allowances_ok (extend_allowance_ttl f q th ex s) = allowances_ok s"
  "allowances_ok (extend_balance_ttl a th ex s) = allowances_ok s"
  "allowances_ok (extend_balance_ttl_for as th ex s) = allowances_ok s"
  "allowances_ok (storage_add_allowed_metadata_key key s) = allowances_ok s"
  "allowances_ok (storage_remove_allowed_metadata_key key s) = allowances_ok s"
  "allowances_ok (storage_set_metadata key val s) = allowances_ok s"
  "allowances_ok (storage_remove_metadata key s) = allowances_ok s"
  using extend_balance_ttl_for_eq [of as th ex s]
  by (auto simp: allowances_ok_def publish_def set_balance_def set_total_supply_def set_admin_def
      set_name_def set_symbol_def set_paused_def extend_allowance_ttl_def extend_balance_ttl_def
      storage_add_allowed_metadata_key_def storage_remove_allowed_metadata_key_def
      storage_set_metadata_def storage_remove_metadata_def)

lemma allowances_ok_set:
  "allowances_ok s \<Longrightarrow> 0 \<le> v \<Longrightarrow> v \<le> i128_max \<Longrightarrow> allowances_ok (set_allowance f p v x s)"
  by (simp add: allowances_ok_def set_allowance_def)

lemma get_allowance_range:
  "allowances_ok s \<Longrightarrow> 0 \<le> get_allowance E f p s"
  "allowances_ok s \<Longrightarrow> get_allowance E f p s \<le> i128_max"
  by (auto simp: allowances_ok_def get_allowance_def i128_max_def split: option.splits)

lemma token_exec_allowances:
  assumes "allowances_ok s" "list_all in_i128 (call_amounts c)"
  shows "wp (token_exec E c) (\<lambda>_. allowances_ok) s"
proof (cases c)
  case (Batch_transfer f rs)
  have "wp (for_each rs batch_credit) (\<lambda>_. allowances_ok) t" if "allowances_ok t" for t
    using that by (intro wp_for_each) (auto simp: wp_simps)
  then show ?thesis
    using assms unfolding Batch_transfer by (auto simp: wp_simps intro!: wp_batch_transfer)
qed (use assms get_allowance_range [OF assms(1)] in \<open>auto simp: wp_simps entry_guards in_i128_def
      initialize_def transfer_def transfer_from_def approve_def increase_allowance_def
      decrease_allowance_def transfer_admin_def mint_def admin_burn_def burn_def burn_from_def
      pause_def unpause_def add_allowed_metadata_key_def remove_allowed_metadata_key_def
      set_metadata_def remove_metadata_def intro!: allowances_ok_set add_nonneg_nonneg\<close>)

interpretation navin_allow: contract_invariant token_legal token_entry token_init allowances_ok
  by unfold_locales (simp_all add: token_entry_def token_legal_def token_exec_allowances
      allowances_ok_def token_init_def)

lemmas token_run = require_initialized_def require_not_paused_def is_initialized_def run_simps

definition sample_token_calls :: "(ledger_env \<times> token_call) list" where
  "sample_token_calls = [(sample_env, Initialize 1 ''Navin'' ''NVN'' 1000),
     (sample_env, Transfer 1 2 300), (sample_env, Approve 1 3 50 20), (sample_env, Burn 2 100)]"

definition sample_token :: token_state where
  "sample_token = run_calls token_entry sample_token_calls token_init"

lemma sample_token_reachable: "reachable token_legal token_entry token_init sample_token"
  unfolding sample_token_def
  by (rule run_calls_reachable) (simp add: sample_token_calls_def token_legal_def in_i128_def
      i128_max_def i128_min_def)

lemma sample_token_eq: "sample_token =
  \<lparr>tk_Admin = Some 1, tk_Name = Some ''Navin'', tk_Symbol = Some ''NVN'', tk_TotalSupply = Some 900,
   tk_Balance = [1 \<mapsto> 700, 2 \<mapsto> 200], tk_Allowance = [(1, 3) \<mapsto> \<lparr>amount = 50, expiration_ledger = 20\<rparr>],
   tk_AllowedMetadataKey = Map.empty, tk_Metadata = Map.empty, tk_Paused = None,
   tk_events = [(''init'', [VAddr 1, VI128 1000]), (''transfer'', [VAddr 1, VAddr 2, VI128 300]),
     (''approve'', [VAddr 1, VAddr 3, VI128 50, VU32 20]), (''burn'', [VAddr 2, VI128 100])],
   tk_ttl = [(KBalance 1, 1000, 500000), (KBalance 2, 1000, 500000), (KAllowance 1 3, 1000, 500000)]\<rparr>"
  by (simp add: sample_token_def sample_token_calls_def token_entry_def invoke_def token_run
    initialize_def transfer_def approve_def burn_def map_err_def
    i128_checked_add_def i128_checked_sub_def in_i128_def i128_min_def i128_max_def
    get_balance_def set_balance_def set_total_supply_def set_admin_def set_name_def
    set_symbol_def token_init_def publish_def extend_balance_ttl_def storage_is_paused_def
    set_allowance_def extend_allowance_ttl_def get_total_supply_def i128_sub_def)

lemma get_allowance_writes [simp]:
  "get_allowance E f p (publish k l s) = get_allowance E f p s"
  "get_allowance E f p (set_balance a v s) = get_allowance E f p s"
  "get_allowance E f p (extend_allowance_ttl g q th ex s) = get_allowance E f p s"
  by (simp_all add: get_allowance_def publish_def set_balance_def extend_allowance_ttl_def)

lemma get_allowance_respent:
  "0 < get_allowance E f p s \<Longrightarrow>
   get_allowance E f p (set_allowance f p v (kept_expiration f p s) t) = v"
  by (auto simp: get_allowance_def set_allowance_def kept_expiration_def get_allowance_raw_def
      split: option.splits if_splits)

section \<open>Properties\<close>

text \<open>
  C18. In every state the token contract can reach, no balance is negative, the balances add up to
  the recorded total supply, and the supply is an \<open>i128\<close>.
\<close>

theorem token_supply_conserved: "reachable token_legal token_entry token_init s \<Longrightarrow> token_inv s"
  by (rule navin.Inv_reachable)

theorem token_supply_conserved_witness:
  "reachable token_legal token_entry token_init sample_token \<and> token_inv sample_token"
  by (intro conjI token_supply_conserved sample_token_reachable)





text \<open>
  C28. A successful \<open>batch_transfer\<close> debits the sender by the sum of the legs and credits every
  other account by the sum of its own legs, also when a recipient occurs several times.
\<close>

theorem batch_transfer_correct:
  assumes "batch_transfer E f rs s = (Inr (), u)"
  shows "get_balance a u =
     (if a = f then get_balance f s - sum_list (map snd rs) else get_balance a s + legs_to a rs)"
proof -
  have "wp (batch_transfer E f rs) (\<lambda>_ u. get_balance a u =
     (if a = f then get_balance f s - sum_list (map snd rs) else get_balance a s + legs_to a rs)) s"
  proof (rule wp_batch_transfer)
    fix t
    assume legs: "\<forall>(to, amt)\<in>set rs. 0 < amt \<and> to \<noteq> f"
      and t: "t = set_balance f (get_balance f s - sum_list (map snd rs)) s"
    from legs have "legs_to f rs = 0" by (induction rs) auto
    then show "wp (for_each rs batch_credit)
        (\<lambda>_ u. get_balance a (publish ''batch_tr'' [VAddr f, VU32 (length rs)] u) =
          (if a = f then get_balance f s - sum_list (map snd rs)
           else get_balance a s + legs_to a rs)) t"
      unfolding t by (intro wp_mono [OF wp_batch_credits_exact]) simp
  qed
  from wpD [OF this assms] show ?thesis .
qed

theorem batch_transfer_correct_witness:
  "\<exists>u. batch_transfer sample_env 1 [(2, 10), (4, 5), (2, 1)] sample_token = (Inr (), u) \<and>
     get_balance 2 u = get_balance 2 sample_token + legs_to 2 [(2, 10), (4, 5), (2, 1)]"
proof -
  obtain u where "batch_transfer sample_env 1 [(2, 10), (4, 5), (2, 1)] sample_token = (Inr (), u)"
    by (simp add: sample_token_eq batch_transfer_def token_run get_balance_def set_balance_def
        batch_credit_def storage_is_paused_def i128_checked_add_def in_i128_def i128_max_def
        i128_min_def)
  with batch_transfer_correct [OF this, of 2] show ?thesis by auto
qed

text \<open>
  C40. \<open>increase_allowance\<close> on an allowance that is absent or has expired reports success and
  stores the increased amount under the old expiration ledger, so the spender can still spend
  nothing: the call has no effect on what \<open>allowance\<close> returns.
\<close>

theorem increase_allowance_expired:
  assumes "get_allowance_raw f p s = None \<and> 0 < sequence E \<or>
      (\<exists>v. get_allowance_raw f p s = Some v \<and> expiration_ledger v < sequence E)"
    and "increase_allowance E f p d s = (Inr (), u)"
  shows "get_allowance E f p u = 0"
proof -
  have "wp (increase_allowance E f p d) (\<lambda>_ u. get_allowance E f p u = 0) s"
    using assms(1)
    by (auto simp: increase_allowance_def entry_guards wp_simps kept_expiration_def
        get_allowance_raw_def) (auto simp: get_allowance_def set_allowance_def)
  from wpD [OF this assms(2)] show ?thesis .
qed

theorem increase_allowance_expired_witness:
  "\<exists>u. increase_allowance sample_env 2 3 40 sample_token = (Inr (), u) \<and>
     get_allowance sample_env 2 3 u = 0"
proof -
  obtain u where u: "increase_allowance sample_env 2 3 40 sample_token = (Inr (), u)"
    by (simp add: sample_token_eq increase_allowance_def token_run get_allowance_def
        i128_checked_add_def in_i128_def i128_max_def i128_min_def)
  from increase_allowance_expired [OF _ u] u show ?thesis
    by (auto simp: sample_token_eq get_allowance_raw_def)
qed

end
