(* ===== verification/Types.thy ===== *)
theory Types
  imports Host
begin

text \<open>
  The data of the shipment contract: the errors of \<open>errors.rs\<close>, the enums and structs of
  \<open>types.rs\<close>, and the records other modules keep in storage (\<open>config.rs\<close>,
  \<open>circuit_breaker.rs\<close>, \<open>audit.rs\<close>, \<open>rate_limit.rs\<close>). A field has its source name
  after a short prefix for its struct; an enum whose variants another enum repeats has them
  prefixed too.
\<close>

section \<open>Errors\<close>

datatype NavinError =
    AlreadyInitialized | NotInitialized | Unauthorized | ShipmentNotFound | InvalidStatus
  | InvalidHash | EscrowLocked | InsufficientFunds | ShipmentAlreadyCompleted | InvalidTimestamp
  | CounterOverflow | InvalidAmount | ReentrancyDetected | BatchTooLarge | InvalidShipmentInput
  | MilestoneSumInvalid | MilestoneAlreadyPaid | MetadataLimitExceeded | RateLimitExceeded
  | ProposalNotFound | ProposalAlreadyExecuted | ProposalExpired | AlreadyApproved
  | InsufficientApprovals | NotAnAdmin | InvalidMultiSigConfig | NotExpired | ShipmentLimitReached
  | InvalidConfig | CannotSelfRevoke | CarrierSuspended | ForceCancelReasonHashMissing
  | ArithmeticError | DisputeReasonHashMissing | CompanySuspended | ShipmentFinalized
  | TokenTransferFailed | TokenMintFailed | DuplicateAction | ShipmentUnavailable | ContractPaused
  | StatusHashNotFound | DataHashMismatch | CircuitBreakerOpen | InvalidMigrationEdge
  | MilestoneLimitExceeded | NoteLimitExceeded | EvidenceLimitExceeded | BreachLimitExceeded
  | InvalidTokenDecimals | CreationQuotaExceeded | DependenciesNotMet | CircularDependency
  | ProposalSaltReused | InvalidShipmentParticipants | InvalidShipmentDeadline
  | InvalidPaymentMilestones | DuplicatePaymentMilestone | InvalidTokenAddress
  | InvalidPaymentMilestoneName | MetadataSymbolCollision | ExternalIntegrationFailed
  | InvalidSymbol | NoteNotFound | EvidenceNotFound | RoleAlreadyAssigned
  | CarrierAlreadyWhitelisted | InvalidAddress | RecoveryLimitExceeded

text \<open>The discriminants: \<open>e as u32\<close>.\<close>

primrec error_code :: "NavinError \<Rightarrow> nat" where
  "error_code AlreadyInitialized = 1"
| "error_code NotInitialized = 2"
| "error_code Unauthorized = 3"
| "error_code ShipmentNotFound = 4"
| "error_code InvalidStatus = 5"
| "error_code InvalidHash = 6"
| "error_code EscrowLocked = 7"
| "error_code InsufficientFunds = 8"
| "error_code ShipmentAlreadyCompleted = 9"
| "error_code InvalidTimestamp = 10"
| "error_code CounterOverflow = 11"
| "error_code InvalidAmount = 14"
| "error_code ReentrancyDetected = 15"
| "error_code BatchTooLarge = 16"
| "error_code InvalidShipmentInput = 17"
| "error_code MilestoneSumInvalid = 18"
| "error_code MilestoneAlreadyPaid = 19"
| "error_code MetadataLimitExceeded = 20"
| "error_code RateLimitExceeded = 21"
| "error_code ProposalNotFound = 22"
| "error_code ProposalAlreadyExecuted = 23"
| "error_code ProposalExpired = 24"
| "error_code AlreadyApproved = 25"
| "error_code InsufficientApprovals = 26"
| "error_code NotAnAdmin = 27"
| "error_code InvalidMultiSigConfig = 28"
| "error_code NotExpired = 29"
| "error_code ShipmentLimitReached = 30"
| "error_code InvalidConfig = 31"
| "error_code CannotSelfRevoke = 32"
| "error_code CarrierSuspended = 33"
| "error_code ForceCancelReasonHashMissing = 34"
| "error_code ArithmeticError = 35"
| "error_code DisputeReasonHashMissing = 36"
| "error_code CompanySuspended = 37"
| "error_code ShipmentFinalized = 38"
| "error_code TokenTransferFailed = 39"
| "error_code TokenMintFailed = 40"
| "error_code DuplicateAction = 41"
| "error_code ShipmentUnavailable = 42"
| "error_code ContractPaused = 43"
| "error_code StatusHashNotFound = 44"
| "error_code DataHashMismatch = 45"
| "error_code CircuitBreakerOpen = 46"
| "error_code InvalidMigrationEdge = 47"
| "error_code MilestoneLimitExceeded = 48"
| "error_code NoteLimitExceeded = 49"
| "error_code EvidenceLimitExceeded = 50"
| "error_code BreachLimitExceeded = 51"
| "error_code InvalidTokenDecimals = 52"
| "error_code CreationQuotaExceeded = 53"
| "error_code DependenciesNotMet = 54"
| "error_code CircularDependency = 55"
| "error_code ProposalSaltReused = 56"
| "error_code InvalidShipmentParticipants = 57"
| "error_code InvalidShipmentDeadline = 58"
| "error_code InvalidPaymentMilestones = 59"
| "error_code DuplicatePaymentMilestone = 60"
| "error_code InvalidTokenAddress = 61"
| "error_code InvalidPaymentMilestoneName = 62"
| "error_code MetadataSymbolCollision = 63"
| "error_code ExternalIntegrationFailed = 64"
| "error_code InvalidSymbol = 65"
| "error_code NoteNotFound = 66"
| "error_code EvidenceNotFound = 67"
| "error_code RoleAlreadyAssigned = 68"
| "error_code CarrierAlreadyWhitelisted = 69"
| "error_code InvalidAddress = 70"
| "error_code RecoveryLimitExceeded = 71"

section \<open>Enums\<close>

datatype Role = Company | Carrier | Guardian | Operator | Unassigned

datatype RoleChangeAction = Assigned | Revoked | Suspended | Reactivated

datatype EscrowFreezeReason =
    FrDisputeRaised | FrCarrierSuspended | FrCompanySuspended | FrContractPaused
  | FrCircuitBreakerOpen

datatype ShipmentStatus =
    Created | InTransit | AtCheckpoint | PartiallyDelivered | Delivered | Disputed | Cancelled
  | PartiallyRefunded

text \<open>The match of \<open>ShipmentStatus::is_valid_transition\<close>, arm by arm.\<close>

fun is_valid_transition :: "ShipmentStatus \<Rightarrow> ShipmentStatus \<Rightarrow> bool" where
  "is_valid_transition Created InTransit = True"
| "is_valid_transition Created Cancelled = True"
| "is_valid_transition Created Disputed = True"
| "is_valid_transition InTransit AtCheckpoint = True"
| "is_valid_transition InTransit PartiallyDelivered = True"
| "is_valid_transition InTransit Delivered = True"
| "is_valid_transition InTransit Disputed = True"
| "is_valid_transition InTransit Cancelled = True"
| "is_valid_transition AtCheckpoint AtCheckpoint = False"
| "is_valid_transition AtCheckpoint InTransit = True"
| "is_valid_transition AtCheckpoint PartiallyDelivered = True"
| "is_valid_transition AtCheckpoint Delivered = True"
| "is_valid_transition PartiallyDelivered PartiallyDelivered = True"
| "is_valid_transition PartiallyDelivered Delivered = True"
| "is_valid_transition PartiallyDelivered Disputed = True"
| "is_valid_transition PartiallyDelivered Cancelled = True"
| "is_valid_transition AtCheckpoint Disputed = True"
| "is_valid_transition AtCheckpoint Cancelled = True"
| "is_valid_transition Disputed Cancelled = True"
| "is_valid_transition Disputed Delivered = True"
| "is_valid_transition PartiallyRefunded _ = False"
| "is_valid_transition Disputed PartiallyRefunded = True"
| "is_valid_transition s Cancelled = (s \<noteq> Delivered \<and> s \<noteq> Cancelled)"
| "is_valid_transition s Disputed = (s \<noteq> Cancelled \<and> s \<noteq> Delivered \<and> s \<noteq> Disputed)"
| "is_valid_transition _ _ = False"

datatype BreachType =
  TemperatureHigh | TemperatureLow | HumidityHigh | Impact | TamperDetected

datatype Severity = Low | Medium | High | Critical

datatype SettlementState = SettlementNone | Pending | Completed | Failed

datatype SettlementOperation = Deposit | Release | Refund | MilestonePayment

datatype GeofenceEvent = ZoneEntry | ZoneExit | RouteDeviation

datatype RecoveryActionType =
  RecoverShipment | UnlockEscrow | ClearFinalization | RollbackOnExternalFailure

datatype StoragePresenceState =
  ActivePersistent | ArchivedExpected | Missing | InconsistentDualPresence

datatype DisputeResolution = ReleaseToCarrier | RefundToCompany

datatype AdminAction =
    Upgrade hash
  | TransferAdmin addr
  | ForceRelease nat
  | ForceRefund nat

datatype NotificationType =
    NShipmentCreated | NStatusChanged | NDeliveryConfirmed | NEscrowReleased | NDisputeRaised
  | NDisputeResolved | NDeadlineApproaching

datatype CircuitBreakerState = Closed | Open | HalfOpen

datatype AuditEventType =
    ARoleAssigned | ARoleRevoked | ARoleSuspended | ARoleReactivated | AAdminTransferred
  | ACarrierWhitelisted | ACarrierUnwhitelisted | ACompanySuspended | ACompanyReactivated
  | ACarrierSuspended | ACarrierReactivated

section \<open>Structs\<close>

record Shipment =
  sh_id :: nat
  sh_sender :: addr
  sh_receiver :: addr
  sh_carrier :: addr
  sh_status :: ShipmentStatus
  sh_data_hash :: hash
  sh_created_at :: nat
  sh_updated_at :: nat
  sh_escrow_amount :: int
  sh_total_escrow :: int
  sh_metadata :: "(sym \<times> sym) list option"
  sh_payment_milestones :: "(sym \<times> nat) list"
  sh_paid_milestones :: "sym list"
  sh_milestones_completed :: "sym list"
  sh_deadline :: nat
  sh_integration_nonce :: nat
  sh_finalized :: bool

record Milestone =
  ms_shipment_id :: nat
  ms_checkpoint :: sym
  ms_data_hash :: hash
  ms_timestamp :: nat
  ms_reporter :: addr

record SettlementRecord =
  st_settlement_id :: nat
  st_shipment_id :: nat
  st_operation :: SettlementOperation
  st_state :: SettlementState
  st_amount :: int
  st_from :: addr
  st_to :: addr
  st_initiated_at :: nat
  st_completed_at :: "nat option"
  st_error_code :: "nat option"

record ShipmentInput =
  in_receiver :: addr
  in_carrier :: addr
  in_data_hash :: hash
  in_payment_milestones :: "(sym \<times> nat) list"
  in_deadline :: nat

record RecoveryRecord =
  rr_action_type :: RecoveryActionType
  rr_admin :: addr
  rr_reason_hash :: hash
  rr_timestamp :: nat

record Proposal =
  pr_id :: nat
  pr_proposer :: addr
  pr_action :: AdminAction
  pr_approvals :: "addr list"
  pr_created_at :: nat
  pr_expires_at :: nat
  pr_executed :: bool

record CreationQuotaTracker =
  cq_count :: nat
  cq_window_start :: nat

record ProposalActionDigest =
  pd_proposal_id :: nat
  pd_digest :: hash
  pd_computed_at :: nat

record FeeConfig =
  fee_bps :: nat
  fee_treasury :: addr

record ContractConfig =
  shipment_ttl_threshold :: nat
  shipment_ttl_extension :: nat
  min_status_update_interval :: nat
  batch_operation_limit :: nat
  max_metadata_entries :: nat
  default_shipment_limit :: nat
  multisig_min_admins :: nat
  multisig_max_admins :: nat
  proposal_expiry_seconds :: nat
  deadline_grace_seconds :: nat
  idempotency_window_seconds :: nat
  auto_dispute_breach :: bool
  max_milestones_per_shipment :: nat
  max_notes_per_shipment :: nat
  max_evidence_per_dispute :: nat
  max_breaches_per_shipment :: nat
  creation_quota_max :: nat
  creation_quota_window_seconds :: nat

record CircuitBreakerConfig =
  cb_failure_threshold :: nat
  cb_recovery_timeout :: nat
  cb_half_open_max_requests :: nat

record CircuitBreakerTracker =
  cb_state :: CircuitBreakerState
  cb_failure_count :: nat
  cb_opened_at :: nat
  cb_half_open_requests :: nat

record AuditLogEntry =
  ae_entry_id :: nat
  ae_event_type :: AuditEventType
  ae_actor :: addr
  ae_target :: addr
  ae_timestamp :: nat

record QuotaTracker =
  qt_operations_count :: nat
  qt_window_start :: nat

section \<open>Constants\<close>

definition HASH_ALGO_SHA256 :: nat where "HASH_ALGO_SHA256 = 1"
definition DEFAULT_HASH_ALGO :: nat where "DEFAULT_HASH_ALGO = HASH_ALGO_SHA256"
definition EXPECTED_TOKEN_DECIMALS :: nat where "EXPECTED_TOKEN_DECIMALS = 7"
definition MAX_RECOVERY_RECORDS_PER_SHIPMENT :: nat where
  "MAX_RECOVERY_RECORDS_PER_SHIPMENT = 20"

section \<open>The status machine\<close>

definition terminal :: "ShipmentStatus \<Rightarrow> bool" where
  "terminal s \<longleftrightarrow> s = Delivered \<or> s = Cancelled \<or> s = PartiallyRefunded"

lemma terminal_stuck: "terminal a \<Longrightarrow> \<not> is_valid_transition a b"
  by (cases a; cases b) (simp_all add: terminal_def)

lemma transition_to_Created: "\<not> is_valid_transition a Created"
  by (cases a) simp_all

inductive status_step :: "ShipmentStatus \<Rightarrow> ShipmentStatus \<Rightarrow> bool" where
  step: "is_valid_transition a b \<Longrightarrow> status_step a b"

lemma status_step_iff: "status_step a b = is_valid_transition a b"
  by (auto intro: status_step.step elim: status_step.cases)

text \<open>Every status that is not terminal can still be delivered, and also cancelled.\<close>

lemma can_be_delivered: "\<not> terminal a \<Longrightarrow> status_step\<^sup>*\<^sup>* a Delivered"
proof -
  have "status_step Created InTransit" "status_step InTransit Delivered"
    "status_step AtCheckpoint Delivered" "status_step PartiallyDelivered Delivered"
    "status_step Disputed Delivered" by (simp_all add: status_step_iff)
  then show "\<not> terminal a \<Longrightarrow> status_step\<^sup>*\<^sup>* a Delivered"
    by (cases a) (auto simp: terminal_def intro: rtranclp.rtrancl_into_rtrancl r_into_rtranclp
        converse_rtranclp_into_rtranclp)
qed

lemma can_be_cancelled: "\<not> terminal a \<Longrightarrow> is_valid_transition a Cancelled"
  by (cases a) (simp_all add: terminal_def)

end
