(* ===== verification/Store.thy ===== *)
theory Store
  imports Types
begin

text \<open>
  The storage of the shipment contract, \<open>storage.rs\<close>. The state has one field per \<open>DataKey\<close>
  (instance, persistent and temporary keys alike; an absent entry is \<open>None\<close>), the token ledger
  the contract calls into, and the traces of the events and of the time-to-live requests handed
  to the host. A getter is a function of the state, a setter a function on states, a function that
  can trap or return an error a computation. A storage function whose name an entry point of
  \<open>lib.rs\<close> repeats is written \<open>storage_\<dots>\<close>.
\<close>

section \<open>State\<close>

text \<open>Enum values an event can carry.\<close>

datatype enum_val =
    EStatus ShipmentStatus
  | ERole Role
  | ERoleAction RoleChangeAction
  | EFreeze EscrowFreezeReason
  | EBreach BreachType
  | ESeverity Severity
  | EGeofence GeofenceEvent
  | ENotification NotificationType
  | EResolution DisputeResolution
  | EAction AdminAction
  | EConfig ContractConfig

text \<open>Keys whose time to live the contract extends.\<close>

datatype ttl_key =
    TInstance
  | TShipment nat
  | TEscrow nat
  | TConfirmationHash nat
  | TEscrowFreezeReason nat
  | TIdempotencyWindow hash

record 't store =
  k_Admin :: "addr option"
  k_Version :: "nat option"
  k_ShipmentCount :: "nat option"
  k_CarrierSuspended :: "addr \<Rightarrow> bool option"
  k_CompanySuspended :: "addr \<Rightarrow> bool option"
  k_Shipment :: "nat \<Rightarrow> Shipment option"
  k_CarrierWhitelist :: "addr \<times> addr \<Rightarrow> bool option"
  k_UserRole :: "addr \<times> Role \<Rightarrow> bool option"
  k_RoleSuspended :: "addr \<times> Role \<Rightarrow> bool option"
  k_Escrow :: "nat \<Rightarrow> int option"
  k_Role :: "addr \<Rightarrow> Role option"
  k_ConfirmationHash :: "nat \<Rightarrow> hash option"
  k_TokenContract :: "addr option"
  k_LastStatusUpdate :: "nat \<Rightarrow> nat option"
  k_ProposedAdmin :: "addr option"
  k_AdminList :: "addr list option"
  k_MultiSigThreshold :: "nat option"
  k_ProposalCounter :: "nat option"
  k_Proposal :: "nat \<Rightarrow> Proposal option"
  k_TotalEscrowVolume :: "int option"
  k_TotalDisputes :: "nat option"
  k_StatusCount :: "ShipmentStatus \<Rightarrow> nat option"
  k_ShipmentLimit :: "nat option"
  k_CompanyShipmentLimit :: "addr \<Rightarrow> nat option"
  k_ActiveShipmentCount :: "addr \<Rightarrow> nat option"
  k_ContractConfig :: "ContractConfig option"
  k_EventCount :: "nat \<Rightarrow> nat option"
  k_ArchivedShipment :: "nat \<Rightarrow> Shipment option"
  k_ShipmentNote :: "nat \<times> nat \<Rightarrow> hash option"
  k_ShipmentNoteCount :: "nat \<Rightarrow> nat option"
  k_DisputeEvidence :: "nat \<times> nat \<Rightarrow> hash option"
  k_DisputeEvidenceCount :: "nat \<Rightarrow> nat option"
  k_ConfigChecksum :: "hash option"
  k_MilestoneEventCount :: "nat \<Rightarrow> nat option"
  k_IdempotencyWindow :: "hash \<Rightarrow> bool option"
  k_StatusHash :: "nat \<times> ShipmentStatus \<Rightarrow> hash option"
  k_IsPaused :: "bool option"
  k_FeeConfig :: "FeeConfig option"
  k_Treasury :: "addr option"
  k_ActorQuota :: "addr \<Rightarrow> QuotaTracker option"
  k_CircuitBreakerState :: "CircuitBreakerTracker option"
  k_CircuitBreakerConfig :: "CircuitBreakerConfig option"
  k_AuditEntry :: "nat \<Rightarrow> AuditLogEntry option"
  k_AuditEntryCount :: "nat option"
  k_BreachEventCount :: "nat \<Rightarrow> nat option"
  k_ReentrancyLock :: "bool option"
  k_SettlementCounter :: "nat option"
  k_Settlement :: "nat \<Rightarrow> SettlementRecord option"
  k_ActiveSettlement :: "nat \<Rightarrow> nat option"
  k_EscrowFreezeReasonByShipment :: "nat \<Rightarrow> EscrowFreezeReason option"
  k_CompanyCreationQuota :: "addr \<Rightarrow> CreationQuotaTracker option"
  k_ProposalDigest :: "nat \<Rightarrow> ProposalActionDigest option"
  k_RecoveryRecord :: "nat \<times> nat \<Rightarrow> RecoveryRecord option"
  k_RecoveryRecordCount :: "nat \<Rightarrow> nat option"
  k_ProposalSalt :: "hash \<Rightarrow> bool option"
  k_ShipmentDependents :: "nat \<Rightarrow> nat list option"
  code_hash :: "hash option"
  event_log :: "enum_val event list"
  ttl_log :: "ttl_key ttl_request list"
  tokens :: 't

definition store_init :: "'t \<Rightarrow> 't store" where
  "store_init tk = \<lparr>k_Admin = None, k_Version = None, k_ShipmentCount = None,
     k_CarrierSuspended = Map.empty, k_CompanySuspended = Map.empty, k_Shipment = Map.empty,
     k_CarrierWhitelist = Map.empty, k_UserRole = Map.empty, k_RoleSuspended = Map.empty,
     k_Escrow = Map.empty, k_Role = Map.empty, k_ConfirmationHash = Map.empty,
     k_TokenContract = None, k_LastStatusUpdate = Map.empty, k_ProposedAdmin = None,
     k_AdminList = None, k_MultiSigThreshold = None, k_ProposalCounter = None,
     k_Proposal = Map.empty, k_TotalEscrowVolume = None, k_TotalDisputes = None,
     k_StatusCount = Map.empty, k_ShipmentLimit = None, k_CompanyShipmentLimit = Map.empty,
     k_ActiveShipmentCount = Map.empty, k_ContractConfig = None, k_EventCount = Map.empty,
     k_ArchivedShipment = Map.empty, k_ShipmentNote = Map.empty, k_ShipmentNoteCount = Map.empty,
     k_DisputeEvidence = Map.empty, k_DisputeEvidenceCount = Map.empty, k_ConfigChecksum = None,
     k_MilestoneEventCount = Map.empty, k_IdempotencyWindow = Map.empty,
     k_StatusHash = Map.empty, k_IsPaused = None, k_FeeConfig = None, k_Treasury = None,
     k_ActorQuota = Map.empty, k_CircuitBreakerState = None, k_CircuitBreakerConfig = None,
     k_AuditEntry = Map.empty, k_AuditEntryCount = None, k_BreachEventCount = Map.empty,
     k_ReentrancyLock = None, k_SettlementCounter = None, k_Settlement = Map.empty,
     k_ActiveSettlement = Map.empty, k_EscrowFreezeReasonByShipment = Map.empty,
     k_CompanyCreationQuota = Map.empty, k_ProposalDigest = Map.empty,
     k_RecoveryRecord = Map.empty, k_RecoveryRecordCount = Map.empty,
     k_ProposalSalt = Map.empty, k_ShipmentDependents = Map.empty, code_hash = None,
     event_log = [], ttl_log = [], tokens = tk\<rparr>"

type_synonym ('t, 'a) nav = "('t store, NavinError, 'a) comp"

text \<open>\<open>get(key).unwrap_or(d)\<close>\<close>

definition unwrap_or :: "'a \<Rightarrow> 'a option \<Rightarrow> 'a" where
  "unwrap_or d x = (case x of None \<Rightarrow> d | Some v \<Rightarrow> v)"

lemma unwrap_or_simps [simp]: "unwrap_or d None = d" "unwrap_or d (Some v) = v"
  by (simp_all add: unwrap_or_def)

section \<open>Administration\<close>

definition is_initialized :: "'t store \<Rightarrow> bool" where
  "is_initialized s \<longleftrightarrow> k_Admin s \<noteq> None"

definition storage_get_admin :: "('t, addr) nav" where
  "storage_get_admin = bind (gets k_Admin) unwrap"

definition set_admin :: "addr \<Rightarrow> 't store \<Rightarrow> 't store" where
  "set_admin a s = s\<lparr>k_Admin := Some a\<rparr>"

definition get_proposed_admin :: "'t store \<Rightarrow> addr option" where
  "get_proposed_admin s = k_ProposedAdmin s"

definition set_proposed_admin :: "addr \<Rightarrow> 't store \<Rightarrow> 't store" where
  "set_proposed_admin a s = s\<lparr>k_ProposedAdmin := Some a\<rparr>"

definition clear_proposed_admin :: "'t store \<Rightarrow> 't store" where
  "clear_proposed_admin s = s\<lparr>k_ProposedAdmin := None\<rparr>"

definition storage_get_version :: "'t store \<Rightarrow> nat" where
  "storage_get_version s = unwrap_or 1 (k_Version s)"

definition set_version :: "nat \<Rightarrow> 't store \<Rightarrow> 't store" where
  "set_version v s = s\<lparr>k_Version := Some v\<rparr>"

definition storage_get_shipment_counter :: "'t store \<Rightarrow> nat" where
  "storage_get_shipment_counter s = unwrap_or 0 (k_ShipmentCount s)"

definition set_shipment_counter :: "nat \<Rightarrow> 't store \<Rightarrow> 't store" where
  "set_shipment_counter n s = s\<lparr>k_ShipmentCount := Some n\<rparr>"

definition increment_shipment_counter :: "('t, nat) nav" where
  "increment_shipment_counter =
     bind (gets storage_get_shipment_counter) (\<lambda>cur.
       let nxt = unwrap_or cur (u64_checked_add cur 1) in
       andthen (modify (set_shipment_counter nxt)) (ret nxt))"

definition get_shipment_count :: "'t store \<Rightarrow> nat" where
  "get_shipment_count s = storage_get_shipment_counter s"

definition increment_shipment_count :: "('t, nat) nav" where
  "increment_shipment_count = increment_shipment_counter"

section \<open>Roles and whitelist\<close>

definition storage_add_carrier_to_whitelist :: "addr \<Rightarrow> addr \<Rightarrow> 't store \<Rightarrow> 't store" where
  "storage_add_carrier_to_whitelist company carrier s =
     s\<lparr>k_CarrierWhitelist := (k_CarrierWhitelist s)((company, carrier) \<mapsto> True)\<rparr>"

definition storage_remove_carrier_from_whitelist :: "addr \<Rightarrow> addr \<Rightarrow> 't store \<Rightarrow> 't store" where
  "storage_remove_carrier_from_whitelist company carrier s =
     s\<lparr>k_CarrierWhitelist := (k_CarrierWhitelist s)((company, carrier) := None)\<rparr>"

definition storage_is_carrier_whitelisted :: "addr \<Rightarrow> addr \<Rightarrow> 't store \<Rightarrow> bool" where
  "storage_is_carrier_whitelisted company carrier s =
     unwrap_or False (k_CarrierWhitelist s (company, carrier))"

definition set_role :: "addr \<Rightarrow> Role \<Rightarrow> 't store \<Rightarrow> 't store" where
  "set_role a r s = s\<lparr>k_UserRole := (k_UserRole s)((a, r) \<mapsto> True), k_Role := (k_Role s)(a \<mapsto> r)\<rparr>"

definition has_role :: "addr \<Rightarrow> Role \<Rightarrow> 't store \<Rightarrow> bool" where
  "has_role a r s = unwrap_or False (k_UserRole s (a, r))"

definition storage_get_role :: "addr \<Rightarrow> 't store \<Rightarrow> Role option" where
  "storage_get_role a s = k_Role s a"

definition set_company_role :: "addr \<Rightarrow> 't store \<Rightarrow> 't store" where
  "set_company_role a = set_role a Company"

definition set_carrier_role :: "addr \<Rightarrow> 't store \<Rightarrow> 't store" where
  "set_carrier_role a = set_role a Carrier"

definition storage_revoke_role :: "addr \<Rightarrow> Role \<Rightarrow> 't store \<Rightarrow> 't store" where
  "storage_revoke_role a r s =
     s\<lparr>k_UserRole := (k_UserRole s)((a, r) := None), k_Role := (k_Role s)(a \<mapsto> Unassigned)\<rparr>"

definition storage_suspend_role :: "addr \<Rightarrow> Role \<Rightarrow> 't store \<Rightarrow> 't store" where
  "storage_suspend_role a r s = s\<lparr>k_RoleSuspended := (k_RoleSuspended s)((a, r) \<mapsto> True)\<rparr>"

definition storage_reactivate_role :: "addr \<Rightarrow> Role \<Rightarrow> 't store \<Rightarrow> 't store" where
  "storage_reactivate_role a r s = s\<lparr>k_RoleSuspended := (k_RoleSuspended s)((a, r) := None)\<rparr>"

definition is_role_suspended :: "addr \<Rightarrow> Role \<Rightarrow> 't store \<Rightarrow> bool" where
  "is_role_suspended a r s = unwrap_or False (k_RoleSuspended s (a, r))"

definition has_company_role :: "addr \<Rightarrow> 't store \<Rightarrow> bool" where
  "has_company_role a = has_role a Company"

definition has_carrier_role :: "addr \<Rightarrow> 't store \<Rightarrow> bool" where
  "has_carrier_role a = has_role a Carrier"

definition storage_suspend_carrier :: "addr \<Rightarrow> 't store \<Rightarrow> 't store" where
  "storage_suspend_carrier a s = s\<lparr>k_CarrierSuspended := (k_CarrierSuspended s)(a \<mapsto> True)\<rparr>"

definition storage_reactivate_carrier :: "addr \<Rightarrow> 't store \<Rightarrow> 't store" where
  "storage_reactivate_carrier a s = s\<lparr>k_CarrierSuspended := (k_CarrierSuspended s)(a := None)\<rparr>"

definition storage_is_carrier_suspended :: "addr \<Rightarrow> 't store \<Rightarrow> bool" where
  "storage_is_carrier_suspended a s = unwrap_or False (k_CarrierSuspended s a)"

definition storage_suspend_company :: "addr \<Rightarrow> 't store \<Rightarrow> 't store" where
  "storage_suspend_company a s = s\<lparr>k_CompanySuspended := (k_CompanySuspended s)(a \<mapsto> True)\<rparr>"

definition storage_reactivate_company :: "addr \<Rightarrow> 't store \<Rightarrow> 't store" where
  "storage_reactivate_company a s = s\<lparr>k_CompanySuspended := (k_CompanySuspended s)(a := None)\<rparr>"

definition storage_is_company_suspended :: "addr \<Rightarrow> 't store \<Rightarrow> bool" where
  "storage_is_company_suspended a s = unwrap_or False (k_CompanySuspended s a)"

section \<open>Shipments and escrow\<close>

text \<open>\<open>get_shipment\<close> looks in persistent storage first, then among the archived shipments.\<close>

definition storage_get_shipment :: "nat \<Rightarrow> 't store \<Rightarrow> Shipment option" where
  "storage_get_shipment i s =
     (case k_Shipment s i of Some sh \<Rightarrow> Some sh | None \<Rightarrow> k_ArchivedShipment s i)"

definition has_persistent_shipment :: "nat \<Rightarrow> 't store \<Rightarrow> bool" where
  "has_persistent_shipment i s \<longleftrightarrow> k_Shipment s i \<noteq> None"

definition get_persistent_shipment :: "nat \<Rightarrow> 't store \<Rightarrow> Shipment option" where
  "get_persistent_shipment i s = k_Shipment s i"

definition has_escrow_entry :: "nat \<Rightarrow> 't store \<Rightarrow> bool" where
  "has_escrow_entry i s \<longleftrightarrow> k_Escrow s i \<noteq> None"

definition has_confirmation_hash_entry :: "nat \<Rightarrow> 't store \<Rightarrow> bool" where
  "has_confirmation_hash_entry i s \<longleftrightarrow> k_ConfirmationHash s i \<noteq> None"

definition has_last_status_update_entry :: "nat \<Rightarrow> 't store \<Rightarrow> bool" where
  "has_last_status_update_entry i s \<longleftrightarrow> k_LastStatusUpdate s i \<noteq> None"

definition has_event_count_entry :: "nat \<Rightarrow> 't store \<Rightarrow> bool" where
  "has_event_count_entry i s \<longleftrightarrow> k_EventCount s i \<noteq> None"

definition set_shipment :: "Shipment \<Rightarrow> 't store \<Rightarrow> 't store" where
  "set_shipment sh s = s\<lparr>k_Shipment := (k_Shipment s)(sh_id sh \<mapsto> sh)\<rparr>"

definition get_escrow :: "nat \<Rightarrow> 't store \<Rightarrow> int" where
  "get_escrow i s = unwrap_or 0 (k_Escrow s i)"

definition set_escrow :: "nat \<Rightarrow> int \<Rightarrow> 't store \<Rightarrow> 't store" where
  "set_escrow i v s = s\<lparr>k_Escrow := (k_Escrow s)(i \<mapsto> v)\<rparr>"

definition storage_get_escrow_freeze_reason :: "nat \<Rightarrow> 't store \<Rightarrow> EscrowFreezeReason option" where
  "storage_get_escrow_freeze_reason i s = k_EscrowFreezeReasonByShipment s i"

definition set_escrow_freeze_reason :: "nat \<Rightarrow> EscrowFreezeReason \<Rightarrow> 't store \<Rightarrow> 't store" where
  "set_escrow_freeze_reason i r s =
     s\<lparr>k_EscrowFreezeReasonByShipment := (k_EscrowFreezeReasonByShipment s)(i \<mapsto> r)\<rparr>"

definition remove_escrow :: "nat \<Rightarrow> 't store \<Rightarrow> 't store" where
  "remove_escrow i s = s\<lparr>k_Escrow := (k_Escrow s)(i := None)\<rparr>"

definition set_escrow_balance :: "nat \<Rightarrow> int \<Rightarrow> 't store \<Rightarrow> 't store" where
  "set_escrow_balance = set_escrow"

definition remove_escrow_balance :: "nat \<Rightarrow> 't store \<Rightarrow> 't store" where
  "remove_escrow_balance = remove_escrow"

definition storage_get_escrow_balance :: "nat \<Rightarrow> 't store \<Rightarrow> int" where
  "storage_get_escrow_balance = get_escrow"

definition set_confirmation_hash :: "nat \<Rightarrow> hash \<Rightarrow> 't store \<Rightarrow> 't store" where
  "set_confirmation_hash i h s = s\<lparr>k_ConfirmationHash := (k_ConfirmationHash s)(i \<mapsto> h)\<rparr>"

definition get_confirmation_hash :: "nat \<Rightarrow> 't store \<Rightarrow> hash option" where
  "get_confirmation_hash i s = k_ConfirmationHash s i"

definition request_ttl :: "bool \<Rightarrow> ttl_key \<Rightarrow> nat \<Rightarrow> nat \<Rightarrow> 't store \<Rightarrow> 't store" where
  "request_ttl present key threshold extend_to s =
     (if present then s\<lparr>ttl_log := ttl_log s @ [(key, threshold, extend_to)]\<rparr> else s)"

definition storage_extend_shipment_ttl :: "nat \<Rightarrow> nat \<Rightarrow> nat \<Rightarrow> 't store \<Rightarrow> 't store" where
  "storage_extend_shipment_ttl i threshold extend_to s =
     request_ttl (k_EscrowFreezeReasonByShipment s i \<noteq> None) (TEscrowFreezeReason i) threshold extend_to
    (request_ttl (k_ConfirmationHash s i \<noteq> None) (TConfirmationHash i) threshold extend_to
    (request_ttl (k_Escrow s i \<noteq> None) (TEscrow i) threshold extend_to
    (request_ttl (k_Shipment s i \<noteq> None) (TShipment i) threshold extend_to s)))"

definition get_token_contract :: "'t store \<Rightarrow> addr option" where
  "get_token_contract s = k_TokenContract s"

definition set_token_contract :: "addr \<Rightarrow> 't store \<Rightarrow> 't store" where
  "set_token_contract a s = s\<lparr>k_TokenContract := Some a\<rparr>"

definition get_last_status_update :: "nat \<Rightarrow> 't store \<Rightarrow> nat option" where
  "get_last_status_update i s = k_LastStatusUpdate s i"

definition set_last_status_update :: "nat \<Rightarrow> nat \<Rightarrow> 't store \<Rightarrow> 't store" where
  "set_last_status_update i t s = s\<lparr>k_LastStatusUpdate := (k_LastStatusUpdate s)(i \<mapsto> t)\<rparr>"

section \<open>Multi-signature administration\<close>

definition get_admin_list :: "'t store \<Rightarrow> addr list option" where
  "get_admin_list s = k_AdminList s"

definition set_admin_list :: "addr list \<Rightarrow> 't store \<Rightarrow> 't store" where
  "set_admin_list as s = s\<lparr>k_AdminList := Some as\<rparr>"

definition get_multisig_threshold :: "'t store \<Rightarrow> nat option" where
  "get_multisig_threshold s = k_MultiSigThreshold s"

definition set_multisig_threshold :: "nat \<Rightarrow> 't store \<Rightarrow> 't store" where
  "set_multisig_threshold n s = s\<lparr>k_MultiSigThreshold := Some n\<rparr>"

definition get_proposal_counter :: "'t store \<Rightarrow> nat" where
  "get_proposal_counter s = unwrap_or 0 (k_ProposalCounter s)"

definition set_proposal_counter :: "nat \<Rightarrow> 't store \<Rightarrow> 't store" where
  "set_proposal_counter n s = s\<lparr>k_ProposalCounter := Some n\<rparr>"

definition storage_get_proposal :: "nat \<Rightarrow> 't store \<Rightarrow> Proposal option" where
  "storage_get_proposal i s = k_Proposal s i"

definition set_proposal :: "Proposal \<Rightarrow> 't store \<Rightarrow> 't store" where
  "set_proposal p s = s\<lparr>k_Proposal := (k_Proposal s)(pr_id p \<mapsto> p)\<rparr>"

definition is_admin :: "addr \<Rightarrow> 't store \<Rightarrow> bool" where
  "is_admin a s = (case get_admin_list s of Some as \<Rightarrow> a \<in> set as | None \<Rightarrow> False)"

definition set_proposal_digest :: "nat \<Rightarrow> ProposalActionDigest \<Rightarrow> 't store \<Rightarrow> 't store" where
  "set_proposal_digest i d s = s\<lparr>k_ProposalDigest := (k_ProposalDigest s)(i \<mapsto> d)\<rparr>"

definition get_proposal_digest :: "nat \<Rightarrow> 't store \<Rightarrow> ProposalActionDigest option" where
  "get_proposal_digest i s = k_ProposalDigest s i"

definition is_proposal_salt_used :: "hash \<Rightarrow> 't store \<Rightarrow> bool" where
  "is_proposal_salt_used h s \<longleftrightarrow> k_ProposalSalt s h \<noteq> None"

definition set_proposal_salt_used :: "hash \<Rightarrow> 't store \<Rightarrow> 't store" where
  "set_proposal_salt_used h s = s\<lparr>k_ProposalSalt := (k_ProposalSalt s)(h \<mapsto> True)\<rparr>"

section \<open>Counters\<close>

definition get_total_escrow_volume :: "'t store \<Rightarrow> int" where
  "get_total_escrow_volume s = unwrap_or 0 (k_TotalEscrowVolume s)"

definition add_total_escrow_volume :: "int \<Rightarrow> ('t, unit) nav" where
  "add_total_escrow_volume v =
     andthen (fail_if (v < 0) ArithmeticError)
    (bind (gets get_total_escrow_volume) (\<lambda>current.
     bind (ok_or (i128_checked_add current v) ArithmeticError) (\<lambda>updated.
     andthen (fail_if (updated < 0) ArithmeticError)
       (modify (\<lambda>s. s\<lparr>k_TotalEscrowVolume := Some updated\<rparr>)))))"

definition get_total_disputes :: "'t store \<Rightarrow> nat" where
  "get_total_disputes s = unwrap_or 0 (k_TotalDisputes s)"

definition increment_total_disputes :: "('t, unit) nav" where
  "increment_total_disputes =
     bind (gets get_total_disputes) (\<lambda>current.
     bind (u64_add current 1) (\<lambda>n. modify (\<lambda>s. s\<lparr>k_TotalDisputes := Some n\<rparr>)))"

definition get_status_count :: "ShipmentStatus \<Rightarrow> 't store \<Rightarrow> nat" where
  "get_status_count st s = unwrap_or 0 (k_StatusCount s st)"

definition set_status_count :: "ShipmentStatus \<Rightarrow> nat \<Rightarrow> 't store \<Rightarrow> 't store" where
  "set_status_count st n s = s\<lparr>k_StatusCount := (k_StatusCount s)(st \<mapsto> n)\<rparr>"

definition increment_status_count :: "ShipmentStatus \<Rightarrow> ('t, unit) nav" where
  "increment_status_count st =
     bind (gets (get_status_count st)) (\<lambda>current.
     bind (u64_add current 1) (\<lambda>n. modify (set_status_count st n)))"

definition decrement_status_count :: "ShipmentStatus \<Rightarrow> ('t, unit) nav" where
  "decrement_status_count st =
     bind (gets (get_status_count st)) (\<lambda>current.
       only_if (current > 0) (modify (set_status_count st (current - 1))))"

definition storage_get_shipment_limit :: "'t store \<Rightarrow> nat" where
  "storage_get_shipment_limit s = unwrap_or 100 (k_ShipmentLimit s)"

definition storage_set_shipment_limit :: "nat \<Rightarrow> 't store \<Rightarrow> 't store" where
  "storage_set_shipment_limit n s = s\<lparr>k_ShipmentLimit := Some n\<rparr>"

definition get_company_shipment_limit :: "addr \<Rightarrow> 't store \<Rightarrow> nat option" where
  "get_company_shipment_limit a s = k_CompanyShipmentLimit s a"

definition storage_set_company_shipment_limit :: "addr \<Rightarrow> nat \<Rightarrow> 't store \<Rightarrow> 't store" where
  "storage_set_company_shipment_limit a n s =
     s\<lparr>k_CompanyShipmentLimit := (k_CompanyShipmentLimit s)(a \<mapsto> n)\<rparr>"

definition storage_get_effective_shipment_limit :: "addr \<Rightarrow> 't store \<Rightarrow> nat" where
  "storage_get_effective_shipment_limit a s =
     unwrap_or (storage_get_shipment_limit s) (get_company_shipment_limit a s)"

definition get_fee_config :: "'t store \<Rightarrow> FeeConfig option" where
  "get_fee_config s = k_FeeConfig s"

definition set_fee_config :: "FeeConfig \<Rightarrow> 't store \<Rightarrow> 't store" where
  "set_fee_config c s = s\<lparr>k_FeeConfig := Some c\<rparr>"

definition get_treasury :: "'t store \<Rightarrow> addr option" where
  "get_treasury s = k_Treasury s"

definition set_treasury :: "addr \<Rightarrow> 't store \<Rightarrow> 't store" where
  "set_treasury a s = s\<lparr>k_Treasury := Some a\<rparr>"

definition storage_get_active_shipment_count :: "addr \<Rightarrow> 't store \<Rightarrow> nat" where
  "storage_get_active_shipment_count a s = unwrap_or 0 (k_ActiveShipmentCount s a)"

definition set_active_shipment_count :: "addr \<Rightarrow> nat \<Rightarrow> 't store \<Rightarrow> 't store" where
  "set_active_shipment_count a n s =
     s\<lparr>k_ActiveShipmentCount := (k_ActiveShipmentCount s)(a \<mapsto> n)\<rparr>"

definition increment_active_shipment_count :: "addr \<Rightarrow> 't store \<Rightarrow> 't store" where
  "increment_active_shipment_count a s =
     set_active_shipment_count a (u32_saturating_add (storage_get_active_shipment_count a s) 1) s"

definition decrement_active_shipment_count :: "addr \<Rightarrow> 't store \<Rightarrow> 't store" where
  "decrement_active_shipment_count a s =
     set_active_shipment_count a (saturating_sub (storage_get_active_shipment_count a s) 1) s"

definition get_milestone_event_count :: "nat \<Rightarrow> 't store \<Rightarrow> nat" where
  "get_milestone_event_count i s = unwrap_or 0 (k_MilestoneEventCount s i)"

definition increment_milestone_event_count :: "nat \<Rightarrow> 't store \<Rightarrow> 't store" where
  "increment_milestone_event_count i s = s\<lparr>k_MilestoneEventCount :=
     (k_MilestoneEventCount s)(i \<mapsto> u32_saturating_add (get_milestone_event_count i s) 1)\<rparr>"

definition get_breach_event_count :: "nat \<Rightarrow> 't store \<Rightarrow> nat" where
  "get_breach_event_count i s = unwrap_or 0 (k_BreachEventCount s i)"

definition increment_breach_event_count :: "nat \<Rightarrow> 't store \<Rightarrow> 't store" where
  "increment_breach_event_count i s = s\<lparr>k_BreachEventCount :=
     (k_BreachEventCount s)(i \<mapsto> u32_saturating_add (get_breach_event_count i s) 1)\<rparr>"

definition storage_get_event_count :: "nat \<Rightarrow> 't store \<Rightarrow> nat" where
  "storage_get_event_count i s = unwrap_or 0 (k_EventCount s i)"

definition increment_event_count :: "nat \<Rightarrow> 't store \<Rightarrow> 't store" where
  "increment_event_count i s = s\<lparr>k_EventCount :=
     (k_EventCount s)(i \<mapsto> u32_saturating_add (storage_get_event_count i s) 1)\<rparr>"

section \<open>Notes, evidence and recovery records\<close>

definition storage_get_note_count :: "nat \<Rightarrow> 't store \<Rightarrow> nat" where
  "storage_get_note_count i s = unwrap_or 0 (k_ShipmentNoteCount s i)"

text \<open>The counters trap on overflow and return the index of the new entry.\<close>

definition increment_note_count :: "nat \<Rightarrow> ('t, nat) nav" where
  "increment_note_count i =
     bind (gets (storage_get_note_count i)) (\<lambda>current.
     bind (unwrap (u32_checked_add current 1)) (\<lambda>nxt.
     andthen (modify (\<lambda>s. s\<lparr>k_ShipmentNoteCount := (k_ShipmentNoteCount s)(i \<mapsto> nxt)\<rparr>))
       (ret current)))"

definition set_note_hash :: "nat \<Rightarrow> nat \<Rightarrow> hash \<Rightarrow> 't store \<Rightarrow> 't store" where
  "set_note_hash i n h s = s\<lparr>k_ShipmentNote := (k_ShipmentNote s)((i, n) \<mapsto> h)\<rparr>"

definition storage_get_note_hash :: "nat \<Rightarrow> nat \<Rightarrow> 't store \<Rightarrow> hash option" where
  "storage_get_note_hash i n s = k_ShipmentNote s (i, n)"

definition get_evidence_count :: "nat \<Rightarrow> 't store \<Rightarrow> nat" where
  "get_evidence_count i s = unwrap_or 0 (k_DisputeEvidenceCount s i)"

definition increment_evidence_count :: "nat \<Rightarrow> ('t, nat) nav" where
  "increment_evidence_count i =
     bind (gets (get_evidence_count i)) (\<lambda>current.
     bind (unwrap (u32_checked_add current 1)) (\<lambda>nxt.
     andthen (modify (\<lambda>s. s\<lparr>k_DisputeEvidenceCount := (k_DisputeEvidenceCount s)(i \<mapsto> nxt)\<rparr>))
       (ret current)))"

definition set_evidence_hash :: "nat \<Rightarrow> nat \<Rightarrow> hash \<Rightarrow> 't store \<Rightarrow> 't store" where
  "set_evidence_hash i n h s = s\<lparr>k_DisputeEvidence := (k_DisputeEvidence s)((i, n) \<mapsto> h)\<rparr>"

definition get_evidence_hash :: "nat \<Rightarrow> nat \<Rightarrow> 't store \<Rightarrow> hash option" where
  "get_evidence_hash i n s = k_DisputeEvidence s (i, n)"

definition storage_get_recovery_record_count :: "nat \<Rightarrow> 't store \<Rightarrow> nat" where
  "storage_get_recovery_record_count i s = unwrap_or 0 (k_RecoveryRecordCount s i)"

definition append_recovery_record :: "nat \<Rightarrow> RecoveryRecord \<Rightarrow> ('t, unit) nav" where
  "append_recovery_record i r =
     bind (gets (storage_get_recovery_record_count i)) (\<lambda>count.
     andthen (fail_if (MAX_RECOVERY_RECORDS_PER_SHIPMENT \<le> count) RecoveryLimitExceeded)
       (modify (\<lambda>s. s\<lparr>k_RecoveryRecord := (k_RecoveryRecord s)((i, count) \<mapsto> r),
          k_RecoveryRecordCount := (k_RecoveryRecordCount s)(i \<mapsto> count + 1)\<rparr>)))"

definition get_recovery_record :: "nat \<Rightarrow> nat \<Rightarrow> 't store \<Rightarrow> RecoveryRecord option" where
  "get_recovery_record i n s = k_RecoveryRecord s (i, n)"

definition storage_get_recovery_history :: "nat \<Rightarrow> 't store \<Rightarrow> RecoveryRecord list" where
  "storage_get_recovery_history i s =
     List.map_filter (\<lambda>n. get_recovery_record i n s) [0..<storage_get_recovery_record_count i s]"

section \<open>Archival\<close>

definition get_archived_shipment :: "nat \<Rightarrow> 't store \<Rightarrow> Shipment option" where
  "get_archived_shipment i s = k_ArchivedShipment s i"

definition is_shipment_archived :: "nat \<Rightarrow> 't store \<Rightarrow> bool" where
  "is_shipment_archived i s \<longleftrightarrow> k_ArchivedShipment s i \<noteq> None"

definition remove_confirmation_hash :: "nat \<Rightarrow> 't store \<Rightarrow> 't store" where
  "remove_confirmation_hash i s = s\<lparr>k_ConfirmationHash := (k_ConfirmationHash s)(i := None)\<rparr>"

definition remove_last_status_update :: "nat \<Rightarrow> 't store \<Rightarrow> 't store" where
  "remove_last_status_update i s = s\<lparr>k_LastStatusUpdate := (k_LastStatusUpdate s)(i := None)\<rparr>"

definition remove_event_count :: "nat \<Rightarrow> 't store \<Rightarrow> 't store" where
  "remove_event_count i s = s\<lparr>k_EventCount := (k_EventCount s)(i := None)\<rparr>"

definition remove_milestone_event_count :: "nat \<Rightarrow> 't store \<Rightarrow> 't store" where
  "remove_milestone_event_count i s =
     s\<lparr>k_MilestoneEventCount := (k_MilestoneEventCount s)(i := None)\<rparr>"

definition remove_breach_event_count :: "nat \<Rightarrow> 't store \<Rightarrow> 't store" where
  "remove_breach_event_count i s = s\<lparr>k_BreachEventCount := (k_BreachEventCount s)(i := None)\<rparr>"

definition remove_escrow_freeze_reason :: "nat \<Rightarrow> 't store \<Rightarrow> 't store" where
  "remove_escrow_freeze_reason i s =
     s\<lparr>k_EscrowFreezeReasonByShipment := (k_EscrowFreezeReasonByShipment s)(i := None)\<rparr>"

definition clear_active_settlement :: "nat \<Rightarrow> 't store \<Rightarrow> 't store" where
  "clear_active_settlement i s = s\<lparr>k_ActiveSettlement := (k_ActiveSettlement s)(i := None)\<rparr>"

text \<open>The loop \<open>for i in 0..count { remove(key(shipment_id, i)) }\<close>.\<close>

fun remove_indexed :: "nat \<Rightarrow> nat list \<Rightarrow> (nat \<times> nat \<Rightarrow> 'v option) \<Rightarrow> nat \<times> nat \<Rightarrow> 'v option" where
  "remove_indexed i [] m = m"
| "remove_indexed i (n # ns) m = remove_indexed i ns (m((i, n) := None))"

definition purge_shipment_notes :: "nat \<Rightarrow> 't store \<Rightarrow> 't store" where
  "purge_shipment_notes i s =
     (let count = storage_get_note_count i s;
          t = s\<lparr>k_ShipmentNote := remove_indexed i [0..<count] (k_ShipmentNote s)\<rparr>
      in if count > 0 then t\<lparr>k_ShipmentNoteCount := (k_ShipmentNoteCount t)(i := None)\<rparr> else t)"

definition purge_dispute_evidence :: "nat \<Rightarrow> 't store \<Rightarrow> 't store" where
  "purge_dispute_evidence i s =
     (let count = get_evidence_count i s;
          t = s\<lparr>k_DisputeEvidence := remove_indexed i [0..<count] (k_DisputeEvidence s)\<rparr>
      in if count > 0 then t\<lparr>k_DisputeEvidenceCount := (k_DisputeEvidenceCount t)(i := None)\<rparr> else t)"

definition purge_recovery_records :: "nat \<Rightarrow> 't store \<Rightarrow> 't store" where
  "purge_recovery_records i s =
     (let count = storage_get_recovery_record_count i s;
          t = s\<lparr>k_RecoveryRecord := remove_indexed i [0..<count] (k_RecoveryRecord s)\<rparr>
      in if count > 0 then t\<lparr>k_RecoveryRecordCount := (k_RecoveryRecordCount t)(i := None)\<rparr> else t)"

fun remove_status_hashes :: "nat \<Rightarrow> ShipmentStatus list \<Rightarrow> 't store \<Rightarrow> 't store" where
  "remove_status_hashes i [] s = s"
| "remove_status_hashes i (st # sts) s = remove_status_hashes i sts
     (if k_StatusHash s (i, st) \<noteq> None
      then s\<lparr>k_StatusHash := (k_StatusHash s)((i, st) := None)\<rparr> else s)"

definition purge_status_hashes :: "nat \<Rightarrow> 't store \<Rightarrow> 't store" where
  "purge_status_hashes i = remove_status_hashes i
     [Created, InTransit, AtCheckpoint, PartiallyDelivered, Delivered, Disputed, Cancelled]"

definition storage_archive_shipment :: "nat \<Rightarrow> Shipment \<Rightarrow> 't store \<Rightarrow> 't store" where
  "storage_archive_shipment i sh s =
     purge_status_hashes i
    (purge_recovery_records i
    (purge_dispute_evidence i
    (purge_shipment_notes i
    (clear_active_settlement i
    (remove_escrow_freeze_reason i
    (remove_breach_event_count i
    (remove_milestone_event_count i
    (remove_event_count i
    (remove_last_status_update i
    (remove_confirmation_hash i
    (remove_escrow i
       (s\<lparr>k_ArchivedShipment := (k_ArchivedShipment s)(i \<mapsto> sh),
          k_Shipment := (k_Shipment s)(i := None)\<rparr>))))))))))))"

section \<open>Idempotency, pause, locks, hashes\<close>

definition has_idempotency_window :: "hash \<Rightarrow> 't store \<Rightarrow> bool" where
  "has_idempotency_window h s \<longleftrightarrow> k_IdempotencyWindow s h \<noteq> None"

text \<open>
  \<open>window_seconds.div_ceil(5).max(1) as u32\<close>: the cast keeps the low 32 bits.
\<close>

definition window_ledgers :: "nat \<Rightarrow> nat" where
  "window_ledgers secs = max ((secs + 4) div 5) 1 mod 2 ^ 32"

definition set_idempotency_window :: "hash \<Rightarrow> nat \<Rightarrow> 't store \<Rightarrow> 't store" where
  "set_idempotency_window h secs s =
     request_ttl True (TIdempotencyWindow h) 0 (window_ledgers secs)
       (s\<lparr>k_IdempotencyWindow := (k_IdempotencyWindow s)(h \<mapsto> True)\<rparr>)"

definition storage_is_paused :: "'t store \<Rightarrow> bool" where
  "storage_is_paused s = unwrap_or False (k_IsPaused s)"

definition set_paused :: "bool \<Rightarrow> 't store \<Rightarrow> 't store" where
  "set_paused b s = s\<lparr>k_IsPaused := Some b\<rparr>"

definition is_reentrancy_locked :: "'t store \<Rightarrow> bool" where
  "is_reentrancy_locked s = unwrap_or False (k_ReentrancyLock s)"

definition set_reentrancy_lock :: "bool \<Rightarrow> 't store \<Rightarrow> 't store" where
  "set_reentrancy_lock b s = s\<lparr>k_ReentrancyLock := Some b\<rparr>"

definition set_status_hash :: "nat \<Rightarrow> ShipmentStatus \<Rightarrow> hash \<Rightarrow> 't store \<Rightarrow> 't store" where
  "set_status_hash i st h s = s\<lparr>k_StatusHash := (k_StatusHash s)((i, st) \<mapsto> h)\<rparr>"

definition storage_get_status_hash :: "nat \<Rightarrow> ShipmentStatus \<Rightarrow> 't store \<Rightarrow> hash option" where
  "storage_get_status_hash i st s = k_StatusHash s (i, st)"

definition shipment_exists_in_persistent :: "nat \<Rightarrow> 't store \<Rightarrow> bool" where
  "shipment_exists_in_persistent i s \<longleftrightarrow> k_Shipment s i \<noteq> None"

section \<open>Settlements, quotas, dependencies\<close>

definition get_settlement_counter :: "'t store \<Rightarrow> nat" where
  "get_settlement_counter s = unwrap_or 0 (k_SettlementCounter s)"

definition set_settlement_counter :: "nat \<Rightarrow> 't store \<Rightarrow> 't store" where
  "set_settlement_counter n s = s\<lparr>k_SettlementCounter := Some n\<rparr>"

definition increment_settlement_counter :: "('t, nat) nav" where
  "increment_settlement_counter =
     bind (gets get_settlement_counter) (\<lambda>cur.
       let nxt = unwrap_or cur (u64_checked_add cur 1) in
       andthen (modify (set_settlement_counter nxt)) (ret nxt))"

definition storage_get_settlement :: "nat \<Rightarrow> 't store \<Rightarrow> SettlementRecord option" where
  "storage_get_settlement i s = k_Settlement s i"

definition set_settlement :: "SettlementRecord \<Rightarrow> 't store \<Rightarrow> 't store" where
  "set_settlement r s = s\<lparr>k_Settlement := (k_Settlement s)(st_settlement_id r \<mapsto> r)\<rparr>"

definition storage_get_active_settlement :: "nat \<Rightarrow> 't store \<Rightarrow> nat option" where
  "storage_get_active_settlement i s = k_ActiveSettlement s i"

definition set_active_settlement :: "nat \<Rightarrow> nat \<Rightarrow> 't store \<Rightarrow> 't store" where
  "set_active_settlement i n s = s\<lparr>k_ActiveSettlement := (k_ActiveSettlement s)(i \<mapsto> n)\<rparr>"

definition get_creation_quota :: "addr \<Rightarrow> 't store \<Rightarrow> CreationQuotaTracker option" where
  "get_creation_quota a s = k_CompanyCreationQuota s a"

definition storage_set_creation_quota :: "addr \<Rightarrow> CreationQuotaTracker \<Rightarrow> 't store \<Rightarrow> 't store" where
  "storage_set_creation_quota a q s =
     s\<lparr>k_CompanyCreationQuota := (k_CompanyCreationQuota s)(a \<mapsto> q)\<rparr>"

definition get_shipment_dependents :: "nat \<Rightarrow> 't store \<Rightarrow> nat list" where
  "get_shipment_dependents i s = unwrap_or [] (k_ShipmentDependents s i)"

definition set_shipment_dependency :: "nat \<Rightarrow> nat \<Rightarrow> 't store \<Rightarrow> 't store" where
  "set_shipment_dependency dependent prereq s = s\<lparr>k_ShipmentDependents :=
     (k_ShipmentDependents s)(dependent \<mapsto> unwrap_or [] (k_ShipmentDependents s dependent) @ [prereq])\<rparr>"

section \<open>Frames\<close>

text \<open>Time-to-live requests change the trace of requests only.\<close>

lemma request_ttl_frame [simp]:
  "k_Admin (request_ttl b k th ex s) = k_Admin s"
  "k_ShipmentCount (request_ttl b k th ex s) = k_ShipmentCount s"
  "k_Shipment (request_ttl b k th ex s) = k_Shipment s"
  "k_ArchivedShipment (request_ttl b k th ex s) = k_ArchivedShipment s"
  "k_Escrow (request_ttl b k th ex s) = k_Escrow s"
  "k_TokenContract (request_ttl b k th ex s) = k_TokenContract s"
  "k_StatusCount (request_ttl b k th ex s) = k_StatusCount s"
  "k_CircuitBreakerState (request_ttl b k th ex s) = k_CircuitBreakerState s"
  "k_ReentrancyLock (request_ttl b k th ex s) = k_ReentrancyLock s"
  "k_Proposal (request_ttl b k th ex s) = k_Proposal s"
  "k_ProposalCounter (request_ttl b k th ex s) = k_ProposalCounter s"
  "k_AdminList (request_ttl b k th ex s) = k_AdminList s"
  "k_MultiSigThreshold (request_ttl b k th ex s) = k_MultiSigThreshold s"
  "k_ShipmentDependents (request_ttl b k th ex s) = k_ShipmentDependents s"
  "k_ContractConfig (request_ttl b k th ex s) = k_ContractConfig s"
  "k_SettlementCounter (request_ttl b k th ex s) = k_SettlementCounter s"
  "k_Settlement (request_ttl b k th ex s) = k_Settlement s"
  "k_FeeConfig (request_ttl b k th ex s) = k_FeeConfig s"
  "k_ActiveShipmentCount (request_ttl b k th ex s) = k_ActiveShipmentCount s"
  "k_IsPaused (request_ttl b k th ex s) = k_IsPaused s"
  "tokens (request_ttl b k th ex s) = tokens s"
  by (simp_all add: request_ttl_def)

lemma storage_extend_shipment_ttl_frame [simp]:
  "k_Admin (storage_extend_shipment_ttl i th ex s) = k_Admin s"
  "k_ShipmentCount (storage_extend_shipment_ttl i th ex s) = k_ShipmentCount s"
  "k_Shipment (storage_extend_shipment_ttl i th ex s) = k_Shipment s"
  "k_ArchivedShipment (storage_extend_shipment_ttl i th ex s) = k_ArchivedShipment s"
  "k_Escrow (storage_extend_shipment_ttl i th ex s) = k_Escrow s"
  "k_TokenContract (storage_extend_shipment_ttl i th ex s) = k_TokenContract s"
  "k_StatusCount (storage_extend_shipment_ttl i th ex s) = k_StatusCount s"
  "k_CircuitBreakerState (storage_extend_shipment_ttl i th ex s) = k_CircuitBreakerState s"
  "k_ReentrancyLock (storage_extend_shipment_ttl i th ex s) = k_ReentrancyLock s"
  "k_Proposal (storage_extend_shipment_ttl i th ex s) = k_Proposal s"
  "k_ProposalCounter (storage_extend_shipment_ttl i th ex s) = k_ProposalCounter s"
  "k_AdminList (storage_extend_shipment_ttl i th ex s) = k_AdminList s"
  "k_MultiSigThreshold (storage_extend_shipment_ttl i th ex s) = k_MultiSigThreshold s"
  "k_ShipmentDependents (storage_extend_shipment_ttl i th ex s) = k_ShipmentDependents s"
  "k_ContractConfig (storage_extend_shipment_ttl i th ex s) = k_ContractConfig s"
  "k_SettlementCounter (storage_extend_shipment_ttl i th ex s) = k_SettlementCounter s"
  "k_Settlement (storage_extend_shipment_ttl i th ex s) = k_Settlement s"
  "k_FeeConfig (storage_extend_shipment_ttl i th ex s) = k_FeeConfig s"
  "k_ActiveShipmentCount (storage_extend_shipment_ttl i th ex s) = k_ActiveShipmentCount s"
  "k_IsPaused (storage_extend_shipment_ttl i th ex s) = k_IsPaused s"
  "tokens (storage_extend_shipment_ttl i th ex s) = tokens s"
  by (simp_all add: storage_extend_shipment_ttl_def)

end
