(* ===== verification/Env.thy ===== *)
theory Env
  imports Store
begin

text \<open>
  What the shipment contract asks of the host and of the token contract: SHA-256, the XDR encoding
  of values, and the two token functions it invokes. They are not code of the repository, so they are
  fields of the environment of a call. \<open>token_transfer\<close> and \<open>token_decimals\<close> take the address of the
  token contract and the ledger of the tokens; \<open>None\<close> stands for a failed invocation, whose
  writes the host has undone.
\<close>

record 't env = ledger_env +
  sha256 :: "bytes \<Rightarrow> hash"
  symbol_xdr :: "sym \<Rightarrow> bytes"
  addr_xdr :: "addr \<Rightarrow> bytes"
  status_xdr :: "ShipmentStatus \<Rightarrow> bytes"
  resolution_xdr :: "DisputeResolution \<Rightarrow> bytes"
  action_xdr :: "AdminAction \<Rightarrow> bytes"
  network_id :: bytes
  token_transfer :: "addr \<Rightarrow> addr \<Rightarrow> addr \<Rightarrow> int \<Rightarrow> 't \<Rightarrow> 't option"
  token_decimals :: "addr \<Rightarrow> 't \<Rightarrow> nat option"

section \<open>Big-endian bytes\<close>

text \<open>\<open>to_be_bytes\<close> of an unsigned integer of \<open>n\<close> bytes.\<close>

fun be_bytes :: "nat \<Rightarrow> nat \<Rightarrow> bytes" where
  "be_bytes 0 v = []"
| "be_bytes (Suc n) v = be_bytes n (v div 256) @ [word_of_nat v]"

fun from_be_bytes :: "bytes \<Rightarrow> nat" where
  "from_be_bytes [] = 0"
| "from_be_bytes (b # bs) = unat b * 256 ^ length bs + from_be_bytes bs"

lemma length_be_bytes [simp]: "length (be_bytes n v) = n"
  by (induction n arbitrary: v) simp_all

lemma from_be_bytes_append:
  "from_be_bytes (xs @ [b]) = from_be_bytes xs * 256 + unat b"
  by (induction xs) (simp_all add: algebra_simps)

text \<open>Decoding undoes encoding on integers that fit.\<close>

lemma from_be_bytes_be_bytes: "v < 256 ^ n \<Longrightarrow> from_be_bytes (be_bytes n v) = v"
proof (induction n arbitrary: v)
  case 0
  then show ?case by simp
next
  case (Suc n)
  then have "v div 256 < 256 ^ n" by (simp add: div_less_iff_less_mult mult.commute)
  with Suc.IH have "from_be_bytes (be_bytes n (v div 256)) = v div 256" by blast
  moreover have "unat (word_of_nat v :: byte) = v mod 256"
    by (simp add: unat_of_nat)
  ultimately show ?case by (simp add: from_be_bytes_append)
qed

lemma be_bytes_inject:
  "v < 256 ^ n \<Longrightarrow> w < 256 ^ n \<Longrightarrow> be_bytes n v = be_bytes n w \<longleftrightarrow> v = w"
  by (metis from_be_bytes_be_bytes)

text \<open>The bytes of a string of ASCII characters.\<close>

definition utf8 :: "string \<Rightarrow> bytes" where
  "utf8 y = map (\<lambda>c. word_of_nat (of_char c)) y"

lemma length_utf8 [simp]: "length (utf8 y) = length y"
  by (simp add: utf8_def)

section \<open>A sample environment\<close>

text \<open>
  For evaluating calls: a digest that keeps its input behind a non-zero byte, and the XDR layouts
  of symbols (tag, length, padded content), addresses (40 bytes) and enums (tag and number).
\<close>

definition pad4 :: "bytes \<Rightarrow> bytes" where
  "pad4 bs = bs @ replicate ((4 - length bs mod 4) mod 4) 0"

definition sample_symbol_xdr :: "sym \<Rightarrow> bytes" where
  "sample_symbol_xdr y =
     be_bytes 4 15 @ be_bytes 4 (length y) @ pad4 (utf8 y)"

definition sample_status_xdr :: "ShipmentStatus \<Rightarrow> bytes" where
  "sample_status_xdr s = [case s of Created \<Rightarrow> 0 | InTransit \<Rightarrow> 1 | AtCheckpoint \<Rightarrow> 2
     | PartiallyDelivered \<Rightarrow> 3 | Delivered \<Rightarrow> 4 | Disputed \<Rightarrow> 5 | Cancelled \<Rightarrow> 6 | PartiallyRefunded \<Rightarrow> 7]"

definition sample_ship_env ::
    "(addr \<Rightarrow> addr \<Rightarrow> addr \<Rightarrow> int \<Rightarrow> 't \<Rightarrow> 't option) \<Rightarrow> (addr \<Rightarrow> 't \<Rightarrow> nat option) \<Rightarrow>
     nat \<Rightarrow> (addr \<Rightarrow> bool) \<Rightarrow> 't env" where
  "sample_ship_env pay decs now auth = \<lparr>timestamp = now, sequence = 10, self = 99, authorized = auth,
     sha256 = (\<lambda>bs. 1 # bs), symbol_xdr = sample_symbol_xdr,
     addr_xdr = (\<lambda>a. be_bytes 8 18 @ be_bytes 32 a), status_xdr = sample_status_xdr,
     resolution_xdr = (\<lambda>r. [if r = ReleaseToCarrier then 0 else 1]), action_xdr = (\<lambda>_. [7]),
     network_id = [42], token_transfer = pay, token_decimals = decs\<rparr>"

end
