(* ===== verification/Config.thy ===== *)
theory Config
  imports Env
begin

text \<open>
  The configuration of the shipment contract, \<open>config.rs\<close>: defaults, validation, storage and the
  checksum that is meant to detect configuration drift.
\<close>

definition default_config :: ContractConfig where
  "default_config = \<lparr>
     shipment_ttl_threshold = 17280,
     shipment_ttl_extension = 518400,
     min_status_update_interval = 60,
     batch_operation_limit = 10,
     max_metadata_entries = 5,
     default_shipment_limit = 100,
     multisig_min_admins = 2,
     multisig_max_admins = 10,
     proposal_expiry_seconds = 604800,
     deadline_grace_seconds = 0,
     idempotency_window_seconds = 300,
     auto_dispute_breach = False,
     max_milestones_per_shipment = 255,
     max_notes_per_shipment = 255,
     max_evidence_per_dispute = 255,
     max_breaches_per_shipment = 255,
     creation_quota_max = 0,
     creation_quota_window_seconds = 3600\<rparr>"

definition get_config :: "'t store \<Rightarrow> ContractConfig" where
  "get_config s = unwrap_or default_config (k_ContractConfig s)"

text \<open>
  \<open>validate_config\<close> returns the first violated bound as a message; every caller maps the message
  to \<open>InvalidConfig\<close>.
\<close>

definition validate_config :: "ContractConfig \<Rightarrow> string + unit" where
  "validate_config c =
    (if shipment_ttl_threshold c = 0 \<or> shipment_ttl_threshold c > 1000000
     then Inl ''shipment_ttl_threshold must be > 0 and <= 1,000,000''
     else if shipment_ttl_extension c = 0 \<or> shipment_ttl_extension c > 10000000
     then Inl ''shipment_ttl_extension must be > 0 and <= 10,000,000''
     else if min_status_update_interval c < 10 \<or> min_status_update_interval c > 86400
     then Inl ''min_status_update_interval must be >= 10 and <= 86,400''
     else if batch_operation_limit c = 0 \<or> batch_operation_limit c > 100
     then Inl ''batch_operation_limit must be >= 1 and <= 100''
     else if max_metadata_entries c = 0 \<or> max_metadata_entries c > 50
     then Inl ''max_metadata_entries must be >= 1 and <= 50''
     else if max_milestones_per_shipment c = 0 \<or> max_milestones_per_shipment c > 1000
     then Inl ''max_milestones_per_shipment must be >= 1 and <= 1000''
     else if max_notes_per_shipment c = 0 \<or> max_notes_per_shipment c > 1000
     then Inl ''max_notes_per_shipment must be >= 1 and <= 1000''
     else if max_evidence_per_dispute c = 0 \<or> max_evidence_per_dispute c > 1000
     then Inl ''max_evidence_per_dispute must be >= 1 and <= 1000''
     else if max_breaches_per_shipment c = 0 \<or> max_breaches_per_shipment c > 1000
     then Inl ''max_breaches_per_shipment must be >= 1 and <= 1000''
     else if default_shipment_limit c = 0 \<or> default_shipment_limit c > 10000
     then Inl ''default_shipment_limit must be >= 1 and <= 10,000''
     else if multisig_min_admins c < 2
     then Inl ''multisig_min_admins must be >= 2''
     else if multisig_max_admins c < multisig_min_admins c \<or> multisig_max_admins c > 50
     then Inl ''multisig_max_admins must be >= multisig_min_admins and <= 50''
     else if proposal_expiry_seconds c < 3600 \<or> proposal_expiry_seconds c > 2592000
     then Inl ''proposal_expiry_seconds must be >= 3,600 and <= 2,592,000''
     else if deadline_grace_seconds c > 604800
     then Inl ''deadline_grace_seconds must be <= 604,800 (7 days)''
     else Inr ())"

text \<open>The 69 bytes the checksum hashes.\<close>

definition config_bytes :: "ContractConfig \<Rightarrow> bytes" where
  "config_bytes c =
     be_bytes 4 (shipment_ttl_threshold c) @
     be_bytes 4 (shipment_ttl_extension c) @
     be_bytes 8 (min_status_update_interval c) @
     be_bytes 4 (batch_operation_limit c) @
     be_bytes 4 (max_metadata_entries c) @
     be_bytes 4 (default_shipment_limit c) @
     be_bytes 4 (multisig_min_admins c) @
     be_bytes 4 (multisig_max_admins c) @
     be_bytes 8 (proposal_expiry_seconds c) @
     be_bytes 8 (deadline_grace_seconds c) @
     [if auto_dispute_breach c then 1 else 0] @
     be_bytes 4 (max_milestones_per_shipment c) @
     be_bytes 4 (max_notes_per_shipment c) @
     be_bytes 4 (max_evidence_per_dispute c) @
     be_bytes 4 (max_breaches_per_shipment c)"

definition compute_config_checksum :: "'t env \<Rightarrow> ContractConfig \<Rightarrow> hash" where
  "compute_config_checksum E c = sha256 E (config_bytes c)"

definition get_config_checksum :: "'t store \<Rightarrow> hash option" where
  "get_config_checksum s = k_ConfigChecksum s"

definition set_config_checksum :: "hash \<Rightarrow> 't store \<Rightarrow> 't store" where
  "set_config_checksum h s = s\<lparr>k_ConfigChecksum := Some h\<rparr>"

definition all_zero :: "bytes \<Rightarrow> bool" where
  "all_zero bs = list_all (\<lambda>b. b = 0) bs"

definition set_config :: "'t env \<Rightarrow> ContractConfig \<Rightarrow> ('t, unit) nav" where
  "set_config E c = do_all [
     modify (\<lambda>s. s\<lparr>k_ContractConfig := Some c\<rparr>),
     fail_if (all_zero (compute_config_checksum E c)) InvalidConfig,
     modify (set_config_checksum (compute_config_checksum E c))]"

section \<open>Lemmas\<close>

lemma length_config_bytes: "length (config_bytes c) = 69"
  by (simp add: config_bytes_def)

text \<open>The widths of the fields: \<open>u32\<close> and \<open>u64\<close>.\<close>

definition config_typed :: "ContractConfig \<Rightarrow> bool" where
  "config_typed c \<longleftrightarrow>
     shipment_ttl_threshold c \<le> u32_max \<and> shipment_ttl_extension c \<le> u32_max \<and>
     min_status_update_interval c \<le> u64_max \<and> batch_operation_limit c \<le> u32_max \<and>
     max_metadata_entries c \<le> u32_max \<and> default_shipment_limit c \<le> u32_max \<and>
     multisig_min_admins c \<le> u32_max \<and> multisig_max_admins c \<le> u32_max \<and>
     proposal_expiry_seconds c \<le> u64_max \<and> deadline_grace_seconds c \<le> u64_max \<and>
     max_milestones_per_shipment c \<le> u32_max \<and> max_notes_per_shipment c \<le> u32_max \<and>
     max_evidence_per_dispute c \<le> u32_max \<and> max_breaches_per_shipment c \<le> u32_max"

lemma be_bytes_4: "v \<le> u32_max \<Longrightarrow> w \<le> u32_max \<Longrightarrow> be_bytes 4 v = be_bytes 4 w \<longleftrightarrow> v = w"
  by (rule be_bytes_inject) (simp_all add: u32_max_def)

lemma be_bytes_8: "v \<le> u64_max \<Longrightarrow> w \<le> u64_max \<Longrightarrow> be_bytes 8 v = be_bytes 8 w \<longleftrightarrow> v = w"
  by (rule be_bytes_inject) (simp_all add: u64_max_def)

lemma config_bytes_inject:
  assumes "config_typed c" "config_typed d"
  shows "config_bytes c = config_bytes d \<longleftrightarrow>
    c = d\<lparr>idempotency_window_seconds := idempotency_window_seconds c,
          creation_quota_max := creation_quota_max c,
          creation_quota_window_seconds := creation_quota_window_seconds c\<rparr>"
proof -
  have "config_bytes c = config_bytes d \<longleftrightarrow>
    shipment_ttl_threshold c = shipment_ttl_threshold d \<and>
    shipment_ttl_extension c = shipment_ttl_extension d \<and>
    min_status_update_interval c = min_status_update_interval d \<and>
    batch_operation_limit c = batch_operation_limit d \<and>
    max_metadata_entries c = max_metadata_entries d \<and>
    default_shipment_limit c = default_shipment_limit d \<and>
    multisig_min_admins c = multisig_min_admins d \<and>
    multisig_max_admins c = multisig_max_admins d \<and>
    proposal_expiry_seconds c = proposal_expiry_seconds d \<and>
    deadline_grace_seconds c = deadline_grace_seconds d \<and>
    auto_dispute_breach c = auto_dispute_breach d \<and>
    max_milestones_per_shipment c = max_milestones_per_shipment d \<and>
    max_notes_per_shipment c = max_notes_per_shipment d \<and>
    max_evidence_per_dispute c = max_evidence_per_dispute d \<and>
    max_breaches_per_shipment c = max_breaches_per_shipment d"
    using assms by (simp add: config_bytes_def config_typed_def be_bytes_4 be_bytes_8)
  also have "\<dots> \<longleftrightarrow> c = d\<lparr>idempotency_window_seconds := idempotency_window_seconds c,
      creation_quota_max := creation_quota_max c,
      creation_quota_window_seconds := creation_quota_window_seconds c\<rparr>"
    by (cases c; cases d) auto
  finally show ?thesis .
qed

lemma wp_set_config [wp_simps]:
  "wp (set_config E c) K = (\<lambda>s. \<not> all_zero (compute_config_checksum E c) \<longrightarrow>
     K () (set_config_checksum (compute_config_checksum E c) (s\<lparr>k_ContractConfig := Some c\<rparr>)))"
  by (simp add: fun_eq_iff set_config_def wp_simps)

end
