(* ===== verification/Validation.thy ===== *)
theory Validation
  imports Config
begin

text \<open>
  Input validation, \<open>validation.rs\<close>, and the validating helpers at the head of \<open>lib.rs\<close>.
\<close>

definition MAX_AMOUNT :: int where "MAX_AMOUNT = 1000000000000000"
definition MAX_PAST_OFFSET :: nat where "MAX_PAST_OFFSET = 365 * 24 * 60 * 60"
definition MAX_FUTURE_OFFSET :: nat where "MAX_FUTURE_OFFSET = 10 * 365 * 24 * 60 * 60"
definition HASH_BYTE_LENGTH :: nat where "HASH_BYTE_LENGTH = 32"

section \<open>Hashes\<close>

definition validate_hash :: "hash \<Rightarrow> ('t, unit) nav" where
  "validate_hash h = fail_if (all_zero h) InvalidHash"

text \<open>The length test of \<open>validate_note_hash\<close> is on a value of type \<open>[u8; 32]\<close>.\<close>

definition validate_note_hash :: "hash \<Rightarrow> ('t, unit) nav" where
  "validate_note_hash h = do_all [
     fail_if (length h \<noteq> HASH_BYTE_LENGTH) InvalidHash,
     validate_hash h]"

section \<open>Symbols\<close>

definition validate_symbol :: "'t env \<Rightarrow> sym \<Rightarrow> ('t, unit) nav" where
  "validate_symbol E y = (let len = length (symbol_xdr E y) in do_all [
     fail_if (len = 8) InvalidSymbol,
     fail_if (\<not> (12 \<le> len \<and> len \<le> 20)) InvalidSymbol])"

definition is_ascii_alphanumeric :: "byte \<Rightarrow> bool" where
  "is_ascii_alphanumeric b \<longleftrightarrow>
     48 \<le> b \<and> b \<le> 57 \<or> 65 \<le> b \<and> b \<le> 90 \<or> 97 \<le> b \<and> b \<le> 122"

text \<open>
  The first 32 bytes of the encoding, zero-padded, and the length field in its bytes 4 to 7. The
  slice \<open>raw[8..8 + char_count]\<close> traps when it leaves the buffer.
\<close>

definition xdr_buffer :: "bytes \<Rightarrow> bytes" where
  "xdr_buffer xdr = take 32 (xdr @ replicate 32 0)"

definition xdr_char_count :: "bytes \<Rightarrow> nat" where
  "xdr_char_count raw = from_be_bytes (take 4 (drop 4 raw))"

definition validate_symbol_chars :: "'t env \<Rightarrow> sym \<Rightarrow> ('t, unit) nav" where
  "validate_symbol_chars E y =
     (let raw = xdr_buffer (symbol_xdr E y); char_count = xdr_char_count raw in
      andthen (fail_if (char_count = 0) InvalidSymbol)
        (if 8 + char_count > 32 then panic
         else for_each (take char_count (drop 8 raw)) (\<lambda>b.
           fail_if (\<not> (is_ascii_alphanumeric b \<or> b = 95)) InvalidSymbol)))"

definition validate_checkpoint_symbol :: "'t env \<Rightarrow> sym \<Rightarrow> ('t, unit) nav" where
  "validate_checkpoint_symbol E y = (let len = length (symbol_xdr E y) in do_all [
     fail_if (len \<le> 8) InvalidSymbol,
     fail_if (\<not> (12 \<le> len \<and> len \<le> 20)) InvalidSymbol,
     validate_symbol_chars E y])"

text \<open>The two nested loops that compare every pair of encodings.\<close>

fun duplicate_xdr :: "bytes list \<Rightarrow> bool" where
  "duplicate_xdr [] = False"
| "duplicate_xdr (x # xs) = (list_ex (\<lambda>y. x = y) xs \<or> duplicate_xdr xs)"

definition validate_milestone_symbols :: "'t env \<Rightarrow> (sym \<times> nat) list \<Rightarrow> ('t, unit) nav" where
  "validate_milestone_symbols E ms = do_all [
     for_each ms (\<lambda>(name, pct). do_all [
       validate_symbol E name,
       map_err (\<lambda>_. InvalidSymbol) (validate_symbol_chars E name),
       map_err (\<lambda>_. InvalidPaymentMilestoneName) (validate_symbol E name),
       fail_if (pct = 0 \<or> pct > 100) InvalidPaymentMilestones]),
     fail_if (duplicate_xdr (map (\<lambda>m. symbol_xdr E (fst m)) ms)) DuplicatePaymentMilestone]"

definition validate_metadata_symbols :: "'t env \<Rightarrow> sym \<Rightarrow> sym \<Rightarrow> ('t, unit) nav" where
  "validate_metadata_symbols E key val = do_all [
     validate_symbol E key,
     validate_symbol E val,
     fail_if (symbol_xdr E key = symbol_xdr E val) MetadataSymbolCollision]"

definition validate_note_symbol :: "'t env \<Rightarrow> sym \<Rightarrow> ('t, unit) nav" where
  "validate_note_symbol E y = (let len = length (symbol_xdr E y) in
     fail_if (len \<le> 8 \<or> len > 76) InvalidShipmentInput)"

definition validate_symbol_not_whitespace_only :: "'t env \<Rightarrow> sym \<Rightarrow> ('t, unit) nav" where
  "validate_symbol_not_whitespace_only E y = (let len = length (symbol_xdr E y) in do_all [
     fail_if (len \<le> 8) InvalidSymbol,
     fail_if (len > 20) InvalidSymbol])"

section \<open>Amounts, times, addresses\<close>

definition validate_amount :: "int \<Rightarrow> ('t, unit) nav" where
  "validate_amount v = fail_if (v \<le> 0 \<or> v > MAX_AMOUNT) InvalidAmount"

definition validate_positive_amount :: "int \<Rightarrow> ('t, unit) nav" where
  "validate_positive_amount v = do_all [
     fail_if (v \<le> 0) InsufficientFunds,
     fail_if (v > MAX_AMOUNT) InvalidAmount]"

definition validate_timestamp :: "'t env \<Rightarrow> nat \<Rightarrow> ('t, unit) nav" where
  "validate_timestamp E t =
     (let earliest = saturating_sub (timestamp E) MAX_PAST_OFFSET;
          latest = u64_saturating_add (timestamp E) MAX_FUTURE_OFFSET
      in fail_if (t < earliest \<or> t > latest) InvalidTimestamp)"

definition validate_created_at_versus_now :: "'t env \<Rightarrow> nat \<Rightarrow> ('t, unit) nav" where
  "validate_created_at_versus_now E t = do_all [
     fail_if (t > timestamp E) InvalidTimestamp,
     fail_if (t < saturating_sub (timestamp E) MAX_PAST_OFFSET) InvalidTimestamp]"

definition validate_created_at_versus_updated_at :: "nat \<Rightarrow> nat \<Rightarrow> ('t, unit) nav" where
  "validate_created_at_versus_updated_at created updated = fail_if (updated < created) InvalidStatus"

definition validate_created_at_versus_deadline :: "nat \<Rightarrow> nat \<Rightarrow> ('t, unit) nav" where
  "validate_created_at_versus_deadline created dl = fail_if (dl \<le> created) InvalidShipmentDeadline"

text \<open>\<open>is_zero_address\<close>: an encoding shorter than 40 bytes, or with the 32 key bytes zero.\<close>

definition is_zero_address :: "'t env \<Rightarrow> addr \<Rightarrow> bool" where
  "is_zero_address E a = (let xdr = addr_xdr E a in
     if length xdr < 40 then True else list_all (\<lambda>b. b = 0) (take 32 (drop 8 xdr)))"

text \<open>
  The hash of an ordered list of host values; \<open>to_xdr\<close> of the list is the host's and an argument.
\<close>

definition compute_offchain_payload_hash :: "'t env \<Rightarrow> ('v list \<Rightarrow> bytes) \<Rightarrow> 'v list \<Rightarrow> hash" where
  "compute_offchain_payload_hash E vals_xdr vals = sha256 E (vals_xdr vals)"

section \<open>Shipments\<close>

definition validate_shipment_exists :: "nat \<Rightarrow> ('t, Shipment) nav" where
  "validate_shipment_exists i = bind (gets (storage_get_shipment i)) (\<lambda>x. ok_or x ShipmentNotFound)"

definition preflight_check_shipment_available :: "nat \<Rightarrow> ('t, Shipment) nav" where
  "preflight_check_shipment_available i =
     bind (gets (\<lambda>s. k_Shipment s i)) (\<lambda>x. case x of
       None \<Rightarrow> andthen (fail_when (\<lambda>s. k_ArchivedShipment s i \<noteq> None) ShipmentUnavailable)
                 (throw ShipmentNotFound)
     | Some sh \<Rightarrow> andthen (fail_if (sh_finalized sh) ShipmentFinalized) (ret sh))"

definition validate_shipment_invariants :: "Shipment \<Rightarrow> ('t, unit) nav" where
  "validate_shipment_invariants sh = do_all [
     fail_if (sh_total_escrow sh < 0 \<or> sh_escrow_amount sh < 0) InvalidStatus,
     fail_if (sh_escrow_amount sh > sh_total_escrow sh) InvalidStatus,
     guard_if (sh_finalized sh)
       (fail_if (\<not> (sh_status sh = Delivered \<or> sh_status sh = Cancelled) \<or>
          sh_escrow_amount sh \<noteq> 0) InvalidStatus),
     fail_if (sh_status sh = Disputed \<and> sh_finalized sh) InvalidStatus,
     fail_if (sh_status sh = Created \<and> sh_paid_milestones sh \<noteq> []) InvalidStatus]"

text \<open>The loop that adds the percentages up; the sum is a \<open>u32\<close> that traps on overflow.\<close>

fun total_percentage :: "(sym \<times> nat) list \<Rightarrow> nat \<Rightarrow> ('t, nat) nav" where
  "total_percentage [] acc = ret acc"
| "total_percentage ((name, pct) # ms) acc =
     andthen (fail_if (pct > 100) InvalidPaymentMilestones)
       (bind (u32_add acc pct) (total_percentage ms))"

definition validate_milestones :: "'t env \<Rightarrow> (sym \<times> nat) list \<Rightarrow> ('t, unit) nav" where
  "validate_milestones E ms =
     (if ms = [] then ret ()
      else andthen (validate_milestone_symbols E ms)
        (bind (total_percentage ms 0) (\<lambda>tot. fail_if (tot \<noteq> 100) MilestoneSumInvalid)))"

section \<open>Lemmas\<close>

lemma duplicate_xdr_iff: "duplicate_xdr xs \<longleftrightarrow> \<not> distinct xs"
  by (induction xs) (auto simp: list_ex_iff)

lemma wp_validate_hash [wp_simps]:
  "wp (validate_hash h) K = (\<lambda>s. \<not> all_zero h \<longrightarrow> K () s)"
  by (simp add: validate_hash_def wp_simps)

text \<open>What \<open>validate_shipment_invariants\<close> accepts, as a predicate.\<close>

definition shipment_valid :: "Shipment \<Rightarrow> bool" where
  "shipment_valid sh \<longleftrightarrow>
     0 \<le> sh_escrow_amount sh \<and> sh_escrow_amount sh \<le> sh_total_escrow sh \<and>
     (sh_finalized sh \<longrightarrow> (sh_status sh = Delivered \<or> sh_status sh = Cancelled) \<and>
        sh_escrow_amount sh = 0) \<and>
     (sh_status sh = Created \<longrightarrow> sh_paid_milestones sh = [])"

lemma wp_validate_shipment_invariants [wp_simps]:
  "wp (validate_shipment_invariants sh) K = (\<lambda>s. shipment_valid sh \<longrightarrow> K () s)"
  by (auto simp: fun_eq_iff validate_shipment_invariants_def shipment_valid_def wp_simps)

lemma run_validate_shipment_invariants:
  "validate_shipment_invariants sh s =
     (if shipment_valid sh then (Inr (), s) else (Inl (Err InvalidStatus), s))"
  by (auto simp: validate_shipment_invariants_def shipment_valid_def run_simps)

lemma wp_total_percentage:
  "wp (total_percentage ms acc)
     (\<lambda>r t. t = s \<and> r = acc + sum_list (map snd ms) \<and> (\<forall>m\<in>set ms. snd m \<le> 100)) s"
proof (induction ms arbitrary: acc)
  case Nil
  then show ?case by (simp add: wp_simps)
next
  case (Cons m ms)
  obtain name pct where m: "m = (name, pct)" by fastforce
  show ?case unfolding m by (auto simp: wp_simps intro!: wp_mono [OF Cons.IH])
qed

text \<open>Loops and tests that leave the state alone.\<close>

lemma wp_same_for_each:
  assumes "\<And>x. x \<in> set xs \<Longrightarrow> wp (f x) (\<lambda>_ t. t = s) s"
  shows "wp (for_each xs f) (\<lambda>_ t. t = s) s"
  by (rule wp_for_each) (auto simp: assms)

lemma wp_validate_symbol_chars_same: "wp (validate_symbol_chars E y) (\<lambda>_ t. t = s) s"
  by (auto simp: validate_symbol_chars_def Let_def wp_simps intro!: wp_same_for_each)

lemma wp_validate_milestone_symbols:
  "wp (validate_milestone_symbols E ms) (\<lambda>_ t. t = s \<and>
     distinct (map (\<lambda>m. symbol_xdr E (fst m)) ms)) s"
proof -
  have "wp (for_each ms (\<lambda>(name, pct). do_all [
       validate_symbol E name,
       map_err (\<lambda>_. InvalidSymbol) (validate_symbol_chars E name),
       map_err (\<lambda>_. InvalidPaymentMilestoneName) (validate_symbol E name),
       fail_if (pct = 0 \<or> pct > 100) InvalidPaymentMilestones])) (\<lambda>_ t. t = s) s"
    by (rule wp_same_for_each)
      (auto simp: wp_simps validate_symbol_def Let_def split: prod.splits
        intro!: wp_mono [OF wp_validate_symbol_chars_same])
  then show ?thesis
    unfolding validate_milestone_symbols_def
    by (auto simp: wp_simps duplicate_xdr_iff elim!: wp_mono)
qed

lemma wp_validate_milestones:
  "wp (validate_milestones E ms) (\<lambda>_ t. t = s \<and> (ms = [] \<or> sum_list (map snd ms) = 100) \<and>
     distinct (map (\<lambda>m. symbol_xdr E (fst m)) ms)) s"
  by (auto simp: validate_milestones_def wp_simps
      intro!: wp_mono [OF wp_validate_milestone_symbols] wp_mono [OF wp_total_percentage])

end
