(* ===== verification/Events.thy ===== *)
theory Events
  imports Validation
begin

text \<open>
  The events the shipment contract publishes: the topics and hash domains of \<open>event_topics.rs\<close>, the
  idempotency keys and the emitters of \<open>events.rs\<close>. Most emitters append to the trace; those
  that carry an idempotency key also advance the event counter of the shipment, and some read the
  token contract's address and trap when there is none.
\<close>

section \<open>Hash domains\<close>

definition HASH_DOMAIN_SHIPMENT :: byte where "HASH_DOMAIN_SHIPMENT = 1"
definition HASH_DOMAIN_ESCROW :: byte where "HASH_DOMAIN_ESCROW = 2"
definition HASH_DOMAIN_DISPUTE :: byte where "HASH_DOMAIN_DISPUTE = 3"
definition HASH_DOMAIN_CONDITION :: byte where "HASH_DOMAIN_CONDITION = 4"
definition HASH_DOMAIN_CARRIER :: byte where "HASH_DOMAIN_CARRIER = 5"
definition HASH_DOMAIN_ADMIN :: byte where "HASH_DOMAIN_ADMIN = 6"
definition HASH_DOMAIN_RBAC :: byte where "HASH_DOMAIN_RBAC = 7"
definition HASH_DOMAIN_NOTIFICATION :: byte where "HASH_DOMAIN_NOTIFICATION = 8"
definition HASH_DOMAIN_NOTE :: byte where "HASH_DOMAIN_NOTE = 9"
definition HASH_DOMAIN_PLATFORM :: byte where "HASH_DOMAIN_PLATFORM = 11"

definition NON_DEFAULT_HASH_DOMAINS :: "(sym \<times> byte) list" where
  "NON_DEFAULT_HASH_DOMAINS = [
     (''escrow_deposited'', HASH_DOMAIN_ESCROW),
     (''escrow_released'', HASH_DOMAIN_ESCROW),
     (''escrow_refunded'', HASH_DOMAIN_ESCROW),
     (''milestone_payment_released'', HASH_DOMAIN_ESCROW),
     (''escrow_frozen'', HASH_DOMAIN_ESCROW),
     (''dispute_raised'', HASH_DOMAIN_DISPUTE),
     (''dispute_resolved'', HASH_DOMAIN_DISPUTE),
     (''evidence_added'', HASH_DOMAIN_DISPUTE),
     (''condition_breach'', HASH_DOMAIN_CONDITION),
     (''carrier_breach'', HASH_DOMAIN_CONDITION),
     (''geofence_event'', HASH_DOMAIN_CONDITION),
     (''carrier_dispute_loss'', HASH_DOMAIN_CARRIER),
     (''carrier_late_delivery'', HASH_DOMAIN_CARRIER),
     (''carrier_on_time_delivery'', HASH_DOMAIN_CARRIER),
     (''carrier_handoff'', HASH_DOMAIN_CARRIER),
     (''carrier_handoff_completed'', HASH_DOMAIN_CARRIER),
     (''carrier_milestone_rate'', HASH_DOMAIN_CARRIER),
     (''carrier_suspended'', HASH_DOMAIN_CARRIER),
     (''carrier_reactivated'', HASH_DOMAIN_CARRIER),
     (''admin_proposed'', HASH_DOMAIN_ADMIN),
     (''admin_transferred'', HASH_DOMAIN_ADMIN),
     (''contract_upgraded'', HASH_DOMAIN_ADMIN),
     (''migration_reported'', HASH_DOMAIN_ADMIN),
     (''contract_paused'', HASH_DOMAIN_ADMIN),
     (''contract_unpaused'', HASH_DOMAIN_ADMIN),
     (''force_cancelled'', HASH_DOMAIN_ADMIN),
     (''init'', HASH_DOMAIN_ADMIN),
     (''set_limit'', HASH_DOMAIN_ADMIN),
     (''set_cmp_limit'', HASH_DOMAIN_ADMIN),
     (''proposal_digest'', HASH_DOMAIN_ADMIN),
     (''config_updated'', HASH_DOMAIN_ADMIN),
     (''quota_set'', HASH_DOMAIN_ADMIN),
     (''role_revoked'', HASH_DOMAIN_RBAC),
     (''role_changed'', HASH_DOMAIN_RBAC),
     (''notification'', HASH_DOMAIN_NOTIFICATION),
     (''note_appended'', HASH_DOMAIN_NOTE),
     (''platform_fee_collected'', HASH_DOMAIN_PLATFORM),
     (''fee_config_updated'', HASH_DOMAIN_PLATFORM)]"

definition hash_domain_for_symbol :: "sym \<Rightarrow> byte" where
  "hash_domain_for_symbol y =
     unwrap_or HASH_DOMAIN_SHIPMENT (map_of NON_DEFAULT_HASH_DOMAINS y)"

section \<open>Idempotency keys\<close>

definition EVENT_SCHEMA_VERSION :: nat where "EVENT_SCHEMA_VERSION = 2"

definition next_event_counter :: "nat \<Rightarrow> 't store \<Rightarrow> nat" where
  "next_event_counter i s = u32_saturating_add (storage_get_event_count i s) 1"

definition append_len_prefixed_bytes :: "bytes \<Rightarrow> bytes \<Rightarrow> bytes" where
  "append_len_prefixed_bytes payload dat = payload @ be_bytes 4 (length dat) @ dat"

definition idempotency_preimage :: "byte \<Rightarrow> nat \<Rightarrow> bytes \<Rightarrow> nat \<Rightarrow> bytes" where
  "idempotency_preimage domain i event_type counter =
     append_len_prefixed_bytes
       (append_len_prefixed_bytes [] [domain] @ be_bytes 8 i) event_type @
     be_bytes 4 counter"

definition generate_idempotency_key :: "'t env \<Rightarrow> byte \<Rightarrow> nat \<Rightarrow> bytes \<Rightarrow> nat \<Rightarrow> hash" where
  "generate_idempotency_key E domain i event_type counter =
     sha256 E (idempotency_preimage domain i event_type counter)"

text \<open>\<open>core::str::from_utf8\<close>: whether bytes are well-formed UTF-8.\<close>

definition utf8_cont :: "byte \<Rightarrow> bool" where
  "utf8_cont b \<longleftrightarrow> 128 \<le> b \<and> b \<le> 191"

fun utf8_valid :: "bytes \<Rightarrow> bool" where
  "utf8_valid [] = True"
| "utf8_valid (a # bs) =
    (if a < 128 then utf8_valid bs
     else if 194 \<le> a \<and> a \<le> 223 then
       (case bs of b # r \<Rightarrow> utf8_cont b \<and> utf8_valid r | _ \<Rightarrow> False)
     else if 224 \<le> a \<and> a \<le> 239 then
       (case bs of b # c # r \<Rightarrow> utf8_cont b \<and> utf8_cont c \<and>
          (a = 224 \<longrightarrow> 160 \<le> b) \<and> (a = 237 \<longrightarrow> b \<le> 159) \<and> utf8_valid r | _ \<Rightarrow> False)
     else if 240 \<le> a \<and> a \<le> 244 then
       (case bs of b # c # d # r \<Rightarrow> utf8_cont b \<and> utf8_cont c \<and> utf8_cont d \<and>
          (a = 240 \<longrightarrow> 144 \<le> b) \<and> (a = 244 \<longrightarrow> b \<le> 143) \<and> utf8_valid r | _ \<Rightarrow> False)
     else False)"

text \<open>
  \<open>compute_idempotency_key\<close> recovers the topic from the encoding of its symbol: 32 bytes of it
  are copied, and the slice \<open>raw[8..8 + char_count]\<close> traps when it leaves them.
\<close>

definition compute_idempotency_key :: "'t env \<Rightarrow> nat \<Rightarrow> sym \<Rightarrow> nat \<Rightarrow> ('t, hash) nav" where
  "compute_idempotency_key E i event_type counter =
     (let raw = xdr_buffer (symbol_xdr E event_type); char_count = xdr_char_count raw in
      if 8 + char_count > 32 then panic
      else let topic_bytes = take char_count (drop 8 raw);
               topic = (if utf8_valid topic_bytes then topic_bytes else []);
               domain = hash_domain_for_symbol event_type
           in ret (generate_idempotency_key E domain i topic counter))"

section \<open>Emitters\<close>

definition publish :: "sym \<Rightarrow> enum_val val list \<Rightarrow> 't store \<Rightarrow> 't store" where
  "publish topic payload s = s\<lparr>event_log := event_log s @ [(topic, payload)]\<rparr>"

text \<open>An event that ends in the schema version, the event counter and the idempotency key.\<close>

definition publish_counted ::
    "'t env \<Rightarrow> byte \<Rightarrow> sym \<Rightarrow> nat \<Rightarrow> enum_val val list \<Rightarrow> 't store \<Rightarrow> 't store" where
  "publish_counted E domain topic i payload s =
     (let counter = next_event_counter i s;
          key = generate_idempotency_key E domain i (utf8 topic) counter
      in increment_event_count i
           (publish topic (payload @ [VU32 EVENT_SCHEMA_VERSION, VU32 counter, VBytes key]) s))"

definition token_or_trap :: "('t, addr) nav" where
  "token_or_trap = bind (gets get_token_contract) unwrap"

definition emit_shipment_created :: "'t env \<Rightarrow> nat \<Rightarrow> addr \<Rightarrow> addr \<Rightarrow> hash \<Rightarrow> ('t, unit) nav" where
  "emit_shipment_created E i sender receiver h =
     bind token_or_trap (\<lambda>tok. modify (publish_counted E HASH_DOMAIN_SHIPMENT ''shipment_created'' i
       [VU64 i, VAddr sender, VAddr receiver, VAddr tok, VBytes h]))"

definition emit_status_updated ::
    "'t env \<Rightarrow> nat \<Rightarrow> ShipmentStatus \<Rightarrow> ShipmentStatus \<Rightarrow> hash \<Rightarrow> ('t, unit) nav" where
  "emit_status_updated E i old_status new_status h =
     bind token_or_trap (\<lambda>tok. modify (publish_counted E HASH_DOMAIN_SHIPMENT ''status_updated'' i
       [VU64 i, VEnum (EStatus old_status), VEnum (EStatus new_status), VAddr tok, VBytes h]))"

definition emit_milestone_recorded :: "'t env \<Rightarrow> nat \<Rightarrow> sym \<Rightarrow> hash \<Rightarrow> addr \<Rightarrow> ('t, unit) nav" where
  "emit_milestone_recorded E i checkpoint h reporter = do_all [
     modify (publish_counted E HASH_DOMAIN_SHIPMENT ''milestone_recorded'' i
       [VU64 i, VSym checkpoint, VBytes h, VAddr reporter]),
     modify (increment_milestone_event_count i)]"

definition emit_escrow_deposited :: "'t env \<Rightarrow> nat \<Rightarrow> addr \<Rightarrow> int \<Rightarrow> ('t, unit) nav" where
  "emit_escrow_deposited E i from v =
     bind token_or_trap (\<lambda>tok. modify (publish_counted E HASH_DOMAIN_ESCROW ''escrow_deposited'' i
       [VU64 i, VAddr from, VAddr tok, VI128 v]))"

definition emit_escrow_released :: "'t env \<Rightarrow> nat \<Rightarrow> addr \<Rightarrow> int \<Rightarrow> ('t, unit) nav" where
  "emit_escrow_released E i to v =
     bind token_or_trap (\<lambda>tok. modify (publish_counted E HASH_DOMAIN_ESCROW ''escrow_released'' i
       [VU64 i, VAddr to, VAddr tok, VI128 v]))"

definition emit_escrow_refunded :: "'t env \<Rightarrow> nat \<Rightarrow> addr \<Rightarrow> int \<Rightarrow> ('t, unit) nav" where
  "emit_escrow_refunded E i to v =
     bind token_or_trap (\<lambda>tok. modify (publish_counted E HASH_DOMAIN_ESCROW ''escrow_refunded'' i
       [VU64 i, VAddr to, VAddr tok, VI128 v]))"

definition emit_milestone_payment_released ::
    "'t env \<Rightarrow> nat \<Rightarrow> sym \<Rightarrow> int \<Rightarrow> addr \<Rightarrow> ('t, unit) nav" where
  "emit_milestone_payment_released E i milestone v to =
     modify (publish_counted E HASH_DOMAIN_ESCROW ''milestone_payment_released'' i
       [VU64 i, VSym milestone, VI128 v, VAddr to])"

definition emit_dispute_raised :: "nat \<Rightarrow> addr \<Rightarrow> hash \<Rightarrow> ('t, unit) nav" where
  "emit_dispute_raised i raised_by h =
     modify (publish ''dispute_raised'' [VU64 i, VAddr raised_by, VBytes h])"

definition emit_shipment_cancelled :: "'t env \<Rightarrow> nat \<Rightarrow> addr \<Rightarrow> hash \<Rightarrow> ('t, unit) nav" where
  "emit_shipment_cancelled E i caller h =
     modify (publish_counted E HASH_DOMAIN_SHIPMENT ''shipment_cancelled'' i
       [VU64 i, VAddr caller, VBytes h])"

definition emit_contract_upgraded :: "addr \<Rightarrow> hash \<Rightarrow> nat \<Rightarrow> ('t, unit) nav" where
  "emit_contract_upgraded admin h version =
     modify (publish ''contract_upgraded'' [VAddr admin, VBytes h, VU32 version])"

definition emit_migration_report :: "nat \<Rightarrow> nat \<Rightarrow> nat \<Rightarrow> ('t, unit) nav" where
  "emit_migration_report current target affected =
     modify (publish ''migration_reported'' [VU32 current, VU32 target, VU64 affected])"

definition emit_carrier_handoff :: "nat \<Rightarrow> addr \<Rightarrow> addr \<Rightarrow> hash \<Rightarrow> ('t, unit) nav" where
  "emit_carrier_handoff i from to h =
     modify (publish ''carrier_handoff'' [VU64 i, VAddr from, VAddr to, VBytes h])"

definition emit_condition_breach ::
    "nat \<Rightarrow> addr \<Rightarrow> BreachType \<Rightarrow> Severity \<Rightarrow> hash \<Rightarrow> ('t, unit) nav" where
  "emit_condition_breach i carrier b sev h =
     modify (publish ''condition_breach''
       [VU64 i, VAddr carrier, VEnum (EBreach b), VEnum (ESeverity sev), VBytes h])"

definition emit_admin_proposed :: "addr \<Rightarrow> addr \<Rightarrow> ('t, unit) nav" where
  "emit_admin_proposed current proposed =
     modify (publish ''admin_proposed'' [VAddr current, VAddr proposed])"

definition emit_admin_transferred :: "addr \<Rightarrow> addr \<Rightarrow> ('t, unit) nav" where
  "emit_admin_transferred old_admin new_admin =
     modify (publish ''admin_transferred'' [VAddr old_admin, VAddr new_admin])"

definition emit_shipment_expired :: "'t env \<Rightarrow> nat \<Rightarrow> ('t, unit) nav" where
  "emit_shipment_expired E i =
     modify (publish_counted E HASH_DOMAIN_SHIPMENT ''shipment_expired'' i [VU64 i])"

definition emit_delivery_success :: "'t env \<Rightarrow> addr \<Rightarrow> nat \<Rightarrow> nat \<Rightarrow> ('t, unit) nav" where
  "emit_delivery_success E carrier i time =
     modify (publish_counted E HASH_DOMAIN_SHIPMENT ''delivery_success'' i
       [VAddr carrier, VU64 i, VU64 time])"

definition emit_carrier_breach :: "addr \<Rightarrow> nat \<Rightarrow> BreachType \<Rightarrow> Severity \<Rightarrow> ('t, unit) nav" where
  "emit_carrier_breach carrier i b sev =
     modify (publish ''carrier_breach''
       [VAddr carrier, VU64 i, VEnum (EBreach b), VEnum (ESeverity sev)])"

definition emit_carrier_dispute_loss :: "addr \<Rightarrow> nat \<Rightarrow> ('t, unit) nav" where
  "emit_carrier_dispute_loss carrier i =
     modify (publish ''carrier_dispute_loss'' [VAddr carrier, VU64 i])"

definition emit_notification :: "addr \<Rightarrow> NotificationType \<Rightarrow> nat \<Rightarrow> hash \<Rightarrow> ('t, unit) nav" where
  "emit_notification recipient n i h =
     modify (publish ''notification'' [VAddr recipient, VEnum (ENotification n), VU64 i, VBytes h])"

definition emit_shipment_archived :: "nat \<Rightarrow> nat \<Rightarrow> ('t, unit) nav" where
  "emit_shipment_archived i time = modify (publish ''shipment_archived'' [VU64 i, VU64 time])"

definition emit_carrier_late_delivery :: "addr \<Rightarrow> nat \<Rightarrow> nat \<Rightarrow> nat \<Rightarrow> ('t, unit) nav" where
  "emit_carrier_late_delivery carrier i dl actual =
     modify (publish ''carrier_late_delivery'' [VAddr carrier, VU64 i, VU64 dl, VU64 actual])"

definition emit_carrier_on_time_delivery :: "addr \<Rightarrow> nat \<Rightarrow> ('t, unit) nav" where
  "emit_carrier_on_time_delivery carrier i =
     modify (publish ''carrier_on_time_delivery'' [VAddr carrier, VU64 i])"

definition emit_carrier_handoff_completed :: "addr \<Rightarrow> addr \<Rightarrow> nat \<Rightarrow> ('t, unit) nav" where
  "emit_carrier_handoff_completed from to i =
     modify (publish ''carrier_handoff_completed'' [VAddr from, VAddr to, VU64 i])"

definition emit_role_revoked :: "addr \<Rightarrow> addr \<Rightarrow> Role \<Rightarrow> ('t, unit) nav" where
  "emit_role_revoked admin target r =
     modify (publish ''role_revoked'' [VAddr admin, VAddr target, VEnum (ERole r)])"

definition emit_role_changed ::
    "'t env \<Rightarrow> RoleChangeAction \<Rightarrow> addr \<Rightarrow> addr \<Rightarrow> Role \<Rightarrow> ('t, unit) nav" where
  "emit_role_changed E action admin target r =
     modify (publish ''role_changed'' [VEnum (ERoleAction action), VAddr admin, VAddr target,
       VEnum (ERole r), VU64 (timestamp E)])"

definition emit_carrier_milestone_rate :: "addr \<Rightarrow> nat \<Rightarrow> nat \<Rightarrow> nat \<Rightarrow> ('t, unit) nav" where
  "emit_carrier_milestone_rate carrier i hit tot =
     modify (publish ''carrier_milestone_rate'' [VAddr carrier, VU64 i, VU32 hit, VU32 tot])"

definition emit_force_cancelled :: "nat \<Rightarrow> addr \<Rightarrow> hash \<Rightarrow> int \<Rightarrow> ('t, unit) nav" where
  "emit_force_cancelled i admin h refunded = do_all [
     modify (publish ''force_cancelled'' [VU64 i, VAddr admin, VBytes h, VI128 refunded]),
     modify (increment_event_count i)]"

definition emit_note_appended :: "nat \<Rightarrow> nat \<Rightarrow> hash \<Rightarrow> addr \<Rightarrow> ('t, unit) nav" where
  "emit_note_appended i index h reporter = do_all [
     modify (publish ''note_appended'' [VU64 i, VU32 index, VBytes h, VAddr reporter]),
     modify (increment_event_count i)]"

definition emit_evidence_added :: "nat \<Rightarrow> nat \<Rightarrow> hash \<Rightarrow> addr \<Rightarrow> ('t, unit) nav" where
  "emit_evidence_added i index h reporter = do_all [
     modify (publish ''evidence_added'' [VU64 i, VU32 index, VBytes h, VAddr reporter]),
     modify (increment_event_count i)]"

definition emit_dispute_resolved ::
    "'t env \<Rightarrow> nat \<Rightarrow> DisputeResolution \<Rightarrow> hash \<Rightarrow> addr \<Rightarrow> ('t, unit) nav" where
  "emit_dispute_resolved E i r h admin =
     modify (publish_counted E HASH_DOMAIN_DISPUTE ''dispute_resolved'' i
       [VU64 i, VEnum (EResolution r), VBytes h, VAddr admin])"

definition emit_contract_paused :: "'t env \<Rightarrow> addr \<Rightarrow> ('t, unit) nav" where
  "emit_contract_paused E admin =
     modify (publish ''contract_paused'' [VAddr admin, VU64 (timestamp E)])"

definition emit_contract_unpaused :: "'t env \<Rightarrow> addr \<Rightarrow> ('t, unit) nav" where
  "emit_contract_unpaused E admin =
     modify (publish ''contract_unpaused'' [VAddr admin, VU64 (timestamp E)])"

definition emit_recovery_event ::
    "'t env \<Rightarrow> nat \<Rightarrow> addr \<Rightarrow> ShipmentStatus \<Rightarrow> ShipmentStatus \<Rightarrow> hash \<Rightarrow> ('t, unit) nav" where
  "emit_recovery_event E i admin old_status new_status h =
     modify (publish ''recovery_event'' [VU64 i, VAddr admin, VEnum (EStatus old_status),
       VEnum (EStatus new_status), VBytes h, VU64 (timestamp E)])"

definition emit_escrow_unlock_event :: "'t env \<Rightarrow> nat \<Rightarrow> addr \<Rightarrow> int \<Rightarrow> hash \<Rightarrow> ('t, unit) nav" where
  "emit_escrow_unlock_event E i admin old_amount h =
     modify (publish ''escrow_unlock_event''
       [VU64 i, VAddr admin, VI128 old_amount, VBytes h, VU64 (timestamp E)])"

definition emit_finalization_clear_event :: "'t env \<Rightarrow> nat \<Rightarrow> addr \<Rightarrow> hash \<Rightarrow> ('t, unit) nav" where
  "emit_finalization_clear_event E i admin h =
     modify (publish ''finalization_clear_event'' [VU64 i, VAddr admin, VBytes h, VU64 (timestamp E)])"

definition emit_escrow_frozen :: "'t env \<Rightarrow> nat \<Rightarrow> EscrowFreezeReason \<Rightarrow> addr \<Rightarrow> ('t, unit) nav" where
  "emit_escrow_frozen E i r caller =
     modify (publish ''escrow_frozen'' [VU64 i, VEnum (EFreeze r), VAddr caller, VU64 (timestamp E)])"

definition emit_platform_fee_collected :: "'t env \<Rightarrow> nat \<Rightarrow> addr \<Rightarrow> int \<Rightarrow> ('t, unit) nav" where
  "emit_platform_fee_collected E i treasury v =
     modify (publish_counted E HASH_DOMAIN_PLATFORM ''platform_fee_collected'' i
       [VU64 i, VAddr treasury, VI128 v])"

definition emit_fee_config_updated :: "addr \<Rightarrow> nat \<Rightarrow> addr \<Rightarrow> ('t, unit) nav" where
  "emit_fee_config_updated admin bps treasury =
     modify (publish ''fee_config_updated''
       [VAddr admin, VU32 bps, VAddr treasury, VU32 EVENT_SCHEMA_VERSION])"

definition emit_contract_initialized :: "addr \<Rightarrow> addr \<Rightarrow> ('t, unit) nav" where
  "emit_contract_initialized admin tok = modify (publish ''init'' [VAddr admin, VAddr tok])"

definition emit_shipment_limit_updated :: "addr \<Rightarrow> nat \<Rightarrow> ('t, unit) nav" where
  "emit_shipment_limit_updated admin limit = modify (publish ''set_limit'' [VAddr admin, VU32 limit])"

definition emit_company_limit_updated :: "addr \<Rightarrow> addr \<Rightarrow> nat \<Rightarrow> ('t, unit) nav" where
  "emit_company_limit_updated admin company limit =
     modify (publish ''set_cmp_limit'' [VAddr admin, VAddr company, VU32 limit])"

definition emit_carrier_suspended :: "addr \<Rightarrow> addr \<Rightarrow> ('t, unit) nav" where
  "emit_carrier_suspended admin carrier =
     modify (publish ''carrier_suspended'' [VAddr admin, VAddr carrier])"

definition emit_carrier_reactivated :: "addr \<Rightarrow> addr \<Rightarrow> ('t, unit) nav" where
  "emit_carrier_reactivated admin carrier =
     modify (publish ''carrier_reactivated'' [VAddr admin, VAddr carrier])"

definition emit_delivery_confirmed :: "'t env \<Rightarrow> nat \<Rightarrow> addr \<Rightarrow> hash \<Rightarrow> ('t, unit) nav" where
  "emit_delivery_confirmed E i receiver h =
     modify (publish_counted E HASH_DOMAIN_SHIPMENT ''delivery_confirmed'' i
       [VU64 i, VAddr receiver, VBytes h])"

definition emit_geofence_event :: "'t env \<Rightarrow> nat \<Rightarrow> GeofenceEvent \<Rightarrow> hash \<Rightarrow> ('t, unit) nav" where
  "emit_geofence_event E i g h =
     modify (publish_counted E HASH_DOMAIN_SHIPMENT ''geofence_event'' i
       [VU64 i, VEnum (EGeofence g), VBytes h])"

definition emit_eta_updated :: "'t env \<Rightarrow> nat \<Rightarrow> nat \<Rightarrow> hash \<Rightarrow> ('t, unit) nav" where
  "emit_eta_updated E i eta h =
     modify (publish_counted E HASH_DOMAIN_SHIPMENT ''eta_updated'' i
       [VU64 i, VU64 eta, VBytes h])"

definition emit_proposal_digest :: "nat \<Rightarrow> hash \<Rightarrow> nat \<Rightarrow> ('t, unit) nav" where
  "emit_proposal_digest p digest time =
     modify (publish ''proposal_digest'' [VU64 p, VBytes digest, VU64 time])"

definition emit_config_updated :: "addr \<Rightarrow> ContractConfig \<Rightarrow> ('t, unit) nav" where
  "emit_config_updated admin c = modify (publish ''config_updated'' [VAddr admin, VEnum (EConfig c)])"

definition emit_quota_set :: "addr \<Rightarrow> nat \<Rightarrow> nat \<Rightarrow> ('t, unit) nav" where
  "emit_quota_set admin count window =
     modify (publish ''quota_set'' [VAddr admin, VU32 count, VU64 window])"

section \<open>Lemmas\<close>

text \<open>
  Publishing touches the trace and the event counters only. Every emitter is one of three shapes;
  the collection \<open>emit_defs\<close> unfolds them all.
\<close>

named_theorems emit_defs \<open>definitions of the emitters\<close>

declare emit_shipment_created_def [emit_defs] emit_status_updated_def [emit_defs]
  emit_milestone_recorded_def [emit_defs] emit_escrow_deposited_def [emit_defs]
  emit_escrow_released_def [emit_defs] emit_escrow_refunded_def [emit_defs]
  emit_milestone_payment_released_def [emit_defs] emit_dispute_raised_def [emit_defs]
  emit_shipment_cancelled_def [emit_defs] emit_contract_upgraded_def [emit_defs]
  emit_migration_report_def [emit_defs] emit_carrier_handoff_def [emit_defs]
  emit_condition_breach_def [emit_defs] emit_admin_proposed_def [emit_defs]
  emit_admin_transferred_def [emit_defs] emit_shipment_expired_def [emit_defs]
  emit_delivery_success_def [emit_defs] emit_carrier_breach_def [emit_defs]
  emit_carrier_dispute_loss_def [emit_defs] emit_notification_def [emit_defs]
  emit_shipment_archived_def [emit_defs] emit_carrier_late_delivery_def [emit_defs]
  emit_carrier_on_time_delivery_def [emit_defs] emit_carrier_handoff_completed_def [emit_defs]
  emit_role_revoked_def [emit_defs] emit_role_changed_def [emit_defs]
  emit_carrier_milestone_rate_def [emit_defs] emit_force_cancelled_def [emit_defs]
  emit_note_appended_def [emit_defs] emit_evidence_added_def [emit_defs]
  emit_dispute_resolved_def [emit_defs] emit_contract_paused_def [emit_defs]
  emit_contract_unpaused_def [emit_defs] emit_recovery_event_def [emit_defs]
  emit_escrow_unlock_event_def [emit_defs] emit_finalization_clear_event_def [emit_defs]
  emit_escrow_frozen_def [emit_defs] emit_platform_fee_collected_def [emit_defs]
  emit_fee_config_updated_def [emit_defs] emit_contract_initialized_def [emit_defs]
  emit_shipment_limit_updated_def [emit_defs] emit_company_limit_updated_def [emit_defs]
  emit_carrier_suspended_def [emit_defs] emit_carrier_reactivated_def [emit_defs]
  emit_delivery_confirmed_def [emit_defs] emit_geofence_event_def [emit_defs]
  emit_eta_updated_def [emit_defs] emit_proposal_digest_def [emit_defs]
  emit_config_updated_def [emit_defs] emit_quota_set_def [emit_defs]

lemma wp_token_or_trap [wp_simps]:
  "wp token_or_trap Q = (\<lambda>s. \<forall>tok. k_TokenContract s = Some tok \<longrightarrow> Q tok s)"
  by (simp add: token_or_trap_def get_token_contract_def wp_simps)

text \<open>The frame of publishing: none of the fields the invariants speak about.\<close>

lemma publish_frame [simp]:
  "k_Admin (publish topic payload s) = k_Admin s"
  "k_ShipmentCount (publish topic payload s) = k_ShipmentCount s"
  "k_Shipment (publish topic payload s) = k_Shipment s"
  "k_ArchivedShipment (publish topic payload s) = k_ArchivedShipment s"
  "k_Escrow (publish topic payload s) = k_Escrow s"
  "k_TokenContract (publish topic payload s) = k_TokenContract s"
  "k_StatusCount (publish topic payload s) = k_StatusCount s"
  "k_CircuitBreakerState (publish topic payload s) = k_CircuitBreakerState s"
  "k_ReentrancyLock (publish topic payload s) = k_ReentrancyLock s"
  "k_Proposal (publish topic payload s) = k_Proposal s"
  "k_ProposalCounter (publish topic payload s) = k_ProposalCounter s"
  "k_AdminList (publish topic payload s) = k_AdminList s"
  "k_MultiSigThreshold (publish topic payload s) = k_MultiSigThreshold s"
  "k_ShipmentDependents (publish topic payload s) = k_ShipmentDependents s"
  "k_ContractConfig (publish topic payload s) = k_ContractConfig s"
  "k_SettlementCounter (publish topic payload s) = k_SettlementCounter s"
  "k_Settlement (publish topic payload s) = k_Settlement s"
  "k_FeeConfig (publish topic payload s) = k_FeeConfig s"
  "k_ActiveShipmentCount (publish topic payload s) = k_ActiveShipmentCount s"
  "k_IsPaused (publish topic payload s) = k_IsPaused s"
  "tokens (publish topic payload s) = tokens s"
  by (simp_all add: publish_def)

lemma increment_event_count_frame [simp]:
  "k_Admin (increment_event_count i s) = k_Admin s"
  "k_ShipmentCount (increment_event_count i s) = k_ShipmentCount s"
  "k_Shipment (increment_event_count i s) = k_Shipment s"
  "k_ArchivedShipment (increment_event_count i s) = k_ArchivedShipment s"
  "k_Escrow (increment_event_count i s) = k_Escrow s"
  "k_TokenContract (increment_event_count i s) = k_TokenContract s"
  "k_StatusCount (increment_event_count i s) = k_StatusCount s"
  "k_CircuitBreakerState (increment_event_count i s) = k_CircuitBreakerState s"
  "k_ReentrancyLock (increment_event_count i s) = k_ReentrancyLock s"
  "k_Proposal (increment_event_count i s) = k_Proposal s"
  "k_ProposalCounter (increment_event_count i s) = k_ProposalCounter s"
  "k_AdminList (increment_event_count i s) = k_AdminList s"
  "k_MultiSigThreshold (increment_event_count i s) = k_MultiSigThreshold s"
  "k_ShipmentDependents (increment_event_count i s) = k_ShipmentDependents s"
  "k_ContractConfig (increment_event_count i s) = k_ContractConfig s"
  "k_SettlementCounter (increment_event_count i s) = k_SettlementCounter s"
  "k_Settlement (increment_event_count i s) = k_Settlement s"
  "k_FeeConfig (increment_event_count i s) = k_FeeConfig s"
  "k_ActiveShipmentCount (increment_event_count i s) = k_ActiveShipmentCount s"
  "k_IsPaused (increment_event_count i s) = k_IsPaused s"
  "tokens (increment_event_count i s) = tokens s"
  by (simp_all add: increment_event_count_def)

lemma publish_counted_frame [simp]:
  "k_Admin (publish_counted E d topic i payload s) = k_Admin s"
  "k_ShipmentCount (publish_counted E d topic i payload s) = k_ShipmentCount s"
  "k_Shipment (publish_counted E d topic i payload s) = k_Shipment s"
  "k_ArchivedShipment (publish_counted E d topic i payload s) = k_ArchivedShipment s"
  "k_Escrow (publish_counted E d topic i payload s) = k_Escrow s"
  "k_TokenContract (publish_counted E d topic i payload s) = k_TokenContract s"
  "k_StatusCount (publish_counted E d topic i payload s) = k_StatusCount s"
  "k_CircuitBreakerState (publish_counted E d topic i payload s) = k_CircuitBreakerState s"
  "k_ReentrancyLock (publish_counted E d topic i payload s) = k_ReentrancyLock s"
  "k_Proposal (publish_counted E d topic i payload s) = k_Proposal s"
  "k_ProposalCounter (publish_counted E d topic i payload s) = k_ProposalCounter s"
  "k_AdminList (publish_counted E d topic i payload s) = k_AdminList s"
  "k_MultiSigThreshold (publish_counted E d topic i payload s) = k_MultiSigThreshold s"
  "k_ShipmentDependents (publish_counted E d topic i payload s) = k_ShipmentDependents s"
  "k_ContractConfig (publish_counted E d topic i payload s) = k_ContractConfig s"
  "k_SettlementCounter (publish_counted E d topic i payload s) = k_SettlementCounter s"
  "k_Settlement (publish_counted E d topic i payload s) = k_Settlement s"
  "k_FeeConfig (publish_counted E d topic i payload s) = k_FeeConfig s"
  "k_ActiveShipmentCount (publish_counted E d topic i payload s) = k_ActiveShipmentCount s"
  "k_IsPaused (publish_counted E d topic i payload s) = k_IsPaused s"
  "tokens (publish_counted E d topic i payload s) = tokens s"
  by (simp_all add: publish_counted_def Let_def)

lemma increment_milestone_event_count_frame [simp]:
  "k_Admin (increment_milestone_event_count i s) = k_Admin s"
  "k_ShipmentCount (increment_milestone_event_count i s) = k_ShipmentCount s"
  "k_Shipment (increment_milestone_event_count i s) = k_Shipment s"
  "k_ArchivedShipment (increment_milestone_event_count i s) = k_ArchivedShipment s"
  "k_Escrow (increment_milestone_event_count i s) = k_Escrow s"
  "k_TokenContract (increment_milestone_event_count i s) = k_TokenContract s"
  "k_StatusCount (increment_milestone_event_count i s) = k_StatusCount s"
  "k_CircuitBreakerState (increment_milestone_event_count i s) = k_CircuitBreakerState s"
  "k_ReentrancyLock (increment_milestone_event_count i s) = k_ReentrancyLock s"
  "k_Proposal (increment_milestone_event_count i s) = k_Proposal s"
  "k_ProposalCounter (increment_milestone_event_count i s) = k_ProposalCounter s"
  "k_AdminList (increment_milestone_event_count i s) = k_AdminList s"
  "k_MultiSigThreshold (increment_milestone_event_count i s) = k_MultiSigThreshold s"
  "k_ShipmentDependents (increment_milestone_event_count i s) = k_ShipmentDependents s"
  "k_ContractConfig (increment_milestone_event_count i s) = k_ContractConfig s"
  "k_SettlementCounter (increment_milestone_event_count i s) = k_SettlementCounter s"
  "k_Settlement (increment_milestone_event_count i s) = k_Settlement s"
  "k_FeeConfig (increment_milestone_event_count i s) = k_FeeConfig s"
  "k_ActiveShipmentCount (increment_milestone_event_count i s) = k_ActiveShipmentCount s"
  "k_IsPaused (increment_milestone_event_count i s) = k_IsPaused s"
  "tokens (increment_milestone_event_count i s) = tokens s"
  by (simp_all add: increment_milestone_event_count_def)

lemma increment_breach_event_count_frame [simp]:
  "k_Admin (increment_breach_event_count i s) = k_Admin s"
  "k_ShipmentCount (increment_breach_event_count i s) = k_ShipmentCount s"
  "k_Shipment (increment_breach_event_count i s) = k_Shipment s"
  "k_ArchivedShipment (increment_breach_event_count i s) = k_ArchivedShipment s"
  "k_Escrow (increment_breach_event_count i s) = k_Escrow s"
  "k_TokenContract (increment_breach_event_count i s) = k_TokenContract s"
  "k_StatusCount (increment_breach_event_count i s) = k_StatusCount s"
  "k_CircuitBreakerState (increment_breach_event_count i s) = k_CircuitBreakerState s"
  "k_ReentrancyLock (increment_breach_event_count i s) = k_ReentrancyLock s"
  "k_Proposal (increment_breach_event_count i s) = k_Proposal s"
  "k_ProposalCounter (increment_breach_event_count i s) = k_ProposalCounter s"
  "k_AdminList (increment_breach_event_count i s) = k_AdminList s"
  "k_MultiSigThreshold (increment_breach_event_count i s) = k_MultiSigThreshold s"
  "k_ShipmentDependents (increment_breach_event_count i s) = k_ShipmentDependents s"
  "k_ContractConfig (increment_breach_event_count i s) = k_ContractConfig s"
  "k_SettlementCounter (increment_breach_event_count i s) = k_SettlementCounter s"
  "k_Settlement (increment_breach_event_count i s) = k_Settlement s"
  "k_FeeConfig (increment_breach_event_count i s) = k_FeeConfig s"
  "k_ActiveShipmentCount (increment_breach_event_count i s) = k_ActiveShipmentCount s"
  "k_IsPaused (increment_breach_event_count i s) = k_IsPaused s"
  "tokens (increment_breach_event_count i s) = tokens s"
  by (simp_all add: increment_breach_event_count_def)

end
