(* ===== verification/Breaker.thy ===== *)
theory Breaker
  imports Events
begin

text \<open>
  The circuit breaker around token transfers, \<open>circuit_breaker.rs\<close>. The tracker's methods are
  functions on the tracker; the module's functions load it, run one and store it back.
\<close>

section \<open>Configuration\<close>

definition default_breaker_config :: CircuitBreakerConfig where
  "default_breaker_config =
     \<lparr>cb_failure_threshold = 5, cb_recovery_timeout = 300, cb_half_open_max_requests = 3\<rparr>"

definition breaker_config_new :: "nat \<Rightarrow> nat \<Rightarrow> nat \<Rightarrow> CircuitBreakerConfig" where
  "breaker_config_new ft rt ho =
     \<lparr>cb_failure_threshold = ft, cb_recovery_timeout = rt, cb_half_open_max_requests = ho\<rparr>"

definition strict :: CircuitBreakerConfig where
  "strict = \<lparr>cb_failure_threshold = 3, cb_recovery_timeout = 600, cb_half_open_max_requests = 1\<rparr>"

definition permissive :: CircuitBreakerConfig where
  "permissive = \<lparr>cb_failure_threshold = 10, cb_recovery_timeout = 60, cb_half_open_max_requests = 5\<rparr>"

datatype CircuitBreakerPreset = DefaultPreset | Strict | Permissive | Custom nat nat nat

definition MAX_FAILURE_THRESHOLD :: nat where "MAX_FAILURE_THRESHOLD = 1000"
definition MAX_RECOVERY_TIMEOUT :: nat where "MAX_RECOVERY_TIMEOUT = 30 * 24 * 60 * 60"
definition MAX_HALF_OPEN_REQUESTS :: nat where "MAX_HALF_OPEN_REQUESTS = 1000"

definition resolve :: "CircuitBreakerPreset \<Rightarrow> ('t, CircuitBreakerConfig) nav" where
  "resolve p = (case p of
     DefaultPreset \<Rightarrow> ret default_breaker_config
   | Strict \<Rightarrow> ret strict
   | Permissive \<Rightarrow> ret permissive
   | Custom ft rt ho \<Rightarrow>
       andthen (fail_if (ft = 0 \<or> ft > MAX_FAILURE_THRESHOLD \<or> rt > MAX_RECOVERY_TIMEOUT \<or>
           ho = 0 \<or> ho > MAX_HALF_OPEN_REQUESTS) InvalidConfig)
         (ret \<lparr>cb_failure_threshold = ft, cb_recovery_timeout = rt,
               cb_half_open_max_requests = ho\<rparr>))"

definition breaker_set_config :: "CircuitBreakerConfig \<Rightarrow> 't store \<Rightarrow> 't store" where
  "breaker_set_config c s = s\<lparr>k_CircuitBreakerConfig := Some c\<rparr>"

definition breaker_get_config :: "'t store \<Rightarrow> CircuitBreakerConfig" where
  "breaker_get_config s = unwrap_or default_breaker_config (k_CircuitBreakerConfig s)"

section \<open>The tracker\<close>

definition new_tracker :: CircuitBreakerTracker where
  "new_tracker = \<lparr>cb_state = Closed, cb_failure_count = 0, cb_opened_at = 0,
     cb_half_open_requests = 0\<rparr>"

definition record_success :: "CircuitBreakerTracker \<Rightarrow> CircuitBreakerTracker" where
  "record_success b = (case cb_state b of
     Closed \<Rightarrow> b
   | Open \<Rightarrow> b
   | HalfOpen \<Rightarrow> b\<lparr>cb_state := Closed, cb_failure_count := 0, cb_half_open_requests := 0\<rparr>)"

text \<open>\<open>failure_count += 1\<close> traps on overflow of the \<open>u32\<close>.\<close>

definition record_failure ::
    "CircuitBreakerConfig \<Rightarrow> nat \<Rightarrow> CircuitBreakerTracker \<Rightarrow> ('t, CircuitBreakerTracker) nav" where
  "record_failure c now b = (case cb_state b of
     Closed \<Rightarrow> bind (u32_add (cb_failure_count b) 1) (\<lambda>n.
       ret (if n \<ge> cb_failure_threshold c
            then b\<lparr>cb_failure_count := n, cb_state := Open, cb_opened_at := now\<rparr>
            else b\<lparr>cb_failure_count := n\<rparr>))
   | Open \<Rightarrow> bind (u32_add (cb_failure_count b) 1) (\<lambda>n. ret (b\<lparr>cb_failure_count := n\<rparr>))
   | HalfOpen \<Rightarrow> ret (b\<lparr>cb_state := Open, cb_opened_at := now, cb_half_open_requests := 0\<rparr>))"

definition should_allow_request ::
    "CircuitBreakerConfig \<Rightarrow> nat \<Rightarrow> CircuitBreakerTracker \<Rightarrow> ('t, CircuitBreakerTracker) nav" where
  "should_allow_request c now b = (case cb_state b of
     Closed \<Rightarrow> ret b
   | Open \<Rightarrow> bind (u64_add (cb_opened_at b) (cb_recovery_timeout c)) (\<lambda>until.
       if now \<ge> until then ret (b\<lparr>cb_state := HalfOpen, cb_half_open_requests := 1\<rparr>)
       else throw CircuitBreakerOpen)
   | HalfOpen \<Rightarrow>
       if cb_half_open_requests b < cb_half_open_max_requests c
       then ret (b\<lparr>cb_half_open_requests := cb_half_open_requests b + 1\<rparr>)
       else throw CircuitBreakerOpen)"

definition get_state :: "CircuitBreakerTracker \<Rightarrow> CircuitBreakerState" where
  "get_state b = cb_state b"

definition get_failure_count :: "CircuitBreakerTracker \<Rightarrow> nat" where
  "get_failure_count b = cb_failure_count b"

definition get_recovery_time_remaining ::
    "CircuitBreakerConfig \<Rightarrow> nat \<Rightarrow> CircuitBreakerTracker \<Rightarrow> ('t, nat) nav" where
  "get_recovery_time_remaining c now b = (case cb_state b of
     Closed \<Rightarrow> ret 0
   | Open \<Rightarrow> bind (u64_add (cb_opened_at b) (cb_recovery_timeout c)) (\<lambda>until.
       ret (saturating_sub until now))
   | HalfOpen \<Rightarrow> ret 0)"

section \<open>Operations on storage\<close>

definition get_breaker :: "'t store \<Rightarrow> CircuitBreakerTracker" where
  "get_breaker s = unwrap_or new_tracker (k_CircuitBreakerState s)"

definition set_breaker :: "CircuitBreakerTracker \<Rightarrow> 't store \<Rightarrow> 't store" where
  "set_breaker b s = s\<lparr>k_CircuitBreakerState := Some b\<rparr>"

definition check_transfer_allowed :: "'t env \<Rightarrow> CircuitBreakerConfig \<Rightarrow> ('t, unit) nav" where
  "check_transfer_allowed E c =
     bind (gets get_breaker) (\<lambda>b.
     bind (should_allow_request c (timestamp E) b) (\<lambda>b'. modify (set_breaker b')))"

definition record_transfer_success :: "('t, unit) nav" where
  "record_transfer_success =
     bind (gets get_breaker) (\<lambda>b. modify (set_breaker (record_success b)))"

definition emit_breaker_opened_event :: "'t env \<Rightarrow> nat \<Rightarrow> ('t, unit) nav" where
  "emit_breaker_opened_event E n =
     modify (publish ''circuit_breaker_opened'' [VU32 n, VU64 (timestamp E)])"

definition emit_breaker_reset_event :: "'t env \<Rightarrow> addr \<Rightarrow> ('t, unit) nav" where
  "emit_breaker_reset_event E admin =
     modify (publish ''circuit_breaker_reset'' [VAddr admin, VU64 (timestamp E)])"

definition record_transfer_failure :: "'t env \<Rightarrow> CircuitBreakerConfig \<Rightarrow> ('t, unit) nav" where
  "record_transfer_failure E c =
     bind (gets get_breaker) (\<lambda>b.
     bind (record_failure c (timestamp E) b) (\<lambda>b'. do_all [
       only_if (cb_state b' = Open) (emit_breaker_opened_event E (cb_failure_count b')),
       modify (set_breaker b')]))"

definition manual_reset :: "'t env \<Rightarrow> addr \<Rightarrow> ('t, unit) nav" where
  "manual_reset E admin = do_all [
     require_auth E admin,
     fail_when (\<lambda>s. \<not> is_admin admin s) Unauthorized,
     modify (set_breaker new_tracker),
     emit_breaker_reset_event E admin]"

definition get_breaker_status ::
    "'t env \<Rightarrow> CircuitBreakerConfig \<Rightarrow> ('t, CircuitBreakerState \<times> nat \<times> nat) nav" where
  "get_breaker_status E c =
     bind (gets get_breaker) (\<lambda>b.
     bind (get_recovery_time_remaining c (timestamp E) b) (\<lambda>t.
     ret (cb_state b, cb_failure_count b, t)))"

section \<open>The breaker as a state machine\<close>

text \<open>
  One observed transfer at time \<open>t\<close>: refused while the breaker blocks, otherwise let through with
  the given outcome.
\<close>

inductive breaker_step ::
    "CircuitBreakerConfig \<Rightarrow> CircuitBreakerTracker \<Rightarrow> nat \<times> bool \<Rightarrow> CircuitBreakerTracker \<Rightarrow> bool"
  for c where
  through_ok: "should_allow_request c t b (x :: unit store) = (Inr b1, y) \<Longrightarrow>
    breaker_step c b (t, True) (record_success b1)"
| through_fail: "should_allow_request c t b (x :: unit store) = (Inr b1, y) \<Longrightarrow>
    record_failure c t b1 (y :: unit store) = (Inr b2, z) \<Longrightarrow> breaker_step c b (t, False) b2"
| refused: "should_allow_request c t b (x :: unit store) = (Inl (Err CircuitBreakerOpen), y) \<Longrightarrow>
    breaker_step c b (t, ok) b"

definition tracker_ok :: "CircuitBreakerConfig \<Rightarrow> CircuitBreakerTracker \<Rightarrow> bool" where
  "tracker_ok c b \<longleftrightarrow>
     (cb_state b = Closed \<longrightarrow> cb_failure_count b < cb_failure_threshold c) \<and>
     (cb_state b = HalfOpen \<longrightarrow> 1 \<le> cb_half_open_requests b \<and>
        cb_half_open_requests b \<le> max 1 (cb_half_open_max_requests c))"

inductive_cases breaker_stepE: "breaker_step c b ev b'"

lemma wp_should_allow_request [wp_simps]:
  "wp (should_allow_request c now b) Q = (\<lambda>s.
     (cb_state b = Closed \<longrightarrow> Q b s) \<and>
     (cb_state b = Open \<longrightarrow> cb_opened_at b + cb_recovery_timeout c \<le> u64_max \<longrightarrow>
        cb_opened_at b + cb_recovery_timeout c \<le> now \<longrightarrow>
        Q (b\<lparr>cb_state := HalfOpen, cb_half_open_requests := 1\<rparr>) s) \<and>
     (cb_state b = HalfOpen \<longrightarrow> cb_half_open_requests b < cb_half_open_max_requests c \<longrightarrow>
        Q (b\<lparr>cb_half_open_requests := cb_half_open_requests b + 1\<rparr>) s))"
  by (auto simp: fun_eq_iff should_allow_request_def wp_simps split: CircuitBreakerState.splits)

lemma wp_record_failure [wp_simps]:
  "wp (record_failure c now b) Q = (\<lambda>s.
     (cb_state b = Closed \<longrightarrow> cb_failure_count b + 1 \<le> u32_max \<longrightarrow>
        Q (if cb_failure_count b + 1 \<ge> cb_failure_threshold c
           then b\<lparr>cb_failure_count := cb_failure_count b + 1, cb_state := Open, cb_opened_at := now\<rparr>
           else b\<lparr>cb_failure_count := cb_failure_count b + 1\<rparr>) s) \<and>
     (cb_state b = Open \<longrightarrow> cb_failure_count b + 1 \<le> u32_max \<longrightarrow>
        Q (b\<lparr>cb_failure_count := cb_failure_count b + 1\<rparr>) s) \<and>
     (cb_state b = HalfOpen \<longrightarrow>
        Q (b\<lparr>cb_state := Open, cb_opened_at := now, cb_half_open_requests := 0\<rparr>) s))"
  by (auto simp: fun_eq_iff record_failure_def wp_simps split: CircuitBreakerState.splits)

lemma breaker_step_ok:
  assumes "breaker_step c b ev b'" "tracker_ok c b" "0 < cb_failure_threshold c"
  shows "tracker_ok c b'"
  using assms(1)
proof cases
  case (through_ok t x b1 y)
  have "wp (should_allow_request c t b) (\<lambda>b1 _. tracker_ok c (record_success b1)) x"
    using assms(2,3) by (auto simp: wp_simps tracker_ok_def record_success_def
        split: CircuitBreakerState.splits)
  with through_ok show ?thesis by (auto dest: wpD)
next
  case (through_fail t x b1 y z)
  have "wp (bind (should_allow_request c t b) (record_failure c t)) (\<lambda>b2 _. tracker_ok c b2) x"
    using assms(2,3) by (auto simp: wp_simps tracker_ok_def)
  moreover have "bind (should_allow_request c t b) (record_failure c t) x = (Inr b', z)"
    using through_fail by (simp add: bind_def)
  ultimately show ?thesis by (rule wpD)
next
  case refused
  then show ?thesis using assms(2) by simp
qed

text \<open>The trackers a sequence of observed transfers can lead to from a new breaker.\<close>

inductive breaker_reach :: "CircuitBreakerConfig \<Rightarrow> CircuitBreakerTracker \<Rightarrow> bool" for c where
  fresh: "breaker_reach c new_tracker"
| next_step: "breaker_reach c b \<Longrightarrow> breaker_step c b ev b' \<Longrightarrow> breaker_reach c b'"

lemma breaker_reach_ok:
  "breaker_reach c b \<Longrightarrow> 0 < cb_failure_threshold c \<Longrightarrow> tracker_ok c b"
proof (induction rule: breaker_reach.induct)
  case fresh
  then show ?case by (simp add: tracker_ok_def new_tracker_def)
next
  case (next_step b ev b')
  then show ?case by (blast intro: breaker_step_ok)
qed

text \<open>\<open>n\<close> failures in a row, each let through, at the times \<open>f 0\<close>, \<open>f 1\<close>, \<dots>\<close>

fun failures :: "CircuitBreakerConfig \<Rightarrow> (nat \<Rightarrow> nat) \<Rightarrow> nat \<Rightarrow> ('t, CircuitBreakerTracker) nav" where
  "failures c f 0 = ret new_tracker"
| "failures c f (Suc n) =
     bind (failures c f n) (\<lambda>b. bind (should_allow_request c (f n) b) (record_failure c (f n)))"

lemma failures_below:
  assumes "n < cb_failure_threshold c" "cb_failure_threshold c \<le> u32_max"
  shows "failures c f n s = (Inr (new_tracker\<lparr>cb_failure_count := n\<rparr>), s)"
  using assms
proof (induction n)
  case 0
  then show ?case by (simp add: ret_def new_tracker_def)
next
  case (Suc n)
  then have "failures c f n s = (Inr (new_tracker\<lparr>cb_failure_count := n\<rparr>), s)" by simp
  with Suc.prems show ?case
    by (simp add: bind_def [of "failures c f n"] should_allow_request_def record_failure_def
        new_tracker_def run_simps)
qed

lemma failures_at_threshold:
  assumes "0 < cb_failure_threshold c" "cb_failure_threshold c \<le> u32_max"
  shows "failures c f (cb_failure_threshold c) s =
     (Inr (new_tracker\<lparr>cb_failure_count := cb_failure_threshold c, cb_state := Open,
        cb_opened_at := f (cb_failure_threshold c - 1)\<rparr>), s)"
proof -
  obtain n where n: "cb_failure_threshold c = Suc n" using assms(1) by (cases "cb_failure_threshold c") auto
  then have "failures c f n s = (Inr (new_tracker\<lparr>cb_failure_count := n\<rparr>), s)"
    using assms by (intro failures_below) auto
  with assms(2) show ?thesis
    by (simp add: n bind_def [of "failures c f n"] should_allow_request_def record_failure_def
        new_tracker_def run_simps)
qed

section \<open>Frames\<close>

lemma breaker_frame [simp]:
  "k_Admin (set_breaker b s) = k_Admin s"
  "k_ShipmentCount (set_breaker b s) = k_ShipmentCount s"
  "k_Shipment (set_breaker b s) = k_Shipment s"
  "k_ArchivedShipment (set_breaker b s) = k_ArchivedShipment s"
  "k_Escrow (set_breaker b s) = k_Escrow s"
  "k_TokenContract (set_breaker b s) = k_TokenContract s"
  "k_StatusCount (set_breaker b s) = k_StatusCount s"
  "k_ReentrancyLock (set_breaker b s) = k_ReentrancyLock s"
  "k_Proposal (set_breaker b s) = k_Proposal s"
  "k_ShipmentDependents (set_breaker b s) = k_ShipmentDependents s"
  "k_FeeConfig (set_breaker b s) = k_FeeConfig s"
  "k_Settlement (set_breaker b s) = k_Settlement s"
  "k_SettlementCounter (set_breaker b s) = k_SettlementCounter s"
  "tokens (set_breaker b s) = tokens s"
  "get_breaker (set_breaker b s) = b"
  by (simp_all add: set_breaker_def get_breaker_def)

text \<open>A request to an open breaker.\<close>

lemma run_open_breaker:
  assumes "cb_state (get_breaker s) = Open"
    and "cb_opened_at (get_breaker s) + cb_recovery_timeout c \<le> u64_max"
  shows "check_transfer_allowed E c s =
    (if timestamp E < cb_opened_at (get_breaker s) + cb_recovery_timeout c
     then (Inl (Err CircuitBreakerOpen), s)
     else (Inr (), set_breaker ((get_breaker s)\<lparr>cb_state := HalfOpen, cb_half_open_requests := 1\<rparr>) s))"
  using assms by (auto simp: check_transfer_allowed_def should_allow_request_def run_simps)

section \<open>Properties\<close>



text \<open>
  C39. Whatever transfers a breaker observes, it is never closed with as many failures as its
  threshold, and in the half-open phase it has let through at least one request and at most the
  configured number.
\<close>

theorem breaker_tracker_invariant:
  "breaker_reach c b \<Longrightarrow> 0 < cb_failure_threshold c \<Longrightarrow> tracker_ok c b"
  by (rule breaker_reach_ok)

theorem breaker_tracker_invariant_witness:
  "breaker_reach strict (new_tracker\<lparr>cb_failure_count := 1\<rparr>) \<and>
   tracker_ok strict (new_tracker\<lparr>cb_failure_count := 1\<rparr>)"
proof -
  have "breaker_step strict new_tracker (7, False) (new_tracker\<lparr>cb_failure_count := 1\<rparr>)"
    by (rule through_fail [of _ _ _ "store_init ()" new_tracker "store_init ()" _ "store_init ()"])
      (simp_all add: should_allow_request_def record_failure_def new_tracker_def strict_def
        run_simps u32_max_def)
  then have "breaker_reach strict (new_tracker\<lparr>cb_failure_count := 1\<rparr>)"
    by (blast intro: breaker_reach.intros)
  with breaker_tracker_invariant [OF this] show ?thesis by (simp add: strict_def)
qed

end
