(* ===== verification/AuditLog.thy ===== *)
theory AuditLog
  imports Events
begin

text \<open>
  The audit log of role and administration changes, \<open>audit.rs\<close>, and the per-actor operation
  quotas of \<open>rate_limit.rs\<close>.
\<close>

section \<open>Audit log\<close>

definition get_audit_entry_count :: "'t store \<Rightarrow> nat" where
  "get_audit_entry_count s = unwrap_or 0 (k_AuditEntryCount s)"

definition get_next_audit_entry_id :: "('t, nat) nav" where
  "get_next_audit_entry_id = gets get_audit_entry_count"

definition increment_audit_entry_count :: "'t store \<Rightarrow> 't store" where
  "increment_audit_entry_count s =
     s\<lparr>k_AuditEntryCount := Some (u32_saturating_add (get_audit_entry_count s) 1)\<rparr>"

definition store_audit_entry :: "AuditLogEntry \<Rightarrow> 't store \<Rightarrow> 't store" where
  "store_audit_entry e s =
     increment_audit_entry_count (s\<lparr>k_AuditEntry := (k_AuditEntry s)(ae_entry_id e \<mapsto> e)\<rparr>)"

definition get_audit_entry :: "nat \<Rightarrow> 't store \<Rightarrow> AuditLogEntry option" where
  "get_audit_entry n s = k_AuditEntry s n"

definition remove_audit_entry :: "nat \<Rightarrow> 't store \<Rightarrow> 't store" where
  "remove_audit_entry n s = s\<lparr>k_AuditEntry := (k_AuditEntry s)(n := None)\<rparr>"

definition audit_topic :: "AuditEventType \<Rightarrow> sym" where
  "audit_topic ty = (case ty of
     ARoleAssigned \<Rightarrow> ''audit_role_assigned''
   | ARoleRevoked \<Rightarrow> ''audit_role_revoked''
   | ARoleSuspended \<Rightarrow> ''audit_role_suspended''
   | ARoleReactivated \<Rightarrow> ''audit_role_reactivated''
   | AAdminTransferred \<Rightarrow> ''audit_admin_transferred''
   | ACarrierWhitelisted \<Rightarrow> ''audit_carrier_whitelisted''
   | ACarrierUnwhitelisted \<Rightarrow> ''audit_carrier_unwhitelisted''
   | ACompanySuspended \<Rightarrow> ''audit_company_suspended''
   | ACompanyReactivated \<Rightarrow> ''audit_company_reactivated''
   | ACarrierSuspended \<Rightarrow> ''audit_carrier_suspended''
   | ACarrierReactivated \<Rightarrow> ''audit_carrier_reactivated'')"

definition emit_audit_event :: "AuditLogEntry \<Rightarrow> ('t, unit) nav" where
  "emit_audit_event e = modify (publish (audit_topic (ae_event_type e))
     [VU64 (ae_entry_id e), VAddr (ae_actor e), VAddr (ae_target e), VU64 (ae_timestamp e)])"

text \<open>The body the \<open>log_\<dots>\<close> functions share.\<close>

definition log_entry :: "'t env \<Rightarrow> AuditEventType \<Rightarrow> addr \<Rightarrow> addr \<Rightarrow> ('t, nat) nav" where
  "log_entry E ty actor target =
     bind get_next_audit_entry_id (\<lambda>n.
       let e = \<lparr>ae_entry_id = n, ae_event_type = ty, ae_actor = actor, ae_target = target,
                ae_timestamp = timestamp E\<rparr> in
       andthen (modify (store_audit_entry e))
      (andthen (emit_audit_event e) (ret n)))"

definition log_role_assigned :: "'t env \<Rightarrow> addr \<Rightarrow> addr \<Rightarrow> Role \<Rightarrow> ('t, nat) nav" where
  "log_role_assigned E admin target r = log_entry E ARoleAssigned admin target"

definition log_role_revoked :: "'t env \<Rightarrow> addr \<Rightarrow> addr \<Rightarrow> Role \<Rightarrow> ('t, nat) nav" where
  "log_role_revoked E admin target r = log_entry E ARoleRevoked admin target"

definition log_role_suspended :: "'t env \<Rightarrow> addr \<Rightarrow> addr \<Rightarrow> Role \<Rightarrow> ('t, nat) nav" where
  "log_role_suspended E admin target r = log_entry E ARoleSuspended admin target"

definition log_role_reactivated :: "'t env \<Rightarrow> addr \<Rightarrow> addr \<Rightarrow> Role \<Rightarrow> ('t, nat) nav" where
  "log_role_reactivated E admin target r = log_entry E ARoleReactivated admin target"

definition log_admin_transferred :: "'t env \<Rightarrow> addr \<Rightarrow> addr \<Rightarrow> ('t, nat) nav" where
  "log_admin_transferred E old_admin new_admin = log_entry E AAdminTransferred old_admin new_admin"

definition log_carrier_whitelisted :: "'t env \<Rightarrow> addr \<Rightarrow> addr \<Rightarrow> addr \<Rightarrow> ('t, nat) nav" where
  "log_carrier_whitelisted E admin company carrier = log_entry E ACarrierWhitelisted admin carrier"

text \<open>The scan \<open>for i in 0..total\<close> of the three queries.\<close>

fun scan_audit :: "(AuditLogEntry \<Rightarrow> bool) \<Rightarrow> nat list \<Rightarrow> 't store \<Rightarrow> AuditLogEntry list" where
  "scan_audit p [] s = []"
| "scan_audit p (n # ns) s = (case get_audit_entry n s of
     Some e \<Rightarrow> if p e then e # scan_audit p ns s else scan_audit p ns s
   | None \<Rightarrow> scan_audit p ns s)"

definition storage_query_audit_history :: "nat \<Rightarrow> nat \<Rightarrow> 't store \<Rightarrow> AuditLogEntry list" where
  "storage_query_audit_history lo hi s =
     scan_audit (\<lambda>e. lo \<le> ae_timestamp e \<and> ae_timestamp e \<le> hi) [0..<get_audit_entry_count s] s"

definition storage_query_audit_history_for_target :: "addr \<Rightarrow> 't store \<Rightarrow> AuditLogEntry list" where
  "storage_query_audit_history_for_target target s =
     scan_audit (\<lambda>e. ae_target e = target) [0..<get_audit_entry_count s] s"

definition storage_query_audit_history_by_actor :: "addr \<Rightarrow> 't store \<Rightarrow> AuditLogEntry list" where
  "storage_query_audit_history_by_actor actor s =
     scan_audit (\<lambda>e. ae_actor e = actor) [0..<get_audit_entry_count s] s"

fun cleanup_scan :: "nat \<Rightarrow> nat list \<Rightarrow> nat \<Rightarrow> ('t, nat) nav" where
  "cleanup_scan before [] removed = ret removed"
| "cleanup_scan before (n # ns) removed =
     bind (gets (get_audit_entry n)) (\<lambda>x. case x of
       None \<Rightarrow> cleanup_scan before ns removed
     | Some e \<Rightarrow>
         if ae_timestamp e < before
         then andthen (modify (remove_audit_entry n))
                (cleanup_scan before ns (u32_saturating_add removed 1))
         else cleanup_scan before ns removed)"

definition cleanup_audit_logs :: "'t env \<Rightarrow> addr \<Rightarrow> nat \<Rightarrow> ('t, nat) nav" where
  "cleanup_audit_logs E admin before =
     andthen (require_auth E admin)
    (andthen (fail_when (\<lambda>s. \<not> is_admin admin s) Unauthorized)
    (bind (gets get_audit_entry_count) (\<lambda>tot. cleanup_scan before [0..<tot] 0)))"

section \<open>Operation quotas\<close>

record RateLimitConfig =
  max_operations :: nat
  window_seconds :: nat

definition default_rate_limit :: RateLimitConfig where
  "default_rate_limit = \<lparr>max_operations = 100, window_seconds = 3600\<rparr>"

definition rate_limit_new :: "nat \<Rightarrow> nat \<Rightarrow> RateLimitConfig" where
  "rate_limit_new ops window = \<lparr>max_operations = ops, window_seconds = window\<rparr>"

definition rate_limit_strict :: RateLimitConfig where
  "rate_limit_strict = \<lparr>max_operations = 10, window_seconds = 3600\<rparr>"

definition rate_limit_permissive :: RateLimitConfig where
  "rate_limit_permissive = \<lparr>max_operations = 1000, window_seconds = 3600\<rparr>"

definition new_quota_tracker :: "nat \<Rightarrow> QuotaTracker" where
  "new_quota_tracker now = \<lparr>qt_operations_count = 0, qt_window_start = now\<rparr>"

definition check_and_update ::
    "nat \<Rightarrow> RateLimitConfig \<Rightarrow> nat \<Rightarrow> QuotaTracker \<Rightarrow> ('t, QuotaTracker) nav" where
  "check_and_update now c ops q =
     bind (u64_add (qt_window_start q) (window_seconds c)) (\<lambda>window_end.
       let q1 = (if now \<ge> window_end
                 then q\<lparr>qt_window_start := now, qt_operations_count := 0\<rparr> else q) in
     bind (ok_or (u32_checked_add (qt_operations_count q1) ops) CounterOverflow) (\<lambda>n.
     andthen (fail_if (n > max_operations c) RateLimitExceeded)
       (ret (q1\<lparr>qt_operations_count := n\<rparr>))))"

definition remaining_quota :: "RateLimitConfig \<Rightarrow> QuotaTracker \<Rightarrow> nat" where
  "remaining_quota c q = saturating_sub (max_operations c) (qt_operations_count q)"

definition window_time_remaining :: "nat \<Rightarrow> RateLimitConfig \<Rightarrow> QuotaTracker \<Rightarrow> ('t, nat) nav" where
  "window_time_remaining now c q =
     bind (u64_add (qt_window_start q) (window_seconds c)) (\<lambda>window_end.
     ret (saturating_sub window_end now))"

definition get_quota :: "'t env \<Rightarrow> addr \<Rightarrow> 't store \<Rightarrow> QuotaTracker" where
  "get_quota E actor s = unwrap_or (new_quota_tracker (timestamp E)) (k_ActorQuota s actor)"

definition check_rate_limit :: "'t env \<Rightarrow> addr \<Rightarrow> nat \<Rightarrow> RateLimitConfig \<Rightarrow> ('t, unit) nav" where
  "check_rate_limit E actor ops c =
     (if ops = 0 then ret () else
      bind (gets (get_quota E actor)) (\<lambda>q.
      bind (check_and_update (timestamp E) c ops q) (\<lambda>q'.
      modify (\<lambda>s. s\<lparr>k_ActorQuota := (k_ActorQuota s)(actor \<mapsto> q')\<rparr>))))"

definition reset_quota :: "'t env \<Rightarrow> addr \<Rightarrow> addr \<Rightarrow> ('t, unit) nav" where
  "reset_quota E admin actor = do_all [
     require_auth E admin,
     fail_when (\<lambda>s. \<not> is_admin admin s) Unauthorized,
     modify (\<lambda>s. s\<lparr>k_ActorQuota := (k_ActorQuota s)(actor := None)\<rparr>)]"

definition get_quota_status ::
    "'t env \<Rightarrow> addr \<Rightarrow> RateLimitConfig \<Rightarrow> ('t, nat \<times> nat \<times> nat) nav" where
  "get_quota_status E actor c =
     bind (gets (get_quota E actor)) (\<lambda>q.
     bind (window_time_remaining (timestamp E) c q) (\<lambda>w.
     ret (qt_operations_count q, remaining_quota c q, w)))"

definition enforce_batch_creation_limit :: "'t env \<Rightarrow> addr \<Rightarrow> nat \<Rightarrow> ('t, unit) nav" where
  "enforce_batch_creation_limit E company n = check_rate_limit E company n default_rate_limit"

definition enforce_bulk_update_limit :: "'t env \<Rightarrow> addr \<Rightarrow> nat \<Rightarrow> ('t, unit) nav" where
  "enforce_bulk_update_limit E carrier n =
     check_rate_limit E carrier n \<lparr>max_operations = 50, window_seconds = 3600\<rparr>"

section \<open>Lemmas\<close>

text \<open>The log's shape: entry \<open>n\<close> carries the number \<open>n\<close>, and no entry lies past the count.\<close>

definition audit_wf :: "'t store \<Rightarrow> bool" where
  "audit_wf s \<longleftrightarrow> (\<forall>n e. k_AuditEntry s n = Some e \<longrightarrow>
     ae_entry_id e = n \<and> n < get_audit_entry_count s)"

lemma wp_log_entry [wp_simps]:
  "wp (log_entry E ty actor target) Q = (\<lambda>s.
     let n = get_audit_entry_count s;
         e = \<lparr>ae_entry_id = n, ae_event_type = ty, ae_actor = actor, ae_target = target,
              ae_timestamp = timestamp E\<rparr>
     in Q n (publish (audit_topic ty) [VU64 n, VAddr actor, VAddr target, VU64 (timestamp E)]
          (store_audit_entry e s)))"
  by (simp add: fun_eq_iff log_entry_def get_next_audit_entry_id_def emit_audit_event_def Let_def
      wp_simps)

lemma scan_audit_eq:
  "scan_audit p ns s = filter p (List.map_filter (\<lambda>n. get_audit_entry n s) ns)"
  by (induction ns) (auto simp: List.map_filter_def split: option.splits)

lemmas log_defs = log_role_assigned_def log_role_revoked_def log_role_suspended_def
  log_role_reactivated_def log_admin_transferred_def log_carrier_whitelisted_def

lemma wp_check_rate_limit:
  "wp (check_rate_limit E actor ops c) (\<lambda>_ t. ops \<noteq> 0 \<longrightarrow>
     (\<exists>q. k_ActorQuota t actor = Some q \<and> qt_operations_count q \<le> max_operations c \<and>
        ops \<le> qt_operations_count q)) s"
  by (auto simp: check_rate_limit_def check_and_update_def Let_def wp_simps)

end
