(* ===== verification/Guards.thy ===== *)
theory Guards
  imports Breaker AuditLog
begin

text \<open>
  The guards of the entry points of \<open>lib.rs\<close>: initialisation, pause, roles, suspension, idempotency
  windows, creation quotas, and the checked arithmetic. Each guard has an equation that gives
  the condition under which it lets a call go on.
\<close>

section \<open>Access\<close>

definition require_initialized :: "('t, unit) nav" where
  "require_initialized = fail_when (\<lambda>s. \<not> is_initialized s) NotInitialized"

definition require_not_paused :: "('t, unit) nav" where
  "require_not_paused = fail_when storage_is_paused ContractPaused"

definition require_admin_or_guardian :: "addr \<Rightarrow> ('t, unit) nav" where
  "require_admin_or_guardian a =
     andthen require_initialized
    (bind storage_get_admin (\<lambda>admin.
     if admin = a then ret ()
     else fail_when (\<lambda>s. \<not> (has_role a Guardian s \<and> \<not> is_role_suspended a Guardian s)) Unauthorized))"

definition require_admin_or_operator :: "addr \<Rightarrow> ('t, unit) nav" where
  "require_admin_or_operator a =
     andthen require_initialized
    (bind storage_get_admin (\<lambda>admin.
     if admin = a then ret ()
     else fail_when (\<lambda>s. \<not> (has_role a Operator s \<and> \<not> is_role_suspended a Operator s)) Unauthorized))"

definition require_role :: "addr \<Rightarrow> Role \<Rightarrow> ('t, unit) nav" where
  "require_role a r = andthen require_initialized (case r of
     Company \<Rightarrow> do_all [
       fail_when (\<lambda>s. \<not> has_company_role a s) Unauthorized,
       fail_when (is_role_suspended a Company) Unauthorized,
       fail_when (storage_is_company_suspended a) CompanySuspended]
   | Carrier \<Rightarrow> do_all [
       fail_when (\<lambda>s. \<not> has_carrier_role a s) Unauthorized,
       fail_when (is_role_suspended a Carrier) Unauthorized,
       fail_when (storage_is_carrier_suspended a) CarrierSuspended]
   | Guardian \<Rightarrow> do_all [
       fail_when (\<lambda>s. \<not> has_role a Guardian s) Unauthorized,
       fail_when (is_role_suspended a Guardian) Unauthorized]
   | Operator \<Rightarrow> do_all [
       fail_when (\<lambda>s. \<not> has_role a Operator s) Unauthorized,
       fail_when (is_role_suspended a Operator) Unauthorized]
   | Unassigned \<Rightarrow> throw Unauthorized)"

definition require_active_company :: "addr \<Rightarrow> ('t, unit) nav" where
  "require_active_company a = do_all [
     fail_when (storage_is_company_suspended a) CompanySuspended,
     fail_when (is_role_suspended a Company) Unauthorized]"

definition require_active_carrier :: "addr \<Rightarrow> ('t, unit) nav" where
  "require_active_carrier a = do_all [
     fail_when (storage_is_carrier_suspended a) CarrierSuspended,
     fail_when (is_role_suspended a Carrier) Unauthorized]"

definition require_admin :: "addr \<Rightarrow> ('t, unit) nav" where
  "require_admin a = bind storage_get_admin (\<lambda>admin. fail_if (admin \<noteq> a) Unauthorized)"

definition require_not_finalized :: "Shipment \<Rightarrow> ('t, unit) nav" where
  "require_not_finalized sh = fail_if (sh_finalized sh) ShipmentFinalized"

definition validate_shipment_transition :: "ShipmentStatus \<Rightarrow> ShipmentStatus \<Rightarrow> ('t, unit) nav" where
  "validate_shipment_transition a b = fail_if (\<not> is_valid_transition a b) InvalidStatus"

text \<open>\<open>storage::get_shipment(..).ok_or(ShipmentNotFound)?\<close>\<close>

definition find_shipment :: "nat \<Rightarrow> ('t, Shipment) nav" where
  "find_shipment i = bind (gets (storage_get_shipment i)) (\<lambda>x. ok_or x ShipmentNotFound)"

text \<open>\<open>if storage::get_shipment(..).is_none() { return Err(ShipmentNotFound) }\<close>\<close>

definition shipment_must_exist :: "nat \<Rightarrow> ('t, unit) nav" where
  "shipment_must_exist i = fail_when (\<lambda>s. storage_get_shipment i s = None) ShipmentNotFound"

section \<open>Windows and quotas\<close>

definition check_idempotency :: "'t env \<Rightarrow> bytes \<Rightarrow> ('t, unit) nav" where
  "check_idempotency E payload =
     (let h = sha256 E payload in
      andthen (fail_when (has_idempotency_window h) DuplicateAction)
     (bind (gets (\<lambda>s. idempotency_window_seconds (get_config s))) (\<lambda>w.
      modify (set_idempotency_window h w))))"

definition check_and_update_creation_quota_by :: "'t env \<Rightarrow> addr \<Rightarrow> nat \<Rightarrow> ('t, unit) nav" where
  "check_and_update_creation_quota_by E company requested =
     bind (gets get_config) (\<lambda>cfg.
     if creation_quota_max cfg = 0 \<or> requested = 0 then ret ()
     else
       bind (gets (\<lambda>s. unwrap_or \<lparr>cq_count = 0, cq_window_start = timestamp E\<rparr>
         (get_creation_quota company s))) (\<lambda>q.
       bind (u64_add (cq_window_start q) (creation_quota_window_seconds cfg)) (\<lambda>window_end.
         let q1 = (if timestamp E \<ge> window_end
                   then q\<lparr>cq_window_start := timestamp E, cq_count := 0\<rparr> else q) in
       bind (ok_or (u32_checked_add (cq_count q1) requested) CounterOverflow) (\<lambda>n.
       andthen (fail_if (n > creation_quota_max cfg) CreationQuotaExceeded)
         (modify (storage_set_creation_quota company (q1\<lparr>cq_count := n\<rparr>)))))))"

definition check_and_update_creation_quota :: "'t env \<Rightarrow> addr \<Rightarrow> ('t, unit) nav" where
  "check_and_update_creation_quota E company = check_and_update_creation_quota_by E company 1"

definition extend_shipment_ttl :: "nat \<Rightarrow> ('t, unit) nav" where
  "extend_shipment_ttl i =
     bind (gets get_config) (\<lambda>c. modify (storage_extend_shipment_ttl i
       (shipment_ttl_threshold c) (shipment_ttl_extension c)))"

definition extend_shipment_ttl_cached :: "nat \<Rightarrow> nat \<Rightarrow> nat \<Rightarrow> ('t, unit) nav" where
  "extend_shipment_ttl_cached i threshold extension =
     modify (storage_extend_shipment_ttl i threshold extension)"

section \<open>Checked arithmetic\<close>

definition checked_add_i128 :: "int \<Rightarrow> int \<Rightarrow> ('t, int) nav" where
  "checked_add_i128 a b = ok_or (i128_checked_add a b) ArithmeticError"

definition checked_sub_i128 :: "int \<Rightarrow> int \<Rightarrow> ('t, int) nav" where
  "checked_sub_i128 a b = ok_or (i128_checked_sub a b) ArithmeticError"

definition checked_sub_escrow :: "int \<Rightarrow> int \<Rightarrow> ('t, int) nav" where
  "checked_sub_escrow a b =
     bind (ok_or (i128_checked_sub a b) ArithmeticError) (\<lambda>r.
     andthen (fail_if (r < 0) ArithmeticError) (ret r))"

definition checked_mul_div_i128 :: "int \<Rightarrow> int \<Rightarrow> int \<Rightarrow> ('t, int) nav" where
  "checked_mul_div_i128 v m d =
     andthen (fail_if (d = 0) ArithmeticError)
    (bind (ok_or (i128_checked_mul v m) ArithmeticError) (\<lambda>p. i128_div p d))"

definition is_allowed_migration :: "nat \<Rightarrow> nat \<Rightarrow> ('t, bool) nav" where
  "is_allowed_migration current target =
     bind (u32_add current 1) (\<lambda>n. ret (target = n))"

section \<open>What the guards let through\<close>

definition admin_is :: "addr \<Rightarrow> 't store \<Rightarrow> bool" where
  "admin_is a s \<longleftrightarrow> k_Admin s = Some a"

definition role_ok :: "addr \<Rightarrow> Role \<Rightarrow> 't store \<Rightarrow> bool" where
  "role_ok a r s \<longleftrightarrow> r \<noteq> Unassigned \<and> has_role a r s \<and> \<not> is_role_suspended a r s \<and>
     (r = Company \<longrightarrow> \<not> storage_is_company_suspended a s) \<and>
     (r = Carrier \<longrightarrow> \<not> storage_is_carrier_suspended a s)"

definition company_active :: "addr \<Rightarrow> 't store \<Rightarrow> bool" where
  "company_active a s \<longleftrightarrow> \<not> storage_is_company_suspended a s \<and> \<not> is_role_suspended a Company s"

definition carrier_active :: "addr \<Rightarrow> 't store \<Rightarrow> bool" where
  "carrier_active a s \<longleftrightarrow> \<not> storage_is_carrier_suspended a s \<and> \<not> is_role_suspended a Carrier s"

lemma wp_access [wp_simps]:
  "wp require_initialized K = (\<lambda>s. is_initialized s \<longrightarrow> K () s)"
  "wp require_not_paused K = (\<lambda>s. \<not> storage_is_paused s \<longrightarrow> K () s)"
  "wp (require_not_finalized sh) K = (\<lambda>s. \<not> sh_finalized sh \<longrightarrow> K () s)"
  "wp (validate_shipment_transition a b) K = (\<lambda>s. is_valid_transition a b \<longrightarrow> K () s)"
  "wp (shipment_must_exist i) K = (\<lambda>s. storage_get_shipment i s \<noteq> None \<longrightarrow> K () s)"
  by (simp_all add: require_initialized_def require_not_paused_def require_not_finalized_def
      validate_shipment_transition_def shipment_must_exist_def wp_simps)

lemma wp_storage_get_admin [wp_simps]:
  "wp storage_get_admin Q = (\<lambda>s. \<forall>a. k_Admin s = Some a \<longrightarrow> Q a s)"
  by (simp add: storage_get_admin_def wp_simps)

lemma wp_require_admin [wp_simps]:
  "wp (require_admin a) K = (\<lambda>s. admin_is a s \<longrightarrow> K () s)"
  by (auto simp: fun_eq_iff require_admin_def admin_is_def wp_simps)

lemma wp_require_admin_or [wp_simps]:
  "wp (require_admin_or_guardian a) K = (\<lambda>s. is_initialized s \<and>
     (admin_is a s \<or> (has_role a Guardian s \<and> \<not> is_role_suspended a Guardian s)) \<longrightarrow> K () s)"
  "wp (require_admin_or_operator a) K = (\<lambda>s. is_initialized s \<and>
     (admin_is a s \<or> (has_role a Operator s \<and> \<not> is_role_suspended a Operator s)) \<longrightarrow> K () s)"
  by (auto simp: fun_eq_iff require_admin_or_guardian_def require_admin_or_operator_def
      admin_is_def is_initialized_def wp_simps)

lemma wp_require_role [wp_simps]:
  "wp (require_role a r) K = (\<lambda>s. is_initialized s \<and> role_ok a r s \<longrightarrow> K () s)"
  by (cases r) (auto simp: fun_eq_iff require_role_def role_ok_def has_company_role_def
      has_carrier_role_def wp_simps)

lemma wp_require_active [wp_simps]:
  "wp (require_active_company a) K = (\<lambda>s. company_active a s \<longrightarrow> K () s)"
  "wp (require_active_carrier a) K = (\<lambda>s. carrier_active a s \<longrightarrow> K () s)"
  by (auto simp: fun_eq_iff require_active_company_def require_active_carrier_def
      company_active_def carrier_active_def wp_simps)

lemma wp_guard_if_active [wp_simps]:
  "wp (guard_if b (require_active_company a)) K = (\<lambda>s. (b \<longrightarrow> company_active a s) \<longrightarrow> K () s)"
  "wp (guard_if b (require_active_carrier a)) K = (\<lambda>s. (b \<longrightarrow> carrier_active a s) \<longrightarrow> K () s)"
  by (rule wp_guard_if, simp add: wp_require_active)+

lemma wp_find_shipment [wp_simps]:
  "wp (find_shipment i) Q = (\<lambda>s. \<forall>sh. storage_get_shipment i s = Some sh \<longrightarrow> Q sh s)"
  by (simp add: find_shipment_def wp_simps)

lemma wp_extend_shipment_ttl [wp_simps]:
  "wp (extend_shipment_ttl i) K = (\<lambda>s. K () (storage_extend_shipment_ttl i
     (shipment_ttl_threshold (get_config s)) (shipment_ttl_extension (get_config s)) s))"
  "wp (extend_shipment_ttl_cached i th ex) K = (\<lambda>s. K () (storage_extend_shipment_ttl i th ex s))"
  by (simp_all add: extend_shipment_ttl_def extend_shipment_ttl_cached_def wp_simps)

lemma wp_check_idempotency [wp_simps]:
  "wp (check_idempotency E payload) K = (\<lambda>s. \<not> has_idempotency_window (sha256 E payload) s \<longrightarrow>
     K () (set_idempotency_window (sha256 E payload) (idempotency_window_seconds (get_config s)) s))"
  by (simp add: fun_eq_iff check_idempotency_def Let_def wp_simps)

lemma wp_checked [wp_simps]:
  "wp (checked_add_i128 a b) Q = (\<lambda>s. in_i128 (a + b) \<longrightarrow> Q (a + b) s)"
  "wp (checked_sub_i128 a b) Q = (\<lambda>s. in_i128 (a - b) \<longrightarrow> Q (a - b) s)"
  "wp (checked_sub_escrow a b) Q = (\<lambda>s. in_i128 (a - b) \<and> 0 \<le> a - b \<longrightarrow> Q (a - b) s)"
  "wp (checked_mul_div_i128 a b c) Q = (\<lambda>s. c \<noteq> 0 \<and> in_i128 (a * b) \<and>
     (a * b = i128_min \<longrightarrow> c \<noteq> - 1) \<longrightarrow> Q (i128_quot (a * b) c) s)"
  by (auto simp: fun_eq_iff checked_add_i128_def checked_sub_i128_def checked_sub_escrow_def
      checked_mul_div_i128_def wp_simps)

end
