(* ===== verification/Escrow.thy ===== *)
theory Escrow
  imports Guards
begin

text \<open>
  Money in and out of the contract: the token invocation behind the circuit breaker, settlement
  records, and the escrow operations of \<open>lib.rs\<close> (deposit, release, refund) with the helpers they
  share.
\<close>

section \<open>Helpers\<close>

definition persist_shipment :: "Shipment \<Rightarrow> ('t, unit) nav" where
  "persist_shipment sh = do_all [
     validate_shipment_invariants sh,
     modify (set_shipment sh),
     modify (set_escrow (sh_id sh) (sh_escrow_amount sh))]"

definition finalize_if_settled :: "Shipment \<Rightarrow> Shipment" where
  "finalize_if_settled sh =
     (if (sh_status sh = Delivered \<or> sh_status sh = Cancelled) \<and> sh_escrow_amount sh = 0
      then sh\<lparr>sh_finalized := True\<rparr> else sh)"

text \<open>
  The two writes most operations make: \<open>updated_at = now\<close> and
  \<open>integration_nonce.saturating_add(1)\<close>.
\<close>

definition touch :: "'t env \<Rightarrow> Shipment \<Rightarrow> Shipment" where
  "touch E sh = sh\<lparr>sh_updated_at := timestamp E\<rparr>"

definition bump_nonce :: "Shipment \<Rightarrow> Shipment" where
  "bump_nonce sh = sh\<lparr>sh_integration_nonce := u32_saturating_add (sh_integration_nonce sh) 1\<rparr>"

definition with_reentrancy_lock :: "('t, 'a) nav \<Rightarrow> ('t, 'a) nav" where
  "with_reentrancy_lock m =
     andthen (fail_when is_reentrancy_locked ReentrancyDetected)
    (andthen (modify (set_reentrancy_lock True))
    (bind (attempt m) (\<lambda>r.
     andthen (modify (set_reentrancy_lock False))
       (case r of Inl e \<Rightarrow> throw e | Inr x \<Rightarrow> ret x))))"

section \<open>Token invocations\<close>

definition validate_token_decimals :: "'t env \<Rightarrow> addr \<Rightarrow> ('t, unit) nav" where
  "validate_token_decimals E tok =
     fail_when (\<lambda>s. token_decimals E tok (tokens s) \<noteq> Some EXPECTED_TOKEN_DECIMALS)
       InvalidTokenDecimals"

definition invoke_token_operation :: "'t env \<Rightarrow> addr \<Rightarrow> addr \<Rightarrow> addr \<Rightarrow> int \<Rightarrow> ('t, unit) nav" where
  "invoke_token_operation E tok from to v =
     bind (gets (\<lambda>s. token_transfer E tok from to v (tokens s))) (\<lambda>x. case x of
       Some u \<Rightarrow> modify (\<lambda>s. s\<lparr>tokens := u\<rparr>)
     | None \<Rightarrow> throw TokenTransferFailed)"

definition invoke_token_transfer :: "'t env \<Rightarrow> addr \<Rightarrow> addr \<Rightarrow> addr \<Rightarrow> int \<Rightarrow> ('t, unit) nav" where
  "invoke_token_transfer E tok from to v =
     bind (gets breaker_get_config) (\<lambda>c.
     andthen (check_transfer_allowed E c)
    (bind (attempt (invoke_token_operation E tok from to v)) (\<lambda>r. case r of
       Inr _ \<Rightarrow> record_transfer_success
     | Inl e \<Rightarrow> andthen (record_transfer_failure E c) (throw e))))"

section \<open>Settlements\<close>

definition create_settlement ::
    "'t env \<Rightarrow> nat \<Rightarrow> SettlementOperation \<Rightarrow> int \<Rightarrow> addr \<Rightarrow> addr \<Rightarrow> ('t, nat) nav" where
  "create_settlement E i op v from to =
     bind increment_settlement_counter (\<lambda>n.
     andthen (modify (set_settlement
       \<lparr>st_settlement_id = n, st_shipment_id = i, st_operation = op, st_state = Pending,
        st_amount = v, st_from = from, st_to = to, st_initiated_at = timestamp E,
        st_completed_at = None, st_error_code = None\<rparr>))
    (andthen (modify (set_active_settlement i n)) (ret n)))"

definition complete_settlement :: "'t env \<Rightarrow> nat \<Rightarrow> nat \<Rightarrow> ('t, unit) nav" where
  "complete_settlement E n i =
     bind (gets (storage_get_settlement n)) (\<lambda>x.
     bind (ok_or x ShipmentNotFound) (\<lambda>r. do_all [
       modify (set_settlement (r\<lparr>st_state := Completed, st_completed_at := Some (timestamp E)\<rparr>)),
       modify (clear_active_settlement i)]))"

definition fail_settlement :: "'t env \<Rightarrow> nat \<Rightarrow> nat \<Rightarrow> nat \<Rightarrow> ('t, unit) nav" where
  "fail_settlement E n i code =
     bind (gets (storage_get_settlement n)) (\<lambda>x.
     bind (ok_or x ShipmentNotFound) (\<lambda>r. do_all [
       modify (set_settlement (r\<lparr>st_state := Failed, st_completed_at := Some (timestamp E),
         st_error_code := Some code\<rparr>)),
       modify (clear_active_settlement i)]))"

text \<open>
  The match on a transfer's result that \<open>internal_release_escrow\<close> and \<open>deposit_escrow\<close> make: on
  an error the settlement is marked failed and the error returned.
\<close>

definition settle_transfer ::
    "'t env \<Rightarrow> nat \<Rightarrow> nat \<Rightarrow> ('t, unit) nav \<Rightarrow> ('t, 'a) nav \<Rightarrow> ('t, 'a) nav" where
  "settle_transfer E n i transfer rest =
     bind (attempt transfer) (\<lambda>r. case r of
       Inr _ \<Rightarrow> andthen (complete_settlement E n i) rest
     | Inl e \<Rightarrow> andthen (fail_settlement E n i (error_code e)) (throw e))"

text \<open>The shipment is passed by mutable reference: the result is its new value.\<close>

definition internal_release_escrow :: "'t env \<Rightarrow> Shipment \<Rightarrow> int \<Rightarrow> ('t, Shipment) nav" where
  "internal_release_escrow E sh v =
    (if v \<le> 0 then ret sh
     else
       let actual = (if v > sh_escrow_amount sh then sh_escrow_amount sh else v) in
       if actual > 0 then
         bind (gets get_token_contract) (\<lambda>x.
         bind (ok_or x NotInitialized) (\<lambda>tok.
         bind (create_settlement E (sh_id sh) Release actual (self E) (sh_carrier sh)) (\<lambda>n.
         settle_transfer E n (sh_id sh)
           (invoke_token_transfer E tok (self E) (sh_carrier sh) actual)
           (bind (checked_sub_escrow (sh_escrow_amount sh) actual) (\<lambda>rest.
              let sh' = bump_nonce (touch E (sh\<lparr>sh_escrow_amount := rest\<rparr>)) in
              andthen (persist_shipment sh')
             (andthen (emit_escrow_released E (sh_id sh) (sh_carrier sh) actual) (ret sh')))))))
       else ret sh)"

section \<open>Entry points\<close>

text \<open>The platform fee: its amount goes on to the treasury, the rest is the net deposit.\<close>

definition collect_fee :: "'t env \<Rightarrow> addr \<Rightarrow> nat \<Rightarrow> int \<Rightarrow> ('t, int) nav" where
  "collect_fee E tok i v =
     bind (gets get_fee_config) (\<lambda>x. case x of
       None \<Rightarrow> ret v
     | Some fee \<Rightarrow>
         if fee_bps fee > 0 then
           bind (checked_mul_div_i128 v (int (fee_bps fee)) 10000) (\<lambda>fee_amount.
             if fee_amount > 0 then
               andthen (invoke_token_transfer E tok (self E) (fee_treasury fee) fee_amount)
              (bind (checked_sub_i128 v fee_amount) (\<lambda>net.
               andthen (emit_platform_fee_collected E i (fee_treasury fee) fee_amount)
                 (ret net)))
             else ret v)
         else ret v)"

definition deposit_escrow :: "'t env \<Rightarrow> addr \<Rightarrow> nat \<Rightarrow> int \<Rightarrow> ('t, unit) nav" where
  "deposit_escrow E from i v =
     andthen require_initialized
    (andthen require_not_paused
    (andthen (require_auth E from)
    (andthen (require_role from Company)
    (with_reentrancy_lock
      (andthen (validate_positive_amount v)
      (bind (find_shipment i) (\<lambda>sh.
       andthen (require_not_finalized sh)
      (andthen (fail_if (sh_status sh \<noteq> Created) InvalidStatus)
      (andthen (fail_if (sh_escrow_amount sh > 0) EscrowLocked)
      (bind (gets get_token_contract) (\<lambda>x.
       bind (ok_or x NotInitialized) (\<lambda>tok.
       andthen (validate_token_decimals E tok)
      (bind (create_settlement E i Deposit v from (self E)) (\<lambda>n.
       settle_transfer E n i (invoke_token_transfer E tok from (self E) v)
        (bind (collect_fee E tok i v) (\<lambda>net. do_all [
           persist_shipment (bump_nonce (touch E
             (sh\<lparr>sh_escrow_amount := net, sh_total_escrow := net\<rparr>))),
           modify (set_escrow i net),
           add_total_escrow_volume v,
           extend_shipment_ttl i,
           emit_escrow_deposited E i from net]))))))))))))))))"

definition zero_hash :: hash where "zero_hash = replicate 32 0"

definition release_escrow :: "'t env \<Rightarrow> addr \<Rightarrow> nat \<Rightarrow> ('t, unit) nav" where
  "release_escrow E caller i =
     andthen require_initialized
    (andthen require_not_paused
    (andthen (require_auth E caller)
    (with_reentrancy_lock
      (bind storage_get_admin (\<lambda>admin.
       bind (find_shipment i) (\<lambda>sh.
       andthen (require_not_finalized sh)
      (andthen (fail_if (caller \<noteq> sh_receiver sh \<and> caller \<noteq> admin) Unauthorized)
      (andthen (fail_if (sh_status sh \<noteq> Delivered) InvalidStatus)
      (andthen (fail_if (sh_escrow_amount sh = 0) InsufficientFunds)
      (bind (internal_release_escrow E sh (sh_escrow_amount sh)) (\<lambda>sh'. do_all [
         persist_shipment (finalize_if_settled sh'),
         emit_notification (sh_sender sh') NEscrowReleased i zero_hash,
         emit_notification (sh_carrier sh') NEscrowReleased i zero_hash])))))))))))"

definition refund_escrow :: "'t env \<Rightarrow> addr \<Rightarrow> nat \<Rightarrow> ('t, unit) nav" where
  "refund_escrow E caller i =
     andthen require_initialized
    (andthen require_not_paused
    (andthen (require_auth E caller)
    (with_reentrancy_lock
      (bind storage_get_admin (\<lambda>admin.
       bind (find_shipment i) (\<lambda>sh.
       andthen (fail_if (caller \<noteq> sh_sender sh \<and> caller \<noteq> admin) Unauthorized)
      (andthen (require_not_finalized sh)
      (andthen (guard_if (caller = sh_sender sh) (require_active_company caller))
      (andthen (fail_if (sh_status sh \<noteq> Created \<and> sh_status sh \<noteq> Cancelled) InvalidStatus)
      (andthen (fail_if (sh_escrow_amount sh = 0) InsufficientFunds)
      (bind (gets get_token_contract) (\<lambda>x.
       bind (ok_or x NotInitialized) (\<lambda>tok.
       bind (create_settlement E i Refund (sh_escrow_amount sh) (self E) (sh_sender sh)) (\<lambda>n.
       andthen (invoke_token_transfer E tok (self E) (sh_sender sh) (sh_escrow_amount sh))
      (andthen (complete_settlement E n i)
      (let sh' = bump_nonce (touch E (sh\<lparr>sh_escrow_amount := 0, sh_status := Cancelled\<rparr>)) in
       do_all [
         persist_shipment (finalize_if_settled sh'),
         decrement_status_count (sh_status sh),
         increment_status_count Cancelled,
         only_if (sh_status sh \<noteq> Cancelled)
           (modify (decrement_active_shipment_count (sh_sender sh))),
         extend_shipment_ttl i,
         extend_shipment_ttl i,
         emit_escrow_refunded E i (sh_sender sh) (sh_escrow_amount sh)]))))))))))))))))"

definition get_escrow_balance :: "nat \<Rightarrow> ('t, int) nav" where
  "get_escrow_balance i =
     andthen require_initialized
    (andthen (shipment_must_exist i) (gets (storage_get_escrow_balance i)))"

definition get_escrow_freeze_reason :: "nat \<Rightarrow> ('t, EscrowFreezeReason option) nav" where
  "get_escrow_freeze_reason i =
     andthen require_initialized
    (andthen (shipment_must_exist i) (gets (storage_get_escrow_freeze_reason i)))"

definition get_settlement :: "nat \<Rightarrow> ('t, SettlementRecord) nav" where
  "get_settlement n =
     andthen require_initialized
    (bind (gets (storage_get_settlement n)) (\<lambda>x. ok_or x ShipmentNotFound))"

definition get_active_settlement :: "nat \<Rightarrow> ('t, nat option) nav" where
  "get_active_settlement i =
     andthen require_initialized (gets (storage_get_active_settlement i))"

definition get_settlement_count :: "('t, nat) nav" where
  "get_settlement_count = gets get_settlement_counter"

section \<open>Lemmas on shipments\<close>

lemma touch_simps [simp]:
  "sh_id (touch E sh) = sh_id sh" "sh_sender (touch E sh) = sh_sender sh"
  "sh_receiver (touch E sh) = sh_receiver sh" "sh_carrier (touch E sh) = sh_carrier sh"
  "sh_status (touch E sh) = sh_status sh" "sh_escrow_amount (touch E sh) = sh_escrow_amount sh"
  "sh_total_escrow (touch E sh) = sh_total_escrow sh"
  "sh_paid_milestones (touch E sh) = sh_paid_milestones sh"
  "sh_payment_milestones (touch E sh) = sh_payment_milestones sh"
  "sh_finalized (touch E sh) = sh_finalized sh" "sh_created_at (touch E sh) = sh_created_at sh"
  "sh_updated_at (touch E sh) = timestamp E" "sh_deadline (touch E sh) = sh_deadline sh"
  by (simp_all add: touch_def)

lemma bump_nonce_simps [simp]:
  "sh_id (bump_nonce sh) = sh_id sh" "sh_sender (bump_nonce sh) = sh_sender sh"
  "sh_receiver (bump_nonce sh) = sh_receiver sh" "sh_carrier (bump_nonce sh) = sh_carrier sh"
  "sh_status (bump_nonce sh) = sh_status sh"
  "sh_escrow_amount (bump_nonce sh) = sh_escrow_amount sh"
  "sh_total_escrow (bump_nonce sh) = sh_total_escrow sh"
  "sh_paid_milestones (bump_nonce sh) = sh_paid_milestones sh"
  "sh_payment_milestones (bump_nonce sh) = sh_payment_milestones sh"
  "sh_finalized (bump_nonce sh) = sh_finalized sh" "sh_created_at (bump_nonce sh) = sh_created_at sh"
  "sh_updated_at (bump_nonce sh) = sh_updated_at sh" "sh_deadline (bump_nonce sh) = sh_deadline sh"
  by (simp_all add: bump_nonce_def)

lemma finalize_if_settled_simps [simp]:
  "sh_id (finalize_if_settled sh) = sh_id sh" "sh_sender (finalize_if_settled sh) = sh_sender sh"
  "sh_receiver (finalize_if_settled sh) = sh_receiver sh"
  "sh_carrier (finalize_if_settled sh) = sh_carrier sh"
  "sh_status (finalize_if_settled sh) = sh_status sh"
  "sh_escrow_amount (finalize_if_settled sh) = sh_escrow_amount sh"
  "sh_total_escrow (finalize_if_settled sh) = sh_total_escrow sh"
  "sh_paid_milestones (finalize_if_settled sh) = sh_paid_milestones sh"
  "sh_payment_milestones (finalize_if_settled sh) = sh_payment_milestones sh"
  "sh_finalized (finalize_if_settled sh) \<longleftrightarrow> sh_finalized sh \<or>
     (sh_status sh = Delivered \<or> sh_status sh = Cancelled) \<and> sh_escrow_amount sh = 0"
  by (simp_all add: finalize_if_settled_def)

section \<open>Weakest preconditions\<close>

lemma wp_persist_shipment [wp_simps]:
  "wp (persist_shipment sh) K = (\<lambda>s. shipment_valid sh \<longrightarrow>
     K () (set_escrow (sh_id sh) (sh_escrow_amount sh) (set_shipment sh s)))"
  by (simp add: fun_eq_iff persist_shipment_def wp_simps)

lemma wp_with_reentrancy_lock [wp_simps]:
  "wp (with_reentrancy_lock m) Q = (\<lambda>s. \<not> is_reentrancy_locked s \<longrightarrow>
     wp m (\<lambda>x t. Q x (set_reentrancy_lock False t)) (set_reentrancy_lock True s))"
  by (auto simp: fun_eq_iff with_reentrancy_lock_def wp_simps)

text \<open>The trackers with which the breaker lets a transfer through.\<close>

definition allowed_tracker ::
    "CircuitBreakerConfig \<Rightarrow> nat \<Rightarrow> CircuitBreakerTracker \<Rightarrow> CircuitBreakerTracker \<Rightarrow> bool" where
  "allowed_tracker c now b b' \<longleftrightarrow>
     cb_state b = Closed \<and> b' = b \<or>
     cb_state b = Open \<and> cb_opened_at b + cb_recovery_timeout c \<le> u64_max \<and>
       cb_opened_at b + cb_recovery_timeout c \<le> now \<and>
       b' = b\<lparr>cb_state := HalfOpen, cb_half_open_requests := 1\<rparr> \<or>
     cb_state b = HalfOpen \<and> cb_half_open_requests b < cb_half_open_max_requests c \<and>
       b' = b\<lparr>cb_half_open_requests := cb_half_open_requests b + 1\<rparr>"

lemma wp_invoke_token_transfer [wp_simps]:
  "wp (invoke_token_transfer E tok f t v) K = (\<lambda>s. \<forall>b u.
     allowed_tracker (breaker_get_config s) (timestamp E) (get_breaker s) b \<longrightarrow>
     token_transfer E tok f t v (tokens s) = Some u \<longrightarrow>
     K () (s\<lparr>tokens := u, k_CircuitBreakerState := Some (record_success b)\<rparr>))"
proof (rule ext)
  fix s
  have op: "invoke_token_operation E tok f t v x = (case token_transfer E tok f t v (tokens x) of
      Some u \<Rightarrow> (Inr (), x\<lparr>tokens := u\<rparr>) | None \<Rightarrow> (Inl (Err TokenTransferFailed), x))" for x
    by (simp add: invoke_token_operation_def run_simps split: option.splits)
  have "wp (bind (attempt (invoke_token_operation E tok f t v)) (\<lambda>r. case r of
       Inr _ \<Rightarrow> record_transfer_success
     | Inl e \<Rightarrow> andthen (record_transfer_failure E c) (throw e))) K x =
    (\<forall>u. token_transfer E tok f t v (tokens x) = Some u \<longrightarrow>
      K () (x\<lparr>tokens := u, k_CircuitBreakerState := Some (record_success (get_breaker x))\<rparr>))" for c x
    by (auto simp: wp_def bind_def attempt_def op record_transfer_success_def run_simps
        set_breaker_def get_breaker_def throw_def andthen_def split: option.splits sum.splits prod.splits)
  then show "wp (invoke_token_transfer E tok f t v) K s = (\<forall>b u.
     allowed_tracker (breaker_get_config s) (timestamp E) (get_breaker s) b \<longrightarrow>
     token_transfer E tok f t v (tokens s) = Some u \<longrightarrow>
     K () (s\<lparr>tokens := u, k_CircuitBreakerState := Some (record_success b)\<rparr>))"
    by (auto simp: invoke_token_transfer_def check_transfer_allowed_def allowed_tracker_def wp_simps
        set_breaker_def get_breaker_def)
qed

lemma wp_settle_transfer [wp_simps]:
  "wp (settle_transfer E n i m rest) Q =
     wp m (\<lambda>_. wp (complete_settlement E n i) (\<lambda>_. wp rest Q))"
  by (auto simp: fun_eq_iff settle_transfer_def wp_simps)

lemma wp_create_settlement [wp_simps]:
  "wp (create_settlement E i op v f t) Q = (\<lambda>s.
     let n = unwrap_or (get_settlement_counter s) (u64_checked_add (get_settlement_counter s) 1) in
     Q n (set_active_settlement i n (set_settlement
       \<lparr>st_settlement_id = n, st_shipment_id = i, st_operation = op, st_state = Pending,
        st_amount = v, st_from = f, st_to = t, st_initiated_at = timestamp E,
        st_completed_at = None, st_error_code = None\<rparr> (set_settlement_counter n s))))"
  by (simp add: fun_eq_iff create_settlement_def increment_settlement_counter_def Let_def wp_simps)

lemma wp_complete_settlement [wp_simps]:
  "wp (complete_settlement E n i) K = (\<lambda>s. \<forall>r. k_Settlement s n = Some r \<longrightarrow>
     K () (clear_active_settlement i (set_settlement
       (r\<lparr>st_state := Completed, st_completed_at := Some (timestamp E)\<rparr>) s)))"
  by (simp add: fun_eq_iff complete_settlement_def storage_get_settlement_def wp_simps)

lemma wp_counters [wp_simps]:
  "wp (increment_status_count st) K = (\<lambda>s. get_status_count st s + 1 \<le> u64_max \<longrightarrow>
     K () (set_status_count st (get_status_count st s + 1) s))"
  "wp increment_total_disputes K = (\<lambda>s. get_total_disputes s + 1 \<le> u64_max \<longrightarrow>
     K () (s\<lparr>k_TotalDisputes := Some (get_total_disputes s + 1)\<rparr>))"
  "wp (add_total_escrow_volume v) K = (\<lambda>s. 0 \<le> v \<and> in_i128 (get_total_escrow_volume s + v) \<and>
     0 \<le> get_total_escrow_volume s + v \<longrightarrow>
     K () (s\<lparr>k_TotalEscrowVolume := Some (get_total_escrow_volume s + v)\<rparr>))"
  by (auto simp: fun_eq_iff increment_status_count_def increment_total_disputes_def
      add_total_escrow_volume_def wp_simps)

text \<open>Decrementing stops at zero, so the counter may as well be written in both cases.\<close>

lemma wp_decrement_status_count [wp_simps]:
  "wp (decrement_status_count st) K = (\<lambda>s.
     if 0 < get_status_count st s
     then K () (set_status_count st (get_status_count st s - 1) s) else K () s)"
  by (simp add: fun_eq_iff decrement_status_count_def wp_simps)

lemma wp_validate_token_decimals [wp_simps]:
  "wp (validate_token_decimals E tok) K = (\<lambda>s.
     token_decimals E tok (tokens s) = Some EXPECTED_TOKEN_DECIMALS \<longrightarrow> K () s)"
  by (simp add: validate_token_decimals_def wp_simps)

lemma wp_validate_positive_amount [wp_simps]:
  "wp (validate_positive_amount v) K = (\<lambda>s. 0 < v \<and> v \<le> MAX_AMOUNT \<longrightarrow> K () s)"
  by (auto simp: fun_eq_iff validate_positive_amount_def wp_simps)

lemma wp_collect_fee [wp_simps]:
  "wp (collect_fee E tok i v) Q = (\<lambda>s. case get_fee_config s of
     None \<Rightarrow> Q v s
   | Some fee \<Rightarrow>
      if fee_bps fee > 0 then
        in_i128 (v * int (fee_bps fee)) \<longrightarrow>
        (let amt = i128_quot (v * int (fee_bps fee)) 10000 in
         if amt > 0 then
           wp (invoke_token_transfer E tok (self E) (fee_treasury fee) amt)
             (\<lambda>_ t. in_i128 (v - amt) \<longrightarrow> Q (v - amt)
                (publish_counted E HASH_DOMAIN_PLATFORM ''platform_fee_collected'' i
                   [VU64 i, VAddr (fee_treasury fee), VI128 amt] t)) s
         else Q v s)
      else Q v s)"
  by (auto simp: fun_eq_iff collect_fee_def emit_platform_fee_collected_def Let_def wp_simps
      split: option.splits)

lemma internal_release_escrow_skip:
  "v \<le> 0 \<or> sh_escrow_amount sh \<le> 0 \<Longrightarrow> internal_release_escrow E sh v = ret sh"
  by (auto simp: internal_release_escrow_def Let_def)

definition released :: "'t env \<Rightarrow> Shipment \<Rightarrow> int \<Rightarrow> Shipment" where
  "released E sh v = bump_nonce (touch E (sh\<lparr>sh_escrow_amount := sh_escrow_amount sh - v\<rparr>))"

lemma released_simps [simp]:
  "sh_id (released E sh v) = sh_id sh" "sh_sender (released E sh v) = sh_sender sh"
  "sh_receiver (released E sh v) = sh_receiver sh" "sh_carrier (released E sh v) = sh_carrier sh"
  "sh_status (released E sh v) = sh_status sh" "sh_finalized (released E sh v) = sh_finalized sh"
  "sh_escrow_amount (released E sh v) = sh_escrow_amount sh - v"
  "sh_total_escrow (released E sh v) = sh_total_escrow sh"
  "sh_paid_milestones (released E sh v) = sh_paid_milestones sh"
  "sh_payment_milestones (released E sh v) = sh_payment_milestones sh"
  by (simp_all add: released_def)

lemma wp_internal_release_escrow [wp_simps]:
  "wp (internal_release_escrow E sh v) Q = (\<lambda>s.
     let actual = min v (sh_escrow_amount sh) in
     if actual \<le> 0 then Q sh s
     else \<forall>tok. k_TokenContract s = Some tok \<longrightarrow>
       wp (bind (create_settlement E (sh_id sh) Release actual (self E) (sh_carrier sh)) (\<lambda>n.
           andthen (invoke_token_transfer E tok (self E) (sh_carrier sh) actual)
             (complete_settlement E n (sh_id sh))))
         (\<lambda>_ t. in_i128 (sh_escrow_amount sh - actual) \<longrightarrow> shipment_valid (released E sh actual) \<longrightarrow>
            wp (emit_escrow_released E (sh_id sh) (sh_carrier sh) actual)
              (\<lambda>_. Q (released E sh actual))
              (set_escrow (sh_id sh) (sh_escrow_amount sh - actual)
                (set_shipment (released E sh actual) t))) s)"
  (is "?L = ?R")
proof (rule ext)
  fix s
  show "?L s = ?R s"
  proof (cases "min v (sh_escrow_amount sh) \<le> 0")
    case True
    then show ?thesis by (auto simp: internal_release_escrow_skip wp_simps min_le_iff_disj)
  next
    case False
    then have pos: "\<not> v \<le> 0" "(if v > sh_escrow_amount sh then sh_escrow_amount sh else v) =
        min v (sh_escrow_amount sh)" "min v (sh_escrow_amount sh) > 0"
      by (auto simp: min_def split: if_splits)
    have tail: "wp (checked_sub_escrow (sh_escrow_amount sh) a) (\<lambda>x.
          wp (persist_shipment (bump_nonce (touch E (sh\<lparr>sh_escrow_amount := x\<rparr>)))) (\<lambda>_.
          wp (emit_escrow_released E (sh_id sh) (sh_carrier sh) a)
            (\<lambda>_. Q (bump_nonce (touch E (sh\<lparr>sh_escrow_amount := x\<rparr>)))))) =
        (\<lambda>t. in_i128 (sh_escrow_amount sh - a) \<longrightarrow> shipment_valid (released E sh a) \<longrightarrow>
            wp (emit_escrow_released E (sh_id sh) (sh_carrier sh) a) (\<lambda>_. Q (released E sh a))
              (set_escrow (sh_id sh) (sh_escrow_amount sh - a) (set_shipment (released E sh a) t)))"
      if "a \<le> sh_escrow_amount sh" for a
      using that by (auto simp: fun_eq_iff wp_simps Let_def released_def)
    show ?thesis using False
      unfolding internal_release_escrow_def
      by (simp only: pos if_False if_True Let_def)
        (simp only: wp_bind wp_basic wp_option wp_settle_transfer wp_andthen get_token_contract_def
          tail min.cobounded2 not_False_eq_True if_False)
  qed
qed

end
