(* ===== verification/Frames.thy ===== *)
theory Frames
  imports Escrow
begin

text \<open>
  What the helpers of the entry points leave alone. Tests leave the whole state alone; events,
  counters, time-to-live requests, windows and settlement records leave \<open>core\<close> alone, the part of
  the state the invariants of the contract speak about.
\<close>

definition base :: "'t store \<Rightarrow>
    ((nat \<Rightarrow> Shipment option) \<times> (nat \<Rightarrow> Shipment option) \<times> nat option \<times> addr option \<times> addr option \<times> 't) \<times>
    (bool option \<times> CircuitBreakerTracker option) \<times>
    ((nat \<Rightarrow> Proposal option) \<times> nat option \<times> addr list option \<times> nat option) \<times>
    (nat \<Rightarrow> nat list option)" where
  "base s =
     ((k_Shipment s, k_ArchivedShipment s, k_ShipmentCount s, k_Admin s, k_TokenContract s, tokens s),
      (k_ReentrancyLock s, k_CircuitBreakerState s),
      (k_Proposal s, k_ProposalCounter s, k_AdminList s, k_MultiSigThreshold s),
      k_ShipmentDependents s)"

text \<open>The settings: the configuration with its checksum, and the platform fee.\<close>

definition settings :: "'t store \<Rightarrow> ContractConfig option \<times> hash option \<times> FeeConfig option" where
  "settings s = (k_ContractConfig s, k_ConfigChecksum s, k_FeeConfig s)"

definition core where
  "core s = (base s, settings s)"

lemmas core_parts = core_def base_def settings_def

lemma core_base: "core t = core s \<Longrightarrow> base t = base s"
  and core_settings: "core t = core s \<Longrightarrow> settings t = settings s"
  by (simp_all add: core_def)

lemma frame_base: "frame core m \<Longrightarrow> frame base m"
  and frame_settings: "frame core m \<Longrightarrow> frame settings m"
  by (erule frame_part, simp add: core_def)+

text \<open>Changes of the settings leave the rest of the core alone.\<close>

lemma base_settings [simp]:
  "base (s\<lparr>k_ContractConfig := cc\<rparr>) = base s" "base (set_config_checksum h s) = base s"
  "base (set_fee_config fc s) = base s"
  by (simp_all add: base_def set_config_checksum_def set_fee_config_def)

lemma frame_base_config: "frame base (set_config E c)"
  by (simp add: frame_def wp_simps)

section \<open>Tests\<close>

lemma frame_require_auth [frame_rules]: "frame v (require_auth E a)"
  by (simp add: frame_def wp_simps)

lemma frame_access [frame_rules]:
  "frame v require_initialized" "frame v require_not_paused" "frame v (require_not_finalized sh)"
  "frame v (validate_shipment_transition st st')" "frame v (shipment_must_exist i)"
  "frame v storage_get_admin" "frame v (require_admin a)"
  "frame v (require_admin_or_guardian a)" "frame v (require_admin_or_operator a)"
  "frame v (require_role a r)" "frame v (require_active_company a)"
  "frame v (require_active_carrier a)" "frame v (find_shipment i)"
  by (simp_all add: frame_def wp_simps)

lemma frame_validation [frame_rules]:
  "frame v (validate_hash h)" "frame v (validate_note_hash h)" "frame v (validate_positive_amount x)"
  "frame v (validate_symbol E y)" "frame v (validate_symbol_not_whitespace_only E y)"
  "frame v (validate_metadata_symbols E y z)" "frame v (validate_token_decimals E tok)"
  by (simp_all add: frame_def wp_simps validate_note_hash_def validate_symbol_def
      validate_symbol_not_whitespace_only_def validate_metadata_symbols_def Let_def)

lemma frame_validate_symbol_chars [frame_rules]: "frame v (validate_symbol_chars E y)"
  unfolding validate_symbol_chars_def by (intro frame_rules)

lemma frame_validate_checkpoint_symbol [frame_rules]: "frame v (validate_checkpoint_symbol E y)"
  unfolding validate_checkpoint_symbol_def by (intro frame_rules)

lemma frame_total_percentage [frame_rules]: "frame v (total_percentage ms acc)"
  by (induction ms acc rule: total_percentage.induct) (auto intro!: frame_rules)

lemma frame_validate_milestones [frame_rules]: "frame v (validate_milestones E ms)"
  unfolding validate_milestones_def validate_milestone_symbols_def by (intro frame_rules)

lemma frame_arith [frame_rules]:
  "frame v (checked_add_i128 a b)" "frame v (checked_sub_i128 a b)" "frame v (checked_sub_escrow a b)"
  "frame v (checked_mul_div_i128 a b c)" "frame v (is_allowed_migration m n)"
  by (simp_all add: frame_def wp_simps is_allowed_migration_def)

section \<open>Writes outside the core\<close>

lemma core_events [simp]:
  "core (publish topic payload s) = core s"
  "core (increment_event_count i s) = core s"
  "core (publish_counted E d topic i payload s) = core s"
  "core (increment_milestone_event_count i s) = core s"
  "core (increment_breach_event_count i s) = core s"
  "core (request_ttl b k th ex s) = core s"
  "core (storage_extend_shipment_ttl i th ex s) = core s"
  by (simp_all add: core_parts publish_def increment_event_count_def publish_counted_def Let_def
      increment_milestone_event_count_def increment_breach_event_count_def request_ttl_def
      storage_extend_shipment_ttl_def)

lemma core_setters [simp]:
  "core (set_escrow i x s) = core s"
  "core (remove_escrow_balance i s) = core s"
  "core (set_escrow_freeze_reason i r s) = core s"
  "core (set_confirmation_hash i h s) = core s"
  "core (set_last_status_update i n s) = core s"
  "core (set_status_hash i st h s) = core s"
  "core (set_idempotency_window h n s) = core s"
  "core (set_status_count st n s) = core s"
  "core (set_active_shipment_count a n s) = core s"
  "core (increment_active_shipment_count a s) = core s"
  "core (decrement_active_shipment_count a s) = core s"
  "core (set_settlement_counter n s) = core s"
  "core (set_settlement st_r s) = core s"
  "core (set_active_settlement i n s) = core s"
  "core (clear_active_settlement i s) = core s"
  "core (storage_set_creation_quota a q s) = core s"
  "core (set_note_hash i n h s) = core s"
  "core (set_evidence_hash i n h s) = core s"
  "core (store_audit_entry e s) = core s"
  "core (remove_audit_entry n s) = core s"
  by (simp_all add: core_parts set_escrow_def remove_escrow_balance_def remove_escrow_def
      set_escrow_freeze_reason_def set_confirmation_hash_def set_last_status_update_def
      set_status_hash_def set_idempotency_window_def set_status_count_def
      set_active_shipment_count_def increment_active_shipment_count_def
      decrement_active_shipment_count_def set_settlement_counter_def set_settlement_def
      set_active_settlement_def clear_active_settlement_def storage_set_creation_quota_def
      set_note_hash_def set_evidence_hash_def store_audit_entry_def increment_audit_entry_count_def
      remove_audit_entry_def request_ttl_def)

lemma core_fields [simp]:
  "core (s\<lparr>k_TotalDisputes := td\<rparr>) = core s" "core (s\<lparr>k_TotalEscrowVolume := tv\<rparr>) = core s"
  "core (s\<lparr>k_ShipmentNoteCount := nc\<rparr>) = core s" "core (s\<lparr>k_DisputeEvidenceCount := ec\<rparr>) = core s"
  "core (s\<lparr>k_ShipmentNote := nn\<rparr>) = core s" "core (s\<lparr>k_DisputeEvidence := de\<rparr>) = core s"
  "core (s\<lparr>k_RecoveryRecord := rr\<rparr>) = core s" "core (s\<lparr>k_RecoveryRecordCount := rc\<rparr>) = core s"
  "core (s\<lparr>k_StatusHash := sh\<rparr>) = core s" "core (s\<lparr>k_EscrowFreezeReasonByShipment := fr\<rparr>) = core s"
  "core (s\<lparr>k_BreachEventCount := bc\<rparr>) = core s" "core (s\<lparr>k_MilestoneEventCount := mc\<rparr>) = core s"
  "core (s\<lparr>k_EventCount := vc\<rparr>) = core s" "core (s\<lparr>k_LastStatusUpdate := lu\<rparr>) = core s"
  "core (s\<lparr>k_ConfirmationHash := ch\<rparr>) = core s" "core (s\<lparr>k_Escrow := es\<rparr>) = core s"
  "core (s\<lparr>k_ActorQuota := aq\<rparr>) = core s"
  by (simp_all add: core_parts)

lemma core_admin [simp]:
  "core (set_version n s) = core s" "core (set_role a r s) = core s"
  "core (set_company_role a s) = core s" "core (set_carrier_role a s) = core s"
  "core (storage_revoke_role a r s) = core s" "core (storage_suspend_role a r s) = core s"
  "core (storage_reactivate_role a r s) = core s" "core (storage_suspend_carrier a s) = core s"
  "core (storage_reactivate_carrier a s) = core s" "core (storage_suspend_company a s) = core s"
  "core (storage_reactivate_company a s) = core s" "core (set_paused b s) = core s"
  "core (set_treasury a s) = core s"
  "core (set_proposed_admin a s) = core s" "core (clear_proposed_admin s) = core s"
  "core (storage_set_shipment_limit n s) = core s"
  "core (storage_set_company_shipment_limit a n s) = core s"
  "core (storage_add_carrier_to_whitelist a c s) = core s"
  "core (storage_remove_carrier_from_whitelist a c s) = core s"
  "core (breaker_set_config bc s) = core s" "core (set_proposal_salt_used h s) = core s"
  "core (set_proposal_digest i pd s) = core s" "core (s\<lparr>code_hash := w\<rparr>) = core s"
  by (simp_all add: core_parts set_version_def set_role_def set_company_role_def set_carrier_role_def
      storage_revoke_role_def storage_suspend_role_def storage_reactivate_role_def
      storage_suspend_carrier_def storage_reactivate_carrier_def storage_suspend_company_def
      storage_reactivate_company_def set_paused_def set_treasury_def
      set_proposed_admin_def clear_proposed_admin_def storage_set_shipment_limit_def
      storage_set_company_shipment_limit_def storage_add_carrier_to_whitelist_def
      storage_remove_carrier_from_whitelist_def breaker_set_config_def set_proposal_salt_used_def
      set_proposal_digest_def)

text \<open>Archiving purges keys outside the core.\<close>

lemma core_remove_status_hashes [simp]: "core (remove_status_hashes i sts s) = core s"
  by (induction sts arbitrary: s) simp_all

lemma core_purge_status_hashes [simp]: "core (purge_status_hashes i s) = core s"
  unfolding purge_status_hashes_def by (rule core_remove_status_hashes)

lemma core_purges [simp]:
  "core (purge_recovery_records i s) = core s"
  "core (purge_dispute_evidence i s) = core s" "core (purge_shipment_notes i s) = core s"
  "core (remove_escrow_freeze_reason i s) = core s" "core (remove_breach_event_count i s) = core s"
  "core (remove_milestone_event_count i s) = core s" "core (remove_event_count i s) = core s"
  "core (remove_last_status_update i s) = core s" "core (remove_confirmation_hash i s) = core s"
  "core (remove_escrow i s) = core s"
  by (simp_all add: purge_recovery_records_def purge_dispute_evidence_def
      purge_shipment_notes_def remove_escrow_freeze_reason_def remove_breach_event_count_def
      remove_milestone_event_count_def remove_event_count_def remove_last_status_update_def
      remove_confirmation_hash_def remove_escrow_def Let_def)

lemma core_archive_shipment:
  "core (storage_archive_shipment i sh s) =
   core (s\<lparr>k_ArchivedShipment := (k_ArchivedShipment s)(i \<mapsto> sh), k_Shipment := (k_Shipment s)(i := None)\<rparr>)"
  by (simp only: storage_archive_shipment_def core_purge_status_hashes core_purges core_setters)

text \<open>A computation that leaves the core alone keeps every predicate on the core.\<close>

lemma is_initialized_core: "core t = core s \<Longrightarrow> is_initialized t = is_initialized s"
  by (simp add: core_parts is_initialized_def)

lemma core_triple:
  assumes "\<And>s t. core t = core s \<Longrightarrow> P t = P s" "frame core m"
  shows "triple P m (\<lambda>_. P)"
  by (rule tripleI, rule frame_wp [OF assms(2)]) (use assms(1) in blast)

section \<open>Helpers outside the core\<close>

text \<open>
  The emitters write events and count them; the rest of the state is the same. Whatever does not depend
  on the events, their counters and the time-to-live requests is left alone by all of them.
\<close>

definition hush :: "'t store \<Rightarrow> 't store" where
  "hush s = s\<lparr>event_log := [], ttl_log := [], k_EventCount := Map.empty,
     k_MilestoneEventCount := Map.empty, k_BreachEventCount := Map.empty\<rparr>"

lemma hush_writes [simp]:
  "hush (publish topic payload s) = hush s"
  "hush (increment_event_count i s) = hush s"
  "hush (publish_counted E d topic i payload s) = hush s"
  "hush (increment_milestone_event_count i s) = hush s"
  "hush (request_ttl b k th ex s) = hush s"
  by (simp_all add: hush_def publish_def increment_event_count_def publish_counted_def Let_def
      increment_milestone_event_count_def request_ttl_def)

lemma hush_emit:
  "frame hush (emit_shipment_created E i a b h)" "frame hush (emit_status_updated E i st st' h)"
  "frame hush (emit_milestone_recorded E i y h a)" "frame hush (emit_escrow_deposited E i a x)"
  "frame hush (emit_escrow_released E i a x)" "frame hush (emit_escrow_refunded E i a x)"
  "frame hush (emit_milestone_payment_released E i y x a)" "frame hush (emit_dispute_raised i a h)"
  "frame hush (emit_shipment_cancelled E i a h)" "frame hush (emit_contract_upgraded a h n)"
  "frame hush (emit_migration_report n n' n'')" "frame hush (emit_carrier_handoff i a b h)"
  "frame hush (emit_condition_breach i a br sv h)" "frame hush (emit_admin_proposed a b)"
  "frame hush (emit_admin_transferred a b)" "frame hush (emit_shipment_expired E i)"
  "frame hush (emit_delivery_success E a i n)" "frame hush (emit_carrier_breach a i br sv)"
  "frame hush (emit_carrier_dispute_loss a i)" "frame hush (emit_notification a nt i h)"
  "frame hush (emit_shipment_archived i n)" "frame hush (emit_carrier_late_delivery a i n n')"
  "frame hush (emit_carrier_on_time_delivery a i)" "frame hush (emit_carrier_handoff_completed a b i)"
  "frame hush (emit_role_revoked a b r)" "frame hush (emit_role_changed E ra a b r)"
  "frame hush (emit_carrier_milestone_rate a i n n')" "frame hush (emit_force_cancelled i a h x)"
  "frame hush (emit_note_appended i n h a)" "frame hush (emit_evidence_added i n h a)"
  "frame hush (emit_dispute_resolved E i dr h a)" "frame hush (emit_contract_paused E a)"
  "frame hush (emit_contract_unpaused E a)" "frame hush (emit_recovery_event E i a st st' h)"
  "frame hush (emit_escrow_unlock_event E i a x h)" "frame hush (emit_finalization_clear_event E i a h)"
  "frame hush (emit_escrow_frozen E i fr a)" "frame hush (emit_platform_fee_collected E i a x)"
  "frame hush (emit_fee_config_updated a n b)" "frame hush (emit_contract_initialized a b)"
  "frame hush (emit_shipment_limit_updated a n)" "frame hush (emit_company_limit_updated a b n)"
  "frame hush (emit_carrier_suspended a b)" "frame hush (emit_carrier_reactivated a b)"
  "frame hush (emit_delivery_confirmed E i a h)" "frame hush (emit_geofence_event E i ge h)"
  "frame hush (emit_eta_updated E i n h)" "frame hush (emit_proposal_digest i h n)"
  "frame hush (emit_config_updated a c)" "frame hush (emit_quota_set a n n')"
  by (simp_all add: frame_def emit_defs wp_simps)

lemma frame_hush:
  assumes "\<And>s. v (hush s) = v s" "frame hush m"
  shows "frame v m"
  by (rule frame_part [OF assms(2)]) (metis assms(1))

lemma core_hush: "core (hush s) = core s"
  by (simp add: core_parts hush_def)

lemmas frame_emit [frame_rules] = hush_emit [THEN frame_hush [where v = core, OF core_hush]]

lemma frame_helpers [frame_rules]:
  "frame core (check_idempotency E p)" "frame core (extend_shipment_ttl i)"
  "frame core (extend_shipment_ttl_cached i th ex)" "frame core (increment_status_count st)"
  "frame core (decrement_status_count st)" "frame core increment_total_disputes"
  "frame core (add_total_escrow_volume x)" "frame core (create_settlement E i op x a b)"
  "frame core (complete_settlement E n i)" "frame core (log_entry E ty a b)"
  by (simp_all add: frame_def wp_simps Let_def)

lemma frame_log [frame_rules]:
  "frame core (log_role_assigned E a b r)" "frame core (log_role_revoked E a b r)"
  "frame core (log_role_suspended E a b r)" "frame core (log_role_reactivated E a b r)"
  "frame core (log_admin_transferred E a b)" "frame core (log_carrier_whitelisted E a b c)"
  by (simp_all add: log_defs frame_helpers)

lemma frame_counters [frame_rules]:
  "frame core (increment_note_count i)" "frame core (increment_evidence_count i)"
  "frame core (append_recovery_record i r)"
  by (simp_all add: frame_def increment_note_count_def increment_evidence_count_def
      append_recovery_record_def wp_simps)

lemma frame_creation_quota [frame_rules]:
  "frame core (check_and_update_creation_quota_by E a n)"
  "frame core (check_and_update_creation_quota E a)"
  unfolding check_and_update_creation_quota_def check_and_update_creation_quota_by_def
  by (auto intro!: frame_rules)

end
