(* ===== verification/Money.thy ===== *)
theory Money
  imports Frames
begin

text \<open>
  The invariant of the contract's money: every stored shipment is filed under its own number, its
  escrow lies between 0 and what was deposited for it, a finalised one is delivered or cancelled
  with nothing left in escrow, and the escrows of all shipments together are covered by what the
  contract holds of its token.
\<close>

section \<open>Definitions\<close>

definition ship_ok :: "Shipment \<Rightarrow> bool" where
  "ship_ok sh \<longleftrightarrow>
     0 \<le> sh_escrow_amount sh \<and> sh_escrow_amount sh \<le> sh_total_escrow sh \<and>
     (sh_finalized sh \<longrightarrow> (sh_status sh = Delivered \<or> sh_status sh = Cancelled) \<and>
        sh_escrow_amount sh = 0)"

definition lookup :: "(nat \<Rightarrow> Shipment option) \<Rightarrow> (nat \<Rightarrow> Shipment option) \<Rightarrow> nat \<Rightarrow> Shipment option" where
  "lookup m a i = (case m i of Some sh \<Rightarrow> Some sh | None \<Rightarrow> a i)"

definition escrow_at :: "(nat \<Rightarrow> Shipment option) \<Rightarrow> (nat \<Rightarrow> Shipment option) \<Rightarrow> nat \<Rightarrow> int" where
  "escrow_at m a i = (case lookup m a i of None \<Rightarrow> 0 | Some sh \<Rightarrow> sh_escrow_amount sh)"

text \<open>The escrow of shipments 1 to \<open>n\<close>.\<close>

definition locked_upto :: "(nat \<Rightarrow> Shipment option) \<Rightarrow> (nat \<Rightarrow> Shipment option) \<Rightarrow> nat \<Rightarrow> int" where
  "locked_upto m a n = (\<Sum>i = 1..n. escrow_at m a i)"

definition locked :: "'t store \<Rightarrow> int" where
  "locked s = locked_upto (k_Shipment s) (k_ArchivedShipment s) (storage_get_shipment_counter s)"

text \<open>The invariant on the parts of the state it depends on; \<open>h\<close> is what the contract holds.\<close>

definition ships_wf ::
    "(nat \<Rightarrow> Shipment option) \<Rightarrow> nat \<Rightarrow> bool" where
  "ships_wf m n \<longleftrightarrow> (\<forall>i sh. m i = Some sh \<longrightarrow> sh_id sh = i \<and> 1 \<le> i \<and> i \<le> n \<and> ship_ok sh)"

definition minv ::
    "addr \<Rightarrow> (nat \<Rightarrow> Shipment option) \<Rightarrow> (nat \<Rightarrow> Shipment option) \<Rightarrow> nat option \<Rightarrow> addr option \<Rightarrow>
     addr option \<Rightarrow> int \<Rightarrow> bool" where
  "minv tok m a n ad tc h \<longleftrightarrow>
     ships_wf m (unwrap_or 0 n) \<and> ships_wf a (unwrap_or 0 n) \<and>
     locked_upto m a (unwrap_or 0 n) \<le> h \<and>
     (ad = None \<longrightarrow> m = Map.empty \<and> a = Map.empty) \<and>
     (ad \<noteq> None \<longrightarrow> tc = Some tok)"

definition money_inv :: "(addr \<Rightarrow> 't \<Rightarrow> int) \<Rightarrow> addr \<Rightarrow> addr \<Rightarrow> 't store \<Rightarrow> bool" where
  "money_inv held me tok s \<longleftrightarrow>
     minv tok (k_Shipment s) (k_ArchivedShipment s) (k_ShipmentCount s) (k_Admin s)
       (k_TokenContract s) (held me (tokens s))"

section \<open>Updates\<close>

lemma storage_get_shipment_lookup [simp]:
  "storage_get_shipment i s = lookup (k_Shipment s) (k_ArchivedShipment s) i"
  by (simp add: storage_get_shipment_def lookup_def)

lemma lookup_upd [simp]: "lookup (m(k \<mapsto> sh)) a i = (if i = k then Some sh else lookup m a i)"
  by (simp add: lookup_def)

lemma escrow_at_upd:
  "escrow_at (m(k \<mapsto> sh)) a i = (if i = k then sh_escrow_amount sh else escrow_at m a i)"
  by (simp add: escrow_at_def)

lemma locked_upto_upd:
  assumes "1 \<le> k" "k \<le> n"
  shows "locked_upto (m(k \<mapsto> sh)) a n = locked_upto m a n - escrow_at m a k + sh_escrow_amount sh"
proof -
  have "locked_upto (m(k \<mapsto> sh)) a n =
      escrow_at (m(k \<mapsto> sh)) a k + (\<Sum>i\<in>{1..n} - {k}. escrow_at (m(k \<mapsto> sh)) a i)"
    unfolding locked_upto_def using assms by (intro sum.remove) auto
  also have "(\<Sum>i\<in>{1..n} - {k}. escrow_at (m(k \<mapsto> sh)) a i) = (\<Sum>i\<in>{1..n} - {k}. escrow_at m a i)"
    by (rule sum.cong) (auto simp: escrow_at_upd)
  also have "\<dots> = locked_upto m a n - escrow_at m a k"
    unfolding locked_upto_def using assms by (subst sum_diff1) auto
  also have "escrow_at (m(k \<mapsto> sh)) a k = sh_escrow_amount sh" by (simp add: escrow_at_upd)
  finally show ?thesis by (simp only: algebra_simps)
qed

lemma lookup_wf:
  assumes "ships_wf m n" "ships_wf a n" "lookup m a i = Some sh"
  shows "sh_id sh = i \<and> 1 \<le> i \<and> i \<le> n \<and> ship_ok sh"
  using assms by (auto simp: lookup_def ships_wf_def split: option.splits)

lemma minv_lookup:
  assumes "minv tok m a n ad tc h" "lookup m a i = Some sh"
  shows "sh_id sh = i" "1 \<le> i" "i \<le> unwrap_or 0 n" "ship_ok sh"
  using lookup_wf [of m "unwrap_or 0 n" a i sh] assms by (auto simp: minv_def)

text \<open>
  The step of every operation on one shipment: it may lower the contract's holding by no more than it
  lowers the shipment's escrow.
\<close>

lemma minv_upd:
  assumes "minv tok m a n ad tc h" "lookup m a i = Some sh" "sh_id sh' = sh_id sh" "ship_ok sh'"
    and "sh_escrow_amount sh' - sh_escrow_amount sh \<le> h' - h"
  shows "minv tok (m(sh_id sh \<mapsto> sh')) a n ad tc h'"
proof -
  note l = minv_lookup [OF assms(1,2)]
  have "escrow_at m a i = sh_escrow_amount sh" using assms(2) by (simp add: escrow_at_def)
  then have "locked_upto (m(i \<mapsto> sh')) a (unwrap_or 0 n) \<le> h'"
    using assms(1,5) l by (simp add: locked_upto_upd minv_def)
  moreover have "ships_wf (m(i \<mapsto> sh')) (unwrap_or 0 n)"
    using assms l by (auto simp: minv_def ships_wf_def)
  moreover have "ad \<noteq> None" using assms(1,2) by (auto simp: minv_def lookup_def)
  ultimately show ?thesis using assms(1) l by (auto simp: minv_def)
qed

lemma minv_hold: "minv tok m a n ad tc h \<Longrightarrow> h \<le> h' \<Longrightarrow> minv tok m a n ad tc h'"
  by (auto simp: minv_def)

lemma minv_hold_pay:
  "minv tok m a n ad tc h \<Longrightarrow> locked_upto m a (unwrap_or 0 n) \<le> h' \<Longrightarrow> minv tok m a n ad tc h'"
  by (auto simp: minv_def)

text \<open>A new shipment takes the next number and starts without escrow.\<close>

lemma minv_new:
  assumes "minv tok m a n ad tc h" "ad \<noteq> None" "sh_id sh = Suc (unwrap_or 0 n)"
    "sh_escrow_amount sh = 0" "ship_ok sh" "h \<le> h'"
  shows "minv tok (m(sh_id sh \<mapsto> sh)) a (Some (sh_id sh)) ad tc h'"
proof -
  let ?k = "Suc (unwrap_or 0 n)"
  have none: "m ?k = None" "a ?k = None"
    using assms(1) by (auto simp: minv_def ships_wf_def) (metis Suc_n_not_le_n not_None_eq)+
  have "locked_upto (m(?k \<mapsto> sh)) a ?k = locked_upto m a ?k - escrow_at m a ?k + 0"
    using assms(4) by (subst locked_upto_upd) auto
  also have "\<dots> = locked_upto m a (unwrap_or 0 n)"
    by (simp add: locked_upto_def)
  finally have "locked_upto (m(?k \<mapsto> sh)) a ?k \<le> h'" using assms(1,6) by (simp add: minv_def)
  moreover have "ships_wf (m(?k \<mapsto> sh)) ?k" "ships_wf a ?k"
    using assms(1,3,5) by (auto simp: minv_def ships_wf_def intro: le_SucI)
  ultimately show ?thesis using assms by (auto simp: minv_def)
qed

text \<open>Archiving moves the record; the shipment found under the number is the same.\<close>

lemma minv_archive:
  assumes "minv tok m a n ad tc h" "m i = Some sh" "h \<le> h'"
  shows "minv tok (m(i := None)) (a(i \<mapsto> sh)) n ad tc h'"
proof -
  have "lookup (m(i := None)) (a(i \<mapsto> sh)) j = lookup m a j" for j
    using assms(2) by (cases "j = i") (auto simp: lookup_def split: option.splits)
  then have "escrow_at (m(i := None)) (a(i \<mapsto> sh)) = escrow_at m a"
    by (simp add: fun_eq_iff escrow_at_def)
  then have "locked_upto (m(i := None)) (a(i \<mapsto> sh)) (unwrap_or 0 n) \<le> h'"
    using assms(1,3) by (simp add: locked_upto_def minv_def)
  moreover have "ships_wf (m(i := None)) (unwrap_or 0 n)" "ships_wf (a(i \<mapsto> sh)) (unwrap_or 0 n)"
    using assms(1,2) by (auto simp: minv_def ships_wf_def)
  moreover have "ad \<noteq> None" using assms(1,2) by (auto simp: minv_def)
  ultimately show ?thesis using assms(1) by (auto simp: minv_def)
qed

text \<open>An archived record that expires can only lower the sum.\<close>

lemma minv_expire:
  assumes "minv tok m a n ad tc h"
  shows "minv tok m (a(i := None)) n ad tc h"
proof -
  have "escrow_at m (a(i := None)) j \<le> escrow_at m a j" for j
    using minv_lookup(4) [OF assms, of j]
    by (auto simp: escrow_at_def lookup_def ship_ok_def split: option.splits)
  then have "locked_upto m (a(i := None)) (unwrap_or 0 n) \<le> locked_upto m a (unwrap_or 0 n)"
    unfolding locked_upto_def by (rule sum_mono)
  then show ?thesis using assms by (auto simp: minv_def ships_wf_def)
qed

lemma shipment_valid_ok: "shipment_valid sh \<Longrightarrow> ship_ok sh"
  by (auto simp: shipment_valid_def ship_ok_def)

lemma ship_ok_finalize: "ship_ok (finalize_if_settled sh) = ship_ok sh"
  by (auto simp: ship_ok_def)

section \<open>Assertions\<close>

text \<open>
  \<open>mst held me tok x k\<close>: the invariant with slack \<open>k\<close> (the holding covers the escrows and \<open>k\<close>
  more), and the shipment \<open>x\<close> that was looked up, with its number, is the one stored.
\<close>

definition mst ::
    "(addr \<Rightarrow> 't \<Rightarrow> int) \<Rightarrow> addr \<Rightarrow> addr \<Rightarrow> (nat \<times> Shipment) option \<Rightarrow> int \<Rightarrow> 't store \<Rightarrow> bool" where
  "mst held me tok x k s \<longleftrightarrow>
     minv tok (k_Shipment s) (k_ArchivedShipment s) (k_ShipmentCount s) (k_Admin s)
       (k_TokenContract s) (held me (tokens s) - k) \<and>
     (\<forall>i sh. x = Some (i, sh) \<longrightarrow> lookup (k_Shipment s) (k_ArchivedShipment s) i = Some sh)"

lemma mst_money_inv: "mst held me tok None 0 s = money_inv held me tok s"
  by (simp add: mst_def money_inv_def)

lemma mst_base: "base t = base s \<Longrightarrow> mst held me tok x k t = mst held me tok x k s"
  by (simp add: mst_def base_def)

lemma mst_core: "core t = core s \<Longrightarrow> mst held me tok x k t = mst held me tok x k s"
  by (rule mst_base) (rule core_base)

lemma mst_lock [simp]: "mst held me tok x k (set_reentrancy_lock b s) = mst held me tok x k s"
  by (simp add: mst_def set_reentrancy_lock_def)

lemma mst_weaken: "mst held me tok x k s \<Longrightarrow> 0 \<le> k \<Longrightarrow> mst held me tok None 0 s"
  by (auto simp: mst_def intro: minv_hold)

lemma mst_found:
  assumes "mst held me tok (Some (i, sh)) k s"
  shows "sh_id sh = i" "ship_ok sh" "k_TokenContract s = Some tok"
  using assms minv_lookup [of tok "k_Shipment s" "k_ArchivedShipment s" "k_ShipmentCount s"
      "k_Admin s" "k_TokenContract s" "held me (tokens s) - k" i sh]
  by (auto simp: mst_def minv_def lookup_def)

lemma mst_set_shipment:
  assumes "mst held me tok (Some (i, sh)) k s" "sh_id sh' = sh_id sh" "ship_ok sh'"
  shows "mst held me tok (Some (i, sh')) (k + sh_escrow_amount sh - sh_escrow_amount sh')
    (set_shipment sh' s)"
proof -
  have "minv tok ((k_Shipment s)(sh_id sh \<mapsto> sh')) (k_ArchivedShipment s) (k_ShipmentCount s)
      (k_Admin s) (k_TokenContract s)
      (held me (tokens s) - (k + sh_escrow_amount sh - sh_escrow_amount sh'))"
    by (rule minv_upd [where i = i and sh = sh]) (use assms in \<open>auto simp: mst_def\<close>)
  with assms mst_found(1) [OF assms(1)] show ?thesis by (simp add: mst_def set_shipment_def)
qed

section \<open>Rules\<close>

named_theorems mst_steps \<open>triples of single steps\<close>

text \<open>Sequencing, with the hypotheses a test leaves.\<close>

lemma mst_seq:
  "(\<not> b \<Longrightarrow> triple P n Q) \<Longrightarrow> triple P (andthen (fail_if b e) n) Q"
  "(\<not> sh_finalized sh \<Longrightarrow> triple P n Q) \<Longrightarrow> triple P (andthen (require_not_finalized sh) n) Q"
  "(authorized E a \<Longrightarrow> triple P n Q) \<Longrightarrow> triple P (andthen (require_auth E a) n) Q"
  by (simp_all add: triple_def wp_simps)

lemma mst_seq_all:
  "(\<not> b \<Longrightarrow> triple P (do_all ms) Q) \<Longrightarrow> triple P (do_all (fail_if b e # ms)) Q"
  "(\<not> sh_finalized sh \<Longrightarrow> triple P (do_all ms) Q) \<Longrightarrow>
     triple P (do_all (require_not_finalized sh # ms)) Q"
  "(authorized E a \<Longrightarrow> triple P (do_all ms) Q) \<Longrightarrow> triple P (do_all (require_auth E a # ms)) Q"
  by (simp_all add: triple_def wp_simps)

lemma mst_let: "triple P (f z) Q \<Longrightarrow> triple P (Let z f) Q"
  by simp

lemma mst_do_all: "triple P m (\<lambda>_. R) \<Longrightarrow> triple R (do_all ms) Q \<Longrightarrow> triple P (do_all (m # ms)) Q"
  by (simp add: triple_andthen)

lemma mst_ok_or: "triple P (f y) Q \<Longrightarrow> triple P (bind (ok_or (Some y) e) f) Q"
  by (simp add: triple_def wp_simps)

lemma mst_frame:
  assumes "frame core m"
  shows "triple (mst held me tok x k) m (\<lambda>_. mst held me tok x k)"
  by (rule core_triple [OF mst_core assms])

lemma mst_frame_end:
  assumes "frame core m" "0 \<le> k"
  shows "triple (mst held me tok x k) m (\<lambda>_. mst held me tok None 0)"
  by (rule triple_conseq [OF mst_frame [OF assms(1)]]) (use assms(2) in \<open>auto intro: mst_weaken\<close>)

lemma mst_nil: "0 \<le> k \<Longrightarrow> triple (mst held me tok x k) (do_all []) (\<lambda>_. mst held me tok None 0)"
  by (rule mst_frame_end) (rule frame_rules)

lemma mst_find:
  assumes "\<And>sh. sh_id sh = i \<Longrightarrow> ship_ok sh \<Longrightarrow> triple (mst held me tok (Some (i, sh)) k) (f sh) Q"
  shows "triple (mst held me tok None k) (bind (find_shipment i) f) Q"
proof (rule tripleI)
  fix s
  assume "mst held me tok None k s"
  then have "mst held me tok (Some (i, sh)) k s" if "storage_get_shipment i s = Some sh" for sh
    using that by (simp add: mst_def)
  with assms mst_found show "wp (bind (find_shipment i) f) Q s"
    by (fastforce simp: wp_simps triple_def)
qed

lemma mst_token:
  "triple (mst held me tok (Some y) k) (f (Some tok)) Q \<Longrightarrow>
   triple (mst held me tok (Some y) k) (bind (gets get_token_contract) f) Q"
  using mst_found(3) by (cases y) (fastforce simp: triple_def wp_simps get_token_contract_def)

lemma mst_set [mst_steps]:
  assumes "sh_id sh' = sh_id sh" "ship_ok sh'"
  shows "triple (mst held me tok (Some (i, sh)) k) (modify (set_shipment sh'))
    (\<lambda>_. mst held me tok (Some (i, sh')) (k + sh_escrow_amount sh - sh_escrow_amount sh'))"
  using assms by (auto simp: triple_def wp_simps intro: mst_set_shipment)

lemma mst_persist [mst_steps]:
  assumes "sh_id sh' = sh_id sh"
  shows "triple (mst held me tok (Some (i, sh)) k) (persist_shipment sh')
    (\<lambda>_. mst held me tok (Some (i, sh')) (k + sh_escrow_amount sh - sh_escrow_amount sh'))"
  using assms mst_set_shipment [of held me tok i sh k _ sh'] shipment_valid_ok
  by (auto simp: triple_def wp_simps intro: mst_core [THEN iffD2, OF core_setters(1)])

lemma mst_sub_escrow:
  "(0 \<le> a - b \<Longrightarrow> triple P (f (a - b)) Q) \<Longrightarrow> triple P (bind (checked_sub_escrow a b) f) Q"
  "triple P (f (a - b)) Q \<Longrightarrow> triple P (bind (checked_sub_i128 a b) f) Q"
  by (simp_all add: triple_def wp_simps)

lemma mst_lock_seq:
  "triple (mst held me tok x k) m (\<lambda>_. mst held me tok y l) \<Longrightarrow>
   triple (mst held me tok x k) (with_reentrancy_lock m) (\<lambda>_. mst held me tok y l)"
  by (simp add: triple_def wp_simps)

lemma mst_settle:
  assumes "triple (mst held me tok x k) m (\<lambda>_. mst held me tok y l)"
    and "triple (mst held me tok y l) rest Q"
  shows "triple (mst held me tok x k) (settle_transfer E n i m rest) Q"
proof -
  have "triple (mst held me tok x k) (andthen m (andthen (complete_settlement E n i) rest)) Q"
    by (rule triple_andthen [OF assms(1)], rule triple_andthen [OF mst_frame assms(2)])
      (rule frame_rules)
  then show ?thesis by (simp only: triple_def wp_andthen wp_settle_transfer)
qed

text \<open>
  A release of \<open>v\<close> from the escrow of \<open>sh\<close>: nothing to pay, or the payment of what is there with its
  settlement record, the shipment stored and the event.
\<close>

lemma triple_release:
  assumes skip: "min v (sh_escrow_amount sh) \<le> 0 \<Longrightarrow> triple P (f sh) Q"
    and paid: "\<And>a. a = min v (sh_escrow_amount sh) \<Longrightarrow> 0 < a \<Longrightarrow> a \<le> sh_escrow_amount sh \<Longrightarrow>
      triple P (bind (gets get_token_contract) (\<lambda>x. bind (ok_or x NotInitialized) (\<lambda>tok.
        bind (create_settlement E (sh_id sh) Release a (self E) (sh_carrier sh)) (\<lambda>n.
        settle_transfer E n (sh_id sh) (invoke_token_transfer E tok (self E) (sh_carrier sh) a)
         (andthen (persist_shipment (released E sh a))
         (andthen (emit_escrow_released E (sh_id sh) (sh_carrier sh) a) (f (released E sh a)))))))) Q"
  shows "triple P (bind (internal_release_escrow E sh v) f) Q"
proof (cases "min v (sh_escrow_amount sh) \<le> 0")
  case True
  then have "internal_release_escrow E sh v = ret sh"
    by (intro internal_release_escrow_skip) (auto simp: min_le_iff_disj)
  with skip [OF True] show ?thesis by (simp add: triple_def wp_simps)
next
  case False
  then have pos: "0 < min v (sh_escrow_amount sh)" by (simp only: not_le)
  show ?thesis
    by (cases "in_i128 (sh_escrow_amount sh - min v (sh_escrow_amount sh))")
      (use paid [OF refl pos min.cobounded2] False in \<open>simp_all add: triple_def wp_bind wp_andthen wp_basic
        wp_option wp_settle_transfer wp_persist_shipment wp_internal_release_escrow Let_def
        get_token_contract_def wp_top\<close>)
qed

text \<open>A shipment in the hands of a handler and the stored one agree in what the money depends on.\<close>

definition twin :: "Shipment \<Rightarrow> Shipment \<Rightarrow> bool" where
  "twin sh st \<longleftrightarrow> sh_id sh = sh_id st \<and> sh_escrow_amount sh = sh_escrow_amount st \<and>
     sh_total_escrow sh = sh_total_escrow st \<and> 0 \<le> sh_escrow_amount sh \<and>
     sh_escrow_amount sh \<le> sh_total_escrow sh \<and> \<not> sh_finalized sh"

text \<open>
  The interface to the token: the contract at \<open>me\<close> does not sign calls to itself, and the token \<open>tok\<close>
  behaves as a ledger.
\<close>

locale custody = token_ledger "token_transfer E tok" held
  for E :: "'t env" and tok :: addr and held :: "addr \<Rightarrow> 't \<Rightarrow> int" +
  fixes me :: addr
  assumes self_me: "self E = me" and self_silent: "\<not> authorized E me"
begin

lemma mst_pay_out:
  "triple (mst held me tok x k) (invoke_token_transfer E tok (self E) a v)
     (\<lambda>_. mst held me tok x (k - v))"
proof -
  have "held me t - k \<le> held me u - (k - v)" if "token_transfer E tok me a v t = Some u" for t u
    using pay_payer_bound [OF that] by simp
  then show ?thesis
    by (auto simp: triple_def wp_simps mst_def self_me elim: minv_hold)
qed

lemma mst_pay_in:
  assumes "authorized E a"
  shows "triple (mst held me tok x k) (invoke_token_transfer E tok a (self E) v)
     (\<lambda>_. mst held me tok x (k + v))"
proof -
  have "a \<noteq> me" using assms self_silent by auto
  then have "held me t - k \<le> held me u - (k + v)" if "token_transfer E tok a me v t = Some u" for t u
    using pay_payee_exact [OF that] by simp
  then show ?thesis
    by (auto simp: triple_def wp_simps mst_def self_me elim: minv_hold)
qed

text \<open>
  \<open>internal_release_escrow\<close> on a copy \<open>sh\<close> of the stored shipment \<open>st\<close> that may differ in status and
  milestones: what it returns agrees with what is stored then, and the slack is the same.
\<close>

lemma mst_release:
  assumes "twin sh st"
    and "\<And>sh' st'. twin sh' st' \<Longrightarrow> sh_status sh' = sh_status sh \<Longrightarrow>
      triple (mst held me tok (Some (i, st')) k) (f sh') Q"
  shows "triple (mst held me tok (Some (i, st)) k) (bind (internal_release_escrow E sh v) f) Q"
proof (rule triple_release)
  show "triple (mst held me tok (Some (i, st)) k) (f sh) Q"
    using assms by auto
next
  fix a
  assume a: "0 < a" "a \<le> sh_escrow_amount sh"
  have fin: "triple (mst held me tok (Some (i, released E sh a)) k) (f (released E sh a)) Q"
    by (rule assms(2)) (use assms(1) a in \<open>auto simp: twin_def\<close>)
  have k: "k - a + sh_escrow_amount st - (sh_escrow_amount sh - a) = k"
    using assms(1) by (simp add: twin_def)
  show "triple (mst held me tok (Some (i, st)) k) (bind (gets get_token_contract) (\<lambda>x.
      bind (ok_or x NotInitialized) (\<lambda>tok.
      bind (create_settlement E (sh_id sh) Release a (self E) (sh_carrier sh)) (\<lambda>n.
      settle_transfer E n (sh_id sh) (invoke_token_transfer E tok (self E) (sh_carrier sh) a)
       (andthen (persist_shipment (released E sh a))
       (andthen (emit_escrow_released E (sh_id sh) (sh_carrier sh) a) (f (released E sh a)))))))) Q"
    apply (rule mst_token, rule mst_ok_or, rule triple_bind, rule mst_frame, rule frame_rules)
    apply (rule mst_settle, rule mst_pay_out)
    apply (rule triple_andthen, rule mst_persist, use assms(1) in \<open>simp add: twin_def\<close>)
    apply (rule triple_andthen, rule mst_frame, rule frame_rules)
    using fin k by simp
qed

end

end
