(* ===== verification/Admin.thy ===== *)
theory Admin
  imports Escrow
begin

text \<open>
  The administrative entry points of \<open>lib.rs\<close>: initialisation, limits and views, roles and
  suspension, the carrier whitelist, audit queries, the transfer of the admin key, upgrades,
  configuration, fees, pausing, the circuit breaker's settings and creation quotas.
\<close>

section \<open>Result types\<close>

record ContractMetadata =
  md_version :: nat
  md_admin :: addr
  md_shipment_count :: nat
  md_initialized :: bool
  md_hash_algo_version :: nat

record MigrationReport =
  mr_current_version :: nat
  mr_target_version :: nat
  mr_affected_shipments :: nat

record Analytics =
  an_total_shipments :: nat
  an_total_escrow_volume :: int
  an_total_disputes :: nat
  an_created_count :: nat
  an_in_transit_count :: nat
  an_at_checkpoint_count :: nat
  an_delivered_count :: nat
  an_disputed_count :: nat
  an_cancelled_count :: nat

record ShipmentStatusSummary =
  su_created :: nat
  su_in_transit :: nat
  su_at_checkpoint :: nat
  su_partially_delivered :: nat
  su_delivered :: nat
  su_disputed :: nat
  su_cancelled :: nat

section \<open>Initialisation, limits, views\<close>

definition initialize :: "'t env \<Rightarrow> addr \<Rightarrow> addr \<Rightarrow> ('t, unit) nav" where
  "initialize E admin token_contract = do_all [
     fail_when is_initialized AlreadyInitialized,
     fail_if (token_contract = admin \<or> token_contract = self E) InvalidTokenAddress,
     modify (set_admin admin),
     modify (set_token_contract token_contract),
     modify (set_shipment_counter 0),
     modify (set_version 1),
     modify (set_company_role admin),
     map_err (\<lambda>_. InvalidConfig) (set_config E default_config),
     modify (storage_set_shipment_limit (default_shipment_limit default_config)),
     emit_contract_initialized admin token_contract,
     bind (gets get_config) (\<lambda>c. modify (request_ttl True TInstance
       (shipment_ttl_threshold c) (shipment_ttl_extension c)))]"

definition set_shipment_limit :: "'t env \<Rightarrow> addr \<Rightarrow> nat \<Rightarrow> ('t, unit) nav" where
  "set_shipment_limit E admin limit = do_all [
     require_initialized,
     require_not_paused,
     require_auth E admin,
     require_admin admin,
     modify (storage_set_shipment_limit limit),
     emit_shipment_limit_updated admin limit]"

definition get_shipment_limit :: "('t, nat) nav" where
  "get_shipment_limit = andthen require_initialized (gets storage_get_shipment_limit)"

definition set_company_shipment_limit :: "'t env \<Rightarrow> addr \<Rightarrow> addr \<Rightarrow> nat \<Rightarrow> ('t, unit) nav" where
  "set_company_shipment_limit E admin company limit = do_all [
     require_initialized,
     require_not_paused,
     require_auth E admin,
     require_admin admin,
     modify (storage_set_company_shipment_limit company limit),
     emit_company_limit_updated admin company limit]"

definition get_effective_shipment_limit :: "addr \<Rightarrow> ('t, nat) nav" where
  "get_effective_shipment_limit company =
     andthen require_initialized (gets (storage_get_effective_shipment_limit company))"

definition get_active_shipment_count :: "addr \<Rightarrow> ('t, nat) nav" where
  "get_active_shipment_count company =
     andthen require_initialized (gets (storage_get_active_shipment_count company))"

definition get_admin :: "('t, addr) nav" where
  "get_admin = andthen require_initialized storage_get_admin"

definition get_version :: "('t, nat) nav" where
  "get_version = andthen require_initialized (gets storage_get_version)"

definition get_hash_algo_version :: "('t, nat) nav" where
  "get_hash_algo_version = andthen require_initialized (ret DEFAULT_HASH_ALGO)"

definition get_expected_token_decimals :: "('t, nat) nav" where
  "get_expected_token_decimals = andthen require_initialized (ret EXPECTED_TOKEN_DECIMALS)"

definition get_contract_metadata :: "('t, ContractMetadata) nav" where
  "get_contract_metadata =
     andthen require_initialized
    (bind storage_get_admin (\<lambda>admin. gets (\<lambda>s.
       \<lparr>md_version = storage_get_version s, md_admin = admin,
        md_shipment_count = storage_get_shipment_counter s, md_initialized = True,
        md_hash_algo_version = DEFAULT_HASH_ALGO\<rparr>)))"

definition get_shipment_counter :: "('t, nat) nav" where
  "get_shipment_counter = andthen require_initialized (gets storage_get_shipment_counter)"

definition get_analytics :: "('t, Analytics) nav" where
  "get_analytics =
     andthen require_initialized (gets (\<lambda>s.
       \<lparr>an_total_shipments = storage_get_shipment_counter s,
        an_total_escrow_volume = get_total_escrow_volume s,
        an_total_disputes = get_total_disputes s,
        an_created_count = get_status_count Created s,
        an_in_transit_count = get_status_count InTransit s,
        an_at_checkpoint_count = get_status_count AtCheckpoint s,
        an_delivered_count = get_status_count Delivered s,
        an_disputed_count = get_status_count Disputed s,
        an_cancelled_count = get_status_count Cancelled s\<rparr>))"

definition get_status_summary :: "('t, ShipmentStatusSummary) nav" where
  "get_status_summary =
     andthen require_initialized (gets (\<lambda>s.
       \<lparr>su_created = get_status_count Created s,
        su_in_transit = get_status_count InTransit s,
        su_at_checkpoint = get_status_count AtCheckpoint s,
        su_partially_delivered = get_status_count PartiallyDelivered s,
        su_delivered = get_status_count Delivered s,
        su_disputed = get_status_count Disputed s,
        su_cancelled = get_status_count Cancelled s\<rparr>))"

definition get_non_terminal_count :: "('t, nat) nav" where
  "get_non_terminal_count =
     andthen require_initialized
    (bind (gets (\<lambda>s st. get_status_count st s)) (\<lambda>n.
     bind (u64_add (n Created) (n InTransit)) (\<lambda>a.
     bind (u64_add a (n AtCheckpoint)) (\<lambda>b.
     bind (u64_add b (n PartiallyDelivered)) (\<lambda>c.
     u64_add c (n Disputed))))))"

definition lib_get_config_checksum :: "'t env \<Rightarrow> ('t, hash) nav" where
  "lib_get_config_checksum E =
     andthen require_initialized (gets (\<lambda>s. case get_config_checksum s of
       Some h \<Rightarrow> h
     | None \<Rightarrow> compute_config_checksum E (get_config s)))"

section \<open>Whitelist and roles\<close>

definition add_carrier_to_whitelist :: "'t env \<Rightarrow> addr \<Rightarrow> addr \<Rightarrow> ('t, unit) nav" where
  "add_carrier_to_whitelist E company carrier = do_all [
     require_initialized,
     require_not_paused,
     require_auth E company,
     require_role company Company,
     fail_when (storage_is_carrier_whitelisted company carrier) CarrierAlreadyWhitelisted,
     modify (storage_add_carrier_to_whitelist company carrier),
     modify (publish ''add_wl'' [VAddr company, VAddr carrier]),
     void (log_carrier_whitelisted E company company carrier)]"

definition remove_carrier_from_whitelist :: "'t env \<Rightarrow> addr \<Rightarrow> addr \<Rightarrow> ('t, unit) nav" where
  "remove_carrier_from_whitelist E company carrier = do_all [
     require_initialized,
     require_not_paused,
     require_auth E company,
     require_role company Company,
     modify (storage_remove_carrier_from_whitelist company carrier),
     modify (publish ''rm_wl'' [VAddr company, VAddr carrier])]"

definition is_carrier_whitelisted :: "addr \<Rightarrow> addr \<Rightarrow> ('t, bool) nav" where
  "is_carrier_whitelisted company carrier =
     andthen require_initialized (gets (storage_is_carrier_whitelisted company carrier))"

definition get_role :: "addr \<Rightarrow> ('t, Role) nav" where
  "get_role a = andthen require_initialized (gets (\<lambda>s. unwrap_or Unassigned (storage_get_role a s)))"

definition add_company :: "'t env \<Rightarrow> addr \<Rightarrow> addr \<Rightarrow> ('t, unit) nav" where
  "add_company E admin company = do_all [
     require_initialized,
     require_not_paused,
     require_auth E admin,
     require_admin_or_operator admin,
     fail_when (has_role company Company) RoleAlreadyAssigned,
     modify (set_company_role company),
     emit_role_changed E Assigned admin company Company,
     void (log_role_assigned E admin company Company)]"

definition add_carrier :: "'t env \<Rightarrow> addr \<Rightarrow> addr \<Rightarrow> ('t, unit) nav" where
  "add_carrier E admin carrier = do_all [
     require_initialized,
     require_not_paused,
     require_auth E admin,
     require_admin_or_operator admin,
     fail_when (has_role carrier Carrier) RoleAlreadyAssigned,
     modify (set_carrier_role carrier),
     emit_role_changed E Assigned admin carrier Carrier,
     void (log_role_assigned E admin carrier Carrier)]"

definition add_guardian :: "'t env \<Rightarrow> addr \<Rightarrow> addr \<Rightarrow> ('t, unit) nav" where
  "add_guardian E admin guardian = do_all [
     require_initialized,
     require_not_paused,
     require_auth E admin,
     require_admin admin,
     modify (set_role guardian Guardian),
     emit_role_changed E Assigned admin guardian Guardian,
     void (log_role_assigned E admin guardian Guardian)]"

definition add_operator :: "'t env \<Rightarrow> addr \<Rightarrow> addr \<Rightarrow> ('t, unit) nav" where
  "add_operator E admin op = do_all [
     require_initialized,
     require_not_paused,
     require_auth E admin,
     require_admin admin,
     modify (set_role op Operator),
     emit_role_changed E Assigned admin op Operator,
     void (log_role_assigned E admin op Operator)]"

definition revoke_role :: "'t env \<Rightarrow> addr \<Rightarrow> addr \<Rightarrow> ('t, unit) nav" where
  "revoke_role E admin target =
     andthen require_initialized
    (andthen require_not_paused
    (andthen (require_auth E admin)
    (andthen (require_admin admin)
    (andthen (fail_if (admin = target) CannotSelfRevoke)
    (bind (gets (\<lambda>s. unwrap_or Unassigned (storage_get_role target s))) (\<lambda>r. do_all [
       only_if (r \<noteq> Unassigned) (modify (storage_revoke_role target r)),
       emit_role_revoked admin target r,
       emit_role_changed E Revoked admin target r,
       void (log_role_revoked E admin target r)]))))))"

definition remove_guardian :: "'t env \<Rightarrow> addr \<Rightarrow> addr \<Rightarrow> ('t, unit) nav" where
  "remove_guardian E admin guardian = revoke_role E admin guardian"

definition remove_operator :: "'t env \<Rightarrow> addr \<Rightarrow> addr \<Rightarrow> ('t, unit) nav" where
  "remove_operator E admin op = revoke_role E admin op"

definition suspend_role :: "'t env \<Rightarrow> addr \<Rightarrow> addr \<Rightarrow> ('t, unit) nav" where
  "suspend_role E admin target =
     andthen require_initialized
    (andthen require_not_paused
    (andthen (require_auth E admin)
    (andthen (require_admin admin)
    (andthen (fail_if (admin = target) CannotSelfRevoke)
    (bind (gets (\<lambda>s. unwrap_or Unassigned (storage_get_role target s))) (\<lambda>r. do_all [
       fail_if (r = Unassigned) Unauthorized,
       modify (storage_suspend_role target r),
       emit_role_changed E Suspended admin target r,
       void (log_role_suspended E admin target r)]))))))"

definition reactivate_role :: "'t env \<Rightarrow> addr \<Rightarrow> addr \<Rightarrow> ('t, unit) nav" where
  "reactivate_role E admin target =
     andthen require_initialized
    (andthen require_not_paused
    (andthen (require_auth E admin)
    (andthen (require_admin admin)
    (bind (gets (\<lambda>s. unwrap_or Unassigned (storage_get_role target s))) (\<lambda>r. do_all [
       fail_if (r = Unassigned) Unauthorized,
       modify (storage_reactivate_role target r),
       emit_role_changed E Reactivated admin target r,
       void (log_role_reactivated E admin target r)])))))"

definition suspend_carrier :: "'t env \<Rightarrow> addr \<Rightarrow> addr \<Rightarrow> ('t, unit) nav" where
  "suspend_carrier E admin carrier = do_all [
     require_initialized,
     require_not_paused,
     require_auth E admin,
     require_admin_or_operator admin,
     modify (storage_suspend_carrier carrier),
     emit_carrier_suspended admin carrier]"

definition reactivate_carrier :: "'t env \<Rightarrow> addr \<Rightarrow> addr \<Rightarrow> ('t, unit) nav" where
  "reactivate_carrier E admin carrier = do_all [
     require_initialized,
     require_not_paused,
     require_auth E admin,
     require_admin_or_operator admin,
     modify (storage_reactivate_carrier carrier),
     emit_carrier_reactivated admin carrier]"

definition is_carrier_suspended :: "addr \<Rightarrow> ('t, bool) nav" where
  "is_carrier_suspended a = andthen require_initialized (gets (storage_is_carrier_suspended a))"

definition is_company_suspended :: "addr \<Rightarrow> ('t, bool) nav" where
  "is_company_suspended a = andthen require_initialized (gets (storage_is_company_suspended a))"

definition suspend_company :: "'t env \<Rightarrow> addr \<Rightarrow> addr \<Rightarrow> ('t, unit) nav" where
  "suspend_company E admin company = do_all [
     require_initialized,
     require_not_paused,
     require_auth E admin,
     require_admin_or_operator admin,
     fail_when (\<lambda>s. \<not> has_company_role company s) Unauthorized,
     modify (storage_suspend_company company),
     emit_role_changed E Suspended admin company Company]"

definition reactivate_company :: "'t env \<Rightarrow> addr \<Rightarrow> addr \<Rightarrow> ('t, unit) nav" where
  "reactivate_company E admin company = do_all [
     require_initialized,
     require_not_paused,
     require_auth E admin,
     require_admin_or_operator admin,
     modify (storage_reactivate_company company),
     emit_role_changed E Reactivated admin company Company]"

section \<open>Audit queries\<close>

definition query_audit_history_for_target :: "addr \<Rightarrow> ('t, AuditLogEntry list) nav" where
  "query_audit_history_for_target a =
     andthen require_initialized (gets (storage_query_audit_history_for_target a))"

definition query_audit_history_by_actor :: "addr \<Rightarrow> ('t, AuditLogEntry list) nav" where
  "query_audit_history_by_actor a =
     andthen require_initialized (gets (storage_query_audit_history_by_actor a))"

definition query_audit_history :: "nat \<Rightarrow> nat \<Rightarrow> ('t, AuditLogEntry list) nav" where
  "query_audit_history start_time end_time =
     andthen require_initialized (gets (storage_query_audit_history start_time end_time))"

section \<open>Admin key, upgrades, pausing\<close>

definition transfer_admin :: "'t env \<Rightarrow> addr \<Rightarrow> addr \<Rightarrow> ('t, unit) nav" where
  "transfer_admin E admin new_admin = do_all [
     require_initialized,
     require_auth E admin,
     require_admin admin,
     modify (set_proposed_admin new_admin),
     emit_admin_proposed admin new_admin]"

definition accept_admin_transfer :: "'t env \<Rightarrow> addr \<Rightarrow> ('t, unit) nav" where
  "accept_admin_transfer E new_admin =
     andthen require_initialized
    (andthen (require_auth E new_admin)
    (bind (gets get_proposed_admin) (\<lambda>x.
     bind (ok_or x Unauthorized) (\<lambda>proposed.
     andthen (fail_if (proposed \<noteq> new_admin) Unauthorized)
    (bind storage_get_admin (\<lambda>old_admin. do_all [
       modify (set_admin new_admin),
       modify clear_proposed_admin,
       modify (set_company_role new_admin),
       emit_admin_transferred old_admin new_admin,
       void (log_admin_transferred E old_admin new_admin)]))))))"

text \<open>\<open>env.deployer().update_current_contract_wasm(hash)\<close>: the host installs the code.\<close>

definition update_current_contract_wasm :: "hash \<Rightarrow> 't store \<Rightarrow> 't store" where
  "update_current_contract_wasm h s = s\<lparr>code_hash := Some h\<rparr>"

definition upgrade :: "'t env \<Rightarrow> addr \<Rightarrow> hash \<Rightarrow> nat \<Rightarrow> ('t, unit) nav" where
  "upgrade E admin new_wasm_hash target_version =
     andthen require_initialized
    (andthen (require_auth E admin)
    (andthen (validate_hash new_wasm_hash)
    (andthen (require_admin admin)
    (bind (gets storage_get_version) (\<lambda>current_version.
     bind (is_allowed_migration current_version target_version) (\<lambda>ok.
     andthen (fail_if (\<not> ok) InvalidMigrationEdge)
    (bind (gets storage_get_shipment_counter) (\<lambda>shipment_count. do_all [
       modify (set_version target_version),
       emit_contract_upgraded admin new_wasm_hash target_version,
       emit_migration_report current_version target_version shipment_count,
       modify (update_current_contract_wasm new_wasm_hash)]))))))))"

definition dry_run_migration :: "nat \<Rightarrow> ('t, MigrationReport) nav" where
  "dry_run_migration target_version =
     andthen require_initialized
    (bind (gets storage_get_version) (\<lambda>current_version.
     bind (is_allowed_migration current_version target_version) (\<lambda>ok.
     andthen (fail_if (\<not> ok) InvalidMigrationEdge)
    (bind (gets storage_get_shipment_counter) (\<lambda>shipment_count.
       ret \<lparr>mr_current_version = current_version, mr_target_version = target_version,
            mr_affected_shipments = shipment_count\<rparr>)))))"

definition pause :: "'t env \<Rightarrow> addr \<Rightarrow> ('t, unit) nav" where
  "pause E admin = do_all [
     require_initialized,
     require_auth E admin,
     require_admin_or_guardian admin,
     modify (set_paused True),
     emit_contract_paused E admin]"

definition unpause :: "'t env \<Rightarrow> addr \<Rightarrow> ('t, unit) nav" where
  "unpause E admin = do_all [
     require_initialized,
     require_auth E admin,
     require_admin_or_guardian admin,
     modify (set_paused False),
     emit_contract_unpaused E admin]"

section \<open>Configuration, fees, breaker, quotas\<close>

definition update_config :: "'t env \<Rightarrow> addr \<Rightarrow> ContractConfig \<Rightarrow> ('t, unit) nav" where
  "update_config E admin new_config = do_all [
     require_initialized,
     require_not_paused,
     require_auth E admin,
     require_admin admin,
     fail_if (validate_config new_config \<noteq> Inr ()) InvalidConfig,
     set_config E new_config,
     emit_config_updated admin new_config]"

definition set_platform_fee :: "'t env \<Rightarrow> addr \<Rightarrow> nat \<Rightarrow> addr \<Rightarrow> ('t, unit) nav" where
  "set_platform_fee E admin bps treasury = do_all [
     require_initialized,
     require_not_paused,
     require_auth E admin,
     require_admin admin,
     fail_if (bps > 1000) InvalidAmount,
     fail_if (is_zero_address E treasury) InvalidAddress,
     modify (set_fee_config \<lparr>fee_bps = bps, fee_treasury = treasury\<rparr>),
     modify (set_treasury treasury),
     emit_fee_config_updated admin bps treasury]"

definition get_platform_fee_config :: "('t, FeeConfig option) nav" where
  "get_platform_fee_config = andthen require_initialized (gets get_fee_config)"

definition get_contract_config :: "('t, ContractConfig) nav" where
  "get_contract_config = andthen require_initialized (gets get_config)"

definition reset_circuit_breaker :: "'t env \<Rightarrow> addr \<Rightarrow> ('t, unit) nav" where
  "reset_circuit_breaker E admin = andthen require_initialized (manual_reset E admin)"

definition get_circuit_breaker_status ::
    "'t env \<Rightarrow> ('t, CircuitBreakerState \<times> nat \<times> nat) nav" where
  "get_circuit_breaker_status E =
     andthen require_initialized
    (bind (gets breaker_get_config) (get_breaker_status E))"

definition set_circuit_breaker_config ::
    "'t env \<Rightarrow> addr \<Rightarrow> CircuitBreakerPreset \<Rightarrow> ('t, unit) nav" where
  "set_circuit_breaker_config E admin preset =
     andthen require_initialized
    (andthen (require_auth E admin)
    (andthen (require_admin admin)
    (bind (resolve preset) (\<lambda>c. do_all [
       modify (breaker_set_config c),
       modify (publish ''config_updated'' [VSym ''circuit_breaker'', VU32 (cb_failure_threshold c),
         VU64 (cb_recovery_timeout c), VU32 (cb_half_open_max_requests c)])]))))"

definition get_circuit_breaker_config :: "('t, CircuitBreakerConfig) nav" where
  "get_circuit_breaker_config = andthen require_initialized (gets breaker_get_config)"

definition set_creation_quota :: "'t env \<Rightarrow> addr \<Rightarrow> nat \<Rightarrow> nat \<Rightarrow> ('t, unit) nav" where
  "set_creation_quota E admin max_per_window window =
     andthen require_initialized
    (andthen (require_auth E admin)
    (andthen (require_admin admin)
    (andthen (fail_if (max_per_window > 0 \<and> window = 0) InvalidConfig)
    (bind (gets get_config) (\<lambda>cfg. do_all [
       map_err (\<lambda>_. InvalidConfig) (set_config E (cfg\<lparr>creation_quota_max := max_per_window,
         creation_quota_window_seconds := window\<rparr>)),
       emit_quota_set admin max_per_window window])))))"

definition get_creation_quota_status :: "'t env \<Rightarrow> addr \<Rightarrow> ('t, nat \<times> nat) nav" where
  "get_creation_quota_status E company =
     andthen require_initialized
    (bind (gets get_config) (\<lambda>cfg.
     if creation_quota_max cfg = 0 then ret (0, u32_max)
     else bind (gets (get_creation_quota company)) (\<lambda>x. case x of
       None \<Rightarrow> ret (0, creation_quota_max cfg)
     | Some q \<Rightarrow>
         bind (u64_add (cq_window_start q) (creation_quota_window_seconds cfg)) (\<lambda>window_end.
         if timestamp E \<ge> window_end then ret (0, creation_quota_max cfg)
         else ret (cq_count q, saturating_sub (creation_quota_max cfg) (cq_count q))))))"

end
