(* ===== verification/Creation.thy ===== *)
theory Creation
  imports Admin "HOL-Library.AList"
begin

text \<open>
  Creation of shipments, one by one and in batches, and what is attached to them: metadata, notes
  and dispute evidence (\<open>lib.rs\<close>).
\<close>

section \<open>Metadata, notes, evidence\<close>

text \<open>
  The metadata map is an association list; \<open>set\<close> replaces the entry of its key or adds one.
\<close>

definition set_shipment_metadata ::
    "'t env \<Rightarrow> addr \<Rightarrow> nat \<Rightarrow> sym \<Rightarrow> sym \<Rightarrow> ('t, unit) nav" where
  "set_shipment_metadata E caller i key val =
     andthen require_initialized
    (andthen require_not_paused
    (andthen (require_auth E caller)
    (andthen (validate_symbol_not_whitespace_only E key)
    (andthen (validate_symbol_not_whitespace_only E val)
    (andthen (validate_metadata_symbols E key val)
    (bind storage_get_admin (\<lambda>admin.
     bind (find_shipment i) (\<lambda>sh.
     andthen (require_not_finalized sh)
    (andthen (fail_if (caller \<noteq> sh_sender sh \<and> caller \<noteq> admin) Unauthorized)
    (andthen (guard_if (caller = sh_sender sh) (require_active_company caller))
    (let metadata = unwrap_or [] (sh_metadata sh) in
     andthen (fail_when (\<lambda>s. map_of metadata key = None \<and>
       length metadata \<ge> max_metadata_entries (get_config s)) MetadataLimitExceeded)
       (persist_shipment (bump_nonce (touch E
         (sh\<lparr>sh_metadata := Some (AList.update key val metadata)\<rparr>)))))))))))))))"

definition append_note_hash :: "'t env \<Rightarrow> addr \<Rightarrow> nat \<Rightarrow> hash \<Rightarrow> ('t, unit) nav" where
  "append_note_hash E reporter i note_hash =
     andthen require_initialized
    (andthen require_not_paused
    (andthen (require_auth E reporter)
    (andthen (validate_note_hash note_hash)
    (bind (find_shipment i) (\<lambda>sh.
     bind storage_get_admin (\<lambda>admin.
     andthen (fail_if (reporter \<noteq> sh_sender sh \<and> reporter \<noteq> sh_receiver sh \<and>
       reporter \<noteq> sh_carrier sh \<and> reporter \<noteq> admin) Unauthorized)
    (andthen (guard_if (reporter = sh_sender sh) (require_active_company reporter))
    (andthen (fail_when (\<lambda>s. storage_get_note_count i s \<ge> max_notes_per_shipment (get_config s))
       NoteLimitExceeded)
    (bind (increment_note_count i) (\<lambda>index. do_all [
       modify (set_note_hash i index note_hash),
       emit_note_appended i index note_hash reporter]))))))))))"

definition add_dispute_evidence_hash :: "'t env \<Rightarrow> addr \<Rightarrow> nat \<Rightarrow> hash \<Rightarrow> ('t, unit) nav" where
  "add_dispute_evidence_hash E reporter i evidence_hash =
     andthen require_initialized
    (andthen require_not_paused
    (andthen (require_auth E reporter)
    (andthen (validate_hash evidence_hash)
    (bind (find_shipment i) (\<lambda>sh.
     andthen (require_not_finalized sh)
    (bind storage_get_admin (\<lambda>admin.
     andthen (fail_if (sh_status sh \<noteq> Disputed) InvalidStatus)
    (andthen (fail_if (reporter \<noteq> sh_sender sh \<and> reporter \<noteq> sh_receiver sh \<and>
       reporter \<noteq> sh_carrier sh \<and> reporter \<noteq> admin) Unauthorized)
    (andthen (guard_if (reporter = sh_sender sh) (require_active_company reporter))
    (andthen (fail_when (\<lambda>s. get_evidence_count i s \<ge> max_evidence_per_dispute (get_config s))
       EvidenceLimitExceeded)
    (bind (increment_evidence_count i) (\<lambda>index. do_all [
       modify (set_evidence_hash i index evidence_hash),
       modify (set_shipment (bump_nonce sh)),
       emit_evidence_added i index evidence_hash reporter]))))))))))))"

definition get_dispute_evidence_count :: "nat \<Rightarrow> ('t, nat) nav" where
  "get_dispute_evidence_count i =
     andthen require_initialized
    (andthen (shipment_must_exist i) (gets (get_evidence_count i)))"

definition get_dispute_evidence_hash :: "nat \<Rightarrow> nat \<Rightarrow> ('t, hash option) nav" where
  "get_dispute_evidence_hash i index =
     andthen require_initialized
    (andthen (shipment_must_exist i)
    (andthen (fail_when (\<lambda>s. index \<ge> get_evidence_count i s) EvidenceNotFound)
       (gets (get_evidence_hash i index))))"

definition get_integration_nonce :: "nat \<Rightarrow> ('t, nat) nav" where
  "get_integration_nonce i =
     andthen require_initialized
    (bind (find_shipment i) (\<lambda>sh. ret (sh_integration_nonce sh)))"

definition get_note_count :: "nat \<Rightarrow> ('t, nat) nav" where
  "get_note_count i =
     andthen require_initialized
    (andthen (shipment_must_exist i) (gets (storage_get_note_count i)))"

definition get_note_hash :: "nat \<Rightarrow> nat \<Rightarrow> ('t, hash) nav" where
  "get_note_hash i index =
     andthen require_initialized
    (andthen (fail_when (\<lambda>s. storage_get_shipment i s = None) NoteNotFound)
    (bind (gets (storage_get_note_hash i index)) (\<lambda>x. ok_or x NoteNotFound)))"

section \<open>Creation\<close>

text \<open>The struct both creation paths build.\<close>

definition new_shipment ::
    "'t env \<Rightarrow> nat \<Rightarrow> addr \<Rightarrow> addr \<Rightarrow> addr \<Rightarrow> hash \<Rightarrow> (sym \<times> nat) list \<Rightarrow> nat \<Rightarrow> Shipment" where
  "new_shipment E i sender receiver carrier h ms dl =
     \<lparr>sh_id = i, sh_sender = sender, sh_receiver = receiver, sh_carrier = carrier,
      sh_status = Created, sh_data_hash = h, sh_created_at = timestamp E,
      sh_updated_at = timestamp E, sh_escrow_amount = 0, sh_total_escrow = 0,
      sh_metadata = None, sh_payment_milestones = ms, sh_paid_milestones = [],
      sh_milestones_completed = [], sh_deadline = dl, sh_integration_nonce = 0,
      sh_finalized = False\<rparr>"

definition create_shipment ::
    "'t env \<Rightarrow> addr \<Rightarrow> addr \<Rightarrow> addr \<Rightarrow> hash \<Rightarrow> (sym \<times> nat) list \<Rightarrow> nat \<Rightarrow> ('t, nat) nav" where
  "create_shipment E sender receiver carrier h ms dl =
     andthen require_initialized
    (andthen require_not_paused
    (andthen (require_auth E sender)
    (andthen (require_role sender Company)
    (andthen (validate_milestones E ms)
    (andthen (validate_hash h)
    (andthen (fail_if (sender = receiver \<or> sender = carrier \<or> receiver = carrier)
       InvalidShipmentParticipants)
    (andthen (check_idempotency E (addr_xdr E sender @ h))
    (andthen (fail_if (dl \<le> timestamp E) InvalidTimestamp)
    (andthen (fail_when (\<lambda>s. storage_get_active_shipment_count sender s \<ge>
       storage_get_effective_shipment_limit sender s) ShipmentLimitReached)
    (andthen (check_and_update_creation_quota E sender)
    (bind (gets storage_get_shipment_counter) (\<lambda>n.
     bind (ok_or (u64_checked_add n 1) CounterOverflow) (\<lambda>i.
     andthen (do_all [
       persist_shipment (new_shipment E i sender receiver carrier h ms dl),
       modify (set_shipment_counter i),
       increment_status_count Created,
       modify (increment_active_shipment_count sender),
       extend_shipment_ttl i,
       emit_shipment_created E i sender receiver h,
       emit_notification receiver NShipmentCreated i h,
       emit_notification carrier NShipmentCreated i h])
     (ret i))))))))))))))"

text \<open>The loop of the batch: one shipment per input; the result is the list of their numbers.\<close>

fun create_batch_loop ::
    "'t env \<Rightarrow> ContractConfig \<Rightarrow> addr \<Rightarrow> ShipmentInput list \<Rightarrow> ('t, nat list) nav" where
  "create_batch_loop E c sender [] = ret []"
| "create_batch_loop E c sender (inp # inps) =
     andthen (fail_if (in_receiver inp = in_carrier inp) InvalidShipmentInput)
    (andthen (validate_milestones E (in_payment_milestones inp))
    (andthen (validate_hash (in_data_hash inp))
    (andthen (fail_if (in_deadline inp \<le> timestamp E) InvalidTimestamp)
    (bind (gets storage_get_shipment_counter) (\<lambda>n.
     bind (ok_or (u64_checked_add n 1) CounterOverflow) (\<lambda>i.
     andthen (do_all [
       persist_shipment (new_shipment E i sender (in_receiver inp) (in_carrier inp)
         (in_data_hash inp) (in_payment_milestones inp) (in_deadline inp)),
       modify (set_shipment_counter i),
       increment_status_count Created,
       modify (increment_active_shipment_count sender),
       extend_shipment_ttl_cached i (shipment_ttl_threshold c) (shipment_ttl_extension c),
       emit_shipment_created E i sender (in_receiver inp) (in_data_hash inp),
       emit_notification (in_receiver inp) NShipmentCreated i (in_data_hash inp),
       emit_notification (in_carrier inp) NShipmentCreated i (in_data_hash inp)])
     (bind (create_batch_loop E c sender inps) (\<lambda>ids. ret (i # ids)))))))))"

definition create_shipments_batch :: "'t env \<Rightarrow> addr \<Rightarrow> ShipmentInput list \<Rightarrow> ('t, nat list) nav" where
  "create_shipments_batch E sender inps =
     andthen require_initialized
    (andthen require_not_paused
    (andthen (require_auth E sender)
    (andthen (require_role sender Company)
    (bind (gets get_config) (\<lambda>c.
     andthen (fail_if (length inps > batch_operation_limit c) BatchTooLarge)
    (andthen (fail_when (\<lambda>s.
       u32_saturating_add (storage_get_active_shipment_count sender s) (length inps) >
       storage_get_effective_shipment_limit sender s) ShipmentLimitReached)
    (andthen (check_and_update_creation_quota_by E sender (length inps))
       (create_batch_loop E c sender inps))))))))"

end
