(* ===== verification/Lifecycle.thy ===== *)
theory Lifecycle
  imports Creation
begin

text \<open>
  The life of a shipment after its creation (\<open>lib.rs\<close>): status updates, delivery, milestones and their
  payments, cancellation, disputes, carrier hand-over, condition reports, deadlines and archival.
\<close>

section \<open>Status and delivery\<close>

text \<open>The loop over the prerequisites of a shipment that is about to move.\<close>

definition dependencies_met :: "nat \<Rightarrow> ('t, unit) nav" where
  "dependencies_met i =
     bind (gets (get_shipment_dependents i)) (\<lambda>prereqs. for_each prereqs (\<lambda>p.
       bind (find_shipment p) (\<lambda>sh. fail_if (sh_status sh \<noteq> Delivered) DependenciesNotMet)))"

definition update_status :: "'t env \<Rightarrow> addr \<Rightarrow> nat \<Rightarrow> ShipmentStatus \<Rightarrow> hash \<Rightarrow> ('t, unit) nav" where
  "update_status E caller i new_status h =
     andthen require_initialized
    (andthen require_not_paused
    (andthen (require_auth E caller)
    (andthen (validate_hash h)
    (bind storage_get_admin (\<lambda>admin.
     bind (find_shipment i) (\<lambda>sh.
     andthen (fail_if (caller \<noteq> sh_carrier sh \<and> caller \<noteq> admin) Unauthorized)
    (andthen (require_not_finalized sh)
    (andthen (guard_if (caller = sh_carrier sh) (require_active_carrier caller))
    (andthen (check_idempotency E (be_bytes 8 i @ status_xdr E new_status @ h))
    (andthen (guard_if (caller \<noteq> admin) (fail_when (\<lambda>s. case get_last_status_update i s of
         None \<Rightarrow> False
       | Some prev \<Rightarrow>
           saturating_sub (timestamp E) prev < min_status_update_interval (get_config s))
         RateLimitExceeded))
    (andthen (validate_shipment_transition (sh_status sh) new_status)
    (andthen (guard_if (new_status = InTransit) (dependencies_met i))
    (let sh' = finalize_if_settled (bump_nonce (touch E
           (sh\<lparr>sh_status := new_status, sh_data_hash := h\<rparr>))) in do_all [
       decrement_status_count (sh_status sh),
       increment_status_count new_status,
       persist_shipment sh',
       only_if (sh_status sh' = Disputed) increment_total_disputes,
       modify (set_last_status_update i (timestamp E)),
       extend_shipment_ttl i,
       modify (set_status_hash i new_status h),
       emit_status_updated E i (sh_status sh) new_status h,
       emit_notification (sh_sender sh') NStatusChanged i h,
       emit_notification (sh_receiver sh') NStatusChanged i h])))))))))))))"

definition archive_shipment :: "'t env \<Rightarrow> addr \<Rightarrow> nat \<Rightarrow> ('t, unit) nav" where
  "archive_shipment E admin i =
     andthen require_initialized
    (andthen (require_auth E admin)
    (andthen (require_admin admin)
    (bind (gets (get_persistent_shipment i)) (\<lambda>x.
     bind (ok_or x ShipmentNotFound) (\<lambda>sh. do_all [
       fail_if (sh_status sh \<noteq> Delivered \<and> sh_status sh \<noteq> Cancelled) InvalidStatus,
       modify (storage_archive_shipment i sh),
       emit_shipment_archived i (timestamp E)])))))"

definition confirm_delivery :: "'t env \<Rightarrow> addr \<Rightarrow> nat \<Rightarrow> hash \<Rightarrow> ('t, unit) nav" where
  "confirm_delivery E receiver i h =
     andthen require_initialized
    (andthen require_not_paused
    (andthen (require_auth E receiver)
    (andthen (validate_hash h)
    (bind (find_shipment i) (\<lambda>sh.
     andthen (fail_if (sh_receiver sh \<noteq> receiver) Unauthorized)
    (andthen (require_not_finalized sh)
    (andthen (validate_shipment_transition (sh_status sh) Delivered)
    (andthen (do_all [
       decrement_status_count (sh_status sh),
       increment_status_count Delivered,
       modify (set_confirmation_hash i h),
       modify (decrement_active_shipment_count (sh_sender sh)),
       extend_shipment_ttl i])
    (bind (internal_release_escrow E (touch E (sh\<lparr>sh_status := Delivered\<rparr>))
       (sh_escrow_amount sh)) (\<lambda>sh1.
     let sh' = finalize_if_settled sh1 in do_all [
       persist_shipment sh',
       emit_delivery_confirmed E i receiver h,
       emit_delivery_success E (sh_carrier sh') i (timestamp E),
       emit_carrier_milestone_rate (sh_carrier sh') i
         (length (sh_paid_milestones sh')) (length (sh_payment_milestones sh')),
       (if timestamp E > sh_deadline sh'
        then emit_carrier_late_delivery (sh_carrier sh') i (sh_deadline sh') (timestamp E)
        else emit_carrier_on_time_delivery (sh_carrier sh') i),
       emit_notification (sh_sender sh') NDeliveryConfirmed i h,
       emit_notification (sh_carrier sh') NDeliveryConfirmed i h]))))))))))"

definition confirm_partial_delivery ::
    "'t env \<Rightarrow> addr \<Rightarrow> nat \<Rightarrow> hash \<Rightarrow> nat \<Rightarrow> ('t, unit) nav" where
  "confirm_partial_delivery E receiver i h release_percent =
     andthen require_initialized
    (andthen require_not_paused
    (andthen (require_auth E receiver)
    (andthen (validate_hash h)
    (andthen (fail_if (release_percent = 0 \<or> release_percent > 100) InvalidAmount)
    (bind (find_shipment i) (\<lambda>sh.
     andthen (fail_if (sh_receiver sh \<noteq> receiver) Unauthorized)
    (andthen (require_not_finalized sh)
    (andthen (fail_if (sh_status sh \<noteq> InTransit \<and> sh_status sh \<noteq> AtCheckpoint \<and>
       sh_status sh \<noteq> PartiallyDelivered) InvalidStatus)
    (bind (checked_mul_div_i128 (sh_total_escrow sh) (int release_percent) 100) (\<lambda>release_amount.
     andthen (fail_if (release_amount \<le> 0) InvalidAmount)
    (bind (checked_sub_i128 (sh_total_escrow sh) (sh_escrow_amount sh)) (\<lambda>released_so_far.
     bind (checked_add_i128 released_so_far release_amount) (\<lambda>new_total_released.
     andthen (fail_if (new_total_released > sh_total_escrow sh) InvalidAmount)
    (let new_status = (if new_total_released = sh_total_escrow sh
           then Delivered else PartiallyDelivered) in
     andthen (do_all [
       decrement_status_count (sh_status sh),
       increment_status_count new_status,
       modify (set_confirmation_hash i h),
       only_if (new_status = Delivered)
         (modify (decrement_active_shipment_count (sh_sender sh)))])
    (bind (internal_release_escrow E (touch E (sh\<lparr>sh_status := new_status\<rparr>)) release_amount) (\<lambda>sh1.
     let sh' = finalize_if_settled sh1 in do_all [
       persist_shipment sh',
       extend_shipment_ttl i,
       emit_status_updated E i (sh_status sh) (sh_status sh') h]))))))))))))))))"

definition report_geofence_event ::
    "'t env \<Rightarrow> addr \<Rightarrow> nat \<Rightarrow> GeofenceEvent \<Rightarrow> hash \<Rightarrow> ('t, unit) nav" where
  "report_geofence_event E carrier i zone h =
     andthen require_initialized
    (andthen require_not_paused
    (andthen (require_auth E carrier)
    (andthen (require_role carrier Carrier)
    (andthen (require_active_carrier carrier)
    (bind (find_shipment i) (\<lambda>sh. do_all [
       require_not_finalized sh,
       validate_hash h,
       fail_if (sh_carrier sh \<noteq> carrier) Unauthorized,
       emit_geofence_event E i zone h]))))))"

definition update_eta :: "'t env \<Rightarrow> addr \<Rightarrow> nat \<Rightarrow> nat \<Rightarrow> hash \<Rightarrow> ('t, unit) nav" where
  "update_eta E carrier i eta h =
     andthen require_initialized
    (andthen (require_auth E carrier)
    (andthen (require_role carrier Carrier)
    (bind (find_shipment i) (\<lambda>sh. do_all [
       require_not_finalized sh,
       validate_hash h,
       fail_if (sh_carrier sh \<noteq> carrier) Unauthorized,
       fail_if (eta \<le> timestamp E) InvalidTimestamp,
       emit_eta_updated E i eta h]))))"

section \<open>Milestones\<close>

text \<open>The loops over the payment milestones: the first index of a name, and the sum of percentages.\<close>

fun milestone_index :: "sym \<Rightarrow> (sym \<times> nat) list \<Rightarrow> nat option" where
  "milestone_index y [] = None"
| "milestone_index y (m # ms) =
     (if fst m = y then Some 0 else map_option Suc (milestone_index y ms))"

fun percentage_of :: "(sym \<Rightarrow> bool) \<Rightarrow> (sym \<times> nat) list \<Rightarrow> nat \<Rightarrow> ('t, nat) nav" where
  "percentage_of p [] acc = ret acc"
| "percentage_of p ((y, pct) # ms) acc =
     (if p y then bind (u32_add acc pct) (percentage_of p ms) else percentage_of p ms acc)"

text \<open>\<open>if !paid_milestones.iter().any(|m| m == name) { paid_milestones.push_back(name) }\<close>\<close>

definition push_new :: "sym \<Rightarrow> sym list \<Rightarrow> sym list" where
  "push_new y ys = (if y \<in> set ys then ys else ys @ [y])"

definition mark_paid :: "sym \<Rightarrow> Shipment \<Rightarrow> Shipment" where
  "mark_paid y sh = sh\<lparr>sh_milestones_completed := sh_milestones_completed sh @ [y],
     sh_paid_milestones := push_new y (sh_paid_milestones sh)\<rparr>"

definition record_milestone :: "'t env \<Rightarrow> addr \<Rightarrow> nat \<Rightarrow> sym \<Rightarrow> hash \<Rightarrow> ('t, unit) nav" where
  "record_milestone E carrier i checkpoint h =
     andthen require_initialized
    (andthen require_not_paused
    (andthen (require_auth E carrier)
    (andthen (require_role carrier Carrier)
    (andthen (require_active_carrier carrier)
    (bind (find_shipment i) (\<lambda>sh.
     andthen (require_not_finalized sh)
    (andthen (validate_checkpoint_symbol E checkpoint)
    (andthen (validate_hash h)
    (andthen (fail_if (sh_carrier sh \<noteq> carrier) Unauthorized)
    (andthen (fail_if (sh_status sh \<noteq> InTransit) InvalidStatus)
    (andthen (fail_when (\<lambda>s. get_milestone_event_count i s \<ge>
       max_milestones_per_shipment (get_config s)) MilestoneLimitExceeded)
    (andthen (emit_milestone_recorded E i checkpoint h carrier)
    (bind (case milestone_index checkpoint (sh_payment_milestones sh) of
         None \<Rightarrow> ret sh
       | Some idx \<Rightarrow>
           andthen (fail_if (checkpoint \<in> set (sh_paid_milestones sh)) MilestoneAlreadyPaid)
          (let sh1 = mark_paid checkpoint sh in
           bind (percentage_of (\<lambda>y. y \<in> set (sh_paid_milestones sh1))
             (sh_payment_milestones sh1) 0) (\<lambda>total_pct_paid.
           bind (if total_pct_paid = 100 then ret (sh_escrow_amount sh1)
             else checked_mul_div_i128 (sh_total_escrow sh1)
               (int (snd (sh_payment_milestones sh1 ! idx))) 100) (\<lambda>release_amount.
           andthen (emit_milestone_payment_released E i checkpoint release_amount (sh_carrier sh1))
             (internal_release_escrow E sh1 release_amount))))) (\<lambda>sh2.
     modify (set_shipment (finalize_if_settled sh2))))))))))))))))"

text \<open>One round of the batch: the event, and the payment if the milestone is due and not paid.\<close>

definition record_batch_item ::
    "'t env \<Rightarrow> addr \<Rightarrow> nat \<Rightarrow> Shipment \<Rightarrow> sym \<times> hash \<Rightarrow> ('t, Shipment) nav" where
  "record_batch_item E carrier i sh item = (case item of (checkpoint, h) \<Rightarrow>
     andthen (emit_milestone_recorded E i checkpoint h carrier)
       (case milestone_index checkpoint (sh_payment_milestones sh) of
         None \<Rightarrow> ret sh
       | Some idx \<Rightarrow>
           if checkpoint \<in> set (sh_paid_milestones sh) then ret sh
           else bind (checked_mul_div_i128 (sh_total_escrow sh)
                  (int (snd (sh_payment_milestones sh ! idx))) 100) (\<lambda>release_amount.
             andthen (emit_milestone_payment_released E i checkpoint release_amount (sh_carrier sh))
               (internal_release_escrow E (mark_paid checkpoint sh) release_amount))))"

fun record_batch_loop ::
    "'t env \<Rightarrow> addr \<Rightarrow> nat \<Rightarrow> (sym \<times> hash) list \<Rightarrow> Shipment \<Rightarrow> ('t, Shipment) nav" where
  "record_batch_loop E carrier i [] sh = ret sh"
| "record_batch_loop E carrier i (item # items) sh =
     bind (record_batch_item E carrier i sh item) (record_batch_loop E carrier i items)"

definition record_milestones_batch ::
    "'t env \<Rightarrow> addr \<Rightarrow> nat \<Rightarrow> (sym \<times> hash) list \<Rightarrow> ('t, unit) nav" where
  "record_milestones_batch E carrier i items =
     andthen require_initialized
    (andthen require_not_paused
    (andthen (require_auth E carrier)
    (andthen (require_role carrier Carrier)
    (andthen (require_active_carrier carrier)
    (andthen (fail_when (\<lambda>s. length items > batch_operation_limit (get_config s)) BatchTooLarge)
    (andthen (for_each items (\<lambda>item. validate_hash (snd item)))
    (bind (find_shipment i) (\<lambda>sh.
     andthen (require_not_finalized sh)
    (andthen (fail_if (sh_carrier sh \<noteq> carrier) Unauthorized)
    (andthen (fail_if (sh_status sh \<noteq> InTransit) InvalidStatus)
    (andthen (for_each items (\<lambda>item. validate_hash (snd item)))
    (bind (gets (get_milestone_event_count i)) (\<lambda>count.
     bind (ok_or (u32_checked_add count (length items)) ArithmeticError) (\<lambda>n.
     andthen (fail_when (\<lambda>s. n > max_milestones_per_shipment (get_config s)) MilestoneLimitExceeded)
    (bind (record_batch_loop E carrier i items sh) (\<lambda>sh'.
     modify (set_shipment (finalize_if_settled sh'))))))))))))))))))"

definition release_milestone_payment :: "'t env \<Rightarrow> addr \<Rightarrow> nat \<Rightarrow> sym \<Rightarrow> ('t, unit) nav" where
  "release_milestone_payment E caller i y =
     andthen require_initialized
    (andthen require_not_paused
    (andthen (require_auth E caller)
    (bind (find_shipment i) (\<lambda>sh.
     andthen (require_not_finalized sh)
    (bind storage_get_admin (\<lambda>admin.
     andthen (fail_if (caller \<noteq> sh_carrier sh \<and> caller \<noteq> admin) Unauthorized)
    (andthen (guard_if (caller = sh_carrier sh) (require_active_carrier caller))
    (bind (ok_or (milestone_index y (sh_payment_milestones sh)) InvalidShipmentInput) (\<lambda>idx.
     andthen (fail_if (y \<in> set (sh_milestones_completed sh)) MilestoneAlreadyPaid)
    (andthen (fail_if (idx > 0 \<and> length (sh_milestones_completed sh) < idx) InvalidStatus)
    (bind (percentage_of (\<lambda>z. z \<in> set (sh_milestones_completed sh) \<or> z = y)
       (sh_payment_milestones sh) 0) (\<lambda>total_pct_paid.
     bind (if total_pct_paid = 100 then ret (sh_escrow_amount sh)
       else checked_mul_div_i128 (sh_total_escrow sh)
         (int (snd (sh_payment_milestones sh ! idx))) 100) (\<lambda>release_amount.
     bind (if release_amount > 0 then
         andthen (emit_milestone_payment_released E i y release_amount (sh_carrier sh))
           (internal_release_escrow E (mark_paid y sh) release_amount)
       else ret sh) (\<lambda>sh'.
     modify (set_shipment (finalize_if_settled sh'))))))))))))))))"

definition lib_extend_shipment_ttl :: "nat \<Rightarrow> ('t, unit) nav" where
  "lib_extend_shipment_ttl i = andthen require_initialized (extend_shipment_ttl i)"

section \<open>Cancellation and deadlines\<close>

definition cancel_shipment :: "'t env \<Rightarrow> addr \<Rightarrow> nat \<Rightarrow> hash \<Rightarrow> ('t, unit) nav" where
  "cancel_shipment E caller i h =
     andthen require_initialized
    (andthen require_not_paused
    (andthen (require_auth E caller)
    (andthen (validate_hash h)
    (bind storage_get_admin (\<lambda>admin.
     bind (find_shipment i) (\<lambda>sh.
     andthen (require_not_finalized sh)
    (andthen (fail_if (caller \<noteq> sh_sender sh \<and> caller \<noteq> admin) Unauthorized)
    (andthen (guard_if (caller = sh_sender sh) (require_active_company caller))
    (andthen (fail_if (sh_status sh = Delivered \<or> sh_status sh = Disputed)
       ShipmentAlreadyCompleted)
    (let sh' = bump_nonce (touch E (sh\<lparr>sh_status := Cancelled, sh_escrow_amount := 0\<rparr>)) in
     do_all [
       persist_shipment sh',
       decrement_status_count (sh_status sh),
       increment_status_count Cancelled,
       only_if (sh_status sh \<noteq> Cancelled) (modify (decrement_active_shipment_count (sh_sender sh))),
       only_if (sh_escrow_amount sh > 0) (do_all [
         modify (remove_escrow_balance i),
         emit_escrow_released E i (sh_sender sh) (sh_escrow_amount sh)]),
       persist_shipment (finalize_if_settled sh'),
       modify (remove_escrow_balance i),
       extend_shipment_ttl i,
       emit_shipment_cancelled E i caller h]))))))))))"

text \<open>\<open>if escrow_amount > 0 { .. }\<close>: the refund two of the cancelling operations make.\<close>

definition refund_sender :: "'t env \<Rightarrow> nat \<Rightarrow> Shipment \<Rightarrow> ('t, unit) nav" where
  "refund_sender E i sh =
     bind (gets get_token_contract) (\<lambda>x.
     bind (ok_or x NotInitialized) (\<lambda>tok. do_all [
       invoke_token_transfer E tok (self E) (sh_sender sh) (sh_escrow_amount sh),
       emit_escrow_refunded E i (sh_sender sh) (sh_escrow_amount sh)]))"

definition force_cancel_shipment :: "'t env \<Rightarrow> addr \<Rightarrow> nat \<Rightarrow> hash \<Rightarrow> ('t, unit) nav" where
  "force_cancel_shipment E admin i h =
     andthen require_initialized
    (andthen require_not_paused
    (andthen (require_auth E admin)
    (andthen (require_admin admin)
    (andthen (validate_hash h)
    (bind (find_shipment i) (\<lambda>sh.
     andthen (require_not_finalized sh)
    (andthen (fail_if (sh_status sh = Delivered \<or> sh_status sh = Cancelled)
       ShipmentAlreadyCompleted)
    (andthen (only_if (sh_escrow_amount sh > 0) (refund_sender E i sh))
    (let sh1 = (if sh_escrow_amount sh > 0 then sh\<lparr>sh_escrow_amount := 0\<rparr> else sh);
         sh' = bump_nonce (touch E (sh1\<lparr>sh_status := Cancelled\<rparr>)) in do_all [
       decrement_status_count (sh_status sh),
       increment_status_count Cancelled,
       modify (decrement_active_shipment_count (sh_sender sh)),
       persist_shipment (finalize_if_settled sh'),
       extend_shipment_ttl i,
       emit_force_cancelled i admin h (sh_escrow_amount sh)])))))))))"

definition check_deadline :: "'t env \<Rightarrow> nat \<Rightarrow> ('t, unit) nav" where
  "check_deadline E i =
     andthen require_initialized
    (bind (find_shipment i) (\<lambda>sh.
     andthen (fail_when (\<lambda>s. timestamp E <
       u64_saturating_add (sh_deadline sh) (deadline_grace_seconds (get_config s))) NotExpired)
    (andthen (fail_if (sh_status sh = Delivered \<or> sh_status sh = Disputed \<or>
       sh_status sh = Cancelled) ShipmentAlreadyCompleted)
    (let sh' = bump_nonce (touch E (sh\<lparr>sh_status := Cancelled, sh_escrow_amount := 0\<rparr>)) in
     do_all [
       persist_shipment sh',
       decrement_status_count (sh_status sh),
       increment_status_count Cancelled,
       modify (decrement_active_shipment_count (sh_sender sh)),
       only_if (sh_escrow_amount sh > 0) (do_all [
         modify (remove_escrow_balance i),
         refund_sender E i sh]),
       extend_shipment_ttl i,
       emit_shipment_expired E i]))))"

section \<open>Disputes\<close>

definition raise_dispute :: "'t env \<Rightarrow> addr \<Rightarrow> nat \<Rightarrow> hash \<Rightarrow> ('t, unit) nav" where
  "raise_dispute E caller i h =
     andthen require_initialized
    (andthen require_not_paused
    (andthen (require_auth E caller)
    (andthen (validate_hash h)
    (bind (find_shipment i) (\<lambda>sh.
     andthen (require_not_finalized sh)
    (andthen (fail_if (caller \<noteq> sh_sender sh \<and> caller \<noteq> sh_receiver sh \<and>
       caller \<noteq> sh_carrier sh) Unauthorized)
    (andthen (guard_if (caller = sh_sender sh) (require_active_company caller))
    (andthen (fail_if (sh_status sh = Cancelled \<or> sh_status sh = Disputed)
       ShipmentAlreadyCompleted)
    (do_all [
       persist_shipment (bump_nonce (touch E (sh\<lparr>sh_status := Disputed\<rparr>))),
       decrement_status_count (sh_status sh),
       increment_status_count Disputed,
       increment_total_disputes,
       modify (set_escrow_freeze_reason i FrDisputeRaised),
       extend_shipment_ttl i,
       emit_dispute_raised i caller h,
       emit_escrow_frozen E i FrDisputeRaised caller,
       emit_notification (sh_sender sh) NDisputeRaised i h,
       emit_notification (sh_receiver sh) NDisputeRaised i h,
       emit_notification (sh_carrier sh) NDisputeRaised i h])))))))))"

definition resolve_dispute ::
    "'t env \<Rightarrow> addr \<Rightarrow> nat \<Rightarrow> DisputeResolution \<Rightarrow> hash \<Rightarrow> ('t, unit) nav" where
  "resolve_dispute E admin i resolution h =
     andthen require_initialized
    (andthen require_not_paused
    (andthen (require_auth E admin)
    (andthen (require_admin_or_guardian admin)
    (andthen (fail_if (all_zero h) DisputeReasonHashMissing)
    (andthen (check_idempotency E (be_bytes 8 i @ resolution_xdr E resolution @ h))
    (bind (find_shipment i) (\<lambda>sh.
     andthen (require_not_finalized sh)
    (andthen (fail_if (sh_status sh \<noteq> Disputed) InvalidStatus)
    (andthen (fail_if (sh_escrow_amount sh = 0) InsufficientFunds)
    (let recipient = (case resolution of
           ReleaseToCarrier \<Rightarrow> sh_carrier sh | RefundToCompany \<Rightarrow> sh_sender sh);
         op = (case resolution of ReleaseToCarrier \<Rightarrow> Release | RefundToCompany \<Rightarrow> Refund);
         new_status = (case resolution of
           ReleaseToCarrier \<Rightarrow> Delivered | RefundToCompany \<Rightarrow> Cancelled);
         sh' = (bump_nonce (touch E (sh\<lparr>sh_escrow_amount := 0\<rparr>)))\<lparr>sh_status := new_status\<rparr> in
     bind (gets get_token_contract) (\<lambda>x.
     bind (ok_or x NotInitialized) (\<lambda>tok.
     bind (create_settlement E i op (sh_escrow_amount sh) (self E) recipient) (\<lambda>n. do_all [
       invoke_token_transfer E tok (self E) recipient (sh_escrow_amount sh),
       complete_settlement E n i,
       decrement_status_count Disputed,
       increment_status_count new_status,
       modify (decrement_active_shipment_count (sh_sender sh)),
       persist_shipment (finalize_if_settled sh'),
       modify (remove_escrow_balance i),
       extend_shipment_ttl i,
       (case resolution of
          ReleaseToCarrier \<Rightarrow> emit_escrow_released E i recipient (sh_escrow_amount sh)
        | RefundToCompany \<Rightarrow> do_all [
            emit_escrow_refunded E i recipient (sh_escrow_amount sh),
            emit_carrier_dispute_loss (sh_carrier sh) i]),
       emit_dispute_resolved E i resolution h admin,
       emit_notification (sh_sender sh) NDisputeResolved i h,
       emit_notification (sh_receiver sh) NDisputeResolved i h,
       emit_notification (sh_carrier sh) NDisputeResolved i h])))))))))))))"

section \<open>Carriers\<close>

definition handoff_shipment :: "'t env \<Rightarrow> addr \<Rightarrow> addr \<Rightarrow> nat \<Rightarrow> hash \<Rightarrow> ('t, unit) nav" where
  "handoff_shipment E current_carrier new_carrier i h =
     andthen require_initialized
    (andthen (require_auth E current_carrier)
    (andthen (require_role current_carrier Carrier)
    (andthen (require_role new_carrier Carrier)
    (bind (find_shipment i) (\<lambda>sh. do_all [
       require_not_finalized sh,
       validate_hash h,
       fail_if (sh_carrier sh \<noteq> current_carrier) Unauthorized,
       fail_if (sh_status sh = Delivered \<or> sh_status sh = Cancelled) ShipmentAlreadyCompleted,
       persist_shipment (bump_nonce (touch E (sh\<lparr>sh_carrier := new_carrier\<rparr>))),
       extend_shipment_ttl i,
       emit_carrier_handoff i (sh_carrier sh) new_carrier h,
       emit_carrier_handoff_completed (sh_carrier sh) new_carrier i,
       emit_milestone_recorded E i ''handoff'' h current_carrier])))))"

definition report_condition_breach ::
    "'t env \<Rightarrow> addr \<Rightarrow> nat \<Rightarrow> BreachType \<Rightarrow> Severity \<Rightarrow> hash \<Rightarrow> ('t, unit) nav" where
  "report_condition_breach E carrier i breach severity h =
     andthen require_initialized
    (andthen (require_auth E carrier)
    (andthen (require_role carrier Carrier)
    (andthen (require_active_carrier carrier)
    (bind (find_shipment i) (\<lambda>sh. do_all [
       require_not_finalized sh,
       validate_hash h,
       fail_if (sh_carrier sh \<noteq> carrier) Unauthorized,
       fail_when (\<lambda>s. get_breach_event_count i s \<ge> max_breaches_per_shipment (get_config s))
         BreachLimitExceeded,
       emit_condition_breach i carrier breach severity h,
       emit_carrier_breach carrier i breach severity,
       modify (increment_breach_event_count i),
       bind (gets get_config) (\<lambda>cfg.
         only_if (auto_dispute_breach cfg \<and> severity = Critical \<and>
             sh_status sh \<noteq> Cancelled \<and> sh_status sh \<noteq> Disputed) (do_all [
           modify (set_shipment (bump_nonce (touch E (sh\<lparr>sh_status := Disputed\<rparr>)))),
           decrement_status_count (sh_status sh),
           increment_status_count Disputed,
           increment_total_disputes,
           extend_shipment_ttl i,
           emit_dispute_raised i carrier h,
           emit_notification (sh_sender sh) NDisputeRaised i h,
           emit_notification (sh_receiver sh) NDisputeRaised i h,
           emit_notification carrier NDisputeRaised i h]))])))))"

end
