(* ===== verification/Multisig.thy ===== *)
theory Multisig
  imports Lifecycle
begin

text \<open>
  Multi-signature administration (\<open>lib.rs\<close>): the admin list and its threshold, proposals with their
  action digests and salts, approval, and execution of the approved action.
\<close>

section \<open>Definitions\<close>

text \<open>The loop that looks every admin up among those before it.\<close>

fun duplicate_admin :: "addr list \<Rightarrow> addr list \<Rightarrow> bool" where
  "duplicate_admin seen [] = False"
| "duplicate_admin seen (a # as) = (a \<in> set seen \<or> duplicate_admin (seen @ [a]) as)"

definition init_multisig :: "'t env \<Rightarrow> addr \<Rightarrow> addr list \<Rightarrow> nat \<Rightarrow> ('t, unit) nav" where
  "init_multisig E admin admins threshold = do_all [
     require_initialized,
     require_auth E admin,
     require_admin admin,
     fail_when (\<lambda>s. length admins < multisig_min_admins (get_config s) \<or>
       length admins > multisig_max_admins (get_config s)) InvalidMultiSigConfig,
     fail_if (duplicate_admin [] admins) InvalidConfig,
     fail_if (threshold = 0) InvalidMultiSigConfig,
     fail_if (threshold > length admins) InvalidConfig,
     modify (set_admin_list admins),
     modify (set_multisig_threshold threshold),
     modify (set_proposal_counter 0),
     modify (publish ''ms_init'' [VU32 (length admins), VU32 threshold])]"

definition compute_action_digest :: "'t env \<Rightarrow> nat \<Rightarrow> AdminAction \<Rightarrow> hash" where
  "compute_action_digest E i action = sha256 E (be_bytes 8 i @ action_xdr E action)"

definition zero_upgrade :: "AdminAction \<Rightarrow> bool" where
  "zero_upgrade action = (case action of Upgrade h \<Rightarrow> all_zero h | _ \<Rightarrow> False)"

definition propose_action :: "'t env \<Rightarrow> addr \<Rightarrow> AdminAction \<Rightarrow> ('t, nat) nav" where
  "propose_action E proposer action =
     andthen require_initialized
    (andthen (require_auth E proposer)
    (andthen (fail_when (\<lambda>s. \<not> is_admin proposer s) NotAnAdmin)
    (andthen (fail_if (zero_upgrade action) InvalidHash)
    (bind (gets get_proposal_counter) (\<lambda>n.
     bind (ok_or (u64_checked_add n 1) CounterOverflow) (\<lambda>i.
     bind (gets get_config) (\<lambda>c.
     andthen (fail_if (proposal_expiry_seconds c = 0) InvalidConfig)
    (bind (u64_add (timestamp E) (proposal_expiry_seconds c)) (\<lambda>expires.
     andthen (do_all [
       modify (set_proposal \<lparr>pr_id = i, pr_proposer = proposer, pr_action = action,
         pr_approvals = [proposer], pr_created_at = timestamp E, pr_expires_at = expires,
         pr_executed = False\<rparr>),
       modify (set_proposal_counter i),
       modify (set_proposal_digest i \<lparr>pd_proposal_id = i,
         pd_digest = compute_action_digest E i action, pd_computed_at = timestamp E\<rparr>),
       emit_proposal_digest i (compute_action_digest E i action) (timestamp E)])
     (ret i))))))))))"

definition propose_action_with_salt :: "'t env \<Rightarrow> addr \<Rightarrow> AdminAction \<Rightarrow> hash \<Rightarrow> ('t, nat) nav" where
  "propose_action_with_salt E proposer action salt =
     andthen require_initialized
    (andthen (fail_when (\<lambda>s. \<not> is_admin proposer s) NotAnAdmin)
    (andthen (fail_when (is_proposal_salt_used salt) ProposalSaltReused)
    (andthen (modify (set_proposal_salt_used salt))
       (propose_action E proposer action))))"

text \<open>
  The two escrow actions: the payment goes to \<open>recipient\<close> if a token contract is set, and the shipment
  becomes \<open>new_status\<close> with nothing in escrow.
\<close>

definition force_settle ::
    "'t env \<Rightarrow> nat \<Rightarrow> (Shipment \<Rightarrow> addr) \<Rightarrow> (nat \<Rightarrow> addr \<Rightarrow> int \<Rightarrow> ('t, unit) nav) \<Rightarrow> ShipmentStatus \<Rightarrow>
     ('t, unit) nav" where
  "force_settle E i recipient emit new_status =
     bind (find_shipment i) (\<lambda>sh.
     andthen (fail_if (sh_status sh = Delivered \<or> sh_status sh = Cancelled)
       ShipmentAlreadyCompleted)
    (andthen (only_if (sh_escrow_amount sh > 0) (do_all [
         bind (gets get_token_contract) (\<lambda>x. case x of
           None \<Rightarrow> ret ()
         | Some tok \<Rightarrow>
             invoke_token_transfer E tok (self E) (recipient sh) (sh_escrow_amount sh)),
         emit i (recipient sh) (sh_escrow_amount sh)]))
    (let sh1 = (if sh_escrow_amount sh > 0 then sh\<lparr>sh_escrow_amount := 0\<rparr> else sh);
         sh' = bump_nonce (touch E (sh1\<lparr>sh_status := new_status\<rparr>)) in do_all [
       decrement_status_count (sh_status sh),
       increment_status_count new_status,
       modify (decrement_active_shipment_count (sh_sender sh)),
       persist_shipment (finalize_if_settled sh')])))"

definition execute_action :: "'t env \<Rightarrow> addr \<Rightarrow> AdminAction \<Rightarrow> ('t, unit) nav" where
  "execute_action E proposer action = (case action of
     Upgrade wasm_hash \<Rightarrow>
       bind (gets storage_get_version) (\<lambda>v.
       bind (ok_or (u32_checked_add v 1) CounterOverflow) (\<lambda>new_version. do_all [
         modify (set_version new_version),
         emit_contract_upgraded proposer wasm_hash new_version,
         modify (update_current_contract_wasm wasm_hash)]))
   | TransferAdmin new_admin \<Rightarrow>
       bind storage_get_admin (\<lambda>old_admin. do_all [
         modify (set_admin new_admin),
         modify (set_company_role new_admin),
         emit_admin_transferred old_admin new_admin])
   | ForceRelease i \<Rightarrow> force_settle E i sh_carrier (emit_escrow_released E) Delivered
   | ForceRefund i \<Rightarrow> force_settle E i sh_sender (emit_escrow_refunded E) Cancelled)"

definition execute_proposal_internal :: "'t env \<Rightarrow> nat \<Rightarrow> ('t, unit) nav" where
  "execute_proposal_internal E i =
     bind (gets (storage_get_proposal i)) (\<lambda>x.
     bind (ok_or x ProposalNotFound) (\<lambda>p. do_all [
       fail_if (timestamp E > pr_expires_at p) ProposalExpired,
       fail_if (pr_executed p) ProposalAlreadyExecuted,
       fail_when (\<lambda>s. length (pr_approvals p) < unwrap_or 2 (get_multisig_threshold s))
         InsufficientApprovals,
       modify (set_proposal (p\<lparr>pr_executed := True\<rparr>)),
       execute_action E (pr_proposer p) (pr_action p),
       modify (publish ''executed'' [VU64 i, VEnum (EAction (pr_action p))])]))"

definition approve_action :: "'t env \<Rightarrow> addr \<Rightarrow> nat \<Rightarrow> ('t, unit) nav" where
  "approve_action E approver i =
     andthen require_initialized
    (andthen (require_auth E approver)
    (andthen (fail_when (\<lambda>s. \<not> is_admin approver s) NotAnAdmin)
    (bind (gets (storage_get_proposal i)) (\<lambda>x.
     bind (ok_or x ProposalNotFound) (\<lambda>p. do_all [
       fail_if (timestamp E > pr_expires_at p) ProposalExpired,
       fail_if (pr_executed p) ProposalAlreadyExecuted,
       fail_if (approver \<in> set (pr_approvals p)) AlreadyApproved,
       modify (set_proposal (p\<lparr>pr_approvals := pr_approvals p @ [approver]\<rparr>)),
       modify (publish ''approve'' [VU64 i, VAddr approver, VU32 (length (pr_approvals p) + 1)]),
       bind (gets (\<lambda>s. unwrap_or 2 (get_multisig_threshold s))) (\<lambda>threshold.
         only_if (length (pr_approvals p) + 1 \<ge> threshold) (execute_proposal_internal E i))])))))"

definition execute_proposal :: "'t env \<Rightarrow> nat \<Rightarrow> ('t, unit) nav" where
  "execute_proposal E i = andthen require_initialized (execute_proposal_internal E i)"

definition get_proposal :: "nat \<Rightarrow> ('t, Proposal) nav" where
  "get_proposal i =
     andthen require_initialized
    (bind (gets (storage_get_proposal i)) (\<lambda>x. ok_or x ProposalNotFound))"

definition get_multisig_config :: "('t, addr list \<times> nat) nav" where
  "get_multisig_config =
     andthen require_initialized
       (gets (\<lambda>s. (unwrap_or [] (get_admin_list s), unwrap_or 0 (get_multisig_threshold s))))"

definition get_proposal_action_digest :: "nat \<Rightarrow> ('t, ProposalActionDigest) nav" where
  "get_proposal_action_digest i =
     andthen require_initialized
    (bind (gets (get_proposal_digest i)) (\<lambda>x. ok_or x ProposalNotFound))"

definition compute_proposal_digest :: "'t env \<Rightarrow> nat \<Rightarrow> AdminAction \<Rightarrow> ('t, hash) nav" where
  "compute_proposal_digest E i action = ret (compute_action_digest E i action)"

end
