(* ===== verification/Recovery.thy ===== *)
theory Recovery
  imports Lifecycle
begin

text \<open>
  The admin's recovery procedures, \<open>recovery.rs\<close>, and their entry points: the functions of
  \<open>recovery.rs\<close> are written \<open>recovery_\<dots>\<close>, the entry points of \<open>lib.rs\<close> keep their names.
\<close>

section \<open>Definitions\<close>

text \<open>The reasons \<open>recovery.rs\<close> declares; no function takes one.\<close>

datatype RecoveryReason = StuckState | IncorrectStatus | WedgedEscrow | FailedTransition | OtherReason

text \<open>The match of \<open>is_valid_recovery_transition\<close>, arm by arm.\<close>

fun is_valid_recovery_transition :: "ShipmentStatus \<Rightarrow> ShipmentStatus \<Rightarrow> bool" where
  "is_valid_recovery_transition _ Cancelled = True"
| "is_valid_recovery_transition Created Disputed = True"
| "is_valid_recovery_transition InTransit Disputed = True"
| "is_valid_recovery_transition AtCheckpoint Disputed = True"
| "is_valid_recovery_transition Disputed Delivered = True"
| "is_valid_recovery_transition InTransit Delivered = True"
| "is_valid_recovery_transition AtCheckpoint Delivered = True"
| "is_valid_recovery_transition Created InTransit = True"
| "is_valid_recovery_transition InTransit AtCheckpoint = True"
| "is_valid_recovery_transition AtCheckpoint InTransit = True"
| "is_valid_recovery_transition Delivered _ = False"
| "is_valid_recovery_transition Cancelled _ = False"
| "is_valid_recovery_transition _ _ = False"

definition verify_escrow_consistency :: "Shipment \<Rightarrow> ('t, unit) nav" where
  "verify_escrow_consistency sh = do_all [
     fail_if (sh_escrow_amount sh < 0) InvalidAmount,
     fail_if (sh_escrow_amount sh > sh_total_escrow sh) InvalidAmount]"

definition recovery_record :: "'t env \<Rightarrow> RecoveryActionType \<Rightarrow> addr \<Rightarrow> hash \<Rightarrow> RecoveryRecord" where
  "recovery_record E ty admin h =
     \<lparr>rr_action_type = ty, rr_admin = admin, rr_reason_hash = h, rr_timestamp = timestamp E\<rparr>"

definition recovery_recover_shipment ::
    "'t env \<Rightarrow> addr \<Rightarrow> nat \<Rightarrow> ShipmentStatus \<Rightarrow> hash \<Rightarrow> ('t, unit) nav" where
  "recovery_recover_shipment E admin i target_status h =
     andthen (require_auth E admin)
    (andthen (require_admin admin)
    (andthen (validate_hash h)
    (bind (find_shipment i) (\<lambda>sh.
     andthen (fail_if (sh_status sh = target_status) InvalidStatus)
    (andthen (fail_if (\<not> is_valid_recovery_transition (sh_status sh) target_status) InvalidStatus)
    (let sh' = touch E (sh\<lparr>sh_status := target_status\<rparr>) in do_all [
       verify_escrow_consistency sh',
       modify (set_shipment sh'),
       extend_shipment_ttl i,
       emit_recovery_event E i admin (sh_status sh) target_status h,
       append_recovery_record i (recovery_record E RecoverShipment admin h)]))))))"

definition recovery_unlock_escrow :: "'t env \<Rightarrow> addr \<Rightarrow> nat \<Rightarrow> hash \<Rightarrow> ('t, unit) nav" where
  "recovery_unlock_escrow E admin i h =
     andthen (require_auth E admin)
    (andthen (require_admin admin)
    (andthen (validate_hash h)
    (bind (find_shipment i) (\<lambda>sh. do_all [
       fail_if (sh_escrow_amount sh = 0) EscrowLocked,
       modify (set_shipment (touch E (sh\<lparr>sh_escrow_amount := 0\<rparr>))),
       extend_shipment_ttl i,
       emit_escrow_unlock_event E i admin (sh_escrow_amount sh) h,
       append_recovery_record i (recovery_record E UnlockEscrow admin h)]))))"

definition recovery_clear_finalization :: "'t env \<Rightarrow> addr \<Rightarrow> nat \<Rightarrow> hash \<Rightarrow> ('t, unit) nav" where
  "recovery_clear_finalization E admin i h =
     andthen (require_auth E admin)
    (andthen (require_admin admin)
    (andthen (validate_hash h)
    (bind (find_shipment i) (\<lambda>sh. do_all [
       fail_if (\<not> sh_finalized sh) InvalidStatus,
       modify (set_shipment (touch E (sh\<lparr>sh_finalized := False\<rparr>))),
       extend_shipment_ttl i,
       emit_finalization_clear_event E i admin h,
       append_recovery_record i (recovery_record E ClearFinalization admin h)]))))"

definition recovery_rollback_on_external_failure ::
    "'t env \<Rightarrow> addr \<Rightarrow> nat \<Rightarrow> ShipmentStatus \<Rightarrow> hash \<Rightarrow> ('t, unit) nav" where
  "recovery_rollback_on_external_failure E admin i previous_status h =
     andthen (require_auth E admin)
    (andthen (require_admin admin)
    (andthen (validate_hash h)
    (bind (find_shipment i) (\<lambda>sh. do_all [
       modify (set_shipment (bump_nonce (touch E
         (sh\<lparr>sh_finalized := False, sh_status := previous_status\<rparr>)))),
       extend_shipment_ttl i,
       emit_recovery_event E i admin (sh_status sh) previous_status h,
       append_recovery_record i (recovery_record E RollbackOnExternalFailure admin h)]))))"

definition recover_shipment ::
    "'t env \<Rightarrow> addr \<Rightarrow> nat \<Rightarrow> ShipmentStatus \<Rightarrow> hash \<Rightarrow> ('t, unit) nav" where
  "recover_shipment E admin i target_status h =
     andthen require_initialized (recovery_recover_shipment E admin i target_status h)"

definition unlock_escrow :: "'t env \<Rightarrow> addr \<Rightarrow> nat \<Rightarrow> hash \<Rightarrow> ('t, unit) nav" where
  "unlock_escrow E admin i h =
     andthen require_initialized (recovery_unlock_escrow E admin i h)"

definition clear_finalization :: "'t env \<Rightarrow> addr \<Rightarrow> nat \<Rightarrow> hash \<Rightarrow> ('t, unit) nav" where
  "clear_finalization E admin i h =
     andthen require_initialized (recovery_clear_finalization E admin i h)"

definition rollback_on_external_failure ::
    "'t env \<Rightarrow> addr \<Rightarrow> nat \<Rightarrow> ShipmentStatus \<Rightarrow> hash \<Rightarrow> ('t, unit) nav" where
  "rollback_on_external_failure E admin i previous_status h =
     andthen require_initialized
       (recovery_rollback_on_external_failure E admin i previous_status h)"

definition get_recovery_history :: "nat \<Rightarrow> ('t, RecoveryRecord list) nav" where
  "get_recovery_history i =
     andthen require_initialized
    (andthen (shipment_must_exist i) (gets (storage_get_recovery_history i)))"

definition get_recovery_record_count :: "nat \<Rightarrow> ('t, nat) nav" where
  "get_recovery_record_count i =
     andthen require_initialized
    (andthen (shipment_must_exist i) (gets (storage_get_recovery_record_count i)))"

end
