(* ===== verification/Deps.thy ===== *)
theory Deps
  imports Lifecycle
begin

text \<open>
  Prerequisites between shipments (\<open>lib.rs\<close>): \<open>add_shipment_dependency\<close> and the search
  \<open>would_create_cycle\<close> that keeps their graph free of cycles.
\<close>

section \<open>Definitions\<close>

text \<open>
  The loop of \<open>would_create_cycle\<close> with its two vectors. The stack is kept with its end first, so that
  \<open>pop_back\<close> takes the head and pushing the prerequisites one by one puts them in reverse order. A
  search that does not end would use up the host's budget: it is the value \<open>None\<close>.
\<close>

partial_function (option) cycle_loop ::
    "(nat \<Rightarrow> nat list) \<Rightarrow> nat \<Rightarrow> nat list \<Rightarrow> nat list \<Rightarrow> bool option" where
  "cycle_loop deps dependent visited stack =
    (if stack = [] then Some False
     else if hd stack = dependent then Some True
     else if hd stack \<in> set visited then cycle_loop deps dependent visited (tl stack)
     else cycle_loop deps dependent (visited @ [hd stack]) (rev (deps (hd stack)) @ tl stack))"

declare cycle_loop.simps [code]

definition would_create_cycle :: "nat \<Rightarrow> nat \<Rightarrow> ('t, bool) nav" where
  "would_create_cycle dependent prereq =
     bind (gets (\<lambda>s. cycle_loop (\<lambda>i. get_shipment_dependents i s) dependent [] [prereq])) unwrap"

definition add_shipment_dependency :: "'t env \<Rightarrow> addr \<Rightarrow> nat \<Rightarrow> nat \<Rightarrow> ('t, unit) nav" where
  "add_shipment_dependency E company dependent prereq =
     andthen require_initialized
    (andthen require_not_paused
    (andthen (require_auth E company)
    (andthen (fail_if (dependent = prereq) CircularDependency)
    (andthen (shipment_must_exist dependent)
    (andthen (shipment_must_exist prereq)
    (bind (would_create_cycle dependent prereq) (\<lambda>c.
     andthen (fail_if c CircularDependency)
       (modify (set_shipment_dependency dependent prereq)))))))))"

section \<open>The search\<close>

text \<open>The graph: an edge from a shipment to each of its prerequisites.\<close>

definition dep_edges :: "(nat \<Rightarrow> nat list) \<Rightarrow> (nat \<times> nat) set" where
  "dep_edges deps = {(a, b). b \<in> set (deps a)}"

lemma closed_rtrancl:
  assumes "(x, y) \<in> r\<^sup>*" "x \<in> A" "\<And>a b. a \<in> A \<Longrightarrow> (a, b) \<in> r \<Longrightarrow> b \<in> A"
  shows "y \<in> A"
  using assms(1) by (induction rule: rtrancl_induct) (use assms in auto)

text \<open>
  What an answer of the loop means, when the dependent has not been visited and every edge from a
  visited shipment leads to a visited or a stacked one.
\<close>

definition search_ok :: "(nat \<Rightarrow> nat list) \<Rightarrow> nat \<Rightarrow> nat list \<Rightarrow> nat list \<Rightarrow> bool" where
  "search_ok deps d vs st \<longleftrightarrow>
     d \<notin> set vs \<and> (\<forall>v \<in> set vs. set (deps v) \<subseteq> set vs \<union> set st)"

lemma search_done:
  assumes "search_ok deps d vs []" "x \<in> set vs"
  shows "(x, d) \<notin> (dep_edges deps)\<^sup>*"
  using closed_rtrancl [of x d "dep_edges deps" "set vs"] assms
  by (auto simp: search_ok_def dep_edges_def)

lemma search_pop:
  "search_ok deps d vs (c # r) \<Longrightarrow> c \<in> set vs \<Longrightarrow> search_ok deps d vs r"
  by (auto simp: search_ok_def)

lemma search_push:
  "search_ok deps d vs (c # r) \<Longrightarrow> c \<noteq> d \<Longrightarrow> search_ok deps d (vs @ [c]) (rev (deps c) @ r)"
  by (auto simp: search_ok_def)

text \<open>A shipment reaches the dependent iff it is the dependent or one of its prerequisites does.\<close>

lemma reach_step:
  "c \<noteq> d \<Longrightarrow> (c, d) \<in> (dep_edges deps)\<^sup>* \<longleftrightarrow> (\<exists>w \<in> set (deps c). (w, d) \<in> (dep_edges deps)\<^sup>*)"
  by (auto simp: dep_edges_def elim: converse_rtranclE intro: converse_rtrancl_into_rtrancl)

text \<open>
  Over a finite set of shipments closed under prerequisites the loop ends, and it answers whether a
  shipment on its two vectors reaches the dependent.
\<close>

lemma cycle_loop_correct:
  assumes "finite U" "\<And>a. a \<in> U \<Longrightarrow> set (deps a) \<subseteq> U"
    and "set st \<subseteq> U" "search_ok deps d vs st"
  shows "cycle_loop deps d vs st =
    Some (\<exists>x \<in> set vs \<union> set st. (x, d) \<in> (dep_edges deps)\<^sup>*)"
  using assms(3,4)
proof (induction "(card (U - set vs), length st)" arbitrary: vs st
    rule: wf_induct_rule [OF wf_lex_prod [OF wf_less wf_less]])
  case (1 vs st)
  show ?case
  proof (cases st)
    case Nil
    with 1 search_done [of deps d vs] show ?thesis by (auto simp: cycle_loop.simps)
  next
    case (Cons c r)
    consider "c = d" | "c \<noteq> d" "c \<in> set vs" | "c \<noteq> d" "c \<notin> set vs" by blast
    then show ?thesis
    proof cases
      case 1
      with Cons show ?thesis by (auto simp: cycle_loop.simps)
    next
      case 2
      have "cycle_loop deps d vs r = Some (\<exists>x \<in> set vs \<union> set r. (x, d) \<in> (dep_edges deps)\<^sup>*)"
        by (rule "1.hyps") (use "1.prems" Cons 2 search_pop in auto)
      with Cons 2 show ?thesis by (simp add: cycle_loop.simps [of deps d vs "c # r"] insert_absorb)
    next
      case 3
      have less: "card (U - set (vs @ [c])) < card (U - set vs)"
        by (rule psubset_card_mono) (use 3 Cons "1.prems" assms(1) in auto)
      have "cycle_loop deps d (vs @ [c]) (rev (deps c) @ r) = Some
          (\<exists>x \<in> set (vs @ [c]) \<union> set (rev (deps c) @ r). (x, d) \<in> (dep_edges deps)\<^sup>*)"
        by (rule "1.hyps") (use less "1.prems" Cons 3 assms(2) search_push in auto)
      then show ?thesis using Cons 3 reach_step [OF 3(1), of deps]
        by (auto simp: cycle_loop.simps [of deps d vs "c # r"])
    qed
  qed
qed

end
