(* ===== verification/Solvency.thy ===== *)
theory Solvency
  imports Money Multisig Recovery Deps
begin

text \<open>
  Every entry point that touches shipments or tokens keeps the money invariant of \<open>Money\<close>: each
  proof walks through the handler with the rules for single steps.
\<close>

lemma mst_persist_end:
  assumes "sh_id sh' = sh_id sh" "sh_escrow_amount sh' \<le> k + sh_escrow_amount sh"
  shows "triple (mst held me tok (Some (i, sh)) k) (persist_shipment sh') (\<lambda>_. mst held me tok None 0)"
  by (rule triple_conseq [OF mst_persist [OF assms(1)]]) (use assms(2) in \<open>auto intro: mst_weaken\<close>)

lemma mst_set_end:
  assumes "sh_id sh' = sh_id sh" "ship_ok sh'" "sh_escrow_amount sh' \<le> k + sh_escrow_amount sh"
  shows "triple (mst held me tok (Some (i, sh)) k) (modify (set_shipment sh'))
    (\<lambda>_. mst held me tok None 0)"
  by (rule triple_conseq [OF mst_set [OF assms(1,2)]]) (use assms(3) in \<open>auto intro: mst_weaken\<close>)

lemma mst_only_if:
  "triple (mst held me tok x k) m (\<lambda>_. mst held me tok x l) \<Longrightarrow>
   triple (mst held me tok x k) (only_if b m) (\<lambda>_. mst held me tok x (if b then l else k))"
  by (simp add: triple_def only_if_def wp_simps)

lemma frame_resolution [frame_rules]:
  "frame v m \<Longrightarrow> frame v n \<Longrightarrow>
   frame v (case r of ReleaseToCarrier \<Rightarrow> m | RefundToCompany \<Rightarrow> n)"
  by (cases r) simp_all

lemma frame_percentage_of [frame_rules]: "frame v (percentage_of p ms acc)"
  by (induction p ms acc rule: percentage_of.induct) (auto intro!: frame_rules)

text \<open>Flattening of nested sequences.\<close>

lemma mst_flat:
  "triple P (f x) Q \<Longrightarrow> triple P (bind (ret x) f) Q"
  "triple P (andthen a (bind m f)) Q \<Longrightarrow> triple P (bind (andthen a m) f) Q"
  "triple P (bind n (\<lambda>y. bind (g y) f)) Q \<Longrightarrow> triple P (bind (bind n g) f) Q"
  "triple P (bind (h z) f) Q \<Longrightarrow> triple P (bind (Let z h) f) Q"
  by (simp_all add: triple_def wp_simps)

lemma mst_flat_cases:
  "(b \<Longrightarrow> triple P (bind m f) Q) \<Longrightarrow> (\<not> b \<Longrightarrow> triple P (bind n f) Q) \<Longrightarrow>
   triple P (bind (if b then m else n) f) Q"
  "triple P (bind m f) Q \<Longrightarrow> (\<And>y. triple P (bind (g y) f) Q) \<Longrightarrow>
   triple P (bind (case x of None \<Rightarrow> m | Some y \<Rightarrow> g y) f) Q"
  by (auto split: option.splits)

lemma mst_last_only_if:
  assumes "\<And>c. b c \<Longrightarrow> triple (mst held me tok x k) (m c) (\<lambda>_. mst held me tok None 0)" "0 \<le> k"
  shows "triple (mst held me tok x k) (do_all [bind (gets g) (\<lambda>c. only_if (b c) (m c))])
    (\<lambda>_. mst held me tok None 0)"
  using assms mst_weaken [OF _ assms(2)] by (auto simp: triple_def wp_simps)

lemma recovery_ship_ok:
  "ship_ok sh \<Longrightarrow> is_valid_recovery_transition (sh_status sh) st \<Longrightarrow>
   sh_status sh \<noteq> st \<Longrightarrow> ship_ok (touch E (sh\<lparr>sh_status := st\<rparr>))"
  by (cases "sh_status sh"; cases st) (auto simp: ship_ok_def)

lemma mark_paid_simps [simp]:
  "sh_id (mark_paid y sh) = sh_id sh" "sh_escrow_amount (mark_paid y sh) = sh_escrow_amount sh"
  "sh_total_escrow (mark_paid y sh) = sh_total_escrow sh"
  "sh_finalized (mark_paid y sh) = sh_finalized sh" "sh_status (mark_paid y sh) = sh_status sh"
  by (simp_all add: mark_paid_def)

section \<open>Creation and archival\<close>

text \<open>The invariant of an initialised contract.\<close>

definition mst1 :: "(addr \<Rightarrow> 't \<Rightarrow> int) \<Rightarrow> addr \<Rightarrow> addr \<Rightarrow> 't store \<Rightarrow> bool" where
  "mst1 held me tok s \<longleftrightarrow> mst held me tok None 0 s \<and> is_initialized s"

lemma mst1_init:
  "triple (mst1 held me tok) n Q \<Longrightarrow> triple (mst held me tok None 0) (andthen require_initialized n) Q"
  by (simp add: triple_def wp_simps mst1_def)

lemma mst1_frame:
  assumes "frame core m"
  shows "triple (mst1 held me tok) m (\<lambda>_. mst1 held me tok)"
  by (rule core_triple [OF _ assms])
    (metis mst1_def mst_core is_initialized_core)

lemma mst1_done: "triple P m (\<lambda>_. mst1 held me tok) \<Longrightarrow> triple P m (\<lambda>_. mst held me tok None 0)"
  by (erule triple_conseq) (auto simp: mst1_def)

text \<open>The writes both creation paths make: the record under the next number, then the counter.\<close>

lemma mst1_create:
  assumes "\<And>n. sh_id (sh n) = n \<and> sh_escrow_amount (sh n) = 0 \<and> ship_ok (sh n)"
    and "\<And>n. triple (mst1 held me tok) (andthen (do_all (ms n)) (r n)) Q"
  shows "triple (mst1 held me tok) (bind (gets storage_get_shipment_counter) (\<lambda>c.
    bind (ok_or (u64_checked_add c 1) e) (\<lambda>n.
    andthen (do_all (persist_shipment (sh n) # modify (set_shipment_counter n) # ms n)) (r n)))) Q"
proof (rule tripleI)
  fix s
  assume s: "mst1 held me tok s"
  let ?n = "Suc (storage_get_shipment_counter s)"
  have "mst1 held me tok (set_shipment_counter ?n (set_escrow ?n 0 (set_shipment (sh ?n) s)))"
    using minv_new [of tok "k_Shipment s" "k_ArchivedShipment s" "k_ShipmentCount s" "k_Admin s"
        "k_TokenContract s" "held me (tokens s)" "sh ?n" "held me (tokens s)"] s assms(1) [of ?n]
    by (simp add: mst1_def mst_def set_shipment_counter_def set_escrow_def set_shipment_def
        storage_get_shipment_counter_def is_initialized_def)
  with assms show "wp (bind (gets storage_get_shipment_counter) (\<lambda>c.
      bind (ok_or (u64_checked_add c 1) e) (\<lambda>n. andthen (do_all (persist_shipment (sh n) #
        modify (set_shipment_counter n) # ms n)) (r n)))) Q s"
    by (simp add: wp_simps triple_def)
qed

lemma new_shipment_ok:
  "sh_id (new_shipment E n a b c h ms dl) = n \<and>
   sh_escrow_amount (new_shipment E n a b c h ms dl) = 0 \<and> ship_ok (new_shipment E n a b c h ms dl)"
  by (simp add: new_shipment_def ship_ok_def)

lemma create_shipment_mst:
  "triple (mst held me tok None 0) (create_shipment E a b c h ms dl) (\<lambda>_. mst held me tok None 0)"
  unfolding create_shipment_def
  apply (rule mst1_init, rule mst1_done)
  by ((rule mst_seq mst1_create new_shipment_ok | (rule triple_andthen, rule mst1_frame, (rule frame_rules)+) |
      (rule mst1_frame, rule frame_rules) | rule frame_rules | (simp; fail))+)

lemma create_batch_loop_mst:
  "triple (mst1 held me tok) (create_batch_loop E c a inps) (\<lambda>_. mst1 held me tok)"
proof (induction E c a inps rule: create_batch_loop.induct)
  case (1 E c a)
  show ?case by (simp add: mst1_frame frame_rules)
next
  case (2 E c a inp inps)
  have more: "triple (mst1 held me tok) (bind (create_batch_loop E c a inps) (\<lambda>ids. ret (i # ids)))
      (\<lambda>_. mst1 held me tok)" for i
    by (rule triple_bind [OF 2], rule mst1_frame, rule frame_rules)
  show ?case unfolding create_batch_loop.simps
    by ((rule more mst_seq mst1_create new_shipment_ok |
        (rule triple_andthen, rule mst1_frame, (rule frame_rules)+) |
        rule frame_rules | (simp; fail))+)
qed

lemma create_shipments_batch_mst:
  "triple (mst held me tok None 0) (create_shipments_batch E a inps) (\<lambda>_. mst held me tok None 0)"
  unfolding create_shipments_batch_def
  apply (rule mst1_init, rule mst1_done)
  by ((rule create_batch_loop_mst mst_seq | (rule triple_andthen triple_bind, rule mst1_frame, (rule frame_rules)+) |
      rule frame_rules | (simp; fail))+)

lemma mst_archived:
  assumes "mst held me tok None k s" "k_Shipment s i = Some sh"
  shows "mst held me tok None k (storage_archive_shipment i sh s)"
  unfolding mst_core [OF core_archive_shipment]
  using assms minv_archive [of tok "k_Shipment s"] by (simp add: mst_def)

lemma archive_shipment_mst:
  "triple (mst held me tok None 0) (archive_shipment E a i) (\<lambda>_. mst held me tok None 0)"
  by (rule tripleI) (auto simp: archive_shipment_def wp_simps get_persistent_shipment_def emit_defs
      intro: mst_archived mst_core [OF core_events(1), THEN iffD2])

context custody
begin

lemmas steps = mst_set mst_persist mst_pay_out
lemmas walk = mst_seq mst_seq_all mst_let mst_find mst_token mst_ok_or mst_release
  mst_persist_end mst_set_end mst_nil
lemmas next_step = triple_andthen mst_do_all triple_bind

text \<open>The fee leaves the net deposit as slack.\<close>

lemma mst_fee:
  assumes "k = v" and "\<And>net. triple (mst held me tok x net) (f net) Q"
  shows "triple (mst held me tok x k) (bind (collect_fee E tok i v) f) Q"
  unfolding assms(1)
proof (rule triple_bind [where R = "\<lambda>net. mst held me tok x net"])
  have pay: "wp (invoke_token_transfer E tok (self E) a w) (\<lambda>_ t. in_i128 (v - w) \<longrightarrow>
      mst held me tok x (v - w) (publish_counted E d topic i payload t)) s"
    if "mst held me tok x v s" for a w d topic payload s
    by (rule wp_mono [OF tripleD [OF mst_pay_out that]])
      (auto intro: mst_core [THEN iffD2, OF core_events(3)])
  show "triple (mst held me tok x v) (collect_fee E tok i v) (\<lambda>net. mst held me tok x net)"
    by (rule tripleI) (auto simp: wp_collect_fee Let_def intro: pay split: option.splits)
qed (rule assms(2))

section \<open>Escrow\<close>

lemma deposit_escrow_mst:
  "triple (mst held me tok None 0) (deposit_escrow E a i v) (\<lambda>_. mst held me tok None 0)"
  unfolding deposit_escrow_def
  apply ((rule walk mst_lock_seq | (rule next_step, (rule steps | (rule mst_frame, (rule frame_rules)+))) | rule frame_rules |
      (simp add: ship_ok_def twin_def; fail))+)
  apply (rule mst_settle, rule mst_pay_in, assumption, rule mst_fee, simp)
  by ((rule walk | (rule next_step, (rule steps | (rule mst_frame, (rule frame_rules)+))) | rule frame_rules |
      (simp add: ship_ok_def twin_def; fail))+)

lemma release_escrow_mst:
  "triple (mst held me tok None 0) (release_escrow E a i) (\<lambda>_. mst held me tok None 0)"
  unfolding release_escrow_def
  by ((rule walk mst_lock_seq | (rule next_step, (rule steps | (rule mst_frame, (rule frame_rules)+))) | rule frame_rules |
      (simp add: ship_ok_def twin_def; fail))+)

lemma refund_escrow_mst:
  "triple (mst held me tok None 0) (refund_escrow E a i) (\<lambda>_. mst held me tok None 0)"
  unfolding refund_escrow_def
  by ((rule walk mst_lock_seq | (rule next_step, (rule steps | (rule mst_frame, (rule frame_rules)+))) | rule frame_rules |
      (simp add: ship_ok_def twin_def; fail))+)

section \<open>Lifecycle\<close>

lemma set_shipment_metadata_mst:
  "triple (mst held me tok None 0) (set_shipment_metadata E a i y z) (\<lambda>_. mst held me tok None 0)"
  unfolding set_shipment_metadata_def
  by ((rule walk | (rule next_step, (rule steps | (rule mst_frame, (rule frame_rules)+))) | rule frame_rules |
      (simp add: ship_ok_def twin_def; fail))+)

lemma add_dispute_evidence_hash_mst:
  "triple (mst held me tok None 0) (add_dispute_evidence_hash E a i h) (\<lambda>_. mst held me tok None 0)"
  unfolding add_dispute_evidence_hash_def
  by ((rule walk | (rule next_step, (rule steps | (rule mst_frame, (rule frame_rules)+))) | rule frame_rules |
      (simp add: ship_ok_def twin_def; fail))+)

lemma update_status_mst:
  "triple (mst held me tok None 0) (update_status E a i st h) (\<lambda>_. mst held me tok None 0)"
  unfolding update_status_def dependencies_met_def
  by ((rule walk | (rule next_step, (rule steps | (rule mst_frame, (rule frame_rules)+))) | rule frame_rules |
      (simp add: ship_ok_def twin_def; fail))+)

lemma confirm_delivery_mst:
  "triple (mst held me tok None 0) (confirm_delivery E a i h) (\<lambda>_. mst held me tok None 0)"
  unfolding confirm_delivery_def
  by ((rule walk | (rule next_step, (rule steps | (rule mst_frame, (rule frame_rules)+))) | rule frame_rules |
      (simp add: ship_ok_def twin_def; fail))+)

lemma confirm_partial_delivery_mst:
  "triple (mst held me tok None 0) (confirm_partial_delivery E a i h n) (\<lambda>_. mst held me tok None 0)"
  unfolding confirm_partial_delivery_def
  by ((rule walk | (rule next_step, (rule steps | (rule mst_frame, (rule frame_rules)+))) | rule frame_rules |
      (simp add: ship_ok_def twin_def; fail))+)

lemma cancel_shipment_mst:
  "triple (mst held me tok None 0) (cancel_shipment E a i h) (\<lambda>_. mst held me tok None 0)"
  unfolding cancel_shipment_def
  by ((rule walk | (rule next_step, (rule steps | (rule mst_frame, (rule frame_rules)+))) | rule frame_rules |
      (simp add: ship_ok_def twin_def; fail))+)

lemma raise_dispute_mst:
  "triple (mst held me tok None 0) (raise_dispute E a i h) (\<lambda>_. mst held me tok None 0)"
  unfolding raise_dispute_def
  by ((rule walk | (rule next_step, (rule steps | (rule mst_frame, (rule frame_rules)+))) | rule frame_rules |
      (simp add: ship_ok_def twin_def; fail))+)

lemma handoff_shipment_mst:
  "triple (mst held me tok None 0) (handoff_shipment E a b i h) (\<lambda>_. mst held me tok None 0)"
  unfolding handoff_shipment_def
  by ((rule walk | (rule next_step, (rule steps | (rule mst_frame, (rule frame_rules)+))) | rule frame_rules |
      (simp add: ship_ok_def twin_def; fail))+)

lemma resolve_dispute_mst:
  "triple (mst held me tok None 0) (resolve_dispute E a i r h) (\<lambda>_. mst held me tok None 0)"
  unfolding resolve_dispute_def
  by ((rule walk | (rule next_step, (rule steps | (rule mst_frame, (rule frame_rules)+))) | rule frame_rules |
      (simp add: ship_ok_def twin_def; fail))+)

lemma mst_refund_sender:
  "triple (mst held me tok (Some y) k) (refund_sender E i sh)
     (\<lambda>_. mst held me tok (Some y) (k - sh_escrow_amount sh))"
  unfolding refund_sender_def
  apply (rule mst_token, rule mst_ok_or, rule mst_do_all, rule mst_pay_out)
  by (rule mst_frame) (intro frame_rules)

lemma mst_refund_removed:
  "triple (mst held me tok (Some y) k) (do_all [modify (remove_escrow_balance j), refund_sender E i sh])
     (\<lambda>_. mst held me tok (Some y) (k - sh_escrow_amount sh))"
  apply (rule mst_do_all, rule mst_frame, rule frame_modify, simp)
  apply (rule mst_do_all, rule mst_refund_sender)
  by (rule mst_frame) (intro frame_rules)

lemma force_cancel_shipment_mst:
  "triple (mst held me tok None 0) (force_cancel_shipment E a i h) (\<lambda>_. mst held me tok None 0)"
  unfolding force_cancel_shipment_def
  by ((rule walk | (rule next_step, (rule steps mst_only_if [OF mst_refund_sender] |
      (rule mst_frame, (rule frame_rules)+))) | rule frame_rules |
      (simp add: ship_ok_def twin_def; fail))+)

lemma check_deadline_mst:
  "triple (mst held me tok None 0) (check_deadline E i) (\<lambda>_. mst held me tok None 0)"
  unfolding check_deadline_def
  by ((rule walk | (rule next_step, (rule steps mst_only_if [OF mst_refund_removed] |
      (rule mst_frame, (rule frame_rules)+))) | rule frame_rules |
      (simp add: ship_ok_def twin_def; fail))+)

lemma report_condition_breach_mst:
  "triple (mst held me tok None 0) (report_condition_breach E a i br sv h)
     (\<lambda>_. mst held me tok None 0)"
  unfolding report_condition_breach_def
  by ((rule walk mst_last_only_if | (rule next_step, (rule steps |
      (rule mst_frame, (rule frame_rules)+))) | rule frame_rules |
      (simp add: ship_ok_def twin_def; fail))+)

lemma record_milestone_mst:
  "triple (mst held me tok None 0) (record_milestone E a i y h) (\<lambda>_. mst held me tok None 0)"
  unfolding record_milestone_def
  by ((rule walk mst_flat mst_flat_cases | (rule next_step, (rule steps |
      (rule mst_frame, (rule frame_rules)+))) | rule frame_rules |
      (simp add: ship_ok_def twin_def; fail))+)

lemma release_milestone_payment_mst:
  "triple (mst held me tok None 0) (release_milestone_payment E a i y) (\<lambda>_. mst held me tok None 0)"
  unfolding release_milestone_payment_def
  by ((rule walk mst_flat mst_flat_cases | (rule next_step, (rule steps |
      (rule mst_frame, (rule frame_rules)+))) | rule frame_rules |
      (simp add: ship_ok_def twin_def; fail))+)

lemma record_batch_loop_mst:
  assumes "twin sh st"
    and "\<And>sh' st'. twin sh' st' \<Longrightarrow> triple (mst held me tok (Some (i, st')) 0) (f sh') Q"
  shows "triple (mst held me tok (Some (i, st)) 0) (bind (record_batch_loop E c j items sh) f) Q"
  using assms(1)
proof (induction items arbitrary: sh st)
  case Nil
  with assms(2) show ?case by (simp add: triple_def wp_simps)
next
  case (Cons item items)
  obtain y h where item: "item = (y, h)" by fastforce
  show ?case
    unfolding record_batch_loop.simps record_batch_item_def item prod.case
    by (insert Cons.prems, (rule mst_flat mst_flat_cases mst_release Cons.IH | (rule next_step,
        (rule mst_frame, (rule frame_rules)+)) | assumption | (simp add: twin_def; fail))+)
qed

lemma record_milestones_batch_mst:
  "triple (mst held me tok None 0) (record_milestones_batch E a i items) (\<lambda>_. mst held me tok None 0)"
  unfolding record_milestones_batch_def
  by ((rule walk record_batch_loop_mst | (rule next_step,
      (rule mst_frame, (rule frame_rules)+)) | rule frame_rules |
      (simp add: ship_ok_def twin_def; fail))+)

section \<open>Recovery\<close>

lemma recover_shipment_mst:
  "triple (mst held me tok None 0) (recover_shipment E a i st h) (\<lambda>_. mst held me tok None 0)"
  unfolding recover_shipment_def recovery_recover_shipment_def verify_escrow_consistency_def
  by ((rule walk | (rule next_step, (rule steps |
      (rule mst_frame, (rule frame_rules)+))) | rule frame_rules |
      (simp add: recovery_ship_ok; fail))+)

lemma unlock_escrow_mst:
  "triple (mst held me tok None 0) (unlock_escrow E a i h) (\<lambda>_. mst held me tok None 0)"
  unfolding unlock_escrow_def recovery_unlock_escrow_def
  by ((rule walk | (rule next_step, (rule steps |
      (rule mst_frame, (rule frame_rules)+))) | rule frame_rules |
      (simp add: ship_ok_def twin_def; fail))+)

lemma clear_finalization_mst:
  "triple (mst held me tok None 0) (clear_finalization E a i h) (\<lambda>_. mst held me tok None 0)"
  unfolding clear_finalization_def recovery_clear_finalization_def
  by ((rule walk | (rule next_step, (rule steps |
      (rule mst_frame, (rule frame_rules)+))) | rule frame_rules |
      (simp add: ship_ok_def twin_def; fail))+)

lemma rollback_on_external_failure_mst:
  "triple (mst held me tok None 0) (rollback_on_external_failure E a i st h)
     (\<lambda>_. mst held me tok None 0)"
  unfolding rollback_on_external_failure_def recovery_rollback_on_external_failure_def
  by ((rule walk | (rule next_step, (rule steps |
      (rule mst_frame, (rule frame_rules)+))) | rule frame_rules |
      (simp add: ship_ok_def twin_def; fail))+)

section \<open>Multi-signature actions\<close>

lemma mst_pay_if_token:
  "triple (mst held me tok (Some y) k) (bind (gets get_token_contract) (\<lambda>x. case x of
       None \<Rightarrow> ret () | Some tok \<Rightarrow> invoke_token_transfer E tok (self E) a v))
     (\<lambda>_. mst held me tok (Some y) (k - v))"
  by (rule mst_token) (simp add: mst_pay_out)

lemma force_settle_mst:
  assumes "\<And>a v. frame core (emit i a v)"
  shows "triple (mst held me tok None 0) (force_settle E i to emit st) (\<lambda>_. mst held me tok None 0)"
proof -
  have pay: "triple (mst held me tok (Some y) k) (do_all [bind (gets get_token_contract) (\<lambda>x. case x of
       None \<Rightarrow> ret () | Some tok \<Rightarrow> invoke_token_transfer E tok (self E) a v), emit i a v])
     (\<lambda>_. mst held me tok (Some y) (k - v))" for y k a v
    by (rule mst_do_all, rule mst_pay_if_token, rule mst_frame, intro frame_rules assms)
  show ?thesis unfolding force_settle_def
    by ((rule walk | (rule next_step, (rule steps mst_only_if [OF pay] |
      (rule mst_frame, (rule frame_rules)+))) | rule frame_rules |
      (simp add: ship_ok_def twin_def; fail))+)
qed

lemma mst_new_admin:
  "mst held me tok None 0 s \<Longrightarrow> k_Admin s = Some b \<Longrightarrow> core t = core (set_admin a s) \<Longrightarrow>
   mst held me tok None 0 t"
  using mst_core [of t "set_admin a s" held me tok None 0]
  by (simp add: mst_def set_admin_def minv_def)

lemma execute_action_mst:
  "triple (mst held me tok None 0) (execute_action E p act) (\<lambda>_. mst held me tok None 0)"
proof (cases act)
  case (Upgrade h)
  show ?thesis unfolding execute_action_def Upgrade AdminAction.case update_current_contract_wasm_def
    by (rule mst_frame) ((rule frame_rules | simp)+)
next
  case (TransferAdmin a)
  show ?thesis
    by (rule tripleI)
      (auto simp: execute_action_def TransferAdmin wp_simps emit_defs intro: mst_new_admin)
qed (simp_all add: execute_action_def force_settle_mst frame_rules)

lemma mst_proposals [simp]:
  "mst held me tok x k (set_proposal p s) = mst held me tok x k s"
  "mst held me tok x k (set_proposal_counter n s) = mst held me tok x k s"
  "mst held me tok x k (set_admin_list as s) = mst held me tok x k s"
  "mst held me tok x k (set_multisig_threshold n s) = mst held me tok x k s"
  "mst held me tok x k (publish y ps s) = mst held me tok x k s"
  by (simp_all add: mst_def set_proposal_def set_proposal_counter_def set_admin_list_def
      set_multisig_threshold_def)

lemma execute_proposal_internal_mst:
  "triple (mst held me tok None 0) (execute_proposal_internal E i) (\<lambda>_. mst held me tok None 0)"
proof (rule tripleI)
  fix s
  assume s: "mst held me tok None 0 s"
  have "wp (execute_action E (pr_proposer p) (pr_action p)) (\<lambda>_ t. mst held me tok None 0
      (publish y ps t)) (set_proposal q s)" for p y ps q
    using tripleD [OF execute_action_mst] s by simp
  then show "wp (execute_proposal_internal E i) (\<lambda>_. mst held me tok None 0) s"
    by (auto simp: execute_proposal_internal_def wp_simps)
qed

lemma execute_proposal_mst:
  "triple (mst held me tok None 0) (execute_proposal E i) (\<lambda>_. mst held me tok None 0)"
  using execute_proposal_internal_mst by (simp add: execute_proposal_def triple_def wp_simps)

lemma approve_action_mst:
  "triple (mst held me tok None 0) (approve_action E a i) (\<lambda>_. mst held me tok None 0)"
  using execute_proposal_internal_mst by (simp add: approve_action_def triple_def wp_simps)

end

end
