(* ===== verification/Calm.thy ===== *)
theory Calm
  imports Solvency
begin

text \<open>
  Two more things the entry points keep. Between calls the contract is calm: the reentrancy lock is
  free, the circuit breaker is closed with no failure recorded, and the token's ledger is in
  order. And the governance part of the state (proposals, admin list, threshold, dependencies)
  changes only in the entry points that are about it.
\<close>

section \<open>Calm\<close>

definition serene :: "('t \<Rightarrow> bool) \<Rightarrow> 't store \<Rightarrow> bool" where
  "serene okt s \<longleftrightarrow> cb_state (get_breaker s) = Closed \<and> cb_failure_count (get_breaker s) = 0 \<and>
     okt (tokens s)"

definition calm :: "('t \<Rightarrow> bool) \<Rightarrow> 't store \<Rightarrow> bool" where
  "calm okt s \<longleftrightarrow> serene okt s \<and> \<not> is_reentrancy_locked s"

text \<open>Token invocations keep the predicate \<open>okt\<close> on the token's ledger.\<close>

definition pays_keep :: "('t \<Rightarrow> bool) \<Rightarrow> 't env \<Rightarrow> bool" where
  "pays_keep okt E \<longleftrightarrow>
     (\<forall>tk f t v x u. okt x \<longrightarrow> token_transfer E tk f t v x = Some u \<longrightarrow> okt u)"

lemma serene_core: "core t = core s \<Longrightarrow> serene okt t = serene okt s"
  by (simp add: serene_def core_parts get_breaker_def)

lemma calm_base: "base t = base s \<Longrightarrow> calm okt t = calm okt s"
  by (simp add: calm_def serene_def get_breaker_def is_reentrancy_locked_def base_def)

lemma calm_core: "core t = core s \<Longrightarrow> calm okt t = calm okt s"
  by (rule calm_base) (rule core_base)

lemma locked_set [simp]: "is_reentrancy_locked (set_reentrancy_lock b s) = b"
  by (simp add: is_reentrancy_locked_def set_reentrancy_lock_def)

lemma serene_writes [simp]:
  "serene okt (set_shipment sh s) = serene okt s"
  "serene okt (set_reentrancy_lock b s) = serene okt s"
  "serene okt (set_shipment_counter n s) = serene okt s"
  "serene okt (set_admin a s) = serene okt s"
  "serene okt (set_token_contract a s) = serene okt s"
  "serene okt (set_proposal p s) = serene okt s"
  "serene okt (set_proposal_counter n s) = serene okt s"
  "serene okt (set_admin_list as s) = serene okt s"
  "serene okt (set_multisig_threshold n s) = serene okt s"
  "serene okt (set_shipment_dependency i j s) = serene okt s"
  by (simp_all add: serene_def get_breaker_def set_shipment_def set_reentrancy_lock_def
      set_shipment_counter_def set_admin_def set_token_contract_def set_proposal_def
      set_proposal_counter_def set_admin_list_def set_multisig_threshold_def
      set_shipment_dependency_def)

lemma calm_writes [simp]:
  "calm okt (set_shipment sh s) = calm okt s"
  "calm okt (set_shipment_counter n s) = calm okt s"
  "calm okt (set_admin a s) = calm okt s"
  "calm okt (set_token_contract a s) = calm okt s"
  "calm okt (set_proposal p s) = calm okt s"
  "calm okt (set_proposal_counter n s) = calm okt s"
  "calm okt (set_admin_list as s) = calm okt s"
  "calm okt (set_multisig_threshold n s) = calm okt s"
  "calm okt (set_shipment_dependency i j s) = calm okt s"
  by (simp_all add: calm_def is_reentrancy_locked_def)
    (simp_all add: set_shipment_def set_shipment_counter_def set_admin_def set_token_contract_def
      set_proposal_def set_proposal_counter_def set_admin_list_def set_multisig_threshold_def
      set_shipment_dependency_def)

lemma keeps_core:
  "frame core m \<Longrightarrow> keeps (serene okt) m" "frame core m \<Longrightarrow> keeps (calm okt) m"
  using keeps_frame [of core m, OF _ serene_core] keeps_frame [of core m, OF _ calm_core] by auto

lemma calm_archived: "calm okt s \<Longrightarrow> calm okt (storage_archive_shipment i sh s)"
  unfolding calm_core [OF core_archive_shipment]
  by (simp add: calm_def serene_def get_breaker_def is_reentrancy_locked_def)

lemma keeps_persist [keeps_rules]:
  "keeps (serene okt) (persist_shipment sh)" "keeps (calm okt) (persist_shipment sh)"
  by (auto simp: keeps_def triple_def wp_simps serene_core [OF core_setters(1)]
      calm_core [OF core_setters(1)])

lemma keeps_pay:
  assumes "pays_keep okt E"
  shows "keeps (serene okt) (invoke_token_transfer E tk f t v)"
    "keeps (calm okt) (invoke_token_transfer E tk f t v)"
  using assms by (auto simp: keeps_def triple_def wp_simps serene_def calm_def get_breaker_def
      allowed_tracker_def record_success_def pays_keep_def is_reentrancy_locked_def)

lemma keeps_lock:
  "keeps (serene okt) m \<Longrightarrow> keeps (calm okt) (with_reentrancy_lock m)"
  by (simp add: keeps_def triple_def wp_simps calm_def)

lemma keeps_settle:
  "keeps P m \<Longrightarrow> keeps P (complete_settlement E n i) \<Longrightarrow> keeps P rest \<Longrightarrow>
   keeps P (settle_transfer E n i m rest)"
  using keeps_andthen [of P m "andthen (complete_settlement E n i) rest"]
    keeps_andthen [of P "complete_settlement E n i" rest]
  by (simp add: keeps_def triple_def wp_simps)

lemma keeps_release [keeps_rules]:
  assumes "pays_keep okt E"
  shows "keeps (serene okt) (internal_release_escrow E sh v)"
    "keeps (calm okt) (internal_release_escrow E sh v)"
  unfolding internal_release_escrow_def
  by ((rule keeps_rules keeps_settle keeps_pay [OF assms] |
      (rule keeps_core, rule frame_rules) | (simp; fail))+)

lemma keeps_fee:
  assumes "pays_keep okt E"
  shows "keeps (serene okt) (collect_fee E tk i v)"
  unfolding collect_fee_def
  by ((rule keeps_rules keeps_pay [OF assms] | (rule keeps_core, rule frame_rules) | (simp; fail))+)

section \<open>Calls keep calm\<close>

text \<open>
  The interface to the token here is that its transfers keep \<open>okt\<close>. Every proof goes by the shape of
  the handler.
\<close>

locale token_host =
  fixes okt :: "'t \<Rightarrow> bool" and E :: "'t env"
  assumes ok: "pays_keep okt E"
begin

lemmas quiet = keeps_rules keeps_settle keeps_lock keeps_pay [OF ok] keeps_release [OF ok]
  keeps_fee [OF ok]

lemma deposit_escrow_calm: "keeps (calm okt) (deposit_escrow E a i v)"
  unfolding deposit_escrow_def
  by (((rule keeps_core, rule frame_modify, simp; fail) | rule quiet | (rule keeps_core, rule frame_rules) |
      (simp; fail))+)

lemma release_escrow_calm: "keeps (calm okt) (release_escrow E a i)"
  unfolding release_escrow_def
  by (((rule keeps_core, rule frame_modify, simp; fail) | rule quiet | (rule keeps_core, rule frame_rules) |
      (simp; fail))+)

lemma refund_escrow_calm: "keeps (calm okt) (refund_escrow E a i)"
  unfolding refund_escrow_def
  by (((rule keeps_core, rule frame_modify, simp; fail) | rule quiet | (rule keeps_core, rule frame_rules) |
      (simp; fail))+)

lemma creation_calm:
  "keeps (calm okt) (set_shipment_metadata E a i y z)"
  "keeps (calm okt) (append_note_hash E a i h)"
  "keeps (calm okt) (add_dispute_evidence_hash E a i h)"
  "keeps (calm okt) (create_shipment E a b c h ms dl)"
  unfolding set_shipment_metadata_def append_note_hash_def add_dispute_evidence_hash_def create_shipment_def
  by (((rule keeps_core, rule frame_modify, simp; fail) | rule quiet | (rule keeps_core, rule frame_rules) |
      (simp; fail))+)

lemma create_batch_loop_calm: "keeps (calm okt) (create_batch_loop E c a inps)"
proof (induction inps)
  case Nil
  show ?case by (simp add: keeps_rules)
next
  case (Cons inp inps)
  note batch = Cons.IH
  show ?case unfolding create_batch_loop.simps
    by (((rule keeps_core, rule frame_modify, simp; fail) | rule quiet batch |
        (rule keeps_core, rule frame_rules) | (simp; fail))+)
qed

lemma create_shipments_batch_calm: "keeps (calm okt) (create_shipments_batch E a inps)"
  unfolding create_shipments_batch_def
  by ((rule create_batch_loop_calm keeps_rules | (rule keeps_core, rule frame_rules))+)

lemma status_calm:
  "keeps (calm okt) (update_status E a i st h)"
  "keeps (calm okt) (confirm_delivery E a i h)"
  "keeps (calm okt) (confirm_partial_delivery E a i h n)"
  unfolding update_status_def dependencies_met_def confirm_delivery_def confirm_partial_delivery_def
  by (((rule keeps_core, rule frame_modify, simp; fail) | rule quiet | (rule keeps_core, rule frame_rules) |
      (simp; fail))+)

lemma archive_shipment_calm: "keeps (calm okt) (archive_shipment E a i)"
  unfolding archive_shipment_def
  by ((rule keeps_rules calm_archived, assumption? | (rule keeps_core, rule frame_rules))+)

lemma reports_calm:
  "keeps (calm okt) (report_geofence_event E a i ge h)"
  "keeps (calm okt) (update_eta E a i n h)"
  "keeps (calm okt) (handoff_shipment E a b i h)"
  "keeps (calm okt) (report_condition_breach E a i br sv h)"
  "keeps (calm okt) (lib_extend_shipment_ttl i)"
  unfolding report_geofence_event_def update_eta_def handoff_shipment_def report_condition_breach_def lib_extend_shipment_ttl_def
  by (((rule keeps_core, rule frame_modify, simp; fail) | rule quiet | (rule keeps_core, rule frame_rules) |
      (simp; fail))+)

lemma milestones_calm:
  "keeps (calm okt) (record_milestone E a i y h)"
  "keeps (calm okt) (release_milestone_payment E a i y)"
  unfolding record_milestone_def release_milestone_payment_def
  by (((rule keeps_core, rule frame_modify, simp; fail) | rule quiet | (rule keeps_core, rule frame_rules) |
      (simp; fail))+)

lemma record_batch_loop_calm: "keeps (calm okt) (record_batch_loop E a i items sh)"
proof (induction items arbitrary: sh)
  case Nil
  show ?case by (simp add: keeps_rules)
next
  case (Cons item items)
  note batch = Cons.IH
  show ?case unfolding record_batch_loop.simps record_batch_item_def
    by ((rule quiet batch | (rule keeps_core, rule frame_rules))+)
qed

lemma record_milestones_batch_calm: "keeps (calm okt) (record_milestones_batch E a i items)"
  unfolding record_milestones_batch_def
  by ((rule record_batch_loop_calm keeps_rules | (rule keeps_core, rule frame_rules) | (simp; fail))+)

lemma ending_calm:
  "keeps (calm okt) (cancel_shipment E a i h)"
  "keeps (calm okt) (force_cancel_shipment E a i h)"
  "keeps (calm okt) (check_deadline E i)"
  "keeps (calm okt) (raise_dispute E a i h)"
  unfolding cancel_shipment_def force_cancel_shipment_def check_deadline_def refund_sender_def raise_dispute_def
  by (((rule keeps_core, rule frame_modify, simp; fail) | rule quiet | (rule keeps_core, rule frame_rules) |
      (simp; fail))+)

lemma keeps_resolution:
  "keeps P m \<Longrightarrow> keeps P n \<Longrightarrow> keeps P (case r of ReleaseToCarrier \<Rightarrow> m | RefundToCompany \<Rightarrow> n)"
  by (cases r) simp_all

lemma resolve_dispute_calm: "keeps (calm okt) (resolve_dispute E a i r h)"
  unfolding resolve_dispute_def
  by (((rule keeps_core, rule frame_modify, simp; fail) | rule quiet keeps_resolution |
      (rule keeps_core, rule frame_rules) | (simp; fail))+)

lemma recovery_calm:
  "keeps (calm okt) (recover_shipment E a i st h)"
  "keeps (calm okt) (unlock_escrow E a i h)"
  "keeps (calm okt) (clear_finalization E a i h)"
  "keeps (calm okt) (rollback_on_external_failure E a i st h)"
  unfolding recover_shipment_def recovery_recover_shipment_def verify_escrow_consistency_def unlock_escrow_def recovery_unlock_escrow_def clear_finalization_def recovery_clear_finalization_def rollback_on_external_failure_def recovery_rollback_on_external_failure_def
  by (((rule keeps_core, rule frame_modify, simp; fail) | rule quiet | (rule keeps_core, rule frame_rules) |
      (simp; fail))+)

lemma proposals_calm:
  "keeps (calm okt) (init_multisig E a as n)"
  "keeps (calm okt) (propose_action E a act)"
  "keeps (calm okt) (propose_action_with_salt E a act h)"
  unfolding init_multisig_def propose_action_with_salt_def propose_action_def
  by (((rule keeps_core, rule frame_modify, simp; fail) | rule quiet | (rule keeps_core, rule frame_rules) |
      (simp; fail))+)

lemma force_settle_calm:
  assumes "\<And>a v. frame core (emit i a v)"
  shows "keeps (calm okt) (force_settle E i to emit st)"
  unfolding force_settle_def
  by (((rule keeps_core, rule frame_modify, simp; fail) | rule quiet |
      (rule keeps_core, rule frame_rules assms) | (simp; fail))+)

lemma execute_action_calm: "keeps (calm okt) (execute_action E p act)"
proof (cases act)
  case (Upgrade h)
  show ?thesis unfolding execute_action_def Upgrade AdminAction.case update_current_contract_wasm_def
    by (rule keeps_core) ((rule frame_rules | simp)+)
next
  case (TransferAdmin a)
  show ?thesis unfolding execute_action_def TransferAdmin AdminAction.case
    by (((rule keeps_core, rule frame_modify, simp; fail) | rule quiet |
        (rule keeps_core, rule frame_rules) | (simp; fail))+)
qed (simp_all add: execute_action_def force_settle_calm frame_rules)

lemma execution_calm:
  "keeps (calm okt) (execute_proposal_internal E i)"
  "keeps (calm okt) (execute_proposal E i)" "keeps (calm okt) (approve_action E a i)"
  unfolding execute_proposal_def approve_action_def execute_proposal_internal_def
  by (((rule keeps_core, rule frame_modify, simp; fail) | rule quiet execute_action_calm |
      (rule keeps_core, rule frame_rules) | (simp; fail))+)

lemma add_shipment_dependency_calm: "keeps (calm okt) (add_shipment_dependency E a i j)"
  unfolding add_shipment_dependency_def would_create_cycle_def
  by ((rule quiet | (rule keeps_core, rule frame_rules) | (simp; fail))+)

end

end
