(* ===== verification/Governance.thy ===== *)
theory Governance
  imports Calm
begin

text \<open>
  The governance part of the state: the proposals with the admin list and threshold, the
  dependencies between shipments, and the settings. It changes only in the entry points about it; the proposals stay
  well-formed and the dependencies free of cycles.
\<close>

section \<open>Frames\<close>

definition polity :: "'t store \<Rightarrow>
    ((nat \<Rightarrow> Proposal option) \<times> nat option \<times> addr list option \<times> nat option) \<times>
    (nat \<Rightarrow> nat list option)" where
  "polity s = ((k_Proposal s, k_ProposalCounter s, k_AdminList s, k_MultiSigThreshold s),
     k_ShipmentDependents s)"

definition gov where
  "gov s = (polity s, settings s)"

lemma polity_base: "base t = base s \<Longrightarrow> polity t = polity s"
  by (simp add: base_def polity_def)

lemma gov_core: "core t = core s \<Longrightarrow> gov t = gov s"
  by (simp add: core_parts gov_def polity_def)

lemma gov_polity: "gov t = gov s \<Longrightarrow> polity t = polity s"
  by (simp add: gov_def)

lemma frame_gov: "frame core m \<Longrightarrow> frame gov m"
  by (erule frame_part) (rule gov_core)

lemma gov_writes [simp]:
  "gov (set_shipment sh s) = gov s" "gov (set_shipment_counter n s) = gov s"
  "gov (set_admin a s) = gov s" "gov (set_token_contract a s) = gov s"
  "gov (set_reentrancy_lock b s) = gov s" "gov (set_breaker br s) = gov s"
  by (simp_all add: gov_def polity_def settings_def set_shipment_def set_shipment_counter_def set_admin_def
      set_token_contract_def set_reentrancy_lock_def set_breaker_def)

lemma gov_archive [simp]: "gov (storage_archive_shipment i sh s) = gov s"
  unfolding gov_core [OF core_archive_shipment] by (simp add: gov_def polity_def settings_def)

lemma frame_gov_persist: "frame gov (persist_shipment sh)"
  by (auto simp: frame_def wp_simps gov_core [OF core_setters(1)])

lemma frame_gov_pay: "frame gov (invoke_token_transfer E tk f t v)"
  by (simp add: frame_def wp_simps gov_def polity_def settings_def)

lemma frame_gov_lock:
  assumes "frame gov m"
  shows "frame gov (with_reentrancy_lock m)"
proof -
  have "wp m (\<lambda>_ t. gov t = gov (set_reentrancy_lock True s)) (set_reentrancy_lock True s)" for s
    using assms by (simp only: frame_def)
  then show ?thesis by (simp add: frame_def wp_with_reentrancy_lock)
qed

lemma frame_gov_settle:
  "frame gov m \<Longrightarrow> frame gov rest \<Longrightarrow> frame gov (settle_transfer E n i m rest)"
  using frame_andthen [OF _ frame_andthen [OF frame_gov [OF frame_helpers(9)]],
      of m rest E n i]
  by (simp add: frame_def wp_settle_transfer wp_andthen)

lemma frame_gov_release: "frame gov (internal_release_escrow E sh v)"
  unfolding internal_release_escrow_def
  by ((rule frame_rules frame_gov_settle frame_gov_pay frame_gov_persist |
      (rule frame_gov, rule frame_rules))+)

lemma frame_gov_fee: "frame gov (collect_fee E tk i v)"
  unfolding collect_fee_def
  by ((rule frame_rules frame_gov_pay | (rule frame_gov, rule frame_rules))+)

lemmas gov_frames = frame_gov_persist frame_gov_pay frame_gov_lock frame_gov_settle
  frame_gov_release frame_gov_fee

lemma escrow_gov:
  "frame gov (deposit_escrow E a i v)"
  "frame gov (release_escrow E a i)"
  "frame gov (refund_escrow E a i)"
  unfolding deposit_escrow_def release_escrow_def refund_escrow_def
  by ((rule frame_rules gov_frames | (rule frame_gov, rule frame_rules) |
      (rule gov_core, simp; fail) | (simp; fail))+)

lemma creation_gov:
  "frame gov (set_shipment_metadata E a i y z)"
  "frame gov (append_note_hash E a i h)"
  "frame gov (add_dispute_evidence_hash E a i h)"
  "frame gov (create_shipment E a b c h ms dl)"
  unfolding set_shipment_metadata_def append_note_hash_def add_dispute_evidence_hash_def create_shipment_def
  by ((rule frame_rules gov_frames | (rule frame_gov, rule frame_rules) |
      (rule gov_core, simp; fail) | (simp; fail))+)

lemma create_batch_loop_gov: "frame gov (create_batch_loop E c a inps)"
proof (induction inps)
  case Nil
  show ?case by (simp add: frame_rules)
next
  case (Cons inp inps)
  note batch = Cons.IH
  show ?case unfolding create_batch_loop.simps
    by ((rule frame_rules gov_frames batch | (rule frame_gov, rule frame_rules) |
        (rule gov_core, simp; fail) | (simp; fail))+)
qed

lemma create_shipments_batch_gov: "frame gov (create_shipments_batch E a inps)"
  unfolding create_shipments_batch_def
  by ((rule create_batch_loop_gov frame_rules | (rule frame_gov, rule frame_rules))+)

lemma status_gov:
  "frame gov (update_status E a i st h)"
  "frame gov (archive_shipment E a i)"
  "frame gov (confirm_delivery E a i h)"
  "frame gov (confirm_partial_delivery E a i h n)"
  unfolding update_status_def dependencies_met_def archive_shipment_def confirm_delivery_def confirm_partial_delivery_def
  by ((rule frame_rules gov_frames | (rule frame_gov, rule frame_rules) |
      (rule gov_core, simp; fail) | (simp; fail))+)

lemma reports_gov:
  "frame gov (report_geofence_event E a i ge h)"
  "frame gov (update_eta E a i n h)"
  "frame gov (handoff_shipment E a b i h)"
  "frame gov (report_condition_breach E a i br sv h)"
  "frame gov (lib_extend_shipment_ttl i)"
  unfolding report_geofence_event_def update_eta_def handoff_shipment_def report_condition_breach_def lib_extend_shipment_ttl_def
  by ((rule frame_rules gov_frames | (rule frame_gov, rule frame_rules) |
      (rule gov_core, simp; fail) | (simp; fail))+)

lemma milestones_gov:
  "frame gov (record_milestone E a i y h)"
  "frame gov (release_milestone_payment E a i y)"
  unfolding record_milestone_def release_milestone_payment_def
  by ((rule frame_rules gov_frames | (rule frame_gov, rule frame_rules) |
      (rule gov_core, simp; fail) | (simp; fail))+)

lemma record_batch_loop_gov: "frame gov (record_batch_loop E a i items sh)"
proof (induction items arbitrary: sh)
  case Nil
  show ?case by (simp add: frame_rules)
next
  case (Cons item items)
  note batch = Cons.IH
  show ?case unfolding record_batch_loop.simps record_batch_item_def
    by ((rule frame_rules gov_frames batch | (rule frame_gov, rule frame_rules))+)
qed

lemma record_milestones_batch_gov: "frame gov (record_milestones_batch E a i items)"
  unfolding record_milestones_batch_def
  by ((rule record_batch_loop_gov frame_rules | (rule frame_gov, rule frame_rules) | (simp; fail))+)

lemma ending_gov:
  "frame gov (cancel_shipment E a i h)"
  "frame gov (force_cancel_shipment E a i h)"
  "frame gov (check_deadline E i)"
  "frame gov (raise_dispute E a i h)"
  "frame gov (resolve_dispute E a i r h)"
  unfolding cancel_shipment_def force_cancel_shipment_def check_deadline_def refund_sender_def raise_dispute_def resolve_dispute_def
  by ((rule frame_rules gov_frames | (rule frame_gov, rule frame_rules) |
      (rule gov_core, simp; fail) | (simp; fail))+)

lemma recovery_gov:
  "frame gov (recover_shipment E a i st h)"
  "frame gov (unlock_escrow E a i h)"
  "frame gov (clear_finalization E a i h)"
  "frame gov (rollback_on_external_failure E a i st h)"
  unfolding recover_shipment_def recovery_recover_shipment_def verify_escrow_consistency_def unlock_escrow_def recovery_unlock_escrow_def clear_finalization_def recovery_clear_finalization_def rollback_on_external_failure_def recovery_rollback_on_external_failure_def
  by ((rule frame_rules gov_frames | (rule frame_gov, rule frame_rules) |
      (rule gov_core, simp; fail) | (simp; fail))+)

lemma force_settle_gov:
  assumes "\<And>a v. frame core (emit i a v)"
  shows "frame gov (force_settle E i to emit st)"
  unfolding force_settle_def
  by ((rule frame_rules gov_frames | (rule frame_gov, rule frame_rules assms) |
      (rule gov_core, simp; fail) | (simp; fail))+)

lemma execute_action_gov: "frame gov (execute_action E p act)"
proof (cases act)
  case (Upgrade h)
  show ?thesis unfolding execute_action_def Upgrade AdminAction.case update_current_contract_wasm_def
    by (rule frame_gov) ((rule frame_rules | simp)+)
next
  case (TransferAdmin a)
  show ?thesis unfolding execute_action_def TransferAdmin AdminAction.case
    by ((rule frame_rules | (rule frame_gov, rule frame_rules) | (rule gov_core, simp; fail) |
        (simp; fail))+)
qed (simp_all add: execute_action_def force_settle_gov frame_rules)

section \<open>Administrative calls\<close>

lemma limits_core:
  "frame core (set_shipment_limit E a n)"
  "frame core (set_company_shipment_limit E a b n)"
  "frame core (add_carrier_to_whitelist E a b)"
  "frame core (remove_carrier_from_whitelist E a b)"
  unfolding set_shipment_limit_def set_company_shipment_limit_def add_carrier_to_whitelist_def remove_carrier_from_whitelist_def
  by ((rule frame_rules | (simp; fail))+)

lemma roles_core:
  "frame core (add_company E a b)"
  "frame core (add_carrier E a b)"
  "frame core (add_guardian E a b)"
  "frame core (add_operator E a b)"
  "frame core (revoke_role E a b)"
  "frame core (remove_guardian E a b)"
  "frame core (remove_operator E a b)"
  "frame core (suspend_role E a b)"
  "frame core (reactivate_role E a b)"
  unfolding add_company_def add_carrier_def add_guardian_def add_operator_def remove_guardian_def remove_operator_def revoke_role_def suspend_role_def reactivate_role_def
  by ((rule frame_rules | (simp; fail))+)

lemma suspension_core:
  "frame core (suspend_carrier E a b)"
  "frame core (reactivate_carrier E a b)"
  "frame core (suspend_company E a b)"
  "frame core (reactivate_company E a b)"
  unfolding suspend_carrier_def reactivate_carrier_def suspend_company_def reactivate_company_def
  by ((rule frame_rules | (simp; fail))+)

lemma settings_core:
  "frame core (transfer_admin E a b)"
  "frame core (upgrade E a h n)"
  "frame core (pause E a)"
  "frame core (unpause E a)"
  unfolding transfer_admin_def upgrade_def update_current_contract_wasm_def pause_def unpause_def
  by ((rule frame_rules | (simp; fail))+)

lemma settings_base:
  "frame base (update_config E a cfg)"
  "frame base (set_platform_fee E a n b)"
  "frame base (set_creation_quota E a n n')"
  unfolding update_config_def set_platform_fee_def set_creation_quota_def
  by ((rule frame_base_config frame_rules | (rule frame_base, rule frame_rules) |
      (rule core_base, simp; fail) | (simp; fail))+)

lemma frame_resolve [frame_rules]: "frame v (resolve p)"
  by (cases p) (auto simp: resolve_def intro!: frame_rules)

lemma breaker_config_core:
  "frame core (set_circuit_breaker_config E a p)"
  unfolding set_circuit_breaker_config_def
  by ((rule frame_rules | (simp; fail))+)

lemma initialize_polity: "frame polity (initialize E a b)"
proof -
  have "frame polity m" if "frame base m" for m :: "('a, 'b) nav"
    using frame_part [OF that] polity_base by blast
  note outside = this
  show ?thesis unfolding initialize_def
    by ((rule frame_rules | (rule outside, rule frame_base_config) | (rule outside, rule frame_base, rule frame_rules) |
        (rule polity_base, simp; fail) | (rule polity_base, rule core_base, simp; fail) |
        (simp add: polity_def set_admin_def set_token_contract_def set_shipment_counter_def; fail))+)
qed

lemma admin_key_gov:
  "frame gov (accept_admin_transfer E a)"
  "frame gov (reset_circuit_breaker E a)"
  unfolding accept_admin_transfer_def reset_circuit_breaker_def manual_reset_def
    emit_breaker_reset_event_def
  by ((rule frame_rules | (rule frame_gov, rule frame_rules) | (rule gov_core, simp; fail) |
      (simp; fail))+)

section \<open>Proposals\<close>

text \<open>
  Proposals are filed under their numbers and hold each approval once; a configured multi-signature
  group has distinct members and a threshold it can reach.
\<close>

definition proposals_wf :: "(nat \<Rightarrow> Proposal option) \<Rightarrow> bool" where
  "proposals_wf m \<longleftrightarrow> (\<forall>i p. m i = Some p \<longrightarrow>
     pr_id p = i \<and> distinct (pr_approvals p) \<and> pr_approvals p \<noteq> [])"

definition group_wf :: "addr list option \<Rightarrow> nat option \<Rightarrow> bool" where
  "group_wf as n \<longleftrightarrow> (case (as, n) of
     (None, None) \<Rightarrow> True
   | (Some as, Some n) \<Rightarrow> distinct as \<and> 1 \<le> n \<and> n \<le> length as
   | _ \<Rightarrow> False)"

definition multisig_wf :: "'t store \<Rightarrow> bool" where
  "multisig_wf s \<longleftrightarrow> proposals_wf (k_Proposal s) \<and> group_wf (k_AdminList s) (k_MultiSigThreshold s)"

lemma multisig_wf_polity: "polity t = polity s \<Longrightarrow> multisig_wf t = multisig_wf s"
  by (simp add: polity_def multisig_wf_def)

lemma multisig_wf_gov: "gov t = gov s \<Longrightarrow> multisig_wf t = multisig_wf s"
  by (rule multisig_wf_polity) (rule gov_polity)

lemma proposals_wf_upd:
  "proposals_wf m \<Longrightarrow> distinct (pr_approvals p) \<Longrightarrow> pr_approvals p \<noteq> [] \<Longrightarrow>
   proposals_wf (m(pr_id p \<mapsto> p))"
  by (auto simp: proposals_wf_def)

lemma duplicate_admin_iff:
  "distinct seen \<Longrightarrow> duplicate_admin seen as \<longleftrightarrow> \<not> distinct (seen @ as)"
proof (induction as arbitrary: seen)
  case (Cons a as)
  then show ?case using Cons.IH [of "seen @ [a]"] by (cases "a \<in> set seen") auto
qed simp

lemma multisig_wf_set_proposal:
  "multisig_wf s \<Longrightarrow> distinct (pr_approvals p) \<Longrightarrow> pr_approvals p \<noteq> [] \<Longrightarrow>
   multisig_wf (set_proposal p s)"
  by (simp add: multisig_wf_def set_proposal_def proposals_wf_upd del: fun_upd_apply)

lemma init_multisig_wf: "keeps multisig_wf (init_multisig E a as n)"
  using multisig_wf_gov [OF gov_core [OF core_events(1)]]
  by (auto simp: keeps_def triple_def init_multisig_def wp_simps duplicate_admin_iff)
    (auto simp: multisig_wf_def group_wf_def set_admin_list_def set_multisig_threshold_def
      set_proposal_counter_def)

lemma multisig_wf_writes:
  "multisig_wf (set_proposal_counter n s) = multisig_wf s"
  "multisig_wf (set_proposal_digest i d s) = multisig_wf s"
  "multisig_wf (set_proposal_salt_used h s) = multisig_wf s"
  "multisig_wf (publish y ps s) = multisig_wf s"
  using multisig_wf_gov [OF gov_core, of "set_proposal_digest i d s" s]
    multisig_wf_gov [OF gov_core, of "set_proposal_salt_used h s" s]
    multisig_wf_gov [OF gov_core, of "publish y ps s" s]
  by (simp_all add: multisig_wf_def set_proposal_counter_def)

lemma propose_action_wf:
  "keeps multisig_wf (propose_action E a act)" "keeps multisig_wf (propose_action_with_salt E a act h)"
  by (auto simp: keeps_def triple_def propose_action_with_salt_def propose_action_def emit_defs wp_simps
      multisig_wf_writes intro!: multisig_wf_set_proposal)

lemma multisig_wf_proposal:
  "multisig_wf s \<Longrightarrow> k_Proposal s i = Some p \<Longrightarrow>
   pr_id p = i \<and> distinct (pr_approvals p) \<and> pr_approvals p \<noteq> []"
  by (simp add: multisig_wf_def proposals_wf_def)

lemma execute_action_wf:
  "multisig_wf t \<Longrightarrow> wp (execute_action E a act) (\<lambda>_ t. multisig_wf (publish y ps t)) t"
  by (rule frame_wp [OF execute_action_gov]) (use multisig_wf_gov multisig_wf_writes(4) in blast)

lemma execute_proposal_internal_wf: "keeps multisig_wf (execute_proposal_internal E i)"
  by (auto simp: keeps_def triple_def execute_proposal_internal_def wp_simps storage_get_proposal_def
      dest: multisig_wf_proposal intro!: execute_action_wf multisig_wf_set_proposal)

lemma execution_wf:
  "keeps multisig_wf (execute_proposal E i)" "keeps multisig_wf (approve_action E a i)"
  by (auto simp: keeps_def triple_def execute_proposal_def approve_action_def wp_simps
      multisig_wf_writes storage_get_proposal_def
      intro!: keepsD [OF execute_proposal_internal_wf] multisig_wf_set_proposal)
    (blast dest: multisig_wf_proposal)+

section \<open>Dependencies\<close>

definition deps_of :: "'t store \<Rightarrow> nat \<Rightarrow> nat list" where
  "deps_of s i = get_shipment_dependents i s"

definition deps_wf :: "'t store \<Rightarrow> bool" where
  "deps_wf s \<longleftrightarrow> finite (dom (k_ShipmentDependents s)) \<and> acyclic (dep_edges (deps_of s))"

lemma deps_wf_polity: "polity t = polity s \<Longrightarrow> deps_wf t = deps_wf s"
  by (simp add: polity_def deps_wf_def deps_of_def get_shipment_dependents_def dep_edges_def)

lemma deps_wf_gov: "gov t = gov s \<Longrightarrow> deps_wf t = deps_wf s"
  by (rule deps_wf_polity) (rule gov_polity)

lemma finite_deps:
  assumes "finite (dom (k_ShipmentDependents s))"
  shows "finite {i. \<exists>j. i \<in> set (deps_of s j)}"
proof -
  have "j \<in> dom (k_ShipmentDependents s)" if "i \<in> set (deps_of s j)" for i j
    using that by (cases "k_ShipmentDependents s j")
      (auto simp: deps_of_def get_shipment_dependents_def)
  then have "{i. \<exists>j. i \<in> set (deps_of s j)} \<subseteq> (\<Union>j \<in> dom (k_ShipmentDependents s). set (deps_of s j))"
    by blast
  then show ?thesis by (rule finite_subset) (simp add: assms)
qed

lemma would_create_cycle_run:
  assumes "finite (dom (k_ShipmentDependents s))"
  shows "would_create_cycle d p s = (Inr ((p, d) \<in> (dep_edges (deps_of s))\<^sup>*), s)"
proof -
  have "cycle_loop (deps_of s) d [] [p] = Some ((p, d) \<in> (dep_edges (deps_of s))\<^sup>*)"
    using cycle_loop_correct [of "insert p {i. \<exists>j. i \<in> set (deps_of s j)}" "deps_of s" "[p]" d "[]"]
      finite_deps [OF assms] by (auto simp: search_ok_def)
  then show ?thesis
    by (simp add: would_create_cycle_def deps_of_def [abs_def] run_simps unwrap_def)
qed

lemma deps_after:
  "dep_edges (deps_of (set_shipment_dependency d p s)) = insert (d, p) (dep_edges (deps_of s))"
  by (auto simp: dep_edges_def deps_of_def set_shipment_dependency_def get_shipment_dependents_def
      split: if_splits)

lemma add_shipment_dependency_wf: "keeps deps_wf (add_shipment_dependency E a d p)"
proof -
  have "deps_wf (set_shipment_dependency d p s)"
    if "deps_wf s" "(p, d) \<notin> (dep_edges (deps_of s))\<^sup>*" for s :: "'a store"
    using that unfolding deps_wf_def deps_after
    by (simp add: acyclic_insert) (simp add: set_shipment_dependency_def)
  moreover have "wp (would_create_cycle d p) Q s = Q ((p, d) \<in> (dep_edges (deps_of s))\<^sup>*) s"
    if "deps_wf s" for Q and s :: "'a store"
    using that would_create_cycle_run [of s d p] by (simp add: wp_def deps_wf_def)
  ultimately show ?thesis
    by (simp add: keeps_def triple_def add_shipment_dependency_def wp_simps)
qed

lemma deps_wf_dependents: "k_ShipmentDependents t = k_ShipmentDependents s \<Longrightarrow> deps_wf t = deps_wf s"
  by (simp add: deps_wf_def deps_of_def get_shipment_dependents_def dep_edges_def)

lemma dependents_writes [simp]:
  "k_ShipmentDependents (set_proposal p s) = k_ShipmentDependents s"
  "k_ShipmentDependents (set_proposal_counter n s) = k_ShipmentDependents s"
  "k_ShipmentDependents (set_proposal_digest i d s) = k_ShipmentDependents s"
  "k_ShipmentDependents (set_proposal_salt_used h s) = k_ShipmentDependents s"
  "k_ShipmentDependents (set_admin_list as s) = k_ShipmentDependents s"
  "k_ShipmentDependents (set_multisig_threshold n s) = k_ShipmentDependents s"
  by (simp_all add: set_proposal_def set_proposal_counter_def set_proposal_digest_def
      set_proposal_salt_used_def set_admin_list_def set_multisig_threshold_def)

lemma frame_execute_dependents: "frame k_ShipmentDependents (execute_action E p act)"
  by (rule frame_part [OF execute_action_gov]) (simp add: gov_def polity_def)

lemma proposals_deps:
  "frame k_ShipmentDependents (init_multisig E a as n)"
  "frame k_ShipmentDependents (propose_action E a act)"
  "frame k_ShipmentDependents (propose_action_with_salt E a act h)"
  "frame k_ShipmentDependents (execute_proposal E i)"
  "frame k_ShipmentDependents (approve_action E a i)"
  unfolding init_multisig_def propose_action_with_salt_def propose_action_def execute_proposal_def
    approve_action_def execute_proposal_internal_def emit_proposal_digest_def
  by ((rule frame_rules frame_execute_dependents | (simp; fail))+)

lemma add_shipment_dependency_proposals: "keeps multisig_wf (add_shipment_dependency E a d p)"
  by (auto simp: keeps_def triple_def add_shipment_dependency_def would_create_cycle_def wp_simps
      multisig_wf_def set_shipment_dependency_def)

end
