(* ===== verification/Samples.thy ===== *)
theory Samples
  imports Admin Creation Lifecycle Multisig Recovery Deps
begin

text \<open>
  Evaluation of the contract on concrete states: the definitions the simplifier unfolds to run an
  entry point, and the sample states and environment the examples of the other theories use.
\<close>

section \<open>Unfolding\<close>

lemma exec_more:
  "ok_or v e s = (case v of None \<Rightarrow> (Inl (Err e), s) | Some y \<Rightarrow> (Inr y, s))"
  "unwrap v s = (case v of None \<Rightarrow> (Inl Panic, s) | Some y \<Rightarrow> (Inr y, s))"
  "bind (void m) k s = bind m (\<lambda>_. k ()) s"
  "bind (map_err g n) f s = (case n s of (Inl (Err e), t) \<Rightarrow> (Inl (Err (g e)), t)
     | (Inl Panic, t) \<Rightarrow> (Inl Panic, t) | (Inr x, t) \<Rightarrow> f x t)"
  "map_err g n s = (case n s of (Inl (Err e), t) \<Rightarrow> (Inl (Err (g e)), t)
     | (Inl Panic, t) \<Rightarrow> (Inl Panic, t) | (Inr x, t) \<Rightarrow> (Inr x, t))"
  "void m s = (case m s of (Inl e, t) \<Rightarrow> (Inl e, t) | (Inr x, t) \<Rightarrow> (Inr (), t))"
  "bind (i128_div a b) l s = (if b = 0 \<or> (a = i128_min \<and> b = - 1) then (Inl Panic, s)
     else l (i128_quot a b) s)"
  by (auto simp: ok_or_def unwrap_def void_def map_err_def i128_div_def andthen_def bind_def ret_def
      throw_def panic_def split: option.splits sum.splits prod.splits failure.splits)

lemma store_init_simps [simp]:
  "k_Admin (store_init tk) = None"
  "k_Version (store_init tk) = None"
  "k_ShipmentCount (store_init tk) = None"
  "k_CarrierSuspended (store_init tk) = Map.empty"
  "k_CompanySuspended (store_init tk) = Map.empty"
  "k_Shipment (store_init tk) = Map.empty"
  "k_CarrierWhitelist (store_init tk) = Map.empty"
  "k_UserRole (store_init tk) = Map.empty"
  "k_RoleSuspended (store_init tk) = Map.empty"
  "k_Escrow (store_init tk) = Map.empty"
  "k_Role (store_init tk) = Map.empty"
  "k_ConfirmationHash (store_init tk) = Map.empty"
  "k_TokenContract (store_init tk) = None"
  "k_LastStatusUpdate (store_init tk) = Map.empty"
  "k_ProposedAdmin (store_init tk) = None"
  "k_AdminList (store_init tk) = None"
  "k_MultiSigThreshold (store_init tk) = None"
  "k_ProposalCounter (store_init tk) = None"
  "k_Proposal (store_init tk) = Map.empty"
  "k_TotalEscrowVolume (store_init tk) = None"
  "k_TotalDisputes (store_init tk) = None"
  "k_StatusCount (store_init tk) = Map.empty"
  "k_ShipmentLimit (store_init tk) = None"
  "k_CompanyShipmentLimit (store_init tk) = Map.empty"
  "k_ActiveShipmentCount (store_init tk) = Map.empty"
  "k_ContractConfig (store_init tk) = None"
  "k_EventCount (store_init tk) = Map.empty"
  "k_ArchivedShipment (store_init tk) = Map.empty"
  "k_ShipmentNote (store_init tk) = Map.empty"
  "k_ShipmentNoteCount (store_init tk) = Map.empty"
  "k_DisputeEvidence (store_init tk) = Map.empty"
  "k_DisputeEvidenceCount (store_init tk) = Map.empty"
  "k_ConfigChecksum (store_init tk) = None"
  "k_MilestoneEventCount (store_init tk) = Map.empty"
  "k_IdempotencyWindow (store_init tk) = Map.empty"
  "k_StatusHash (store_init tk) = Map.empty"
  "k_IsPaused (store_init tk) = None"
  "k_FeeConfig (store_init tk) = None"
  "k_Treasury (store_init tk) = None"
  "k_ActorQuota (store_init tk) = Map.empty"
  "k_CircuitBreakerState (store_init tk) = None"
  "k_CircuitBreakerConfig (store_init tk) = None"
  "k_AuditEntry (store_init tk) = Map.empty"
  "k_AuditEntryCount (store_init tk) = None"
  "k_BreachEventCount (store_init tk) = Map.empty"
  "k_ReentrancyLock (store_init tk) = None"
  "k_SettlementCounter (store_init tk) = None"
  "k_Settlement (store_init tk) = Map.empty"
  "k_ActiveSettlement (store_init tk) = Map.empty"
  "k_EscrowFreezeReasonByShipment (store_init tk) = Map.empty"
  "k_CompanyCreationQuota (store_init tk) = Map.empty"
  "k_ProposalDigest (store_init tk) = Map.empty"
  "k_RecoveryRecord (store_init tk) = Map.empty"
  "k_RecoveryRecordCount (store_init tk) = Map.empty"
  "k_ProposalSalt (store_init tk) = Map.empty"
  "k_ShipmentDependents (store_init tk) = Map.empty"
  "code_hash (store_init tk) = None"
  "event_log (store_init tk) = []"
  "ttl_log (store_init tk) = []"
  "tokens (store_init tk) = tk"
  by (simp_all add: store_init_def)

lemmas exec_store = Store.unwrap_or_def Store.is_initialized_def Store.storage_get_admin_def
  Store.set_admin_def Store.get_proposed_admin_def Store.set_proposed_admin_def
  Store.clear_proposed_admin_def Store.storage_get_version_def Store.set_version_def
  Store.storage_get_shipment_counter_def Store.set_shipment_counter_def
  Store.increment_shipment_counter_def Store.storage_add_carrier_to_whitelist_def
  Store.storage_remove_carrier_from_whitelist_def Store.storage_is_carrier_whitelisted_def
  Store.set_role_def Store.has_role_def Store.storage_get_role_def Store.set_company_role_def
  Store.set_carrier_role_def Store.storage_revoke_role_def Store.storage_suspend_role_def
  Store.storage_reactivate_role_def Store.is_role_suspended_def Store.has_company_role_def
  Store.has_carrier_role_def Store.storage_suspend_carrier_def Store.storage_reactivate_carrier_def
  Store.storage_is_carrier_suspended_def Store.storage_suspend_company_def
  Store.storage_reactivate_company_def Store.storage_is_company_suspended_def
  Store.storage_get_shipment_def Store.has_persistent_shipment_def Store.get_persistent_shipment_def
  Store.has_escrow_entry_def Store.has_confirmation_hash_entry_def
  Store.has_last_status_update_entry_def Store.has_event_count_entry_def Store.set_shipment_def
  Store.get_escrow_def Store.set_escrow_def Store.storage_get_escrow_freeze_reason_def
  Store.set_escrow_freeze_reason_def Store.remove_escrow_def Store.set_escrow_balance_def
  Store.remove_escrow_balance_def Store.storage_get_escrow_balance_def
  Store.set_confirmation_hash_def Store.get_confirmation_hash_def Store.request_ttl_def
  Store.storage_extend_shipment_ttl_def Store.get_token_contract_def Store.set_token_contract_def
  Store.get_last_status_update_def Store.set_last_status_update_def Store.get_admin_list_def
  Store.set_admin_list_def Store.get_multisig_threshold_def Store.set_multisig_threshold_def
  Store.get_proposal_counter_def Store.set_proposal_counter_def Store.storage_get_proposal_def
  Store.set_proposal_def Store.is_admin_def Store.set_proposal_digest_def
  Store.get_proposal_digest_def Store.is_proposal_salt_used_def Store.set_proposal_salt_used_def
  Store.get_total_escrow_volume_def Store.add_total_escrow_volume_def Store.get_total_disputes_def
  Store.increment_total_disputes_def Store.get_status_count_def Store.set_status_count_def
  Store.increment_status_count_def Store.decrement_status_count_def
  Store.storage_get_shipment_limit_def Store.storage_set_shipment_limit_def
  Store.get_company_shipment_limit_def Store.storage_set_company_shipment_limit_def
  Store.storage_get_effective_shipment_limit_def Store.get_fee_config_def Store.set_fee_config_def
  Store.get_treasury_def Store.set_treasury_def Store.storage_get_active_shipment_count_def
  Store.set_active_shipment_count_def Store.increment_active_shipment_count_def
  Store.decrement_active_shipment_count_def Store.get_milestone_event_count_def
  Store.increment_milestone_event_count_def Store.get_breach_event_count_def
  Store.increment_breach_event_count_def Store.storage_get_event_count_def
  Store.increment_event_count_def Store.storage_get_note_count_def Store.increment_note_count_def
  Store.set_note_hash_def Store.storage_get_note_hash_def Store.get_evidence_count_def
  Store.increment_evidence_count_def Store.set_evidence_hash_def Store.get_evidence_hash_def
  Store.storage_get_recovery_record_count_def Store.append_recovery_record_def
  Store.get_recovery_record_def Store.storage_get_recovery_history_def
  Store.get_archived_shipment_def Store.is_shipment_archived_def Store.remove_confirmation_hash_def
  Store.remove_last_status_update_def Store.remove_event_count_def
  Store.remove_milestone_event_count_def Store.remove_breach_event_count_def
  Store.remove_escrow_freeze_reason_def Store.clear_active_settlement_def
  Store.purge_shipment_notes_def Store.purge_dispute_evidence_def Store.purge_recovery_records_def
  Store.purge_status_hashes_def Store.storage_archive_shipment_def Store.has_idempotency_window_def
  Store.window_ledgers_def Store.set_idempotency_window_def Store.storage_is_paused_def
  Store.set_paused_def Store.is_reentrancy_locked_def Store.set_reentrancy_lock_def
  Store.set_status_hash_def Store.storage_get_status_hash_def
  Store.shipment_exists_in_persistent_def Store.get_settlement_counter_def
  Store.set_settlement_counter_def Store.increment_settlement_counter_def
  Store.storage_get_settlement_def Store.set_settlement_def Store.storage_get_active_settlement_def
  Store.set_active_settlement_def Store.get_creation_quota_def Store.storage_set_creation_quota_def
  Store.get_shipment_dependents_def Store.set_shipment_dependency_def

lemmas exec_config = Config.default_config_def Config.get_config_def Config.validate_config_def
  Config.get_config_checksum_def Config.set_config_checksum_def Config.all_zero_def
  Config.set_config_def

lemmas exec_validation = Validation.MAX_AMOUNT_def Validation.MAX_PAST_OFFSET_def
  Validation.MAX_FUTURE_OFFSET_def Validation.validate_hash_def Validation.validate_note_hash_def
  Validation.validate_symbol_def Validation.is_ascii_alphanumeric_def Validation.xdr_buffer_def
  Validation.validate_symbol_chars_def Validation.validate_checkpoint_symbol_def
  Validation.validate_milestone_symbols_def Validation.validate_metadata_symbols_def
  Validation.validate_note_symbol_def Validation.validate_symbol_not_whitespace_only_def
  Validation.validate_amount_def Validation.validate_positive_amount_def
  Validation.validate_timestamp_def Validation.validate_created_at_versus_now_def
  Validation.validate_created_at_versus_updated_at_def
  Validation.validate_created_at_versus_deadline_def Validation.is_zero_address_def
  Validation.validate_shipment_exists_def Validation.preflight_check_shipment_available_def
  Validation.validate_shipment_invariants_def Validation.validate_milestones_def

lemmas exec_events = Events.EVENT_SCHEMA_VERSION_def Events.next_event_counter_def
  Events.publish_def Events.publish_counted_def Events.token_or_trap_def
  Events.emit_shipment_created_def Events.emit_status_updated_def Events.emit_milestone_recorded_def
  Events.emit_escrow_deposited_def Events.emit_escrow_released_def Events.emit_escrow_refunded_def
  Events.emit_milestone_payment_released_def Events.emit_dispute_raised_def
  Events.emit_shipment_cancelled_def Events.emit_contract_upgraded_def
  Events.emit_migration_report_def Events.emit_carrier_handoff_def Events.emit_condition_breach_def
  Events.emit_admin_proposed_def Events.emit_admin_transferred_def Events.emit_shipment_expired_def
  Events.emit_delivery_success_def Events.emit_carrier_breach_def
  Events.emit_carrier_dispute_loss_def Events.emit_notification_def
  Events.emit_shipment_archived_def Events.emit_carrier_late_delivery_def
  Events.emit_carrier_on_time_delivery_def Events.emit_carrier_handoff_completed_def
  Events.emit_role_revoked_def Events.emit_role_changed_def Events.emit_carrier_milestone_rate_def
  Events.emit_force_cancelled_def Events.emit_note_appended_def Events.emit_evidence_added_def
  Events.emit_dispute_resolved_def Events.emit_contract_paused_def Events.emit_contract_unpaused_def
  Events.emit_recovery_event_def Events.emit_escrow_unlock_event_def
  Events.emit_finalization_clear_event_def Events.emit_escrow_frozen_def
  Events.emit_platform_fee_collected_def Events.emit_fee_config_updated_def
  Events.emit_contract_initialized_def Events.emit_shipment_limit_updated_def
  Events.emit_company_limit_updated_def Events.emit_carrier_suspended_def
  Events.emit_carrier_reactivated_def Events.emit_delivery_confirmed_def
  Events.emit_geofence_event_def Events.emit_eta_updated_def Events.emit_proposal_digest_def
  Events.emit_config_updated_def Events.emit_quota_set_def

lemmas exec_breaker = Breaker.default_breaker_config_def Breaker.strict_def Breaker.permissive_def
  Breaker.MAX_FAILURE_THRESHOLD_def Breaker.MAX_RECOVERY_TIMEOUT_def
  Breaker.MAX_HALF_OPEN_REQUESTS_def Breaker.resolve_def Breaker.breaker_set_config_def
  Breaker.breaker_get_config_def Breaker.new_tracker_def Breaker.record_success_def
  Breaker.record_failure_def Breaker.should_allow_request_def
  Breaker.get_recovery_time_remaining_def Breaker.get_breaker_def Breaker.set_breaker_def
  Breaker.check_transfer_allowed_def Breaker.record_transfer_success_def
  Breaker.emit_breaker_opened_event_def Breaker.emit_breaker_reset_event_def
  Breaker.record_transfer_failure_def Breaker.manual_reset_def Breaker.get_breaker_status_def

lemmas exec_audit = AuditLog.get_audit_entry_count_def AuditLog.get_next_audit_entry_id_def
  AuditLog.increment_audit_entry_count_def AuditLog.store_audit_entry_def
  AuditLog.get_audit_entry_def AuditLog.remove_audit_entry_def AuditLog.audit_topic_def
  AuditLog.emit_audit_event_def AuditLog.log_entry_def AuditLog.log_role_assigned_def
  AuditLog.log_role_revoked_def AuditLog.log_role_suspended_def AuditLog.log_role_reactivated_def
  AuditLog.log_admin_transferred_def AuditLog.log_carrier_whitelisted_def
  AuditLog.storage_query_audit_history_def AuditLog.storage_query_audit_history_for_target_def
  AuditLog.storage_query_audit_history_by_actor_def AuditLog.cleanup_audit_logs_def
  AuditLog.default_rate_limit_def AuditLog.new_quota_tracker_def AuditLog.check_and_update_def
  AuditLog.remaining_quota_def AuditLog.window_time_remaining_def AuditLog.get_quota_def
  AuditLog.check_rate_limit_def AuditLog.reset_quota_def AuditLog.get_quota_status_def
  AuditLog.enforce_batch_creation_limit_def AuditLog.enforce_bulk_update_limit_def

lemmas exec_guards = Guards.require_initialized_def Guards.require_not_paused_def
  Guards.require_admin_or_guardian_def Guards.require_admin_or_operator_def Guards.require_role_def
  Guards.require_active_company_def Guards.require_active_carrier_def Guards.require_admin_def
  Guards.require_not_finalized_def Guards.validate_shipment_transition_def Guards.find_shipment_def
  Guards.shipment_must_exist_def Guards.check_idempotency_def
  Guards.check_and_update_creation_quota_by_def Guards.check_and_update_creation_quota_def
  Guards.extend_shipment_ttl_def Guards.extend_shipment_ttl_cached_def Guards.checked_add_i128_def
  Guards.checked_sub_i128_def Guards.checked_sub_escrow_def Guards.checked_mul_div_i128_def
  Guards.is_allowed_migration_def

lemmas exec_escrow = Escrow.persist_shipment_def Escrow.finalize_if_settled_def Escrow.touch_def
  Escrow.bump_nonce_def Escrow.with_reentrancy_lock_def Escrow.validate_token_decimals_def
  Escrow.invoke_token_operation_def Escrow.invoke_token_transfer_def Escrow.create_settlement_def
  Escrow.complete_settlement_def Escrow.fail_settlement_def Escrow.settle_transfer_def
  Escrow.internal_release_escrow_def Escrow.collect_fee_def Escrow.zero_hash_def
  Escrow.get_escrow_balance_def Escrow.get_escrow_freeze_reason_def Escrow.get_settlement_def
  Escrow.get_active_settlement_def Escrow.get_settlement_count_def

lemmas exec = run_simps exec_store exec_config exec_validation exec_events exec_breaker exec_audit
  exec_guards exec_escrow in_i128_def i128_min_def i128_max_def u64_max_def u32_max_def
  u64_checked_add_def u32_checked_add_def i128_checked_add_def i128_checked_sub_def
  i128_checked_mul_def u32_saturating_add_def u64_saturating_add_def i128_saturating_add_def
  saturating_sub_def Let_def exec_more
  EXPECTED_TOKEN_DECIMALS_def

section \<open>A contract with one shipment\<close>

text \<open>Admin 1, company 2, carrier 3; everyone but the contract, which is at 99, has signed.\<close>

definition free_env :: "nat \<Rightarrow> unit env" where
  "free_env now = sample_ship_env (\<lambda>_ _ _ _. Some) (\<lambda>_ _. Some 7) now (\<lambda>a. a \<noteq> 99)"

lemma free_env_simps [simp]:
  "timestamp (free_env now) = now" "self (free_env now) = 99" "sequence (free_env now) = 10"
  "authorized (free_env now) a \<longleftrightarrow> a \<noteq> 99" "token_transfer (free_env now) tk f t v = Some"
  "token_decimals (free_env now) tk x = Some 7" "sha256 (free_env now) bs = 1 # bs"
  by (simp_all add: free_env_def sample_ship_env_def)

definition bare :: "unit store" where
  "bare = (store_init ())\<lparr>k_Admin := Some 1, k_TokenContract := Some 50, k_ShipmentLimit := Some 5,
     k_Role := [2 \<mapsto> Company, 3 \<mapsto> Carrier],
     k_UserRole := [(2, Company) \<mapsto> True, (3, Carrier) \<mapsto> True],
     k_CarrierWhitelist := [(2, 3) \<mapsto> True]\<rparr>"

lemma create_on_bare:
  "\<exists>t. create_shipment (free_env 1000) 2 4 3 [7] [] 9000 bare = (Inr 1, t) \<and>
     k_Shipment t 1 = Some (new_shipment (free_env 1000) 1 2 4 3 [7] [] 9000)"
  by (simp add: create_shipment_def exec bare_def new_shipment_def)

text \<open>A shipment from company 2 to 4 with carrier 3, in a given status and with a given escrow.\<close>

definition ship_in :: "nat \<Rightarrow> ShipmentStatus \<Rightarrow> int \<Rightarrow> Shipment" where
  "ship_in i st v = (new_shipment (free_env 1000) i 2 4 3 [7] [] 9000)\<lparr>sh_status := st,
     sh_escrow_amount := v, sh_total_escrow := v\<rparr>"

lemma ship_in_simps [simp]:
  "sh_id (ship_in i st v) = i" "sh_sender (ship_in i st v) = 2" "sh_receiver (ship_in i st v) = 4"
  "sh_carrier (ship_in i st v) = 3" "sh_status (ship_in i st v) = st" "sh_deadline (ship_in i st v) = 9000"
  "sh_escrow_amount (ship_in i st v) = v" "sh_total_escrow (ship_in i st v) = v"
  "sh_finalized (ship_in i st v) = False" "sh_payment_milestones (ship_in i st v) = []"
  "sh_created_at (ship_in i st v) = 1000" "sh_updated_at (ship_in i st v) = 1000"
  "sh_integration_nonce (ship_in i st v) = 0" "sh_data_hash (ship_in i st v) = [7]"
  by (simp_all add: ship_in_def new_shipment_def)

definition holding :: "Shipment \<Rightarrow> unit store" where
  "holding sh = bare\<lparr>k_Shipment := [sh_id sh \<mapsto> sh], k_ShipmentCount := Some (sh_id sh),
     k_Escrow := [sh_id sh \<mapsto> sh_escrow_amount sh], k_StatusCount := [sh_status sh \<mapsto> 1],
     k_ActiveShipmentCount := [2 \<mapsto> 1]\<rparr>"

lemmas samples = holding_def bare_def

end
