(* ===== verification/System.thy ===== *)
theory System
  imports Token Governance Calm Samples
begin

text \<open>
  The deployed system: a shipment contract at the address \<open>me\<close> that is paid in the token contract of
  \<^verbatim>\<open>contracts/token\<close> at the address \<open>tok\<close>. One state holds the storage of both. A step is a call of
  any entry point of the shipment contract that changes state, a call of the token contract by
  someone else, or the end of the life time of a temporary entry.
\<close>

section \<open>The environment of a call\<close>

text \<open>
  A nested call to the token: \<open>from.require_auth()\<close> accepts the calling contract itself and whoever
  signed the outer call.
\<close>

definition token_env :: "addr \<Rightarrow> addr \<Rightarrow> token_state env \<Rightarrow> ledger_env" where
  "token_env tok me E = \<lparr>timestamp = timestamp E, sequence = sequence E, self = tok,
     authorized = (\<lambda>a. a = me \<or> authorized E a)\<rparr>"

definition token_decimals_of :: "token_state \<Rightarrow> nat option" where
  "token_decimals_of s = (case decimals s of (Inr n, _) \<Rightarrow> Some n | _ \<Rightarrow> None)"

text \<open>
  A call of the shipment contract runs at the address \<open>me\<close>, which has no key to sign with. There
  is a token contract at \<open>tok\<close> and nowhere else.
\<close>

definition navin_env :: "addr \<Rightarrow> addr \<Rightarrow> token_state env \<Rightarrow> token_state env" where
  "navin_env tok me E = E\<lparr>self := me, authorized := (\<lambda>a. a \<noteq> me \<and> authorized E a),
     token_transfer := (\<lambda>tk f t v s. if tk = tok then navin_transfer (token_env tok me E) f t v s else None),
     token_decimals := (\<lambda>tk s. if tk = tok then token_decimals_of s else None)\<rparr>"

lemma navin_env_simps [simp]:
  "self (navin_env tok me E) = me"
  "authorized (navin_env tok me E) a \<longleftrightarrow> a \<noteq> me \<and> authorized E a"
  "token_transfer (navin_env tok me E) tk f t v s =
     (if tk = tok then navin_transfer (token_env tok me E) f t v s else None)"
  "timestamp (navin_env tok me E) = timestamp E"
  by (simp_all add: navin_env_def)

interpretation navin_custody: custody "navin_env tok me E" tok get_balance me for tok me E
proof
  fix f t v s u
  assume "token_transfer (navin_env tok me E) tok f t v s = Some u"
  then have "navin_transfer (token_env tok me E) f t v s = Some u" by simp
  from navin_ledger.pay_covered [OF this] navin_ledger.pay_moves [OF this]
  show "0 \<le> v \<and> v \<le> get_balance f s"
    "get_balance a u = get_balance a s - (if a = f then v else 0) + (if a = t then v else 0)" for a
    by auto
qed simp_all

text \<open>What the contract relies on of the token's ledger: it adds up, and nobody may draw on \<open>me\<close>.\<close>

definition no_allowance :: "addr \<Rightarrow> token_state \<Rightarrow> bool" where
  "no_allowance me s \<longleftrightarrow> (\<forall>p. tk_Allowance s (me, p) = None)"

definition token_ok :: "addr \<Rightarrow> token_state \<Rightarrow> bool" where
  "token_ok me s \<longleftrightarrow> token_inv s \<and> no_allowance me s"

lemma no_allowance_writes [simp]:
  "no_allowance me (Token.publish k l s) = no_allowance me s"
  "no_allowance me (set_balance a v s) = no_allowance me s"
  "no_allowance me (set_total_supply v s) = no_allowance me s"
  "no_allowance me (Token.set_admin a s) = no_allowance me s"
  "no_allowance me (set_name n s) = no_allowance me s"
  "no_allowance me (set_symbol n s) = no_allowance me s"
  "no_allowance me (Token.set_paused b s) = no_allowance me s"
  "no_allowance me (extend_allowance_ttl g q th ex s) = no_allowance me s"
  "no_allowance me (extend_balance_ttl a th ex s) = no_allowance me s"
  "no_allowance me (extend_balance_ttl_for as th ex s) = no_allowance me s"
  "no_allowance me (storage_add_allowed_metadata_key key s) = no_allowance me s"
  "no_allowance me (storage_remove_allowed_metadata_key key s) = no_allowance me s"
  "no_allowance me (storage_set_metadata key val s) = no_allowance me s"
  "no_allowance me (storage_remove_metadata key s) = no_allowance me s"
  "no_allowance me (set_allowance f p v x s) \<longleftrightarrow> f \<noteq> me \<and> no_allowance me s"
  using extend_balance_ttl_for_eq [of as th ex s]
  by (auto simp: no_allowance_def Token.publish_def set_balance_def set_total_supply_def
      Token.set_admin_def set_name_def set_symbol_def Token.set_paused_def extend_allowance_ttl_def
      extend_balance_ttl_def storage_add_allowed_metadata_key_def set_allowance_def
      storage_remove_allowed_metadata_key_def storage_set_metadata_def storage_remove_metadata_def)

lemma transfer_no_allowance:
  "no_allowance me s \<Longrightarrow> wp (transfer E f t v) (\<lambda>_. no_allowance me) s"
  by (simp add: transfer_def Token.entry_guards wp_simps)

interpretation navin_host: token_host "token_ok me" "navin_env tok me E" for tok me E
proof
  show "pays_keep (token_ok me) (navin_env tok me E)"
    using transfer_inv [THEN wpD] transfer_no_allowance [THEN wpD]
    by (fastforce simp: pays_keep_def token_ok_def navin_transfer_Some split: if_splits)
qed

section \<open>Calls of the token by others\<close>

text \<open>
  The token's admin may burn from any account (\<open>admin_burn\<close>); the contract's money rests on the
  admin not doing so to \<open>me\<close>.
\<close>

definition outsider :: "addr \<Rightarrow> ledger_env \<times> token_call \<Rightarrow> bool" where
  "outsider me c \<longleftrightarrow> token_legal c \<and> \<not> authorized (fst c) me \<and> (\<forall>a v. snd c \<noteq> Admin_burn a me v)"

definition safe_for :: "addr \<Rightarrow> int \<Rightarrow> token_state \<Rightarrow> bool" where
  "safe_for me h s \<longleftrightarrow> no_allowance me s \<and> h \<le> get_balance me s"

lemma batch_credits_safe:
  assumes "safe_for me h s" "\<forall>(to, amt)\<in>set rs. 0 < amt \<and> to \<noteq> f"
  shows "wp (for_each rs batch_credit) (\<lambda>_. safe_for me h) s"
  using assms by (intro wp_for_each) (fastforce simp: wp_simps safe_for_def)+

lemma get_balance_set_admin: "get_balance b (Token.set_admin a s) = get_balance b s"
  by (simp add: get_balance_def Token.set_admin_def)

lemma no_allowance_spend: "no_allowance me s \<Longrightarrow> get_allowance E me p s = 0"
  by (simp add: no_allowance_def get_allowance_def)

lemma outsider_safe:
  assumes "token_ok me s" "outsider me c"
  shows "wp (token_entry c) (\<lambda>_. safe_for me (get_balance me s)) s"
proof (cases "snd c")
  case (Batch_transfer f rs)
  show ?thesis
    unfolding token_entry_def Batch_transfer token_exec.simps wp_map_err
  proof (rule wp_batch_transfer, rule wp_mono [OF batch_credits_safe [where f = f]])
    fix t
    assume "authorized (fst c) f" "t = set_balance f (get_balance f s - sum_list (map snd rs)) s"
    then show "safe_for me (get_balance me s) t"
      using assms by (auto simp: outsider_def token_ok_def safe_for_def)
  qed (auto simp: safe_for_def)
next
  case (Initialize a n y v)
  have "get_balance me s = 0" if "\<not> Token.is_initialized s"
    using assms(1) that by (simp add: token_ok_def token_inv_def get_balance_def Token.is_initialized_def)
  then show ?thesis
    using assms by (auto simp: token_entry_def Initialize Token.initialize_def wp_simps token_ok_def
        safe_for_def get_balance_set_admin)
qed (use assms in \<open>auto simp: token_entry_def wp_simps Token.entry_guards outsider_def token_ok_def
      safe_for_def no_allowance_spend get_balance_set_admin transfer_def transfer_from_def approve_def increase_allowance_def
      decrease_allowance_def Token.transfer_admin_def mint_def admin_burn_def burn_def burn_from_def
      Token.pause_def Token.unpause_def add_allowed_metadata_key_def remove_allowed_metadata_key_def
      set_metadata_def remove_metadata_def\<close>)

section \<open>The entry points\<close>

text \<open>
  The entry points that change state, in three tables: administration, the life of shipments, and
  governance (multi-signature actions, recovery, dependencies). The others only read.
\<close>

datatype admin_call =
    C_initialize addr addr
  | C_set_shipment_limit addr nat
  | C_set_company_shipment_limit addr addr nat
  | C_add_carrier_to_whitelist addr addr
  | C_remove_carrier_from_whitelist addr addr
  | C_add_company addr addr
  | C_add_carrier addr addr
  | C_add_guardian addr addr
  | C_add_operator addr addr
  | C_revoke_role addr addr
  | C_remove_guardian addr addr
  | C_remove_operator addr addr
  | C_suspend_role addr addr
  | C_reactivate_role addr addr
  | C_suspend_carrier addr addr
  | C_reactivate_carrier addr addr
  | C_suspend_company addr addr
  | C_reactivate_company addr addr
  | C_transfer_admin addr addr
  | C_accept_admin_transfer addr
  | C_upgrade addr hash nat
  | C_pause addr
  | C_unpause addr
  | C_update_config addr ContractConfig
  | C_set_platform_fee addr nat addr
  | C_set_creation_quota addr nat nat
  | C_reset_circuit_breaker addr
  | C_set_circuit_breaker_config addr CircuitBreakerPreset

fun admin_exec :: "'t env \<Rightarrow> admin_call \<Rightarrow> ('t, unit) nav" where
  "admin_exec E (C_initialize a b) = Admin.initialize E a b"
| "admin_exec E (C_set_shipment_limit a n) = set_shipment_limit E a n"
| "admin_exec E (C_set_company_shipment_limit a b n) = set_company_shipment_limit E a b n"
| "admin_exec E (C_add_carrier_to_whitelist a b) = add_carrier_to_whitelist E a b"
| "admin_exec E (C_remove_carrier_from_whitelist a b) = remove_carrier_from_whitelist E a b"
| "admin_exec E (C_add_company a b) = add_company E a b"
| "admin_exec E (C_add_carrier a b) = add_carrier E a b"
| "admin_exec E (C_add_guardian a b) = add_guardian E a b"
| "admin_exec E (C_add_operator a b) = add_operator E a b"
| "admin_exec E (C_revoke_role a b) = revoke_role E a b"
| "admin_exec E (C_remove_guardian a b) = remove_guardian E a b"
| "admin_exec E (C_remove_operator a b) = remove_operator E a b"
| "admin_exec E (C_suspend_role a b) = suspend_role E a b"
| "admin_exec E (C_reactivate_role a b) = reactivate_role E a b"
| "admin_exec E (C_suspend_carrier a b) = suspend_carrier E a b"
| "admin_exec E (C_reactivate_carrier a b) = reactivate_carrier E a b"
| "admin_exec E (C_suspend_company a b) = suspend_company E a b"
| "admin_exec E (C_reactivate_company a b) = reactivate_company E a b"
| "admin_exec E (C_transfer_admin a b) = Admin.transfer_admin E a b"
| "admin_exec E (C_accept_admin_transfer a) = accept_admin_transfer E a"
| "admin_exec E (C_upgrade a h n) = upgrade E a h n"
| "admin_exec E (C_pause a) = Admin.pause E a"
| "admin_exec E (C_unpause a) = Admin.unpause E a"
| "admin_exec E (C_update_config a c) = update_config E a c"
| "admin_exec E (C_set_platform_fee a n b) = set_platform_fee E a n b"
| "admin_exec E (C_set_creation_quota a m n) = set_creation_quota E a m n"
| "admin_exec E (C_reset_circuit_breaker a) = reset_circuit_breaker E a"
| "admin_exec E (C_set_circuit_breaker_config a p) = set_circuit_breaker_config E a p"

datatype life_call =
    C_create_shipment addr addr addr hash "(sym \<times> nat) list" nat
  | C_create_shipments_batch addr "ShipmentInput list"
  | C_set_shipment_metadata addr nat sym sym
  | C_append_note_hash addr nat hash
  | C_add_dispute_evidence_hash addr nat hash
  | C_deposit_escrow addr nat int
  | C_release_escrow addr nat
  | C_refund_escrow addr nat
  | C_update_status addr nat ShipmentStatus hash
  | C_archive_shipment addr nat
  | C_confirm_delivery addr nat hash
  | C_confirm_partial_delivery addr nat hash nat
  | C_report_geofence_event addr nat GeofenceEvent hash
  | C_update_eta addr nat nat hash
  | C_record_milestone addr nat sym hash
  | C_record_milestones_batch addr nat "(sym \<times> hash) list"
  | C_release_milestone_payment addr nat sym
  | C_extend_shipment_ttl nat
  | C_cancel_shipment addr nat hash
  | C_force_cancel_shipment addr nat hash
  | C_check_deadline nat
  | C_raise_dispute addr nat hash
  | C_resolve_dispute addr nat DisputeResolution hash
  | C_handoff_shipment addr addr nat hash
  | C_report_condition_breach addr nat BreachType Severity hash

fun life_exec :: "'t env \<Rightarrow> life_call \<Rightarrow> ('t, unit) nav" where
  "life_exec E (C_create_shipment a b c h ms dl) = void (create_shipment E a b c h ms dl)"
| "life_exec E (C_create_shipments_batch a inps) = void (create_shipments_batch E a inps)"
| "life_exec E (C_set_shipment_metadata a i y z) = set_shipment_metadata E a i y z"
| "life_exec E (C_append_note_hash a i h) = append_note_hash E a i h"
| "life_exec E (C_add_dispute_evidence_hash a i h) = add_dispute_evidence_hash E a i h"
| "life_exec E (C_deposit_escrow a i v) = deposit_escrow E a i v"
| "life_exec E (C_release_escrow a i) = release_escrow E a i"
| "life_exec E (C_refund_escrow a i) = refund_escrow E a i"
| "life_exec E (C_update_status a i st h) = update_status E a i st h"
| "life_exec E (C_archive_shipment a i) = archive_shipment E a i"
| "life_exec E (C_confirm_delivery a i h) = confirm_delivery E a i h"
| "life_exec E (C_confirm_partial_delivery a i h n) = confirm_partial_delivery E a i h n"
| "life_exec E (C_report_geofence_event a i ge h) = report_geofence_event E a i ge h"
| "life_exec E (C_update_eta a i n h) = update_eta E a i n h"
| "life_exec E (C_record_milestone a i y h) = record_milestone E a i y h"
| "life_exec E (C_record_milestones_batch a i its) = record_milestones_batch E a i its"
| "life_exec E (C_release_milestone_payment a i y) = release_milestone_payment E a i y"
| "life_exec E (C_extend_shipment_ttl i) = lib_extend_shipment_ttl i"
| "life_exec E (C_cancel_shipment a i h) = cancel_shipment E a i h"
| "life_exec E (C_force_cancel_shipment a i h) = force_cancel_shipment E a i h"
| "life_exec E (C_check_deadline i) = check_deadline E i"
| "life_exec E (C_raise_dispute a i h) = raise_dispute E a i h"
| "life_exec E (C_resolve_dispute a i r h) = resolve_dispute E a i r h"
| "life_exec E (C_handoff_shipment a b i h) = handoff_shipment E a b i h"
| "life_exec E (C_report_condition_breach a i b v h) = report_condition_breach E a i b v h"

datatype gov_call =
    C_init_multisig addr "addr list" nat
  | C_propose_action addr AdminAction
  | C_propose_action_with_salt addr AdminAction hash
  | C_approve_action addr nat
  | C_execute_proposal nat
  | C_recover_shipment addr nat ShipmentStatus hash
  | C_unlock_escrow addr nat hash
  | C_clear_finalization addr nat hash
  | C_rollback_on_external_failure addr nat ShipmentStatus hash
  | C_add_shipment_dependency addr nat nat

fun gov_exec :: "'t env \<Rightarrow> gov_call \<Rightarrow> ('t, unit) nav" where
  "gov_exec E (C_init_multisig a as n) = init_multisig E a as n"
| "gov_exec E (C_propose_action a act) = void (propose_action E a act)"
| "gov_exec E (C_propose_action_with_salt a act h) = void (propose_action_with_salt E a act h)"
| "gov_exec E (C_approve_action a i) = approve_action E a i"
| "gov_exec E (C_execute_proposal i) = execute_proposal E i"
| "gov_exec E (C_recover_shipment a i st h) = recover_shipment E a i st h"
| "gov_exec E (C_unlock_escrow a i h) = unlock_escrow E a i h"
| "gov_exec E (C_clear_finalization a i h) = clear_finalization E a i h"
| "gov_exec E (C_rollback_on_external_failure a i st h) = rollback_on_external_failure E a i st h"
| "gov_exec E (C_add_shipment_dependency a i j) = add_shipment_dependency E a i j"

section \<open>Steps of the system\<close>

datatype sys_call =
    Admin_call "token_state env" admin_call
  | Life_call "token_state env" life_call
  | Gov_call "token_state env" gov_call
  | Token_call ledger_env token_call
  | Expire_archived nat
  | Expire_window hash

definition on_tokens :: "('t, 'e, 'a) comp \<Rightarrow> ('t store, 'e, 'a) comp" where
  "on_tokens m = (\<lambda>s. case m (tokens s) of (r, t) \<Rightarrow> (r, s\<lparr>tokens := t\<rparr>))"

fun sys_entry :: "addr \<Rightarrow> addr \<Rightarrow> sys_call \<Rightarrow>
    (token_state store, NavinError + (TokenError + MetadataError), unit) comp" where
  "sys_entry tok me (Admin_call E c) = map_err Inl (admin_exec (navin_env tok me E) c)"
| "sys_entry tok me (Life_call E c) = map_err Inl (life_exec (navin_env tok me E) c)"
| "sys_entry tok me (Gov_call E c) = map_err Inl (gov_exec (navin_env tok me E) c)"
| "sys_entry tok me (Token_call Es c) = map_err Inr (on_tokens (token_entry (Es, c)))"
| "sys_entry tok me (Expire_archived i) =
     modify (\<lambda>s. s\<lparr>k_ArchivedShipment := (k_ArchivedShipment s)(i := None)\<rparr>)"
| "sys_entry tok me (Expire_window h) =
     modify (\<lambda>s. s\<lparr>k_IdempotencyWindow := (k_IdempotencyWindow s)(h := None)\<rparr>)"

text \<open>The contract is initialised with this token, and the token is called by others only.\<close>

fun sys_legal :: "addr \<Rightarrow> addr \<Rightarrow> sys_call \<Rightarrow> bool" where
  "sys_legal tok me (Admin_call E (C_initialize a b)) \<longleftrightarrow> b = tok"
| "sys_legal tok me (Token_call Es c) \<longleftrightarrow> outsider me (Es, c)"
| "sys_legal tok me _ \<longleftrightarrow> True"

definition sys_init :: "token_state store" where
  "sys_init = store_init token_init"

lemma wp_on_tokens [wp_simps]: "wp (on_tokens m) Q = (\<lambda>s. wp m (\<lambda>x t. Q x (s\<lparr>tokens := t\<rparr>)) (tokens s))"
  by (auto simp: fun_eq_iff wp_def on_tokens_def split: prod.splits sum.splits)

section \<open>What every step keeps\<close>

definition sys_inv :: "addr \<Rightarrow> addr \<Rightarrow> token_state store \<Rightarrow> bool" where
  "sys_inv tok me s \<longleftrightarrow> mst get_balance me tok None 0 s \<and> calm (token_ok me) s \<and>
     multisig_wf s \<and> deps_wf s"

lemma sys_inv_base: "base t = base s \<Longrightarrow> sys_inv tok me t = sys_inv tok me s"
  using mst_base [of t s] calm_base [of t s] multisig_wf_polity [OF polity_base, of t s]
    deps_wf_polity [OF polity_base, of t s]
  by (simp add: sys_inv_def)

lemma sys_inv_core: "core t = core s \<Longrightarrow> sys_inv tok me t = sys_inv tok me s"
  by (rule sys_inv_base) (rule core_base)

lemma keeps_conj: "keeps P m \<Longrightarrow> keeps Q m \<Longrightarrow> keeps (\<lambda>s. P s \<and> Q s) m"
  by (auto simp: keeps_def triple_def intro!: wp_conj)

lemma sys_inv_parts:
  assumes "keeps (mst get_balance me tok None 0) m" "keeps (calm (token_ok me)) m"
    "keeps multisig_wf m" "keeps deps_wf m"
  shows "keeps (sys_inv tok me) m"
  using keeps_conj [OF assms(1) keeps_conj [OF assms(2) keeps_conj [OF assms(3,4)]]]
  unfolding sys_inv_def .

lemma sys_inv_polity:
  assumes "keeps (mst get_balance me tok None 0) m" "keeps (calm (token_ok me)) m" "frame polity m"
  shows "keeps (sys_inv tok me) m"
  by (rule sys_inv_parts [OF assms(1,2)]; rule keeps_frame [OF assms(3)];
      rule multisig_wf_polity deps_wf_polity; assumption)

lemma sys_inv_gov:
  assumes "keeps (mst get_balance me tok None 0) m" "keeps (calm (token_ok me)) m" "frame gov m"
  shows "keeps (sys_inv tok me) m"
  by (rule sys_inv_polity [OF assms(1,2)]) (rule frame_part [OF assms(3) gov_polity])

text \<open>The calls that change the settings.\<close>

fun sets :: "admin_call \<Rightarrow> bool" where
  "sets (C_update_config a cfg) \<longleftrightarrow> True"
| "sets (C_set_platform_fee a n b) \<longleftrightarrow> True"
| "sets (C_set_creation_quota a m n) \<longleftrightarrow> True"
| "sets _ \<longleftrightarrow> False"

lemma admin_exec_core:
  assumes "\<forall>a b. c \<noteq> C_initialize a b" "\<forall>a. c \<noteq> C_accept_admin_transfer a"
    "\<forall>a. c \<noteq> C_reset_circuit_breaker a" "\<not> sets c"
  shows "frame core (admin_exec E c)"
  using assms by (cases c) (simp_all add: limits_core roles_core suspension_core settings_core
      breaker_config_core)

lemma admin_exec_base:
  assumes "\<forall>a b. c \<noteq> C_initialize a b" "\<forall>a. c \<noteq> C_accept_admin_transfer a"
    "\<forall>a. c \<noteq> C_reset_circuit_breaker a"
  shows "frame base (admin_exec E c)"
  using frame_base [OF admin_exec_core [OF assms]] by (cases c) (simp_all add: settings_base)

text \<open>The three administrative calls that change the admin or the breaker.\<close>

lemma escrow_at_empty [simp]: "escrow_at Map.empty Map.empty = (\<lambda>i. 0)"
  by (simp add: fun_eq_iff escrow_at_def lookup_def)

text \<open>\<open>initialize\<close> is these writes, and then others that leave the core but the settings alone.\<close>

definition first_writes :: "addr \<Rightarrow> addr \<Rightarrow> 't store \<Rightarrow> 't store" where
  "first_writes a b s = set_shipment_counter 0 (set_token_contract b (Store.set_admin a s))"

lemma initialize_base:
  assumes "\<And>t. \<not> Store.is_initialized s \<Longrightarrow> base t = base (first_writes a b s) \<Longrightarrow> P t"
  shows "wp (Admin.initialize E a b) (\<lambda>_. P) s"
proof -
  have "frame base (do_all [
     modify (set_version 1),
     modify (set_company_role a),
     map_err (\<lambda>_. InvalidConfig) (set_config E default_config),
     modify (storage_set_shipment_limit (default_shipment_limit default_config)),
     emit_contract_initialized a b,
     bind (gets get_config) (\<lambda>c. modify (request_ttl True TInstance
       (shipment_ttl_threshold c) (shipment_ttl_extension c)))])" (is "frame base ?rest")
    by ((rule frame_base_config frame_rules | (rule frame_base, rule frame_rules) |
        (rule core_base, simp; fail) | (simp; fail))+)
  then have "wp ?rest (\<lambda>_. P) (first_writes a b s)" if "\<not> Store.is_initialized s"
    using assms that by (blast intro: frame_wp)
  then show ?thesis
    by (simp add: Admin.initialize_def first_writes_def wp_control(4) wp_basic del: do_all.simps)
qed

lemma initialize_mst: "keeps (mst held me tok None 0) (Admin.initialize E a tok)"
  unfolding keeps_def
proof (rule tripleI, rule initialize_base)
  fix s t :: "'a store"
  assume "mst held me tok None 0 s" "\<not> Store.is_initialized s"
    and t: "base t = base (first_writes a tok s)"
  then have "mst held me tok None 0 (first_writes a tok s)"
    by (auto simp: mst_def minv_def Store.is_initialized_def Store.set_admin_def first_writes_def
        set_token_contract_def set_shipment_counter_def ships_wf_def locked_upto_def)
  then show "mst held me tok None 0 t" unfolding mst_base [OF t] .
qed

lemma initialize_calm: "keeps (calm okt) (Admin.initialize E a b)"
  unfolding keeps_def
proof (rule tripleI, rule initialize_base)
  fix s t
  assume "calm okt s" and t: "base t = base (first_writes a b s)"
  then have "calm okt (first_writes a b s)" by (simp add: first_writes_def)
  then show "calm okt t" unfolding calm_base [OF t] .
qed

lemma accept_admin_transfer_mst: "keeps (mst held me tok None 0) (accept_admin_transfer E a)"
proof -
  have admin: "mst held me tok None 0 (Store.set_admin a s)"
    if "mst held me tok None 0 s" "Store.is_initialized s" for s :: "'a store"
    using that by (auto simp: mst_def Store.set_admin_def minv_def Store.is_initialized_def)
  have "frame core (do_all [modify clear_proposed_admin, modify (set_company_role a),
      emit_admin_transferred b a, void (log_admin_transferred E b a)])" (is "frame core (?rest b)") for b
    by ((rule frame_rules | (simp; fail))+)
  note rest = mst_frame [OF this, THEN tripleD, OF admin,
      unfolded wp_control(4) wp_basic]
  show ?thesis
    by (auto simp: accept_admin_transfer_def keeps_def triple_def wp_bind wp_andthen wp_basic wp_access
        wp_storage_get_admin wp_option wp_require_auth wp_control(4) simp del: do_all.simps intro: rest)
qed

lemma accept_admin_transfer_calm: "keeps (calm okt) (accept_admin_transfer E a)"
  unfolding accept_admin_transfer_def
  by (((rule keeps_core, rule frame_modify, simp; fail) | rule keeps_rules |
      (rule keeps_core, rule frame_rules) | (simp; fail))+)

lemma breaker_writes:
  "mst held me tok x k (set_breaker b s) = mst held me tok x k s"
  "calm okt s \<Longrightarrow> calm okt (set_breaker new_tracker s)"
  by (simp_all add: mst_def set_breaker_def calm_def serene_def get_breaker_def new_tracker_def
      is_reentrancy_locked_def)

lemma publish_keeps:
  "mst held me tok x k (Events.publish y ps s) = mst held me tok x k s"
  "calm okt (Events.publish y ps s) = calm okt s"
  by (rule mst_core calm_core, simp)+

lemma reset_circuit_breaker_keeps:
  "keeps (mst held me tok None 0) (reset_circuit_breaker E a)"
  "keeps (calm okt) (reset_circuit_breaker E a)"
  by (simp_all add: reset_circuit_breaker_def manual_reset_def emit_breaker_reset_event_def keeps_def
      triple_def wp_simps publish_keeps breaker_writes)

text \<open>The calls that write proposals and dependencies do not touch the money.\<close>

lemma governance_writes_mst:
  "mst held me tok x k (set_proposal p s) = mst held me tok x k s"
  "mst held me tok x k (set_proposal_counter n s) = mst held me tok x k s"
  "mst held me tok x k (set_admin_list as s) = mst held me tok x k s"
  "mst held me tok x k (set_multisig_threshold n s) = mst held me tok x k s"
  "mst held me tok x k (set_shipment_dependency i j s) = mst held me tok x k s"
  by (simp_all add: mst_def set_proposal_def set_proposal_counter_def set_admin_list_def
      set_multisig_threshold_def set_shipment_dependency_def)

lemma keeps_mst_frame: "frame core m \<Longrightarrow> keeps (mst held me tok None 0) m"
  unfolding keeps_def by (rule mst_frame)

lemma proposals_mst:
  "keeps (mst held me tok None 0) (init_multisig E a as n)"
  "keeps (mst held me tok None 0) (propose_action E a act)"
  "keeps (mst held me tok None 0) (propose_action_with_salt E a act h)"
  "keeps (mst held me tok None 0) (add_shipment_dependency E a i j)"
  unfolding init_multisig_def propose_action_with_salt_def propose_action_def
    add_shipment_dependency_def would_create_cycle_def
  by (((rule keeps_mst_frame, rule frame_modify, simp; fail) | rule keeps_rules |
      (rule keeps_mst_frame, rule frame_rules) | (simp add: governance_writes_mst; fail))+)

lemma reports_mst:
  "keeps (mst held me tok None 0) (report_geofence_event E a i ge h)"
  "keeps (mst held me tok None 0) (update_eta E a i n h)"
  "keeps (mst held me tok None 0) (lib_extend_shipment_ttl i)"
  "keeps (mst held me tok None 0) (append_note_hash E a i h)"
  unfolding report_geofence_event_def update_eta_def lib_extend_shipment_ttl_def append_note_hash_def
  by (((rule keeps_mst_frame, rule frame_modify, simp; fail) | rule keeps_rules |
      (rule keeps_mst_frame, rule frame_rules) | (simp; fail))+)

section \<open>The invariant of the system\<close>

lemma admin_exec_inv:
  assumes "sys_legal tok me (Admin_call E c)"
  shows "keeps (sys_inv tok me) (admin_exec (navin_env tok me E) c)"
proof -
  consider a where "c = C_initialize a tok" | a where "c = C_accept_admin_transfer a"
    | a where "c = C_reset_circuit_breaker a"
    | "\<forall>a b. c \<noteq> C_initialize a b" "\<forall>a. c \<noteq> C_accept_admin_transfer a"
      "\<forall>a. c \<noteq> C_reset_circuit_breaker a"
    using assms by (cases c) auto
  then show ?thesis
  proof cases
    case 4
    show ?thesis by (rule keeps_frame [OF admin_exec_base [OF 4]]) (rule sys_inv_base)
  qed (simp_all add: sys_inv_gov sys_inv_polity initialize_polity initialize_mst initialize_calm accept_admin_transfer_mst
      accept_admin_transfer_calm reset_circuit_breaker_keeps admin_key_gov)
qed

lemmas shipments_mst = navin_custody.deposit_escrow_mst navin_custody.release_escrow_mst
  navin_custody.refund_escrow_mst navin_custody.set_shipment_metadata_mst
  navin_custody.add_dispute_evidence_hash_mst navin_custody.update_status_mst
  navin_custody.confirm_delivery_mst navin_custody.confirm_partial_delivery_mst
  navin_custody.cancel_shipment_mst navin_custody.raise_dispute_mst navin_custody.handoff_shipment_mst
  navin_custody.resolve_dispute_mst navin_custody.force_cancel_shipment_mst
  navin_custody.check_deadline_mst navin_custody.report_condition_breach_mst
  navin_custody.record_milestone_mst navin_custody.record_milestones_batch_mst
  navin_custody.release_milestone_payment_mst create_shipment_mst create_shipments_batch_mst
  archive_shipment_mst navin_custody.recover_shipment_mst navin_custody.unlock_escrow_mst
  navin_custody.clear_finalization_mst navin_custody.rollback_on_external_failure_mst
  navin_custody.execute_proposal_mst navin_custody.approve_action_mst

lemmas shipments_calm = navin_host.deposit_escrow_calm navin_host.release_escrow_calm
  navin_host.refund_escrow_calm navin_host.creation_calm navin_host.create_shipments_batch_calm
  navin_host.status_calm navin_host.archive_shipment_calm navin_host.reports_calm
  navin_host.milestones_calm navin_host.record_milestones_batch_calm navin_host.ending_calm
  navin_host.resolve_dispute_calm navin_host.recovery_calm navin_host.proposals_calm
  navin_host.execution_calm navin_host.add_shipment_dependency_calm

lemmas shipments_gov = escrow_gov creation_gov create_shipments_batch_gov status_gov reports_gov
  milestones_gov record_milestones_batch_gov ending_gov recovery_gov

lemma keeps_void: "keeps P m \<Longrightarrow> keeps P (void m)"
  by (simp add: keeps_def triple_def wp_void)

lemma life_exec_inv: "keeps (sys_inv tok me) (life_exec (navin_env tok me E) c)"
  by (cases c) (simp_all add: sys_inv_gov keeps_void shipments_mst [folded keeps_def]
      shipments_calm shipments_gov reports_mst)

lemma keeps_dependents: "frame k_ShipmentDependents m \<Longrightarrow> keeps deps_wf m"
  by (erule keeps_frame) (rule deps_wf_dependents)

lemma keeps_gov: "frame gov m \<Longrightarrow> keeps multisig_wf m" "frame gov m \<Longrightarrow> keeps deps_wf m"
  by (erule keeps_frame, rule multisig_wf_gov deps_wf_gov, assumption)+

lemma gov_exec_inv: "keeps (sys_inv tok me) (gov_exec (navin_env tok me E) c)"
  by (cases c) (simp_all add: keeps_void sys_inv_parts proposals_mst shipments_calm
      keeps_dependents proposals_deps init_multisig_wf propose_action_wf execution_wf
      add_shipment_dependency_wf add_shipment_dependency_proposals keeps_gov recovery_gov
      shipments_mst [folded keeps_def])

lemma gov_outer [simp]:
  "multisig_wf (s\<lparr>tokens := t\<rparr>) = multisig_wf s" "deps_wf (s\<lparr>tokens := t\<rparr>) = deps_wf s"
  "multisig_wf (s\<lparr>k_ArchivedShipment := a\<rparr>) = multisig_wf s"
  "deps_wf (s\<lparr>k_ArchivedShipment := a\<rparr>) = deps_wf s"
  by (rule multisig_wf_polity deps_wf_polity, simp add: polity_def)+

lemma sys_inv_init: "sys_inv tok me sys_init"
  by (simp add: sys_inv_def sys_init_def mst_def minv_def store_init_def ships_wf_def locked_upto_def
      unwrap_or_def calm_def serene_def get_breaker_def new_tracker_def is_reentrancy_locked_def
      token_ok_def navin.Inv_init no_allowance_def token_init_def multisig_wf_def proposals_wf_def
      group_wf_def deps_wf_def dep_edges_def deps_of_def get_shipment_dependents_def get_balance_def
      token_inv_def supply_of_def balances_sum_def i128_max_def acyclic_def)

lemma token_call_inv:
  assumes "sys_inv tok me s" "outsider me (Es, c)"
  shows "wp (on_tokens (token_entry (Es, c))) (\<lambda>_. sys_inv tok me) s"
proof -
  have ok: "token_ok me (tokens s)" using assms(1) by (simp add: sys_inv_def calm_def serene_def)
  have "wp (token_entry (Es, c)) (\<lambda>_. token_inv) (tokens s)"
    using ok assms(2) by (intro navin.Inv_entry) (auto simp: token_ok_def outsider_def)
  with outsider_safe [OF ok assms(2)]
  have "wp (token_entry (Es, c))
      (\<lambda>_ t. safe_for me (get_balance me (tokens s)) t \<and> token_inv t) (tokens s)"
    by (rule wp_conj)
  then have "wp (token_entry (Es, c)) (\<lambda>_ t. sys_inv tok me (s\<lparr>tokens := t\<rparr>)) (tokens s)"
    by (rule wp_mono) (use assms(1) in \<open>auto simp: sys_inv_def mst_def calm_def serene_def token_ok_def
        safe_for_def get_breaker_def is_reentrancy_locked_def elim: minv_hold\<close>)
  then show ?thesis by (simp add: wp_on_tokens)
qed

interpretation navin_system: contract_invariant "sys_legal tok me" "sys_entry tok me" sys_init
    "sys_inv tok me" for tok me
proof
  show "sys_inv tok me sys_init" by (rule sys_inv_init)
next
  fix s c
  assume inv: "sys_inv tok me s" and legal: "sys_legal tok me c"
  show "wp (sys_entry tok me c) (\<lambda>_. sys_inv tok me) s"
  proof (cases c)
    case (Admin_call E d)
    then show ?thesis using keepsD [OF admin_exec_inv inv] legal by (simp add: wp_map_err)
  next
    case (Life_call E d)
    then show ?thesis using keepsD [OF life_exec_inv inv] by (simp add: wp_map_err)
  next
    case (Gov_call E d)
    then show ?thesis using keepsD [OF gov_exec_inv inv] by (simp add: wp_map_err)
  next
    case (Token_call Es d)
    then show ?thesis using token_call_inv [OF inv] legal by (simp add: wp_map_err)
  next
    case (Expire_archived i)
    then show ?thesis
      using inv by (auto simp: wp_simps sys_inv_def mst_def calm_def serene_def get_breaker_def
          is_reentrancy_locked_def intro: minv_expire)
  next
    case (Expire_window h)
    have "core (s\<lparr>k_IdempotencyWindow := m\<rparr>) = core s" for m by (simp add: core_parts)
    note sys_inv_core [OF this]
    with Expire_window inv show ?thesis by (simp add: wp_simps)
  qed
qed

section \<open>A run of the system\<close>

text \<open>
  The token at 50 and the shipment contract at 99 are set up, company 2 ships to 4 with carrier 3,
  pays 500 into escrow, and the carrier starts.
\<close>

definition run_env :: "nat \<Rightarrow> token_state env" where
  "run_env now = sample_ship_env (\<lambda>_ _ _ _ _. None) (\<lambda>_ _. None) now (\<lambda>_. True)"

definition sample_calls :: "sys_call list" where
  "sample_calls = [
     Token_call (sample_env\<lparr>authorized := (\<lambda>a. a = 1)\<rparr>) (Initialize 1 ''Navin'' ''NVN'' 1000),
     Token_call (sample_env\<lparr>authorized := (\<lambda>a. a = 1)\<rparr>) (Transfer 1 2 800),
     Admin_call (run_env 1000) (C_initialize 1 50),
     Admin_call (run_env 1001) (C_add_company 1 2),
     Admin_call (run_env 1002) (C_add_carrier 1 3),
     Admin_call (run_env 1003) (C_add_carrier_to_whitelist 2 3),
     Life_call (run_env 1010) (C_create_shipment 2 4 3 [7] [] 9000),
     Life_call (run_env 1020) (C_deposit_escrow 2 1 500),
     Life_call (run_env 1100) (C_update_status 3 1 InTransit [8])]"

definition sample_sys :: "token_state store" where
  "sample_sys = run_calls (sys_entry 50 99) sample_calls sys_init"

lemma sample_sys_reachable: "reachable (sys_legal 50 99) (sys_entry 50 99) sys_init sample_sys"
  unfolding sample_sys_def
  by (rule run_calls_reachable) (simp add: sample_calls_def outsider_def token_legal_def in_i128_def
      i128_max_def i128_min_def)

lemma run_env_simps [simp]:
  "sha256 (navin_env tok me (run_env n)) bs = 1 # bs"
  "token_decimals (navin_env tok me (run_env n)) tk x = (if tk = tok then Some 7 else None)"
  "authorized (run_env n) a" "timestamp (run_env n) = n"
  by (simp_all add: navin_env_def run_env_def sample_ship_env_def token_decimals_of_def decimals_def
      run_simps)

lemmas exec_token = token_entry_def Token.initialize_def Token.transfer_def
  Token.require_initialized_def Token.require_not_paused_def Token.is_initialized_def
  get_balance_def set_balance_def set_total_supply_def Token.set_admin_def set_name_def
  set_symbol_def token_init_def Token.publish_def extend_balance_ttl_def Token.storage_is_paused_def
  token_env_def navin_transfer_def

lemma sample_sys_shipment:
  "\<exists>sh. storage_get_shipment 1 sample_sys = Some sh \<and> sh_escrow_amount sh = 500"
  by (simp add: sample_sys_def sample_calls_def invoke_def on_tokens_def exec_token sys_init_def
      Admin.initialize_def add_company_def exec compute_config_checksum_def add_carrier_def
      add_carrier_to_whitelist_def create_shipment_def new_shipment_def deposit_escrow_def
      update_status_def dependencies_met_def)

text \<open>Three admins are set up and one of them makes a proposal.\<close>

definition sample_group :: "token_state store" where
  "sample_group = run_calls (sys_entry 50 99) [
     Admin_call (run_env 1000) (C_initialize 1 50),
     Gov_call (run_env 1004) (C_init_multisig 1 [1, 5, 6] 2),
     Gov_call (run_env 1005) (C_propose_action 5 (TransferAdmin 6))] sys_init"

lemma sample_group_reachable: "reachable (sys_legal 50 99) (sys_entry 50 99) sys_init sample_group"
  unfolding sample_group_def by (rule run_calls_reachable) simp

lemma sample_group_parts:
  "\<exists>p. storage_get_proposal 1 sample_group = Some p" "get_admin_list sample_group = Some [1, 5, 6]"
  by (simp_all add: sample_group_def invoke_def sys_init_def Admin.initialize_def exec
      compute_config_checksum_def init_multisig_def propose_action_def zero_upgrade_def)

section \<open>Properties\<close>

lemmas reachable_inv = navin_system.Inv_reachable [unfolded sys_inv_def]



text \<open>
  C2. Every shipment that can be found is filed under its own number, which has been handed out; its
  escrow is between 0 and what was deposited for it; and a finalised one is delivered or
  cancelled and has no escrow left.
\<close>

theorem shipments_well_formed:
  assumes "reachable (sys_legal tok me) (sys_entry tok me) sys_init s"
    and "storage_get_shipment i s = Some sh"
  shows "sh_id sh = i \<and> 1 \<le> i \<and> i \<le> storage_get_shipment_counter s \<and>
     0 \<le> sh_escrow_amount sh \<and> sh_escrow_amount sh \<le> sh_total_escrow sh \<and>
     (sh_finalized sh \<longrightarrow> sh_status sh \<in> {Delivered, Cancelled} \<and> sh_escrow_amount sh = 0)"
proof -
  have "minv tok (k_Shipment s) (k_ArchivedShipment s) (k_ShipmentCount s) (k_Admin s)
      (k_TokenContract s) (get_balance me (tokens s))"
    using reachable_inv [OF assms(1)] by (simp add: mst_def)
  from minv_lookup [OF this] assms(2) show ?thesis
    by (auto simp: ship_ok_def storage_get_shipment_counter_def)
qed

theorem shipments_well_formed_witness:
  "\<exists>sh. storage_get_shipment 1 sample_sys = Some sh \<and> sh_escrow_amount sh = 500 \<and>
     sh_id sh = 1 \<and> sh_escrow_amount sh \<le> sh_total_escrow sh"
proof -
  obtain sh where "storage_get_shipment 1 sample_sys = Some sh" "sh_escrow_amount sh = 500"
    using sample_sys_shipment by blast
  with shipments_well_formed [OF sample_sys_reachable this(1)] show ?thesis by blast
qed

text \<open>
  C24. Between calls the reentrancy lock is free and the circuit breaker is closed with no failure
  counted: a failed token call makes the entry point return an error, so the host also undoes the
  failure the breaker had recorded.
\<close>

theorem lock_free_breaker_closed:
  assumes "reachable (sys_legal tok me) (sys_entry tok me) sys_init s"
  shows "\<not> is_reentrancy_locked s \<and> cb_state (get_breaker s) = Closed \<and>
     cb_failure_count (get_breaker s) = 0"
  using reachable_inv [OF assms] by (simp add: calm_def serene_def)

theorem lock_free_breaker_closed_witness:
  "reachable (sys_legal 50 99) (sys_entry 50 99) sys_init sample_sys \<and>
   \<not> is_reentrancy_locked sample_sys \<and> cb_state (get_breaker sample_sys) = Closed"
  using lock_free_breaker_closed [OF sample_sys_reachable] sample_sys_reachable by blast

text \<open>
  C20. Proposals are filed under their numbers and nobody is counted twice among the approvals of one;
  the members of a configured admin group are distinct and the threshold can be reached.
\<close>

theorem governance_well_formed:
  assumes "reachable (sys_legal tok me) (sys_entry tok me) sys_init s"
  shows "(\<forall>i p. storage_get_proposal i s = Some p \<longrightarrow>
       pr_id p = i \<and> distinct (pr_approvals p) \<and> pr_approvals p \<noteq> []) \<and>
     (\<forall>as. get_admin_list s = Some as \<longrightarrow> distinct as \<and>
       (\<exists>n. get_multisig_threshold s = Some n \<and> 1 \<le> n \<and> n \<le> length as))"
  using reachable_inv [OF assms]
  by (auto simp: multisig_wf_def proposals_wf_def group_wf_def storage_get_proposal_def
      get_admin_list_def get_multisig_threshold_def split: option.splits)

theorem governance_well_formed_witness:
  "(\<exists>p. storage_get_proposal 1 sample_group = Some p \<and> pr_id p = 1 \<and> distinct (pr_approvals p)) \<and>
   (\<exists>n. get_multisig_threshold sample_group = Some n \<and> 1 \<le> n \<and> n \<le> length [1, 5, 6 :: addr])"
  using governance_well_formed [OF sample_group_reachable] sample_group_parts by blast

text \<open>
  C19. The prerequisites of shipments never form a cycle, and the search for one that
  \<open>add_shipment_dependency\<close> makes always ends with the right answer: whether the prerequisite already
  depends, directly or not, on the dependent.
\<close>

theorem dependencies_acyclic:
  assumes "reachable (sys_legal tok me) (sys_entry tok me) sys_init s"
  shows "acyclic (dep_edges (\<lambda>i. get_shipment_dependents i s)) \<and>
     would_create_cycle d p s =
       (Inr ((p, d) \<in> (dep_edges (\<lambda>i. get_shipment_dependents i s))\<^sup>*), s)"
  using reachable_inv [OF assms] would_create_cycle_run [of s d p]
  by (simp add: deps_wf_def deps_of_def [abs_def])

theorem dependencies_acyclic_witness:
  "reachable (sys_legal 50 99) (sys_entry 50 99) sys_init sample_sys \<and>
   acyclic (dep_edges (\<lambda>i. get_shipment_dependents i sample_sys)) \<and>
   would_create_cycle 1 2 sample_sys =
     (Inr ((2, 1) \<in> (dep_edges (\<lambda>i. get_shipment_dependents i sample_sys))\<^sup>*), sample_sys)"
  by (rule conjI [OF sample_sys_reachable dependencies_acyclic [OF sample_sys_reachable]])

end
