(* ===== verification/Access.thy ===== *)
theory Access
  imports System
begin

text \<open>
  Who may call what. The guards of the entry points are spread over their bodies; the tables of this
  theory say, per call, whose signature it needs, what authority the signer must have, and whether a
  pause stops it.
\<close>

section \<open>Signatures\<close>

fun admin_signer :: "admin_call \<Rightarrow> addr option" where
  "admin_signer (C_initialize a b) = None"
| "admin_signer (C_set_shipment_limit a n) = Some a"
| "admin_signer (C_set_company_shipment_limit a b n) = Some a"
| "admin_signer (C_add_carrier_to_whitelist a b) = Some a"
| "admin_signer (C_remove_carrier_from_whitelist a b) = Some a"
| "admin_signer (C_add_company a b) = Some a"
| "admin_signer (C_add_carrier a b) = Some a"
| "admin_signer (C_add_guardian a b) = Some a"
| "admin_signer (C_add_operator a b) = Some a"
| "admin_signer (C_revoke_role a b) = Some a"
| "admin_signer (C_remove_guardian a b) = Some a"
| "admin_signer (C_remove_operator a b) = Some a"
| "admin_signer (C_suspend_role a b) = Some a"
| "admin_signer (C_reactivate_role a b) = Some a"
| "admin_signer (C_suspend_carrier a b) = Some a"
| "admin_signer (C_reactivate_carrier a b) = Some a"
| "admin_signer (C_suspend_company a b) = Some a"
| "admin_signer (C_reactivate_company a b) = Some a"
| "admin_signer (C_transfer_admin a b) = Some a"
| "admin_signer (C_accept_admin_transfer a) = Some a"
| "admin_signer (C_upgrade a h n) = Some a"
| "admin_signer (C_pause a) = Some a"
| "admin_signer (C_unpause a) = Some a"
| "admin_signer (C_update_config a c) = Some a"
| "admin_signer (C_set_platform_fee a n b) = Some a"
| "admin_signer (C_set_creation_quota a m n) = Some a"
| "admin_signer (C_reset_circuit_breaker a) = Some a"
| "admin_signer (C_set_circuit_breaker_config a p) = Some a"

fun life_signer :: "life_call \<Rightarrow> addr option" where
  "life_signer (C_create_shipment a b c h ms dl) = Some a"
| "life_signer (C_create_shipments_batch a inps) = Some a"
| "life_signer (C_set_shipment_metadata a i y z) = Some a"
| "life_signer (C_append_note_hash a i h) = Some a"
| "life_signer (C_add_dispute_evidence_hash a i h) = Some a"
| "life_signer (C_deposit_escrow a i v) = Some a"
| "life_signer (C_release_escrow a i) = Some a"
| "life_signer (C_refund_escrow a i) = Some a"
| "life_signer (C_update_status a i st h) = Some a"
| "life_signer (C_archive_shipment a i) = Some a"
| "life_signer (C_confirm_delivery a i h) = Some a"
| "life_signer (C_confirm_partial_delivery a i h n) = Some a"
| "life_signer (C_report_geofence_event a i ge h) = Some a"
| "life_signer (C_update_eta a i n h) = Some a"
| "life_signer (C_record_milestone a i y h) = Some a"
| "life_signer (C_record_milestones_batch a i its) = Some a"
| "life_signer (C_release_milestone_payment a i y) = Some a"
| "life_signer (C_extend_shipment_ttl i) = None"
| "life_signer (C_cancel_shipment a i h) = Some a"
| "life_signer (C_force_cancel_shipment a i h) = Some a"
| "life_signer (C_check_deadline i) = None"
| "life_signer (C_raise_dispute a i h) = Some a"
| "life_signer (C_resolve_dispute a i r h) = Some a"
| "life_signer (C_handoff_shipment a b i h) = Some a"
| "life_signer (C_report_condition_breach a i b v h) = Some a"

fun gov_signer :: "gov_call \<Rightarrow> addr option" where
  "gov_signer (C_init_multisig a as n) = Some a"
| "gov_signer (C_propose_action a act) = Some a"
| "gov_signer (C_propose_action_with_salt a act h) = Some a"
| "gov_signer (C_approve_action a i) = Some a"
| "gov_signer (C_execute_proposal i) = None"
| "gov_signer (C_recover_shipment a i st h) = Some a"
| "gov_signer (C_unlock_escrow a i h) = Some a"
| "gov_signer (C_clear_finalization a i h) = Some a"
| "gov_signer (C_rollback_on_external_failure a i st h) = Some a"
| "gov_signer (C_add_shipment_dependency a i j) = Some a"

fun signed :: "sys_call \<Rightarrow> bool" where
  "signed (Admin_call E c) \<longleftrightarrow> (\<forall>a. admin_signer c = Some a \<longrightarrow> authorized E a)"
| "signed (Life_call E c) \<longleftrightarrow> (\<forall>a. life_signer c = Some a \<longrightarrow> authorized E a)"
| "signed (Gov_call E c) \<longleftrightarrow> (\<forall>a. gov_signer c = Some a \<longrightarrow> authorized E a)"
| "signed _ \<longleftrightarrow> True"

lemmas admin_defs = set_shipment_limit_def set_company_shipment_limit_def
  add_carrier_to_whitelist_def remove_carrier_from_whitelist_def add_company_def add_carrier_def
  add_guardian_def add_operator_def revoke_role_def remove_guardian_def remove_operator_def
  suspend_role_def reactivate_role_def suspend_carrier_def reactivate_carrier_def
  suspend_company_def reactivate_company_def Admin.transfer_admin_def accept_admin_transfer_def
  upgrade_def Admin.pause_def Admin.unpause_def update_config_def set_platform_fee_def
  set_creation_quota_def reset_circuit_breaker_def manual_reset_def set_circuit_breaker_config_def

lemmas life_defs = create_shipment_def create_shipments_batch_def set_shipment_metadata_def
  append_note_hash_def add_dispute_evidence_hash_def deposit_escrow_def release_escrow_def
  refund_escrow_def update_status_def archive_shipment_def confirm_delivery_def
  confirm_partial_delivery_def report_geofence_event_def update_eta_def record_milestone_def
  record_milestones_batch_def release_milestone_payment_def cancel_shipment_def
  force_cancel_shipment_def raise_dispute_def resolve_dispute_def handoff_shipment_def
  report_condition_breach_def

lemmas gov_defs = init_multisig_def propose_action_def propose_action_with_salt_def
  approve_action_def recover_shipment_def unlock_escrow_def clear_finalization_def
  rollback_on_external_failure_def recovery_recover_shipment_def recovery_unlock_escrow_def
  recovery_clear_finalization_def recovery_rollback_on_external_failure_def
  add_shipment_dependency_def

section \<open>Demands\<close>

text \<open>
  \<open>demands P m\<close>: \<open>m\<close> succeeds only from states with \<open>P\<close>. The rules find the guard that says so behind
  others that change nothing.
\<close>

definition demands :: "('s \<Rightarrow> bool) \<Rightarrow> ('s, 'e, 'a) comp \<Rightarrow> bool" where
  "demands P m \<longleftrightarrow> (\<forall>s. wp m (\<lambda>_ _. P s) s)"

lemma demandsD: "demands P m \<Longrightarrow> m s = (Inr x, t) \<Longrightarrow> P s"
  by (auto simp: demands_def dest: wpD)

lemma demands_guard: "(\<And>K s. wp m K s = (P s \<longrightarrow> K () s)) \<Longrightarrow> demands P m"
  by (simp add: demands_def)

lemma demands_conseq:
  assumes "demands P m" "\<And>s. P s \<Longrightarrow> Q s"
  shows "demands Q m"
  unfolding demands_def
proof
  fix s
  from assms(1) have "wp m (\<lambda>_ _. P s) s" by (simp add: demands_def)
  then show "wp m (\<lambda>_ _. Q s) s" by (rule wp_mono) (rule assms(2))
qed

lemma demands_bind_first:
  assumes "demands P m"
  shows "demands P (bind m f)"
  unfolding demands_def wp_bind
proof
  fix s
  from assms have "wp m (\<lambda>_ _. P s) s" by (simp add: demands_def)
  then show "wp m (\<lambda>x. wp (f x) (\<lambda>_ _. P s)) s" by (rule wp_mono) (simp add: wp_top)
qed

lemma demands_first:
  "demands P m \<Longrightarrow> demands P (andthen m n)" "demands P k \<Longrightarrow> demands P (do_all (k # ms))"
  by (simp_all add: andthen_def demands_bind_first)

text \<open>A step that changes nothing can be skipped; any step can if \<open>P\<close> is not about the state.\<close>

lemma demands_bind_skip:
  assumes "frame (\<lambda>s. s) m" "\<And>x. demands P (f x)"
  shows "demands P (bind m f)"
  unfolding demands_def wp_bind
proof
  fix s
  show "wp m (\<lambda>x. wp (f x) (\<lambda>_ _. P s)) s"
    by (rule frame_wp [OF assms(1)]) (use assms(2) in \<open>simp add: demands_def\<close>)
qed

lemma demands_skip:
  "frame (\<lambda>s. s) m \<Longrightarrow> demands P n \<Longrightarrow> demands P (andthen m n)"
  "frame (\<lambda>s. s) k \<Longrightarrow> demands P (do_all ms) \<Longrightarrow> demands P (do_all (k # ms))"
  by (simp_all add: andthen_def demands_bind_skip)

lemma demands_later: "demands (\<lambda>_. b) n \<Longrightarrow> demands (\<lambda>_. b) (andthen m n)"
  by (auto simp: demands_def wp_andthen intro: wpI)

lemma demands_void: "demands P m \<Longrightarrow> demands P (void m)"
  by (simp add: demands_def wp_void)

lemma demands_auth: "demands (\<lambda>_. authorized E a) (require_auth E a)"
  by (rule demands_guard) (simp add: wp_simps)

lemmas wp_prefix = wp_bind wp_andthen wp_basic wp_control wp_option wp_void wp_require_auth wp_access
  wp_require_admin wp_require_admin_or wp_require_role wp_storage_get_admin

lemmas find_guard = demands_void demands_first [OF demands_auth] demands_skip demands_bind_skip

lemma admin_exec_signed:
  "admin_signer c = Some a \<Longrightarrow> demands (\<lambda>_. authorized E a) (admin_exec E c)"
  by (cases c) (auto simp: admin_defs simp del: do_all.simps intro: find_guard frame_rules)

lemma life_exec_signed:
  "life_signer c = Some a \<Longrightarrow> demands (\<lambda>_. authorized E a) (life_exec E c)"
  by (cases c) (auto simp: life_defs simp del: do_all.simps intro: find_guard frame_rules)

lemma gov_exec_signed:
  assumes "gov_signer c = Some a"
  shows "demands (\<lambda>_. authorized E a) (gov_exec E c)"
proof (cases c)
  case (C_propose_action_with_salt b act h)
  show ?thesis
    using assms unfolding C_propose_action_with_salt
    by (simp add: propose_action_with_salt_def propose_action_def)
      (rule demands_void, ((rule demands_first(1) [OF demands_auth] | rule demands_later)+))
qed (use assms in \<open>auto simp: gov_defs simp del: do_all.simps intro: find_guard frame_rules\<close>)

lemma map_err_Inr: "map_err g m s = (Inr x, t) \<longleftrightarrow> m s = (Inr x, t)"
  by (auto simp: map_err_def split: prod.splits sum.splits failure.splits)

section \<open>Authority\<close>

datatype authority =
    Anyone
  | Admin_only addr
  | Admin_or_operator addr
  | Admin_or_guardian addr
  | Company_role addr
  | Proposed_admin addr
  | Group_member addr

fun granted :: "authority \<Rightarrow> 't store \<Rightarrow> bool" where
  "granted Anyone s \<longleftrightarrow> True"
| "granted (Admin_only a) s \<longleftrightarrow> k_Admin s = Some a"
| "granted (Admin_or_operator a) s \<longleftrightarrow>
     k_Admin s = Some a \<or> has_role a Operator s \<and> \<not> is_role_suspended a Operator s"
| "granted (Admin_or_guardian a) s \<longleftrightarrow>
     k_Admin s = Some a \<or> has_role a Guardian s \<and> \<not> is_role_suspended a Guardian s"
| "granted (Company_role a) s \<longleftrightarrow> has_role a Company s \<and> \<not> is_role_suspended a Company s \<and>
     \<not> storage_is_company_suspended a s"
| "granted (Proposed_admin a) s \<longleftrightarrow> k_ProposedAdmin s = Some a"
| "granted (Group_member a) s \<longleftrightarrow> (\<exists>as. k_AdminList s = Some as \<and> a \<in> set as)"

fun admin_authority :: "admin_call \<Rightarrow> authority" where
  "admin_authority (C_initialize a b) = Anyone"
| "admin_authority (C_set_shipment_limit a n) = Admin_only a"
| "admin_authority (C_set_company_shipment_limit a b n) = Admin_only a"
| "admin_authority (C_add_carrier_to_whitelist a b) = Company_role a"
| "admin_authority (C_remove_carrier_from_whitelist a b) = Company_role a"
| "admin_authority (C_add_company a b) = Admin_or_operator a"
| "admin_authority (C_add_carrier a b) = Admin_or_operator a"
| "admin_authority (C_add_guardian a b) = Admin_only a"
| "admin_authority (C_add_operator a b) = Admin_only a"
| "admin_authority (C_revoke_role a b) = Admin_only a"
| "admin_authority (C_remove_guardian a b) = Admin_only a"
| "admin_authority (C_remove_operator a b) = Admin_only a"
| "admin_authority (C_suspend_role a b) = Admin_only a"
| "admin_authority (C_reactivate_role a b) = Admin_only a"
| "admin_authority (C_suspend_carrier a b) = Admin_or_operator a"
| "admin_authority (C_reactivate_carrier a b) = Admin_or_operator a"
| "admin_authority (C_suspend_company a b) = Admin_or_operator a"
| "admin_authority (C_reactivate_company a b) = Admin_or_operator a"
| "admin_authority (C_transfer_admin a b) = Admin_only a"
| "admin_authority (C_accept_admin_transfer a) = Proposed_admin a"
| "admin_authority (C_upgrade a h n) = Admin_only a"
| "admin_authority (C_pause a) = Admin_or_guardian a"
| "admin_authority (C_unpause a) = Admin_or_guardian a"
| "admin_authority (C_update_config a c) = Admin_only a"
| "admin_authority (C_set_platform_fee a n b) = Admin_only a"
| "admin_authority (C_set_creation_quota a m n) = Admin_only a"
| "admin_authority (C_reset_circuit_breaker a) = Group_member a"
| "admin_authority (C_set_circuit_breaker_config a p) = Admin_only a"

fun gov_authority :: "gov_call \<Rightarrow> authority" where
  "gov_authority (C_init_multisig a as n) = Admin_only a"
| "gov_authority (C_propose_action a act) = Group_member a"
| "gov_authority (C_propose_action_with_salt a act h) = Group_member a"
| "gov_authority (C_approve_action a i) = Group_member a"
| "gov_authority (C_execute_proposal i) = Anyone"
| "gov_authority (C_recover_shipment a i st h) = Admin_only a"
| "gov_authority (C_unlock_escrow a i h) = Admin_only a"
| "gov_authority (C_clear_finalization a i h) = Admin_only a"
| "gov_authority (C_rollback_on_external_failure a i st h) = Admin_only a"
| "gov_authority (C_add_shipment_dependency a i j) = Anyone"

lemma demands_granted:
  "demands (granted (Admin_only a)) (require_admin a)"
  "demands (granted (Admin_or_operator a)) (require_admin_or_operator a)"
  "demands (granted (Admin_or_guardian a)) (require_admin_or_guardian a)"
  "demands (granted (Company_role a)) (require_role a Company)"
  "demands (granted (Group_member a)) (fail_when (\<lambda>s. \<not> is_admin a s) e)"
  by (auto simp: demands_def wp_prefix admin_is_def role_ok_def is_admin_def
      get_admin_list_def has_company_role_def wp_top split: option.splits)

lemma demands_proposed:
  "demands (granted (Proposed_admin a))
     (bind (gets get_proposed_admin) (\<lambda>x. bind (ok_or x e) (\<lambda>p. andthen (fail_if (p \<noteq> a) d) (m p))))"
  by (auto simp: demands_def wp_prefix wp_top get_proposed_admin_def)

lemmas find_granted = demands_first [OF demands_granted(1)] demands_first [OF demands_granted(2)]
  demands_first [OF demands_granted(3)] demands_first [OF demands_granted(4)]
  demands_first [OF demands_granted(5)] demands_void demands_skip demands_bind_skip

lemma demands_True: "demands (granted Anyone) m"
  by (simp add: demands_def wp_top)

lemma accept_granted: "demands (granted (Proposed_admin a)) (accept_admin_transfer E a)"
  unfolding accept_admin_transfer_def
  by (rule demands_skip, rule frame_rules)+ (rule demands_proposed)

lemma admin_exec_granted: "demands (granted (admin_authority c)) (admin_exec E c)"
proof (cases c)
  case (C_accept_admin_transfer a)
  then show ?thesis by (simp add: accept_granted del: granted.simps)
qed (auto simp: admin_defs simp del: do_all.simps granted.simps
    intro: find_granted frame_rules demands_True)

lemma gov_exec_granted: "demands (granted (gov_authority c)) (gov_exec E c)"
  by (cases c) (auto simp: gov_defs simp del: do_all.simps granted.simps
      intro: find_granted frame_rules demands_True)

section \<open>Parties\<close>

text \<open>The shipment a call is about, and who of its parties may make the call.\<close>

fun shipment_of :: "life_call \<Rightarrow> nat option" where
  "shipment_of (C_release_escrow a i) = Some i"
| "shipment_of (C_refund_escrow a i) = Some i"
| "shipment_of (C_update_status a i st h) = Some i"
| "shipment_of (C_confirm_delivery a i h) = Some i"
| "shipment_of (C_confirm_partial_delivery a i h n) = Some i"
| "shipment_of (C_report_geofence_event a i ge h) = Some i"
| "shipment_of (C_update_eta a i n h) = Some i"
| "shipment_of (C_record_milestone a i y h) = Some i"
| "shipment_of (C_record_milestones_batch a i its) = Some i"
| "shipment_of (C_release_milestone_payment a i y) = Some i"
| "shipment_of (C_cancel_shipment a i h) = Some i"
| "shipment_of (C_raise_dispute a i h) = Some i"
| "shipment_of (C_handoff_shipment a b i h) = Some i"
| "shipment_of (C_report_condition_breach a i b v h) = Some i"
| "shipment_of _ = None"

fun party :: "life_call \<Rightarrow> addr option \<Rightarrow> Shipment \<Rightarrow> bool" where
  "party (C_release_escrow a i) ad sh \<longleftrightarrow> a = sh_receiver sh \<or> Some a = ad"
| "party (C_refund_escrow a i) ad sh \<longleftrightarrow> a = sh_sender sh \<or> Some a = ad"
| "party (C_update_status a i st h) ad sh \<longleftrightarrow> a = sh_carrier sh \<or> Some a = ad"
| "party (C_confirm_delivery a i h) ad sh \<longleftrightarrow> a = sh_receiver sh"
| "party (C_confirm_partial_delivery a i h n) ad sh \<longleftrightarrow> a = sh_receiver sh"
| "party (C_report_geofence_event a i ge h) ad sh \<longleftrightarrow> a = sh_carrier sh"
| "party (C_update_eta a i n h) ad sh \<longleftrightarrow> a = sh_carrier sh"
| "party (C_record_milestone a i y h) ad sh \<longleftrightarrow> a = sh_carrier sh"
| "party (C_record_milestones_batch a i its) ad sh \<longleftrightarrow> a = sh_carrier sh"
| "party (C_release_milestone_payment a i y) ad sh \<longleftrightarrow> a = sh_carrier sh \<or> Some a = ad"
| "party (C_cancel_shipment a i h) ad sh \<longleftrightarrow> a = sh_sender sh \<or> Some a = ad"
| "party (C_raise_dispute a i h) ad sh \<longleftrightarrow>
     a = sh_sender sh \<or> a = sh_receiver sh \<or> a = sh_carrier sh"
| "party (C_handoff_shipment a b i h) ad sh \<longleftrightarrow> a = sh_carrier sh"
| "party (C_report_condition_breach a i b v h) ad sh \<longleftrightarrow> a = sh_carrier sh"
| "party _ ad sh \<longleftrightarrow> True"

definition made_by_party :: "life_call \<Rightarrow> nat \<Rightarrow> 't store \<Rightarrow> bool" where
  "made_by_party c i s \<longleftrightarrow>
     (\<exists>sh. storage_get_shipment i s = Some sh \<and> \<not> sh_finalized sh \<and> party c (k_Admin s) sh)"

text \<open>Walking through the guards of a handler with what each of them leaves.\<close>

lemma walk_bind:
  "(\<And>sh. storage_get_shipment i s = Some sh \<Longrightarrow> wp (f sh) (\<lambda>_ _. b) s) \<Longrightarrow>
     wp (bind (find_shipment i) f) (\<lambda>_ _. b) s"
  "(\<And>ad. k_Admin s = Some ad \<Longrightarrow> wp (g ad) (\<lambda>_ _. b) s) \<Longrightarrow>
     wp (bind Store.storage_get_admin g) (\<lambda>_ _. b) s"
  by (simp_all add: wp_prefix wp_find_shipment)

lemma walk_guard:
  "(\<not> d \<Longrightarrow> wp n (\<lambda>_ _. b) s) \<Longrightarrow> wp (andthen (fail_if d e) n) (\<lambda>_ _. b) s"
  "(\<not> sh_finalized sh \<Longrightarrow> wp n (\<lambda>_ _. b) s) \<Longrightarrow>
     wp (andthen (require_not_finalized sh) n) (\<lambda>_ _. b) s"
  "(\<not> d \<Longrightarrow> wp (do_all ms) (\<lambda>_ _. b) s) \<Longrightarrow> wp (do_all (fail_if d e # ms)) (\<lambda>_ _. b) s"
  "(\<not> sh_finalized sh \<Longrightarrow> wp (do_all ms) (\<lambda>_ _. b) s) \<Longrightarrow>
     wp (do_all (require_not_finalized sh # ms)) (\<lambda>_ _. b) s"
  by (simp_all add: wp_prefix)

lemma walk_skip:
  "frame (\<lambda>s. s) m \<Longrightarrow> wp n (\<lambda>_ _. b) s \<Longrightarrow> wp (andthen m n) (\<lambda>_ _. b) s"
  "frame (\<lambda>s. s) k \<Longrightarrow> wp (do_all ms) (\<lambda>_ _. b) s \<Longrightarrow> wp (do_all (k # ms)) (\<lambda>_ _. b) s"
  by (auto simp: wp_andthen intro: frame_wp)

lemma walk_lock:
  "wp m (\<lambda>_ _. b) (set_reentrancy_lock True s) \<Longrightarrow> wp (with_reentrancy_lock m) (\<lambda>_ _. b) s"
  by (simp add: wp_with_reentrancy_lock)

lemma walk_done: "b \<Longrightarrow> wp m (\<lambda>_ _. b) s"
  by (simp add: wp_top)

lemma lock_reads [simp]:
  "k_Shipment (set_reentrancy_lock b s) = k_Shipment s"
  "k_ArchivedShipment (set_reentrancy_lock b s) = k_ArchivedShipment s"
  "k_Admin (set_reentrancy_lock b s) = k_Admin s"
  by (simp_all add: set_reentrancy_lock_def)

lemma life_exec_party:
  assumes "shipment_of c = Some i"
  shows "wp (life_exec E c) (\<lambda>_ _. made_by_party c i s) s"
  using assms
  by (cases c, simp_all add: life_defs del: do_all.simps)
    (((rule walk_done, (auto simp: made_by_party_def; fail)[1]) | rule walk_bind walk_guard walk_lock |
      (rule walk_skip, (rule frame_rules)+))+)

section \<open>Pausing\<close>

fun halted :: "life_call \<Rightarrow> bool" where
  "halted (C_archive_shipment a i) \<longleftrightarrow> False"
| "halted (C_update_eta a i n h) \<longleftrightarrow> False"
| "halted (C_extend_shipment_ttl i) \<longleftrightarrow> False"
| "halted (C_check_deadline i) \<longleftrightarrow> False"
| "halted (C_handoff_shipment a b i h) \<longleftrightarrow> False"
| "halted (C_report_condition_breach a i b v h) \<longleftrightarrow> False"
| "halted _ \<longleftrightarrow> True"

section \<open>Properties\<close>

text \<open>
  C29. No call goes through without its signature: an entry point that names a caller succeeds only if
  that address signed the call, and the contract's own address never did. The entry points that
  anybody may call are \<open>initialize\<close>, \<open>check_deadline\<close>, \<open>extend_shipment_ttl\<close> and \<open>execute_proposal\<close>.
\<close>

theorem calls_are_signed:
  assumes "sys_entry tok me c s = (Inr (), t)"
  shows "signed c"
proof (cases c)
  case (Admin_call E d)
  with assms have "admin_exec (navin_env tok me E) d s = (Inr (), t)" by (simp add: map_err_Inr)
  with Admin_call demandsD [OF admin_exec_signed] show ?thesis by fastforce
next
  case (Life_call E d)
  with assms have "life_exec (navin_env tok me E) d s = (Inr (), t)" by (simp add: map_err_Inr)
  with Life_call demandsD [OF life_exec_signed] show ?thesis by fastforce
next
  case (Gov_call E d)
  with assms have "gov_exec (navin_env tok me E) d s = (Inr (), t)" by (simp add: map_err_Inr)
  with Gov_call demandsD [OF gov_exec_signed] show ?thesis by fastforce
qed simp_all

theorem calls_are_signed_witness:
  "\<exists>t. sys_entry 50 99 (Admin_call (run_env 1004) (C_add_guardian 1 7)) (sys_init\<lparr>k_Admin := Some 1\<rparr>) =
     (Inr (), t) \<and> signed (Admin_call (run_env 1004) (C_add_guardian 1 7))"
proof -
  obtain t where "sys_entry 50 99 (Admin_call (run_env 1004) (C_add_guardian 1 7))
      (sys_init\<lparr>k_Admin := Some 1\<rparr>) = (Inr (), t)"
    by (simp add: sys_init_def add_guardian_def exec)
  with calls_are_signed [OF this] show ?thesis by blast
qed





text \<open>
  C32. While the contract is paused, every entry point that creates shipments, moves escrow, records
  milestones, settles disputes or changes a status answers \<open>ContractPaused\<close> and changes nothing. The
  six that \<open>halted\<close> excludes do not look at the pause flag.
\<close>

theorem paused_calls_refused:
  assumes "Store.is_initialized s" "Store.storage_is_paused s" "halted c"
  shows "life_exec E c s = (Inl (Err ContractPaused), s)"
  using assms
  by (cases c) (simp_all add: life_defs exec_more run_simps Guards.require_initialized_def
      Guards.require_not_paused_def del: do_all.simps)

theorem paused_calls_refused_witness:
  "life_exec (free_env 2000) (C_release_escrow 4 1)
     ((holding (ship_in 1 Delivered 500))\<lparr>k_IsPaused := Some True\<rparr>) =
   (Inl (Err ContractPaused), (holding (ship_in 1 Delivered 500))\<lparr>k_IsPaused := Some True\<rparr>)"
  by (rule paused_calls_refused)
    (simp_all add: samples Store.is_initialized_def Store.storage_is_paused_def unwrap_or_def)

end
