(* ===== verification/Vault.thy ===== *)
theory Vault
  imports System
begin

text \<open>
  What the shipment contract promises about money, as operations of an abstract vault: an account of
  the token for every address and, per shipment, its status and what lies in escrow for it. The
  calls that settle a shipment, deposit escrow or deliver in part implement the vault's operations.
\<close>

section \<open>The abstract vault\<close>

record vault =
  funds :: "addr \<Rightarrow> int"
  cargo :: "nat \<Rightarrow> (ShipmentStatus \<times> int) option"

definition move_funds :: "addr \<Rightarrow> addr \<Rightarrow> int \<Rightarrow> vault \<Rightarrow> vault" where
  "move_funds a b v V = V\<lparr>funds := (\<lambda>x. funds V x - (if x = a then v else 0) + (if x = b then v else 0))\<rparr>"

definition put_cargo :: "nat \<Rightarrow> ShipmentStatus \<Rightarrow> int \<Rightarrow> vault \<Rightarrow> vault" where
  "put_cargo i st v V = V\<lparr>cargo := (cargo V)(i \<mapsto> (st, v))\<rparr>"

text \<open>The vault of a state.\<close>

definition vault_of :: "(addr \<Rightarrow> 't \<Rightarrow> int) \<Rightarrow> 't store \<Rightarrow> vault" where
  "vault_of held s = \<lparr>funds = (\<lambda>a. held a (tokens s)),
     cargo = (\<lambda>i. map_option (\<lambda>sh. (sh_status sh, sh_escrow_amount sh)) (storage_get_shipment i s))\<rparr>"

lemma put_put_cargo [simp]: "put_cargo i st v (put_cargo i st' v' V) = put_cargo i st v V"
  by (simp add: put_cargo_def)

lemma put_move [simp]: "move_funds a b v (put_cargo i st w V) = put_cargo i st w (move_funds a b v V)"
  by (simp add: put_cargo_def move_funds_def)

lemma move_nothing [simp]: "move_funds a b 0 V = V"
  by (simp add: move_funds_def)

section \<open>Rules\<close>

text \<open>
  The vault of the state is \<open>V\<close>, the token is \<open>tok\<close>, and the shipment stored under \<open>i\<close> is \<open>sh\<close>.
\<close>

definition vst ::
    "(addr \<Rightarrow> 't \<Rightarrow> int) \<Rightarrow> addr \<Rightarrow> nat \<Rightarrow> vault \<Rightarrow> Shipment \<Rightarrow> 't store \<Rightarrow> bool" where
  "vst held tok i V sh s \<longleftrightarrow> vault_of held s = V \<and> k_TokenContract s = Some tok \<and>
     lookup (k_Shipment s) (k_ArchivedShipment s) i = Some sh \<and> sh_id sh = i"

lemma vst_core: "core t = core s \<Longrightarrow> vst held tok i V sh t = vst held tok i V sh s"
  by (simp add: vst_def core_parts vault_of_def)

lemma vst_lock [simp]: "vst held tok i V sh (set_reentrancy_lock b s) = vst held tok i V sh s"
  by (simp add: vst_def set_reentrancy_lock_def vault_of_def)

lemma vst_set_shipment:
  "vst held tok i V sh s \<Longrightarrow> sh_id sh' = i \<Longrightarrow>
   vst held tok i (put_cargo i (sh_status sh') (sh_escrow_amount sh') V) sh' (set_shipment sh' s)"
  by (auto simp: vst_def vault_of_def set_shipment_def put_cargo_def fun_eq_iff)

lemma vst_frame:
  assumes "frame core m"
  shows "triple (vst held tok i V sh) m (\<lambda>_. vst held tok i V sh)"
  by (rule core_triple [OF vst_core assms])

text \<open>The end of a handler: the vault is the one promised.\<close>

definition ends_as :: "(addr \<Rightarrow> 't \<Rightarrow> int) \<Rightarrow> vault \<Rightarrow> 't store \<Rightarrow> bool" where
  "ends_as held V s \<longleftrightarrow> vault_of held s = V"

lemma vst_ends: "V = W \<Longrightarrow> triple (vst held tok i V sh) (do_all []) (\<lambda>_. ends_as held W)"
  by (simp add: triple_def wp_simps vst_def ends_as_def)

lemma vst_ends_set:
  "sh_id sh' = i \<Longrightarrow> put_cargo i (sh_status sh') (sh_escrow_amount sh') V = W \<Longrightarrow>
   triple (vst held tok i V sh) (modify (set_shipment sh')) (\<lambda>_. ends_as held W)"
  using vst_set_shipment [of held tok i V sh _ sh']
  by (auto simp: triple_def wp_simps ends_as_def vst_def [of _ _ _ "put_cargo _ _ _ _"])

lemma ends_as_lock [simp]: "ends_as held V (set_reentrancy_lock b s) = ends_as held V s"
  by (simp add: ends_as_def vault_of_def set_reentrancy_lock_def)

lemma vst_lock_seq:
  "triple (vst held tok i V sh) m (\<lambda>_. ends_as held W) \<Longrightarrow>
   triple (vst held tok i V sh) (with_reentrancy_lock m) (\<lambda>_. ends_as held W)"
  by (simp add: triple_def wp_simps)

lemma vst_find:
  "triple (vst held tok i V sh) (f sh) Q \<Longrightarrow> triple (vst held tok i V sh) (bind (find_shipment i) f) Q"
  by (auto simp: triple_def wp_simps vst_def)

lemma vst_token:
  "triple (vst held tok i V sh) (f (Some tok)) Q \<Longrightarrow>
   triple (vst held tok i V sh) (bind (gets get_token_contract) f) Q"
  by (auto simp: triple_def wp_simps vst_def get_token_contract_def)

lemma vst_set:
  "sh_id sh' = i \<Longrightarrow> triple (vst held tok i V sh) (modify (set_shipment sh'))
     (\<lambda>_. vst held tok i (put_cargo i (sh_status sh') (sh_escrow_amount sh') V) sh')"
  by (simp add: triple_def wp_simps vst_set_shipment)

lemma vst_persist:
  "sh_id sh' = i \<Longrightarrow> triple (vst held tok i V sh) (persist_shipment sh')
     (\<lambda>_. vst held tok i (put_cargo i (sh_status sh') (sh_escrow_amount sh') V) sh')"
  by (auto simp: triple_def wp_simps vst_core [OF core_setters(1)] vst_set_shipment)

lemma vst_settle:
  assumes "triple (vst held tok i V sh) m (\<lambda>_. vst held tok i W sh')"
    and "triple (vst held tok i W sh') rest Q"
  shows "triple (vst held tok i V sh) (settle_transfer E n j m rest) Q"
proof -
  have "triple (vst held tok i V sh) (andthen m (andthen (complete_settlement E n j) rest)) Q"
    by (rule triple_andthen [OF assms(1)], rule triple_andthen [OF vst_frame assms(2)])
      (rule frame_rules)
  then show ?thesis by (simp only: triple_def wp_andthen wp_settle_transfer)
qed

context custody
begin

lemma vst_pay:
  "triple (vst held tok i V sh) (invoke_token_transfer E tok f t v)
     (\<lambda>_. vst held tok i (move_funds f t v V) sh)"
proof (rule tripleI)
  fix s
  assume s: "vst held tok i V sh s"
  have "vst held tok i (move_funds f t v V) sh (s\<lparr>tokens := u, k_CircuitBreakerState := b\<rparr>)"
    if "token_transfer E tok f t v (tokens s) = Some u" for u b
    using pay_moves [OF that] s by (auto simp: vst_def vault_of_def move_funds_def)
  then show "wp (invoke_token_transfer E tok f t v) (\<lambda>_. vst held tok i (move_funds f t v V) sh) s"
    by (simp add: wp_simps)
qed

lemma vst_pay_out:
  "triple (vst held tok i V sh) (invoke_token_transfer E tok (self E) t v)
     (\<lambda>_. vst held tok i (move_funds me t v V) sh)"
  unfolding self_me by (rule vst_pay)

lemma vst_release:
  assumes id: "sh_id sh = i"
    and skip: "min v (sh_escrow_amount sh) \<le> 0 \<Longrightarrow> triple (vst held tok i V st) (f sh) Q"
    and paid: "\<And>a. a = min v (sh_escrow_amount sh) \<Longrightarrow> 0 < a \<Longrightarrow>
      triple (vst held tok i (put_cargo i (sh_status sh) (sh_escrow_amount sh - a)
        (move_funds me (sh_carrier sh) a V)) (released E sh a)) (f (released E sh a)) Q"
  shows "triple (vst held tok i V st) (bind (internal_release_escrow E sh v) f) Q"
proof (rule triple_release)
  fix a
  assume a: "a = min v (sh_escrow_amount sh)" "0 < a"
  show "triple (vst held tok i V st) (bind (gets get_token_contract) (\<lambda>x.
      bind (ok_or x NotInitialized) (\<lambda>tok.
      bind (create_settlement E (sh_id sh) Release a (self E) (sh_carrier sh)) (\<lambda>n.
      settle_transfer E n (sh_id sh) (invoke_token_transfer E tok (self E) (sh_carrier sh) a)
       (andthen (persist_shipment (released E sh a))
       (andthen (emit_escrow_released E (sh_id sh) (sh_carrier sh) a) (f (released E sh a)))))))) Q"
    apply (rule vst_token, rule mst_ok_or, rule triple_bind, rule vst_frame, rule frame_rules)
    apply (rule vst_settle, rule vst_pay_out)
    apply (rule triple_andthen, rule vst_persist, simp add: id)
    apply (rule triple_andthen, rule vst_frame, rule frame_rules)
    using paid [OF a] by simp
qed (rule skip)

lemma vst_refund_sender:
  assumes "0 \<le> sh_escrow_amount sh"
  shows "triple (vst held tok i V st) (only_if (sh_escrow_amount sh > 0) (refund_sender E j sh))
     (\<lambda>_. vst held tok i (move_funds me (sh_sender sh) (sh_escrow_amount sh) V) st)"
  apply (rule triple_only_if)
  unfolding refund_sender_def
   apply (rule vst_token, rule mst_ok_or, rule mst_do_all, rule vst_pay_out)
   apply (rule vst_frame, intro frame_rules)
  using assms by simp

end

section \<open>Settlement\<close>

text \<open>The calls that end a shipment: the status it gets and who is paid its escrow.\<close>

fun settlement :: "life_call \<Rightarrow> Shipment \<Rightarrow> (ShipmentStatus \<times> addr) option" where
  "settlement (C_confirm_delivery a i h) sh = Some (Delivered, sh_carrier sh)"
| "settlement (C_release_escrow a i) sh = Some (Delivered, sh_carrier sh)"
| "settlement (C_refund_escrow a i) sh = Some (Cancelled, sh_sender sh)"
| "settlement (C_force_cancel_shipment a i h) sh = Some (Cancelled, sh_sender sh)"
| "settlement (C_check_deadline i) sh = Some (Cancelled, sh_sender sh)"
| "settlement (C_resolve_dispute a i ReleaseToCarrier h) sh = Some (Delivered, sh_carrier sh)"
| "settlement (C_resolve_dispute a i RefundToCompany h) sh = Some (Cancelled, sh_sender sh)"
| "settlement _ sh = None"

fun settled_shipment :: "life_call \<Rightarrow> nat" where
  "settled_shipment (C_confirm_delivery a i h) = i"
| "settled_shipment (C_release_escrow a i) = i"
| "settled_shipment (C_refund_escrow a i) = i"
| "settled_shipment (C_force_cancel_shipment a i h) = i"
| "settled_shipment (C_check_deadline i) = i"
| "settled_shipment (C_resolve_dispute a i r h) = i"
| "settled_shipment _ = 0"

text \<open>The vault's operation: the whole escrow of shipment \<open>i\<close> goes to \<open>to\<close>.\<close>

definition settle :: "addr \<Rightarrow> nat \<Rightarrow> ShipmentStatus \<Rightarrow> addr \<Rightarrow> vault \<Rightarrow> vault" where
  "settle me i st to V = (case cargo V i of
     None \<Rightarrow> V
   | Some (_, v) \<Rightarrow> put_cargo i st 0 (move_funds me to v V))"

context custody
begin

lemmas vsteps = vst_set vst_persist vst_pay_out
lemmas vwalk = mst_seq mst_seq_all mst_let vst_find vst_token mst_ok_or vst_release vst_ends_set vst_ends
  vst_lock_seq
lemmas vnext = triple_andthen mst_do_all triple_bind

lemma confirm_delivery_vst:
  assumes "0 \<le> sh_escrow_amount sh" "sh_id sh = i"
  shows "triple (vst held tok i V sh) (confirm_delivery E a i h)
    (\<lambda>_. ends_as held (put_cargo i Delivered 0 (move_funds me (sh_carrier sh) (sh_escrow_amount sh) V)))"
  unfolding confirm_delivery_def
  by ((rule vwalk | (rule vnext, (rule vsteps | (rule vst_frame, (rule frame_rules)+))) |
      rule frame_rules | (use assms in \<open>simp add: min_def split: if_splits\<close>; fail))+)

lemma release_escrow_vst:
  assumes "0 \<le> sh_escrow_amount sh" "sh_id sh = i"
  shows "triple (vst held tok i V sh) (release_escrow E a i)
    (\<lambda>_. ends_as held (put_cargo i Delivered 0 (move_funds me (sh_carrier sh) (sh_escrow_amount sh) V)))"
  unfolding release_escrow_def
  by ((rule vwalk | (rule vnext, (rule vsteps | (rule vst_frame, (rule frame_rules)+))) |
      rule frame_rules | (use assms in \<open>simp add: min_def split: if_splits\<close>; fail))+)

lemma refund_escrow_vst:
  assumes "0 \<le> sh_escrow_amount sh" "sh_id sh = i"
  shows "triple (vst held tok i V sh) (refund_escrow E a i)
    (\<lambda>_. ends_as held (put_cargo i Cancelled 0 (move_funds me (sh_sender sh) (sh_escrow_amount sh) V)))"
  unfolding refund_escrow_def
  by ((rule vwalk | (rule vnext, (rule vsteps | (rule vst_frame, (rule frame_rules)+))) |
      rule frame_rules | (use assms in \<open>simp add: min_def split: if_splits\<close>; fail))+)

lemma force_cancel_shipment_vst:
  assumes "0 \<le> sh_escrow_amount sh" "sh_id sh = i"
  shows "triple (vst held tok i V sh) (force_cancel_shipment E a i h)
    (\<lambda>_. ends_as held (put_cargo i Cancelled 0 (move_funds me (sh_sender sh) (sh_escrow_amount sh) V)))"
  unfolding force_cancel_shipment_def
  by ((rule vwalk | (rule vnext, (rule vsteps vst_refund_sender | (rule vst_frame, (rule frame_rules)+))) |
      rule frame_rules | (use assms in \<open>simp add: min_def split: if_splits\<close>; fail))+)

end

context custody
begin

lemma vst_refund_removed:
  assumes "0 \<le> sh_escrow_amount sh"
  shows "triple (vst held tok i V st)
     (only_if (sh_escrow_amount sh > 0) (do_all [modify (remove_escrow_balance k), refund_sender E j sh]))
     (\<lambda>_. vst held tok i (move_funds me (sh_sender sh) (sh_escrow_amount sh) V) st)"
proof (rule triple_only_if)
  assume pos: "0 < sh_escrow_amount sh"
  have "triple (vst held tok i V st) (refund_sender E j sh)
     (\<lambda>_. vst held tok i (move_funds me (sh_sender sh) (sh_escrow_amount sh) V) st)"
    using vst_refund_sender [OF assms, of i V st j] pos by (simp add: only_if_def)
  then show "triple (vst held tok i V st)
     (do_all [modify (remove_escrow_balance k), refund_sender E j sh])
     (\<lambda>_. vst held tok i (move_funds me (sh_sender sh) (sh_escrow_amount sh) V) st)"
    by (simp add: triple_def wp_simps vst_core [OF core_setters(2)])
qed (use assms in simp)

lemma check_deadline_vst:
  assumes "0 \<le> sh_escrow_amount sh" "sh_id sh = i"
  shows "triple (vst held tok i V sh) (check_deadline E i)
    (\<lambda>_. ends_as held (put_cargo i Cancelled 0 (move_funds me (sh_sender sh) (sh_escrow_amount sh) V)))"
  unfolding check_deadline_def
  by ((rule vwalk | (rule vnext, (rule vsteps vst_refund_removed | (rule vst_frame, (rule frame_rules)+))) |
      rule frame_rules | (use assms in \<open>simp add: min_def split: if_splits\<close>; fail))+)

lemma resolve_dispute_vst:
  assumes "0 \<le> sh_escrow_amount sh" "sh_id sh = i"
  shows "triple (vst held tok i V sh) (resolve_dispute E a i r h)
    (\<lambda>_. ends_as held (put_cargo i (case r of ReleaseToCarrier \<Rightarrow> Delivered | RefundToCompany \<Rightarrow> Cancelled) 0
       (move_funds me (case r of ReleaseToCarrier \<Rightarrow> sh_carrier sh | RefundToCompany \<Rightarrow> sh_sender sh)
         (sh_escrow_amount sh) V)))"
  unfolding resolve_dispute_def
  by ((rule vwalk | (rule vnext, (rule vsteps | (rule vst_frame, (rule frame_rules)+))) |
      rule frame_rules | (use assms in \<open>simp add: min_def split: if_splits\<close>; fail))+)

lemma life_exec_settles:
  assumes "0 \<le> sh_escrow_amount sh" "sh_id sh = settled_shipment c"
    "settlement c sh = Some (st, to)" "cargo V (settled_shipment c) = Some (sh_status sh, sh_escrow_amount sh)"
  shows "triple (vst held tok (settled_shipment c) V sh) (life_exec E c)
    (\<lambda>_. ends_as held (settle me (settled_shipment c) st to V))"
  using assms
proof (cases c)
  case (C_resolve_dispute a i r h)
  then show ?thesis using assms resolve_dispute_vst [of sh i V a r h]
    by (cases r) (simp_all add: settle_def)
qed (auto simp: settle_def confirm_delivery_vst release_escrow_vst refund_escrow_vst
    force_cancel_shipment_vst check_deadline_vst)

end

section \<open>Deliveries in part and milestones\<close>

lemma vst_arith:
  "triple P (f (i128_quot (a * b) c)) Q \<Longrightarrow> triple P (bind (checked_mul_div_i128 a b c) f) Q"
  "triple P (f (a + b)) Q \<Longrightarrow> triple P (bind (checked_add_i128 a b) f) Q"
  "triple P (f (a - b)) Q \<Longrightarrow> triple P (bind (checked_sub_i128 a b) f) Q"
  by (simp_all add: triple_def wp_simps)

text \<open>The percentages of the milestones with a name that satisfies \<open>p\<close>, added up.\<close>

definition percent :: "(sym \<Rightarrow> bool) \<Rightarrow> (sym \<times> nat) list \<Rightarrow> nat" where
  "percent p ms = sum_list (map snd (filter (\<lambda>m. p (fst m)) ms))"

lemma wp_percentage_of:
  "wp (percentage_of p ms acc) K s \<longleftrightarrow> (acc + percent p ms \<le> u32_max \<or> filter (\<lambda>m. p (fst m)) ms = [] \<longrightarrow>
     K (acc + percent p ms) s)"
proof (induction p ms acc rule: percentage_of.induct)
  case (1 p acc)
  then show ?case by (simp add: percent_def wp_simps)
next
  case (2 p y pct ms acc)
  then show ?case by (auto simp: percent_def wp_simps add.assoc filter_empty_conv)
qed

lemma vst_percentage_of:
  "triple P (f (percent p ms)) Q \<Longrightarrow> triple P (bind (percentage_of p ms 0) f) Q"
  by (simp add: triple_def wp_bind wp_percentage_of)

text \<open>
  What \<open>record_milestone\<close> owes the carrier for the checkpoint \<open>y\<close>: its percentage of the deposit,
  everything left when the paid milestones make up 100 per cent, nothing for a checkpoint that is no
  payment milestone.
\<close>

definition milestone_due :: "Shipment \<Rightarrow> sym \<Rightarrow> int" where
  "milestone_due sh y = (case milestone_index y (sh_payment_milestones sh) of
     None \<Rightarrow> 0
   | Some k \<Rightarrow>
       if percent (\<lambda>z. z = y \<or> z \<in> set (sh_paid_milestones sh)) (sh_payment_milestones sh) = 100
       then sh_escrow_amount sh
       else min (sh_total_escrow sh * int (snd (sh_payment_milestones sh ! k)) div 100)
         (sh_escrow_amount sh))"

lemma mark_paid_more [simp]:
  "set (sh_paid_milestones (mark_paid y sh)) = insert y (set (sh_paid_milestones sh))"
  "sh_payment_milestones (mark_paid y sh) = sh_payment_milestones sh"
  "sh_carrier (mark_paid y sh) = sh_carrier sh"
  by (auto simp: mark_paid_def push_new_def)

lemma percent_insert: "percent (\<lambda>z. z \<in> insert y Z) = percent (\<lambda>z. z = y \<or> z \<in> Z)"
  by simp

context custody
begin

lemma confirm_partial_delivery_vst:
  assumes "0 \<le> sh_escrow_amount sh" "sh_escrow_amount sh \<le> sh_total_escrow sh" "sh_id sh = i"
    and amt: "amt = sh_total_escrow sh * int pct div 100"
  shows "triple (vst held tok i V sh) (confirm_partial_delivery E a i h pct)
    (\<lambda>_. ends_as held (put_cargo i (if amt = sh_escrow_amount sh then Delivered else PartiallyDelivered)
       (sh_escrow_amount sh - amt) (move_funds me (sh_carrier sh) amt V)))"
proof -
  have amt': "i128_quot (sh_total_escrow sh * int pct) 100 = amt"
    using assms by (simp add: i128_quot_pos)
  show ?thesis
    unfolding confirm_partial_delivery_def
    by ((rule vst_arith vwalk | (rule vnext, (rule vsteps | (rule vst_frame, (rule frame_rules)+))) |
      rule frame_rules | (use assms(1,2,3) in \<open>simp add: amt' min_def split: if_splits\<close>; fail))+)
qed

end

lemma vst_flat_option:
  "(x = None \<Longrightarrow> triple P (bind m f) Q) \<Longrightarrow> (\<And>y. x = Some y \<Longrightarrow> triple P (bind (g y) f) Q) \<Longrightarrow>
   triple P (bind (case x of None \<Rightarrow> m | Some y \<Rightarrow> g y) f) Q"
  by (cases x) auto

lemma quot_percent:
  "0 \<le> v \<Longrightarrow> i128_quot (v * int n) 100 = v * int n div 100" "0 \<le> (v :: int) \<Longrightarrow> 0 \<le> v * int n div 100"
  by (simp_all add: i128_quot_pos div_int_pos_iff)

context custody
begin

lemma record_milestone_vst:
  assumes "0 \<le> sh_escrow_amount sh" "sh_escrow_amount sh \<le> sh_total_escrow sh" "sh_id sh = i"
  shows "triple (vst held tok i V sh) (record_milestone E a i y h)
    (\<lambda>_. ends_as held (put_cargo i InTransit (sh_escrow_amount sh - milestone_due sh y)
       (move_funds me (sh_carrier sh) (milestone_due sh y) V)))"
  unfolding record_milestone_def
  by ((rule vst_percentage_of vst_arith vwalk mst_flat vst_flat_option mst_flat_cases(1) |
      (rule vnext, (rule vsteps | (rule vst_frame, (rule frame_rules)+))) |
      rule frame_rules | (use assms in \<open>simp add: milestone_due_def quot_percent\<close>; fail) |
      (use assms quot_percent(2) [of "sh_total_escrow sh" "snd (sh_payment_milestones sh ! _)"] in
        \<open>simp add: milestone_due_def quot_percent min_def split: if_splits\<close>; fail))+)

end

section \<open>Deposits\<close>

text \<open>The fee on a deposit of \<open>v\<close> and who gets it.\<close>

definition platform_fee :: "FeeConfig option \<Rightarrow> int \<Rightarrow> int" where
  "platform_fee fc v = (case fc of None \<Rightarrow> 0 | Some c \<Rightarrow> v * int (fee_bps c) div 10000)"

definition treasury_of :: "FeeConfig option \<Rightarrow> addr" where
  "treasury_of fc = (case fc of None \<Rightarrow> 0 | Some c \<Rightarrow> fee_treasury c)"

text \<open>During a deposit the assertion also keeps the fee settings.\<close>

definition dst ::
    "(addr \<Rightarrow> 't \<Rightarrow> int) \<Rightarrow> addr \<Rightarrow> nat \<Rightarrow> FeeConfig option \<Rightarrow> vault \<Rightarrow> Shipment \<Rightarrow> 't store \<Rightarrow> bool" where
  "dst held tok i fc V sh s \<longleftrightarrow> vst held tok i V sh s \<and> k_FeeConfig s = fc"

lemma dst_keep:
  assumes "triple (vst held tok i V sh) m (\<lambda>_. vst held tok i W sh)" "frame k_FeeConfig m"
  shows "triple (dst held tok i fc V sh) m (\<lambda>_. dst held tok i fc W sh)"
proof (rule tripleI)
  fix s
  assume "dst held tok i fc V sh s"
  with assms have "wp m (\<lambda>_. vst held tok i W sh) s" "wp m (\<lambda>_ t. k_FeeConfig t = fc) s"
    by (auto simp: dst_def frame_def dest: tripleD)
  then have "wp m (\<lambda>_ t. vst held tok i W sh t \<and> k_FeeConfig t = fc) s" by (rule wp_conj)
  then show "wp m (\<lambda>_. dst held tok i fc W sh) s" by (simp add: dst_def [abs_def])
qed

lemma dst_find:
  "triple (dst held tok i fc V sh) (f sh) Q \<Longrightarrow>
   triple (dst held tok i fc V sh) (bind (find_shipment i) f) Q"
  "triple (dst held tok i fc V sh) (g (Some tok)) Q \<Longrightarrow>
   triple (dst held tok i fc V sh) (bind (gets get_token_contract) g) Q"
  by (auto simp: triple_def wp_simps dst_def vst_def get_token_contract_def)

lemma dst_lock [simp]: "dst held tok i fc V sh (set_reentrancy_lock b s) = dst held tok i fc V sh s"
  unfolding dst_def vst_lock by (simp add: set_reentrancy_lock_def)

lemma dst_lock_seq:
  "triple (dst held tok i fc V sh) m (\<lambda>_. ends_as held W) \<Longrightarrow>
   triple (dst held tok i fc V sh) (with_reentrancy_lock m) (\<lambda>_. ends_as held W)"
  by (simp add: triple_def wp_simps)

lemma frame_fee_config:
  "frame k_FeeConfig (create_settlement E j op v f t)" "frame k_FeeConfig (complete_settlement E n j)"
  "frame k_FeeConfig (invoke_token_transfer E tk f t v)"
  by (simp_all add: frame_def wp_simps Let_def set_active_settlement_def set_settlement_def
      set_settlement_counter_def clear_active_settlement_def)

lemma dst_settle:
  assumes "triple (vst held tok i V sh) m (\<lambda>_. vst held tok i W sh)" "frame k_FeeConfig m"
    and "triple (dst held tok i fc W sh) rest Q"
  shows "triple (dst held tok i fc V sh) (settle_transfer E n j m rest) Q"
proof -
  have "triple (dst held tok i fc V sh) (andthen m (andthen (complete_settlement E n j) rest)) Q"
    by (rule triple_andthen [OF dst_keep [OF assms(1,2)]],
        rule triple_andthen [OF dst_keep [OF vst_frame frame_fee_config(2)] assms(3)])
      (rule frame_rules)
  then show ?thesis by (simp only: triple_def wp_andthen wp_settle_transfer)
qed

context custody
begin

lemma dst_fee:
  assumes "0 < v"
    and "triple (vst held tok i (move_funds me (treasury_of fc) (platform_fee fc v) V) sh)
      (f (v - platform_fee fc v)) Q"
  shows "triple (dst held tok i fc V sh) (bind (collect_fee E tok j v) f) Q"
proof (rule tripleI)
  fix s
  assume s: "dst held tok i fc V sh s"
  let ?W = "move_funds me (treasury_of fc) (platform_fee fc v) V"
  have "wp (collect_fee E tok j v) (\<lambda>net t. net = v - platform_fee fc v \<and> vst held tok i ?W sh t) s"
  proof (cases fc)
    case None
    with s show ?thesis
      by (simp add: wp_collect_fee dst_def platform_fee_def get_fee_config_def)
  next
    case (Some c)
    have fee: "i128_quot (v * int (fee_bps c)) 10000 = platform_fee fc v" "0 \<le> platform_fee fc v"
      using assms(1) by (simp_all add: Some platform_fee_def i128_quot_pos div_int_pos_iff)
    have "wp (invoke_token_transfer E tok (self E) (fee_treasury c) (platform_fee fc v))
        (\<lambda>_ t. vst held tok i ?W sh t) s"
      using tripleD [OF vst_pay_out] s by (simp add: dst_def treasury_of_def Some)
    then have "wp (invoke_token_transfer E tok (self E) (fee_treasury c) (platform_fee fc v))
        (\<lambda>_ t. b \<longrightarrow> vst held tok i ?W sh (publish_counted E d k l ps t)) s" for b d k l ps
      by (rule wp_mono) (simp add: vst_core [OF core_events(3)])
    moreover have "platform_fee fc v = 0" if "fee_bps c = 0"
      using that by (simp add: Some platform_fee_def)
    ultimately show ?thesis
      using s fee by (auto simp: wp_collect_fee dst_def get_fee_config_def Some Let_def)
  qed
  then show "wp (bind (collect_fee E tok j v) f) Q s"
    using tripleD [OF assms(2)] by (auto simp: wp_bind elim!: wp_mono)
qed

lemma deposit_escrow_vst:
  assumes "sh_id sh = i"
  shows "triple (dst held tok i fc V sh) (deposit_escrow E a i v)
    (\<lambda>_. ends_as held (put_cargo i Created (v - platform_fee fc v)
       (move_funds me (treasury_of fc) (platform_fee fc v) (move_funds a me v V))))"
proof -
  have positive: "triple P (andthen (validate_positive_amount v) m) Q" if "0 < v \<Longrightarrow> triple P m Q"
    for P Q and m :: "('t, unit) nav"
    using that by (simp add: triple_def wp_simps)
  show ?thesis
    unfolding deposit_escrow_def
    apply ((rule positive mst_seq dst_find dst_lock_seq mst_ok_or |
      (rule vnext, rule dst_keep, rule vst_frame, (rule frame_rules frame_fee_config)+))+)
    apply (rule dst_settle, rule vst_pay, rule frame_fee_config, rule dst_fee, assumption)
    by ((rule vwalk | (rule vnext, (rule vsteps | (rule vst_frame, (rule frame_rules)+))) |
      rule frame_rules | (use assms in \<open>simp add: self_me\<close>; fail))+)
qed

end

section \<open>Cancellation and forced settlement\<close>

lemma core_emit_refund_release:
  "frame core (emit_escrow_released E i a v)" "frame core (emit_escrow_refunded E i a v)"
  by (rule frame_rules)+

context custody
begin

lemma cancel_shipment_vst:
  assumes "sh_id sh = i"
  shows "triple (vst held tok i V sh) (cancel_shipment E a i h)
    (\<lambda>_. ends_as held (put_cargo i Cancelled 0 V))"
  unfolding cancel_shipment_def
  by ((rule vwalk | (rule vnext, (rule vsteps | (rule vst_frame, (rule frame_rules)+))) |
      rule frame_rules | (use assms in simp; fail))+)

lemma force_settle_vst:
  assumes "0 \<le> sh_escrow_amount sh" "sh_id sh = i" "\<And>a v. frame core (emit i a v)"
  shows "triple (vst held tok i V sh) (force_settle E i to emit st)
    (\<lambda>_. ends_as held (put_cargo i st 0 (move_funds me (to sh) (sh_escrow_amount sh) V)))"
proof -
  have pay: "triple (vst held tok i V sh) (only_if (sh_escrow_amount sh > 0) (do_all [
       bind (gets get_token_contract) (\<lambda>x. case x of
         None \<Rightarrow> ret ()
       | Some tok \<Rightarrow> invoke_token_transfer E tok (self E) (to sh) (sh_escrow_amount sh)),
       emit i (to sh) (sh_escrow_amount sh)]))
     (\<lambda>_. vst held tok i (move_funds me (to sh) (sh_escrow_amount sh) V) sh)"
    apply (rule triple_only_if, rule mst_do_all, rule vst_token, simp, rule vst_pay_out)
     apply (rule vst_frame, intro frame_rules assms(3))
    using assms(1) by simp
  show ?thesis unfolding force_settle_def
    by ((rule vwalk | (rule vnext, (rule vsteps pay | (rule vst_frame, (rule frame_rules)+))) |
      rule frame_rules | (use assms in simp; fail))+)
qed

end

fun forced :: "AdminAction \<Rightarrow> Shipment \<Rightarrow> (nat \<times> ShipmentStatus \<times> addr) option" where
  "forced (ForceRelease i) sh = Some (i, Delivered, sh_carrier sh)"
| "forced (ForceRefund i) sh = Some (i, Cancelled, sh_sender sh)"
| "forced _ sh = None"

section \<open>Runs\<close>

text \<open>
  The sample run before its deposit, with a platform fee of 2.5 per cent, and with two payment
  milestones.
\<close>

definition sample_open :: "token_state store" where
  "sample_open = run_calls (sys_entry 50 99)
     (take 7 sample_calls @ [Admin_call (run_env 1015) (C_set_platform_fee 1 250 8)]) sys_init"

definition sample_staged :: "token_state store" where
  "sample_staged = run_calls (sys_entry 50 99)
     (sample_calls[6 := Life_call (run_env 1010)
        (C_create_shipment 2 4 3 [7] [(''port'', 33), (''gate'', 67)] 9000)]) sys_init"

lemma sample_runs_reachable:
  "reachable (sys_legal 50 99) (sys_entry 50 99) sys_init sample_open"
  "reachable (sys_legal 50 99) (sys_entry 50 99) sys_init sample_staged"
  unfolding sample_open_def sample_staged_def
  by (rule run_calls_reachable, simp add: sample_calls_def outsider_def token_legal_def in_i128_def
      i128_max_def i128_min_def)+

text \<open>The symbols and the address the runs use pass the checks.\<close>

lemma sample_xdr:
  "symbol_xdr (navin_env tok me (run_env n)) = sample_symbol_xdr"
  "addr_xdr (navin_env tok me (run_env n)) a = be_bytes 8 18 @ be_bytes 32 a"
  by (simp_all add: navin_env_def run_env_def sample_ship_env_def)

lemma pass:
  "fail_if False e = ret ()" "andthen (ret u) m = m" "bind (ret x) f = f x" "map_err g (ret y) = ret y"
  by (simp_all add: fun_eq_iff run_simps map_err_def)

lemma sample_symbols:
  "sample_symbol_xdr ''port'' = [0, 0, 0, 15, 0, 0, 0, 4, 112, 111, 114, 116]"
  "sample_symbol_xdr ''gate'' = [0, 0, 0, 15, 0, 0, 0, 4, 103, 97, 116, 101]"
  by code_simp+

lemma sample_chars:
  "xdr_char_count (xdr_buffer (sample_symbol_xdr ''port'')) = 4"
  "xdr_char_count (xdr_buffer (sample_symbol_xdr ''gate'')) = 4"
  "take 4 (drop 8 (xdr_buffer (sample_symbol_xdr ''port''))) = [112, 111, 114, 116]"
  "take 4 (drop 8 (xdr_buffer (sample_symbol_xdr ''gate''))) = [103, 97, 116, 101]"
  by (simp_all add: sample_symbols xdr_buffer_def xdr_char_count_def)

lemma sample_letters: "list_all is_ascii_alphanumeric [112, 111, 114, 116]"
  "list_all is_ascii_alphanumeric [103, 97, 116, 101]"
  by (simp_all add: is_ascii_alphanumeric_def)

lemma chars_pass: "list_all (\<lambda>b. is_ascii_alphanumeric b) xs \<Longrightarrow> 
  for_each xs (\<lambda>b. fail_if (\<not> is_ascii_alphanumeric b \<and> b \<noteq> 95) e) = ret ()"
  by (induction xs) (simp_all add: pass)

lemma chars_valid:
  "y = ''port'' \<or> y = ''gate'' \<Longrightarrow> validate_symbol_chars (navin_env tok me (run_env n)) y = ret ()"
  using sample_letters by (auto simp: validate_symbol_chars_def sample_xdr Let_def sample_chars pass chars_pass simp del: list.pred_inject for_each.simps)

lemma port_passes: "validate_checkpoint_symbol (navin_env tok me (run_env n)) ''port'' = ret ()"
  by (simp add: validate_checkpoint_symbol_def sample_xdr sample_symbols chars_valid pass)

lemma milestones_pass: "validate_milestones (navin_env tok me (run_env n)) [(''port'', 33), (''gate'', 67)] = ret ()"
  "validate_milestones E [] = ret ()"
  by (simp_all add: validate_milestones_def validate_milestone_symbols_def validate_symbol_def sample_xdr
     sample_symbols chars_valid pass) (simp add: fun_eq_iff run_simps u32_max_def)
lemma treasury_not_zero: "\<not> is_zero_address (navin_env tok me (run_env n)) 8"
proof -
  have "\<not> list_all (\<lambda>b. b = 0) (be_bytes 32 8)" by code_simp
  then show ?thesis by (simp add: is_zero_address_def sample_xdr)
qed

lemmas sample_run = i128_quot_def milestones_pass port_passes treasury_not_zero sample_sys_def sample_open_def sample_staged_def sample_calls_def invoke_def
  on_tokens_def exec_token sys_init_def Admin.initialize_def add_company_def exec
  compute_config_checksum_def add_carrier_def add_carrier_to_whitelist_def set_platform_fee_def
  create_shipment_def new_shipment_def deposit_escrow_def update_status_def dependencies_met_def

lemmas kept = validate_milestones_def validate_checkpoint_symbol_def is_zero_address_def

lemma sample_shipment:
  obtains sh where "storage_get_shipment 1 sample_sys = Some sh" "sh_carrier sh = 3"
    "sh_escrow_amount sh = 500" "sh_total_escrow sh = 500"
  by (simp add: sample_run del: kept)

lemma sample_open_shipment:
  obtains sh where "storage_get_shipment 1 sample_open = Some sh"
    "k_FeeConfig sample_open = Some \<lparr>fee_bps = 250, fee_treasury = 8\<rparr>"
  by (simp add: sample_run del: kept)

lemma sample_staged_shipment:
  obtains sh where "storage_get_shipment 1 sample_staged = Some sh" "sh_carrier sh = 3"
    "sh_escrow_amount sh = 500" "milestone_due sh ''port'' = 165"
  by (simp add: sample_run milestone_due_def percent_def del: kept)

section \<open>Properties\<close>

lemma reachable_vst:
  assumes "reachable (sys_legal tok me) (sys_entry tok me) sys_init s"
    and "storage_get_shipment i s = Some sh"
  shows "vst get_balance tok i (vault_of get_balance s) sh s" "0 \<le> sh_escrow_amount sh"
    "sh_escrow_amount sh \<le> sh_total_escrow sh" "sh_id sh = i"
    "cargo (vault_of get_balance s) i = Some (sh_status sh, sh_escrow_amount sh)"
proof -
  have "mst get_balance me tok (Some (i, sh)) 0 s"
    using reachable_inv [OF assms(1)] assms(2) by (simp add: mst_def)
  from mst_found [OF this] assms(2)
  show "vst get_balance tok i (vault_of get_balance s) sh s" "0 \<le> sh_escrow_amount sh"
    "sh_escrow_amount sh \<le> sh_total_escrow sh" "sh_id sh = i"
    "cargo (vault_of get_balance s) i = Some (sh_status sh, sh_escrow_amount sh)"
    by (simp_all add: vst_def ship_ok_def vault_of_def)
qed

text \<open>
  C4. Settlement. A call that ends a shipment (delivery confirmed, escrow released or refunded, dispute
  resolved, cancelled by force, expired) pays the whole escrow to the party the table names, and to
  nobody else, leaves the shipment with no escrow in the status the table names, and touches no other
  shipment and no other balance.
\<close>

theorem settlement_refines_vault:
  assumes "reachable (sys_legal tok me) (sys_entry tok me) sys_init s"
    and "storage_get_shipment (settled_shipment c) s = Some sh" "settlement c sh = Some (st, to)"
    and "life_exec (navin_env tok me E) c s = (Inr (), t)"
  shows "vault_of get_balance t = settle me (settled_shipment c) st to (vault_of get_balance s)"
  using wpD [OF tripleD [OF navin_custody.life_exec_settles [OF _ _ assms(3)]] assms(4)]
    reachable_vst [OF assms(1,2)] by (simp add: ends_as_def)

theorem settlement_refines_vault_witness:
  "\<exists>t. life_exec (navin_env 50 99 (run_env 1200)) (C_confirm_delivery 4 1 [9]) sample_sys = (Inr (), t) \<and>
     vault_of get_balance t = settle 99 1 Delivered 3 (vault_of get_balance sample_sys)"
proof -
  obtain t where t: "life_exec (navin_env 50 99 (run_env 1200)) (C_confirm_delivery 4 1 [9]) sample_sys =
      (Inr (), t)"
    by (simp add: sample_run confirm_delivery_def del: kept)
  obtain sh where "storage_get_shipment 1 sample_sys = Some sh" "sh_carrier sh = 3"
    by (rule sample_shipment)
  with settlement_refines_vault [OF sample_sys_reachable _ _ t] t show ?thesis by simp
qed

text \<open>
  C11. Deposit. The payer is debited the whole amount, the treasury gets the platform fee (basis points
  of the amount, rounded down), and the rest, which is what the contract's balance grows by, becomes
  the escrow of the shipment.
\<close>

theorem deposit_refines_vault:
  assumes "reachable (sys_legal tok me) (sys_entry tok me) sys_init s"
    and "storage_get_shipment i s = Some sh"
    and "deposit_escrow (navin_env tok me E) a i v s = (Inr (), t)"
  shows "vault_of get_balance t = put_cargo i Created (v - platform_fee (k_FeeConfig s) v)
    (move_funds me (treasury_of (k_FeeConfig s)) (platform_fee (k_FeeConfig s) v)
      (move_funds a me v (vault_of get_balance s)))"
proof -
  note v = reachable_vst [OF assms(1,2)]
  have "dst get_balance tok i (k_FeeConfig s) (vault_of get_balance s) sh s"
    using v(1) by (simp add: dst_def)
  from wpD [OF tripleD [OF navin_custody.deposit_escrow_vst [OF v(4)] this] assms(3)]
  show ?thesis by (simp add: ends_as_def)
qed

theorem deposit_refines_vault_witness:
  "\<exists>t. deposit_escrow (navin_env 50 99 (run_env 1020)) 2 1 401 sample_open = (Inr (), t) \<and>
     vault_of get_balance t = put_cargo 1 Created 391
       (move_funds 99 8 10 (move_funds 2 99 401 (vault_of get_balance sample_open)))"
proof -
  obtain t where t: "deposit_escrow (navin_env 50 99 (run_env 1020)) 2 1 401 sample_open = (Inr (), t)"
    by (simp add: sample_run del: kept)
  obtain sh where "storage_get_shipment 1 sample_open = Some sh"
    "k_FeeConfig sample_open = Some \<lparr>fee_bps = 250, fee_treasury = 8\<rparr>"
    by (rule sample_open_shipment)
  with deposit_refines_vault [OF sample_runs_reachable(1) _ t] t show ?thesis
    by (simp add: platform_fee_def treasury_of_def)
qed

text \<open>
  C13. Delivery in part. \<open>confirm_partial_delivery\<close> pays the carrier the given percentage of the
  deposit, rounded down, out of the escrow; the shipment is delivered exactly when that was all that
  was left.
\<close>

theorem partial_delivery_refines_vault:
  assumes "reachable (sys_legal tok me) (sys_entry tok me) sys_init s"
    and "storage_get_shipment i s = Some sh"
    and "confirm_partial_delivery (navin_env tok me E) a i h pct s = (Inr (), t)"
    and "amt = sh_total_escrow sh * int pct div 100"
  shows "vault_of get_balance t =
    put_cargo i (if amt = sh_escrow_amount sh then Delivered else PartiallyDelivered)
      (sh_escrow_amount sh - amt) (move_funds me (sh_carrier sh) amt (vault_of get_balance s))"
  using wpD [OF tripleD [OF navin_custody.confirm_partial_delivery_vst [OF _ _ _ assms(4)]] assms(3)]
    reachable_vst [OF assms(1,2)] by (simp add: ends_as_def)

theorem partial_delivery_refines_vault_witness:
  "\<exists>t. confirm_partial_delivery (navin_env 50 99 (run_env 1200)) 4 1 [9] 40 sample_sys = (Inr (), t) \<and>
     vault_of get_balance t = put_cargo 1 PartiallyDelivered 300
       (move_funds 99 3 200 (vault_of get_balance sample_sys))"
proof -
  obtain t where t: "confirm_partial_delivery (navin_env 50 99 (run_env 1200)) 4 1 [9] 40 sample_sys =
      (Inr (), t)"
    by (simp add: sample_run confirm_partial_delivery_def del: kept)
  obtain sh where "storage_get_shipment 1 sample_sys = Some sh" "sh_carrier sh = 3"
    "sh_escrow_amount sh = 500" "sh_total_escrow sh = 500"
    by (rule sample_shipment)
  with partial_delivery_refines_vault [OF sample_sys_reachable _ t refl] t show ?thesis by simp
qed

text \<open>
  C12. Milestones. \<open>record_milestone\<close> pays the carrier what the checkpoint is worth and no more than the
  escrow; with the milestone that completes 100 per cent everything left is paid, so that rounding
  leaves nothing behind.
\<close>

theorem milestone_refines_vault:
  assumes "reachable (sys_legal tok me) (sys_entry tok me) sys_init s"
    and "storage_get_shipment i s = Some sh"
    and "record_milestone (navin_env tok me E) a i y h s = (Inr (), t)"
  shows "vault_of get_balance t =
    put_cargo i InTransit (sh_escrow_amount sh - milestone_due sh y)
      (move_funds me (sh_carrier sh) (milestone_due sh y) (vault_of get_balance s))"
  using wpD [OF tripleD [OF navin_custody.record_milestone_vst] assms(3)]
    reachable_vst [OF assms(1,2)] by (simp add: ends_as_def)

theorem milestone_refines_vault_witness:
  "\<exists>t. record_milestone (navin_env 50 99 (run_env 1200)) 3 1 ''port'' [9] sample_staged = (Inr (), t) \<and>
     vault_of get_balance t = put_cargo 1 InTransit 335
       (move_funds 99 3 165 (vault_of get_balance sample_staged))"
proof -
  obtain t where t: "record_milestone (navin_env 50 99 (run_env 1200)) 3 1 ''port'' [9] sample_staged =
      (Inr (), t)"
    by (simp add: sample_run record_milestone_def mark_paid_def push_new_def del: kept)
  obtain sh where "storage_get_shipment 1 sample_staged = Some sh" "sh_carrier sh = 3"
    "sh_escrow_amount sh = 500" "milestone_due sh ''port'' = 165"
    by (rule sample_staged_shipment)
  with milestone_refines_vault [OF sample_runs_reachable(2) _ t] t show ?thesis by simp
qed

text \<open>
  C15. \<open>cancel_shipment\<close> sets the escrow of the shipment to nothing without paying it to anybody: no
  balance changes, although the call reports the escrow as released to the sender.
\<close>

theorem cancel_moves_no_funds:
  assumes "reachable (sys_legal tok me) (sys_entry tok me) sys_init s"
    and "storage_get_shipment i s = Some sh"
    and "cancel_shipment (navin_env tok me E) a i h s = (Inr (), t)"
  shows "vault_of get_balance t = put_cargo i Cancelled 0 (vault_of get_balance s)"
  using wpD [OF tripleD [OF navin_custody.cancel_shipment_vst] assms(3)]
    reachable_vst [OF assms(1,2)] by (simp add: ends_as_def)

theorem cancel_moves_no_funds_witness:
  "\<exists>t. cancel_shipment (navin_env 50 99 (run_env 1200)) 2 1 [9] sample_sys = (Inr (), t) \<and>
     cargo (vault_of get_balance sample_sys) 1 = Some (InTransit, 500) \<and>
     vault_of get_balance t = put_cargo 1 Cancelled 0 (vault_of get_balance sample_sys)"
proof -
  obtain t where t: "cancel_shipment (navin_env 50 99 (run_env 1200)) 2 1 [9] sample_sys = (Inr (), t)"
    by (simp add: sample_run cancel_shipment_def del: kept)
  obtain sh where sh: "storage_get_shipment 1 sample_sys = Some sh" by (rule sample_shipment)
  have "cargo (vault_of get_balance sample_sys) 1 = Some (InTransit, 500)"
    by (simp add: vault_of_def sample_run del: kept)
  with cancel_moves_no_funds [OF sample_sys_reachable sh t] t show ?thesis by simp
qed

text \<open>
  C14. The two escrow actions of the admin group settle a shipment in the same way, to the carrier or to
  the sender.
\<close>

theorem forced_settlement_refines_vault:
  assumes "reachable (sys_legal tok me) (sys_entry tok me) sys_init s"
    and "storage_get_shipment i s = Some sh" "forced act sh = Some (i, st, to)"
    and "execute_action (navin_env tok me E) p act s = (Inr (), t)"
  shows "vault_of get_balance t = settle me i st to (vault_of get_balance s)"
proof -
  note v = reachable_vst [OF assms(1,2)]
  note run = wpD [OF tripleD [OF navin_custody.force_settle_vst [OF v(2,4)] v(1)]]
  show ?thesis using assms(3,4) v(5) run [OF core_emit_refund_release(1)] run [OF core_emit_refund_release(2)]
    by (cases act) (auto simp: execute_action_def settle_def ends_as_def)
qed

theorem forced_settlement_refines_vault_witness:
  "\<exists>t. execute_action (navin_env 50 99 (run_env 1200)) 5 (ForceRelease 1) sample_sys = (Inr (), t) \<and>
     vault_of get_balance t = settle 99 1 Delivered 3 (vault_of get_balance sample_sys)"
proof -
  obtain t where t: "execute_action (navin_env 50 99 (run_env 1200)) 5 (ForceRelease 1) sample_sys =
      (Inr (), t)"
    by (simp add: sample_run execute_action_def force_settle_def del: kept)
  obtain sh where "storage_get_shipment 1 sample_sys = Some sh" "sh_carrier sh = 3"
    by (rule sample_shipment)
  with forced_settlement_refines_vault [OF sample_sys_reachable _ _ t] t show ?thesis by simp
qed

end
