(* ===== verification/Shelf.thy ===== *)
theory Shelf
  imports Access Vault
begin

text \<open>
  Invariants of the shipments on file, as an interface: a predicate on the state that depends on what
  is found under each number and on the counter only, with a test on single shipments that looks at
  their number, deposit, sender and payment plan. Every call about shipments keeps such a predicate.
\<close>

section \<open>The files of the contract\<close>

definition files :: "'t store \<Rightarrow> (nat \<Rightarrow> Shipment option) \<times> (nat \<Rightarrow> Shipment option) \<times> nat option" where
  "files s = (k_Shipment s, k_ArchivedShipment s, k_ShipmentCount s)"

lemma files_base: "base t = base s \<Longrightarrow> files t = files s"
  by (simp add: base_def files_def)

lemma files_core: "core t = core s \<Longrightarrow> files t = files s"
  by (rule files_base) (rule core_base)

lemma files_of_core: "frame core m \<Longrightarrow> frame files m"
  by (auto simp: frame_def intro: wp_mono files_core)

lemma files_pay: "frame files (invoke_token_transfer E tok f t v)"
  by (simp add: frame_def wp_simps files_def)

lemma files_fee: "frame files (collect_fee E tok j v)"
  unfolding collect_fee_def
  by ((rule files_pay frame_rules | (rule files_of_core, rule frame_rules))+)

text \<open>The shipment a call names; 0 for those that create shipments.\<close>

fun target :: "life_call \<Rightarrow> nat" where
  "target (C_create_shipment a b c h ms dl) = 0"
| "target (C_create_shipments_batch a inps) = 0"
| "target (C_set_shipment_metadata a i y z) = i"
| "target (C_append_note_hash a i h) = i"
| "target (C_add_dispute_evidence_hash a i h) = i"
| "target (C_deposit_escrow a i v) = i"
| "target (C_release_escrow a i) = i"
| "target (C_refund_escrow a i) = i"
| "target (C_update_status a i st h) = i"
| "target (C_archive_shipment a i) = i"
| "target (C_confirm_delivery a i h) = i"
| "target (C_confirm_partial_delivery a i h n) = i"
| "target (C_report_geofence_event a i ge h) = i"
| "target (C_update_eta a i n h) = i"
| "target (C_record_milestone a i y h) = i"
| "target (C_record_milestones_batch a i its) = i"
| "target (C_release_milestone_payment a i y) = i"
| "target (C_extend_shipment_ttl i) = i"
| "target (C_cancel_shipment a i h) = i"
| "target (C_force_cancel_shipment a i h) = i"
| "target (C_check_deadline i) = i"
| "target (C_raise_dispute a i h) = i"
| "target (C_resolve_dispute a i r h) = i"
| "target (C_handoff_shipment a b i h) = i"
| "target (C_report_condition_breach a i b v h) = i"

lemma mark_paid_sender [simp]: "sh_sender (mark_paid y sh) = sh_sender sh"
  by (simp add: mark_paid_def)

lemma new_shipment_parts:
  "sh_id (new_shipment E n a b c h ms dl) = n" "sh_total_escrow (new_shipment E n a b c h ms dl) = 0"
  "sh_sender (new_shipment E n a b c h ms dl) = a"
  "sh_payment_milestones (new_shipment E n a b c h ms dl) = ms"
  by (simp_all add: new_shipment_def)

text \<open>A payment plan is empty, or pays out the whole of the deposit.\<close>

definition milestone_plan :: "(sym \<times> nat) list \<Rightarrow> bool" where
  "milestone_plan ms \<longleftrightarrow> ms = [] \<or> sum_list (map snd ms) = 100"

lemma mst_plan:
  "(milestone_plan ms \<Longrightarrow> triple P m Q) \<Longrightarrow> triple P (andthen (validate_milestones E ms) m) Q"
  by (auto simp: triple_def wp_andthen milestone_plan_def intro!: wp_mono [OF wp_validate_milestones])

text \<open>Archiving moves the record; what is found under each number is the same.\<close>

lemma archive_finds:
  assumes "k_Shipment s i = Some sh"
  shows "storage_get_shipment j (storage_archive_shipment i sh s) = storage_get_shipment j s"
    "storage_get_shipment_counter (storage_archive_shipment i sh s) = storage_get_shipment_counter s"
  using files_core [OF core_archive_shipment, of i sh s] assms
  by (auto simp: files_def lookup_def storage_get_shipment_counter_def split: option.splits)

lemma archive_keeps:
  assumes "\<And>s t. (\<And>j. storage_get_shipment j t = storage_get_shipment j s) \<Longrightarrow>
    storage_get_shipment_counter t = storage_get_shipment_counter s \<Longrightarrow> P t = P s"
  shows "triple P (archive_shipment E a i) (\<lambda>_. P)"
proof (rule tripleI)
  fix s
  assume "P s"
  then have "P (publish k l (storage_archive_shipment i sh s))" if "k_Shipment s i = Some sh" for k l sh
    using assms [OF archive_finds [OF that]] assms [of "publish k l (storage_archive_shipment i sh s)"]
    by (simp add: publish_def storage_get_shipment_counter_def)
  then show "wp (archive_shipment E a i) (\<lambda>_. P) s"
    by (auto simp: archive_shipment_def wp_simps get_persistent_shipment_def emit_defs)
qed

section \<open>The interface\<close>

locale shelf =
  fixes P :: "'t store \<Rightarrow> bool" and here :: "nat \<Rightarrow> bool" and okp :: "nat \<Rightarrow> int \<Rightarrow> addr \<Rightarrow> (sym \<times> nat) list \<Rightarrow> bool"
    and signer :: "addr \<Rightarrow> bool"
  assumes looks: "(\<And>j. storage_get_shipment j t = storage_get_shipment j s) \<Longrightarrow>
      storage_get_shipment_counter t = storage_get_shipment_counter s \<Longrightarrow> P t = P s"
    and found: "P s \<Longrightarrow> here i \<Longrightarrow> storage_get_shipment i s = Some sh \<Longrightarrow>
      okp (sh_id sh) (sh_total_escrow sh) (sh_sender sh) (sh_payment_milestones sh)"
    and stored: "P s \<Longrightarrow> okp (sh_id sh) (sh_total_escrow sh) (sh_sender sh) (sh_payment_milestones sh) \<Longrightarrow> P (set_shipment sh s)"
    and added: "P s \<Longrightarrow> sh_id sh = Suc (storage_get_shipment_counter s) \<Longrightarrow> sh_total_escrow sh = 0 \<Longrightarrow>
      signer (sh_sender sh) \<Longrightarrow> milestone_plan (sh_payment_milestones sh) \<Longrightarrow>
      P (set_shipment_counter (sh_id sh) (set_shipment sh s))"
    and okp_small: "okp n v a ms \<Longrightarrow> w \<le> MAX_AMOUNT \<Longrightarrow> okp n w a ms"
begin

definition ok :: "Shipment \<Rightarrow> bool" where
  "ok sh \<longleftrightarrow> okp (sh_id sh) (sh_total_escrow sh) (sh_sender sh) (sh_payment_milestones sh)"

lemma P_files: "files t = files s \<Longrightarrow> P t = P s"
  by (rule looks) (simp_all add: files_def storage_get_shipment_counter_def)

lemma ap_files: "frame files m \<Longrightarrow> triple P m (\<lambda>_. P)"
  unfolding keeps_def [symmetric] by (erule keeps_frame) (rule P_files)

lemma ap_frame: "frame core m \<Longrightarrow> triple P m (\<lambda>_. P)"
  by (rule ap_files) (rule files_of_core)

lemma ap_pay: "triple P (invoke_token_transfer E tok f t v) (\<lambda>_. P)"
  by (rule ap_files [OF files_pay])

lemma P_lock [simp]: "P (set_reentrancy_lock b s) = P s"
  by (rule P_files) (simp add: files_def set_reentrancy_lock_def)

lemma ap_lock: "triple P m (\<lambda>_. P) \<Longrightarrow> triple P (with_reentrancy_lock m) (\<lambda>_. P)"
  by (simp add: triple_def wp_simps)

lemma ap_find:
  assumes "here i" "\<And>sh. ok sh \<Longrightarrow> triple P (f sh) Q"
  shows "triple P (bind (find_shipment i) f) Q"
  using assms found by (auto simp: triple_def wp_simps ok_def)

lemma ap_set: "ok sh \<Longrightarrow> triple P (modify (set_shipment sh)) (\<lambda>_. P)"
  by (simp add: triple_def wp_simps ok_def stored)

lemma ap_persist: "ok sh \<Longrightarrow> triple P (persist_shipment sh) (\<lambda>_. P)"
  by (simp add: triple_def wp_simps ok_def stored P_files [OF files_core [OF core_setters(1)]])

lemma ap_settle:
  assumes "triple P rest Q"
  shows "triple P (settle_transfer E n j (invoke_token_transfer E tok f t v) rest) Q"
proof -
  have "triple P (andthen (invoke_token_transfer E tok f t v)
      (andthen (complete_settlement E n j) rest)) Q"
    by (rule triple_andthen [OF ap_pay], rule triple_andthen [OF ap_frame assms]) (rule frame_rules)
  then show ?thesis by (simp only: triple_def wp_andthen wp_settle_transfer)
qed

lemma ap_release:
  assumes "ok sh" "\<And>sh'. ok sh' \<Longrightarrow> triple P (f sh') Q"
  shows "triple P (bind (internal_release_escrow E sh v) f) Q"
  by (rule triple_release; ((rule assms(2) ap_settle | (rule triple_andthen, rule ap_persist) |
      (rule triple_bind triple_andthen, rule ap_frame, rule frame_rules) |
      (use assms(1) in \<open>simp add: ok_def\<close>; fail))+))

text \<open>A deposit is at most \<open>MAX_AMOUNT\<close>, and what is left of it after the fee is no more.\<close>

lemma ap_amount:
  "(0 < v \<Longrightarrow> v \<le> MAX_AMOUNT \<Longrightarrow> triple P m Q) \<Longrightarrow> triple P (andthen (validate_positive_amount v) m) Q"
  by (simp add: triple_def wp_simps)

lemma ap_fee:
  assumes "v \<le> MAX_AMOUNT" "\<And>net. net \<le> MAX_AMOUNT \<Longrightarrow> triple P (f net) Q"
  shows "triple P (bind (collect_fee E tok j v) f) Q"
proof (rule triple_bind)
  have net: "wp (collect_fee E tok j v) (\<lambda>net _. net \<le> v) s" for s
    by (auto simp: wp_collect_fee wp_simps Let_def split: option.splits)
  show "triple P (collect_fee E tok j v) (\<lambda>net s. P s \<and> net \<le> v)"
    using tripleD [OF ap_files [OF files_fee]] net by (auto simp: triple_def intro: wp_conj)
  show "triple (\<lambda>s. P s \<and> net \<le> v) (f net) Q" for net
    using assms(1) assms(2) [of net] by (simp add: triple_def)
qed

lemmas ap_steps = ap_set ap_persist ap_pay
lemmas ap_walk = mst_seq mst_seq_all mst_let mst_ok_or ap_release ap_lock ap_settle
  mst_flat mst_flat_cases
lemmas ap_next = triple_andthen mst_do_all triple_bind

section \<open>The calls\<close>

lemma ap_escrow_calls:
  assumes "here i"
  shows
    "triple P (deposit_escrow E a i v) (\<lambda>_. P)"
    "triple P (release_escrow E a i) (\<lambda>_. P)"
    "triple P (refund_escrow E a i) (\<lambda>_. P)"
  unfolding deposit_escrow_def release_escrow_def refund_escrow_def
  by ((rule ap_find [OF assms] ap_amount ap_fee ap_walk | (rule ap_next, (rule ap_steps |
      (rule ap_frame, (rule frame_rules)+))) | rule ap_steps | (rule ap_frame, (rule frame_rules)+) |
      rule frame_rules | assumption | (simp add: ok_def; fail) | (simp add: ok_def okp_small; fail))+)

lemma ap_records:
  assumes "here i"
  shows
    "triple P (set_shipment_metadata E a i y z) (\<lambda>_. P)"
    "triple P (append_note_hash E a i h) (\<lambda>_. P)"
    "triple P (add_dispute_evidence_hash E a i h) (\<lambda>_. P)"
    "triple P (update_status E a i st h) (\<lambda>_. P)"
    "triple P (report_geofence_event E a i ge h) (\<lambda>_. P)"
    "triple P (update_eta E a i n h) (\<lambda>_. P)"
    "triple P (lib_extend_shipment_ttl i) (\<lambda>_. P)"
    "triple P (cancel_shipment E a i h) (\<lambda>_. P)"
    "triple P (raise_dispute E a i h) (\<lambda>_. P)"
    "triple P (handoff_shipment E a b i h) (\<lambda>_. P)"
  unfolding set_shipment_metadata_def append_note_hash_def add_dispute_evidence_hash_def
    update_status_def dependencies_met_def report_geofence_event_def update_eta_def
    lib_extend_shipment_ttl_def cancel_shipment_def raise_dispute_def handoff_shipment_def
  by ((rule ap_find [OF assms] ap_walk | (rule ap_next, (rule ap_steps | (rule ap_frame, (rule frame_rules)+))) |
      rule ap_steps | (rule ap_frame, (rule frame_rules)+) | rule frame_rules | (simp add: ok_def; fail))+)

lemma ap_refund_sender: "triple P (refund_sender E j sh) (\<lambda>_. P)"
  unfolding refund_sender_def
  by ((rule ap_next, (rule ap_steps | (rule ap_frame, (rule frame_rules)+))) |
      (rule ap_frame, (rule frame_rules)+))+

lemma ap_only_if:
  "triple P m (\<lambda>_. P) \<Longrightarrow> triple P (only_if b m) (\<lambda>_. P)"
  by (simp add: only_if_def triple_def wp_simps)

lemma ap_refund_removed:
  "triple P (do_all [modify (remove_escrow_balance k), refund_sender E j sh]) (\<lambda>_. P)"
  by ((rule mst_do_all, (rule ap_refund_sender | (rule ap_frame, rule frame_modify, simp))) |
      (rule ap_frame, (rule frame_rules)+))+

lemma ap_payments:
  assumes "here i"
  shows
    "triple P (confirm_delivery E a i h) (\<lambda>_. P)"
    "triple P (confirm_partial_delivery E a i h n) (\<lambda>_. P)"
    "triple P (record_milestone E a i y h) (\<lambda>_. P)"
    "triple P (release_milestone_payment E a i y) (\<lambda>_. P)"
    "triple P (force_cancel_shipment E a i h) (\<lambda>_. P)"
    "triple P (check_deadline E i) (\<lambda>_. P)"
    "triple P (resolve_dispute E a i r h) (\<lambda>_. P)"
  unfolding confirm_delivery_def confirm_partial_delivery_def record_milestone_def
    release_milestone_payment_def force_cancel_shipment_def check_deadline_def resolve_dispute_def
  by ((rule ap_find [OF assms] ap_walk | (rule ap_next, (rule ap_steps ap_only_if [OF ap_refund_sender]
      ap_only_if [OF ap_refund_removed] | (rule ap_frame, (rule frame_rules)+))) |
      rule ap_steps | (rule ap_frame, (rule frame_rules)+) | rule frame_rules | (simp add: ok_def; fail))+)

lemma ap_batch_loop:
  assumes "ok sh" "\<And>sh'. ok sh' \<Longrightarrow> triple P (f sh') Q"
  shows "triple P (bind (record_batch_loop E c j items sh) f) Q"
  using assms(1)
proof (induction items arbitrary: sh)
  case Nil
  with assms(2) show ?case by (simp add: triple_def wp_simps)
next
  case (Cons item items)
  obtain y h where item: "item = (y, h)" by fastforce
  show ?case
    unfolding record_batch_loop.simps record_batch_item_def item prod.case
    by (insert Cons.prems, (rule mst_flat mst_flat_cases ap_release Cons.IH | (rule ap_next,
        (rule ap_frame, (rule frame_rules)+)) | assumption | (simp add: ok_def; fail))+)
qed

lemma ap_milestones_batch:
  assumes "here i"
  shows
    "triple P (record_milestones_batch E a i items) (\<lambda>_. P)"
  unfolding record_milestones_batch_def
  by ((rule ap_find [OF assms] ap_walk ap_batch_loop | (rule ap_next, (rule ap_frame, (rule frame_rules)+)) | rule ap_steps |
      (simp add: ok_def; fail))+)

lemma ap_breach:
  assumes "here i"
  shows "triple P (report_condition_breach E a i br sv h) (\<lambda>_. P)"
proof -
  have "triple P (bind (gets get_config) (\<lambda>cfg. only_if (b cfg) (do_all (modify (set_shipment sh) # ms))))
      (\<lambda>_. P)" if "ok sh" "frame core (do_all ms)" for b sh ms
    by (rule triple_bind [OF ap_frame], rule frame_rules, rule ap_only_if, rule mst_do_all, rule ap_set)
      (use that in \<open>simp_all only: ap_frame\<close>)
  note auto_dispute = this
  show ?thesis unfolding report_condition_breach_def
    by ((rule mst_seq mst_seq_all ap_find [OF assms] | (rule ap_next, (rule auto_dispute |
        (rule ap_frame, (rule frame_rules)+))) | (rule ap_frame, (rule frame_rules)+) | rule frame_rules |
        (simp add: ok_def; fail))+)
qed

lemma ap_archive: "triple P (archive_shipment E a i) (\<lambda>_. P)"
  by (rule archive_keeps) (rule looks)

lemma ap_create:
  assumes "signer a" "milestone_plan pm"
    and "\<And>n. triple P (andthen (do_all (ms n)) (r n)) Q"
  shows "triple P (bind (gets storage_get_shipment_counter) (\<lambda>c.
    bind (ok_or (u64_checked_add c 1) e) (\<lambda>n.
    andthen (do_all (persist_shipment (new_shipment E n a b d h pm dl) # modify (set_shipment_counter n) # ms n))
      (r n)))) Q"
proof (rule tripleI)
  fix s
  assume s: "P s"
  let ?n = "Suc (storage_get_shipment_counter s)" and ?sh = "\<lambda>n. new_shipment E n a b d h pm dl"
  have "P (set_shipment_counter ?n (set_shipment (?sh ?n) s))"
    using added [OF s, of "?sh ?n"] assms(1,2) by (simp add: new_shipment_parts)
  then have "P (set_shipment_counter ?n (set_escrow ?n v (set_shipment (?sh ?n) s)))" for v
    by (subst P_files [of _ "set_shipment_counter ?n (set_shipment (?sh ?n) s)"])
      (simp_all add: files_def set_shipment_counter_def set_escrow_def)
  with assms(3) show "wp (bind (gets storage_get_shipment_counter) (\<lambda>c.
      bind (ok_or (u64_checked_add c 1) e) (\<lambda>n. andthen (do_all (persist_shipment (?sh n) #
        modify (set_shipment_counter n) # ms n)) (r n)))) Q s"
    by (simp add: wp_simps triple_def new_shipment_parts)
qed

lemma ap_create_shipment:
  assumes "\<And>a. authorized E a \<Longrightarrow> signer a"
  shows "triple P (create_shipment E a b c h ms dl) (\<lambda>_. P)"
  unfolding create_shipment_def
  by ((rule mst_plan mst_seq ap_create [OF assms] | (rule triple_andthen, rule ap_frame, (rule frame_rules)+) |
      (rule ap_frame, rule frame_rules) | rule frame_rules | assumption | (simp; fail))+)

lemma ap_create_batch_loop:
  assumes "signer a"
  shows "triple P (create_batch_loop E c a inps) (\<lambda>_. P)"
  using assms
proof (induction E c a inps rule: create_batch_loop.induct)
  case (1 E c a)
  show ?case by (simp add: ap_frame frame_rules)
next
  case (2 E c a inp inps)
  have more: "triple P (bind (create_batch_loop E c a inps) (\<lambda>ids. ret (i # ids)))
      (\<lambda>_. P)" for i
    by (rule triple_bind [OF "2.IH" [OF "2.prems"]], rule ap_frame, rule frame_rules)
  show ?case unfolding create_batch_loop.simps
    by ((rule more mst_plan mst_seq ap_create [OF "2.prems"] | assumption |
        (rule triple_andthen, rule ap_frame, (rule frame_rules)+) | rule frame_rules | (simp; fail))+)
qed

lemma ap_create_shipments_batch:
  assumes "\<And>a. authorized E a \<Longrightarrow> signer a"
  shows "triple P (create_shipments_batch E a inps) (\<lambda>_. P)"
  unfolding create_shipments_batch_def
  by ((rule ap_create_batch_loop mst_seq | (rule assms, assumption) |
      (rule triple_andthen triple_bind, rule ap_frame, (rule frame_rules)+) | rule frame_rules | (simp; fail))+)

lemma ap_void: "triple P m (\<lambda>_. P) \<Longrightarrow> triple P (void m) (\<lambda>_. P)"
  by (simp add: triple_def wp_simps)

lemma life_exec_keeps:
  assumes "here (target c)" "\<And>a. authorized E a \<Longrightarrow> signer a"
  shows "triple P (life_exec E c) (\<lambda>_. P)"
  using assms
  by (cases c) (simp_all add: ap_void ap_create_shipment ap_create_shipments_batch ap_escrow_calls
      ap_records ap_payments ap_milestones_batch ap_breach ap_archive)

end

end
