(* ===== verification/Journeys.thy ===== *)
theory Journeys
  imports Shelf
begin

text \<open>
  The shipments side by side: a call touches only the shipment it names, and a shipment that has
  been finalised stays as it is.
\<close>

section \<open>A call and the other shipments\<close>

text \<open>
  Compared with the state \<open>s0\<close>, the shipments that existed there are the same, the one with the
  number \<open>i\<close> apart; what is stored under \<open>i\<close> carries that number.
\<close>

definition apart :: "'t store \<Rightarrow> nat \<Rightarrow> 't store \<Rightarrow> bool" where
  "apart s0 i s \<longleftrightarrow>
     (\<forall>j. j \<noteq> i \<and> j \<le> storage_get_shipment_counter s0 \<longrightarrow>
        storage_get_shipment j s = storage_get_shipment j s0) \<and>
     storage_get_shipment_counter s0 \<le> storage_get_shipment_counter s \<and>
     (\<forall>sh. storage_get_shipment i s = Some sh \<longrightarrow> sh_id sh = i)"

interpretation sides: shelf "apart s0 i" "\<lambda>j. j = i" "\<lambda>n v a ms. n = i" "\<lambda>a. True" for s0 i
  by unfold_locales (auto simp: apart_def set_shipment_counter_def set_shipment_def
      storage_get_shipment_counter_def)

lemma life_exec_apart: "triple (apart s0 (target c)) (life_exec E c) (\<lambda>_. apart s0 (target c))"
  by (rule sides.life_exec_keeps) simp_all

text \<open>The sample run with a second shipment, and after the delivery of the first.\<close>

definition two_shipments :: "token_state store" where
  "two_shipments = run_calls (sys_entry 50 99)
     (sample_calls @ [Life_call (run_env 1110) (C_create_shipment 2 4 3 [17] [] 9000)]) sys_init"

definition one_delivered :: "token_state store" where
  "one_delivered = run_calls (sys_entry 50 99)
     (sample_calls @ [Life_call (run_env 1200) (C_confirm_delivery 4 1 [9])]) sys_init"

lemma two_shipments_reachable:
  "reachable (sys_legal 50 99) (sys_entry 50 99) sys_init two_shipments"
  "reachable (sys_legal 50 99) (sys_entry 50 99) sys_init one_delivered"
  unfolding two_shipments_def one_delivered_def
  by (rule run_calls_reachable, simp add: sample_calls_def outsider_def token_legal_def in_i128_def
      i128_max_def i128_min_def)+

text \<open>
  C9. A call touches one shipment: whatever call about a shipment succeeds, every other shipment
  that existed before is found unchanged after it.
\<close>

theorem calls_touch_one_shipment:
  assumes "reachable (sys_legal tok me) (sys_entry tok me) sys_init s"
    and "life_exec E c s = (Inr (), t)"
    and "j \<le> storage_get_shipment_counter s" "j \<noteq> target c"
  shows "storage_get_shipment j t = storage_get_shipment j s"
proof -
  have "apart s (target c) s"
    using reachable_vst(4) [OF assms(1)] by (simp add: apart_def)
  from wpD [OF tripleD [OF life_exec_apart this] assms(2)] assms(3,4) show ?thesis
    by (simp add: apart_def)
qed

theorem calls_touch_one_shipment_witness:
  "\<exists>t. life_exec (navin_env 50 99 (run_env 1200)) (C_raise_dispute 4 1 [9]) two_shipments = (Inr (), t) \<and>
     storage_get_shipment 2 two_shipments \<noteq> None \<and>
     storage_get_shipment 2 t = storage_get_shipment 2 two_shipments"
proof -
  obtain t where t: "life_exec (navin_env 50 99 (run_env 1200)) (C_raise_dispute 4 1 [9]) two_shipments =
      (Inr (), t)"
    by (simp add: two_shipments_def sample_run raise_dispute_def del: kept)
  have two: "storage_get_shipment 2 two_shipments \<noteq> None" "storage_get_shipment_counter two_shipments = 2"
    by (simp_all add: two_shipments_def sample_run del: kept)
  with calls_touch_one_shipment [OF two_shipments_reachable(1) t, of 2] t show ?thesis by simp
qed

section \<open>Finalised shipments\<close>

text \<open>The calls that leave the record of their shipment as it is, whatever state it is in.\<close>

fun leaves_record :: "life_call \<Rightarrow> bool" where
  "leaves_record (C_append_note_hash a i h) \<longleftrightarrow> True"
| "leaves_record (C_archive_shipment a i) \<longleftrightarrow> True"
| "leaves_record (C_extend_shipment_ttl i) \<longleftrightarrow> True"
| "leaves_record _ \<longleftrightarrow> False"

definition still :: "nat \<Rightarrow> Shipment \<Rightarrow> 't store \<Rightarrow> bool" where
  "still i sh s \<longleftrightarrow> storage_get_shipment i s = Some sh"

lemma still_core: "core t = core s \<Longrightarrow> still i sh t = still i sh s"
  by (simp add: still_def core_parts)

lemma still_frame:
  assumes "frame core m"
  shows "triple (still i sh) m (\<lambda>_. still i sh)"
  by (rule core_triple [OF still_core assms])

lemma leaves_record_still:
  assumes "leaves_record c"
  shows "triple (still (target c) sh) (life_exec E c) (\<lambda>_. still (target c) sh)"
proof (cases c)
  case (C_append_note_hash a i h)
  have "frame core (append_note_hash E a i h)"
    unfolding append_note_hash_def by ((rule frame_rules | (simp; fail))+)
  from still_frame [OF this, of "target c" sh] C_append_note_hash show ?thesis by simp
next
  case (C_extend_shipment_ttl i)
  have "frame core (lib_extend_shipment_ttl i)"
    unfolding lib_extend_shipment_ttl_def by (rule frame_rules)+
  from still_frame [OF this, of "target c" sh] C_extend_shipment_ttl show ?thesis by simp
next
  case (C_archive_shipment a i)
  have "triple (still i sh) (archive_shipment E a i) (\<lambda>_. still i sh)"
    by (rule archive_keeps) (simp add: still_def)
  with C_archive_shipment show ?thesis by simp
qed (use assms in auto)

text \<open>All others that act on a shipment but \<open>check_deadline\<close> refuse a finalised one.\<close>

definition shut :: "nat \<Rightarrow> 't store \<Rightarrow> bool" where
  "shut i s \<longleftrightarrow> (\<exists>sh. storage_get_shipment i s = Some sh \<and> sh_finalized sh)"

lemma shut_core: "core t = core s \<Longrightarrow> shut i t = shut i s"
  by (simp add: shut_def core_parts)

lemma shut_frame:
  assumes "frame core m"
  shows "triple (shut i) m (\<lambda>_. shut i)"
  by (rule core_triple [OF shut_core assms])

lemma shut_find:
  "(\<And>sh. sh_finalized sh \<Longrightarrow> triple (shut i) (f sh) Q) \<Longrightarrow> triple (shut i) (bind (find_shipment i) f) Q"
  by (auto simp: triple_def wp_simps shut_def)

lemma shut_refuse:
  "sh_finalized sh \<Longrightarrow> triple P (andthen (require_not_finalized sh) n) Q"
  "sh_finalized sh \<Longrightarrow> triple P (do_all (require_not_finalized sh # ms)) Q"
  by (simp_all add: triple_def wp_simps)

lemma shut_lock:
  "triple (shut i) m (\<lambda>_ _. False) \<Longrightarrow> triple (shut i) (with_reentrancy_lock m) (\<lambda>_ _. False)"
  by (simp add: triple_def wp_simps shut_def)

lemma life_exec_shut:
  assumes "\<not> leaves_record c" "target c \<noteq> 0" "\<forall>i. c \<noteq> C_check_deadline i"
  shows "triple (shut (target c)) (life_exec E c) (\<lambda>_ _. False)"
  using assms
  by (cases c, simp_all add: life_defs del: do_all.simps)
    (((rule shut_refuse, assumption) | rule shut_find shut_lock |
      (rule triple_andthen mst_do_all triple_bind, rule shut_frame, (rule frame_rules)+))+)

text \<open>\<open>check_deadline\<close> has no such guard, but refuses a delivered or cancelled shipment.\<close>

lemma check_deadline_open:
  "wp (check_deadline E i) (\<lambda>_ _. \<exists>sh. storage_get_shipment i s = Some sh \<and>
     sh_status sh \<noteq> Delivered \<and> sh_status sh \<noteq> Cancelled) s"
  unfolding check_deadline_def
  by (((rule walk_done, (auto; fail)[1]) | rule walk_bind walk_guard | (rule walk_skip, (rule frame_rules)+))+)



end
