(* ===== verification/Bounds.thy ===== *)
theory Bounds
  imports Journeys
begin

text \<open>
  Bounds on the shipments of a reachable state: no deposit exceeds \<open>MAX_AMOUNT\<close>, every payment plan is
  empty or adds up to 100 per cent, and no shipment was created by the contract itself. Hence the
  percentages of the settlement arithmetic stay far below the range of an \<open>i128\<close>.
\<close>

section \<open>Governance\<close>

text \<open>The governance calls may act on any shipment, so here the predicate covers them all.\<close>

locale shelf_all = shelf +
  assumes anywhere: "here i"
begin

lemmas ap_any = ap_find [OF anywhere]

lemma frame_files_gov:
  "frame files (modify (set_proposal p))" "frame files (modify (set_proposal_counter n))"
  "frame files (modify (set_admin_list as))" "frame files (modify (set_multisig_threshold n))"
  "frame files (modify (set_shipment_dependency i j))" "frame files (modify (Store.set_admin a))"
  by (simp_all add: frame_def wp_simps files_def set_proposal_def set_proposal_counter_def
      set_admin_list_def set_multisig_threshold_def set_shipment_dependency_def Store.set_admin_def)

lemma ap_recovery:
  "triple P (recover_shipment E a i st h) (\<lambda>_. P)"
  "triple P (unlock_escrow E a i h) (\<lambda>_. P)"
  "triple P (clear_finalization E a i h) (\<lambda>_. P)"
  "triple P (rollback_on_external_failure E a i st h) (\<lambda>_. P)"
  unfolding recover_shipment_def recovery_recover_shipment_def verify_escrow_consistency_def
    unlock_escrow_def recovery_unlock_escrow_def clear_finalization_def recovery_clear_finalization_def
    rollback_on_external_failure_def recovery_rollback_on_external_failure_def
  by ((rule ap_any ap_walk | (rule ap_next, (rule ap_steps | (rule ap_frame, (rule frame_rules)+))) |
      rule ap_steps | (rule ap_frame, (rule frame_rules)+) | rule frame_rules | (simp add: ok_def; fail))+)

lemma ap_force_settle:
  assumes "\<And>a v. frame core (emit i a v)"
  shows "triple P (force_settle E i to emit st) (\<lambda>_. P)"
proof -
  have pay: "triple P (bind (gets get_token_contract) (\<lambda>x. case x of None \<Rightarrow> ret ()
      | Some tok \<Rightarrow> invoke_token_transfer E tok (self E) a v)) (\<lambda>_. P)" for a v
    by (rule ap_files) ((rule files_pay frame_rules | (rule files_of_core, rule frame_rules))+)
  have emit: "triple P (do_all [emit i a v]) (\<lambda>_. P)" for a v
    by (rule ap_frame) (rule frame_rules assms)+
  show ?thesis unfolding force_settle_def
    by ((rule ap_any ap_walk | (rule ap_next, (rule ap_steps | (rule ap_only_if, rule mst_do_all, rule pay,
        rule emit) | (rule ap_frame, (rule frame_rules)+))) | rule ap_steps |
        (rule ap_frame, (rule frame_rules)+) | rule frame_rules | (simp add: ok_def; fail))+)
qed

lemma ap_execute_action: "triple P (execute_action E p act) (\<lambda>_. P)"
proof (cases act)
  case (Upgrade h)
  show ?thesis unfolding execute_action_def Upgrade AdminAction.case update_current_contract_wasm_def
    by (rule ap_frame) ((rule frame_rules | simp)+)
next
  case (TransferAdmin a)
  show ?thesis unfolding execute_action_def TransferAdmin AdminAction.case
    by (rule ap_files) ((rule frame_files_gov frame_rules | (rule files_of_core, (rule frame_rules)+) |
        (rule files_core, simp; fail) | (simp; fail))+)
qed (simp_all add: execute_action_def ap_force_settle frame_rules)

lemma ap_proposals:
  "triple P (init_multisig E a as n) (\<lambda>_. P)"
  "triple P (propose_action E a act) (\<lambda>_. P)"
  "triple P (propose_action_with_salt E a act h) (\<lambda>_. P)"
  "triple P (add_shipment_dependency E a i j) (\<lambda>_. P)"
  unfolding init_multisig_def propose_action_with_salt_def propose_action_def
    add_shipment_dependency_def would_create_cycle_def
  by (rule ap_files, (rule frame_files_gov frame_rules | (rule files_of_core, (rule frame_rules)+) |
      (rule files_core, simp; fail) | (simp; fail))+)+

lemma ap_execute_internal: "triple P (execute_proposal_internal E i) (\<lambda>_. P)"
  unfolding execute_proposal_internal_def
  by ((rule ap_next, (rule ap_execute_action ap_files [OF frame_files_gov(1)] |
      (rule ap_frame, ((rule frame_rules | (simp; fail))+; fail)))) |
      (rule ap_frame, ((rule frame_rules)+; fail)))+

lemma ap_execution:
  "triple P (execute_proposal E i) (\<lambda>_. P)" "triple P (approve_action E a i) (\<lambda>_. P)"
proof -
  have vote: "triple P (bind (gets f) (\<lambda>x. only_if (b x) (execute_proposal_internal E i))) (\<lambda>_. P)"
    for f :: "'a store \<Rightarrow> 'c" and b
    by (rule triple_bind [OF ap_frame ap_only_if [OF ap_execute_internal]]) (rule frame_rules)
  show "triple P (execute_proposal E i) (\<lambda>_. P)"
    unfolding execute_proposal_def by (rule triple_andthen [OF ap_frame ap_execute_internal]) (rule frame_rules)
  show "triple P (approve_action E a i) (\<lambda>_. P)"
    unfolding approve_action_def
    by ((rule ap_next, (rule vote ap_files [OF frame_files_gov(1)] |
        (rule ap_frame, ((rule frame_rules | (simp; fail))+; fail)))) |
        (rule ap_frame, ((rule frame_rules)+; fail)))+
qed

lemma gov_exec_keeps: "triple P (gov_exec E c) (\<lambda>_. P)"
  by (cases c) (simp_all add: ap_void ap_recovery ap_proposals ap_execution)

end

section \<open>Bounded shipments\<close>

definition capped :: "addr \<Rightarrow> 't store \<Rightarrow> bool" where
  "capped me s \<longleftrightarrow> (\<forall>i sh. storage_get_shipment i s = Some sh \<longrightarrow>
     sh_total_escrow sh \<le> MAX_AMOUNT \<and> sh_sender sh \<noteq> me \<and> milestone_plan (sh_payment_milestones sh))"

interpretation caps: shelf_all "capped me" "\<lambda>i. True"
    "\<lambda>n v a ms. v \<le> MAX_AMOUNT \<and> a \<noteq> me \<and> milestone_plan ms" "\<lambda>a. a \<noteq> me" for me
  by unfold_locales (auto simp: capped_def set_shipment_counter_def set_shipment_def MAX_AMOUNT_def)

lemma capped_shipments:
  "k_Shipment t = k_Shipment s \<Longrightarrow> k_ArchivedShipment t = k_ArchivedShipment s \<Longrightarrow> capped me t = capped me s"
  by (simp add: capped_def)

lemma capped_fewer:
  "capped me s \<Longrightarrow> (\<And>i sh. storage_get_shipment i t = Some sh \<Longrightarrow> storage_get_shipment i s = Some sh) \<Longrightarrow>
   capped me t"
  by (simp only: capped_def) blast

lemma capped_expire:
  "capped me s \<Longrightarrow> capped me (s\<lparr>k_ArchivedShipment := (k_ArchivedShipment s)(i := None)\<rparr>)"
  by (erule capped_fewer) (auto simp: lookup_def split: option.splits if_splits)

lemma admin_exec_capped: "triple (capped me) (admin_exec E c) (\<lambda>_. capped me)"
proof -
  have "wp (Admin.initialize E a b) (\<lambda>_. capped me) s" if "capped me s" for a b s
  proof (rule initialize_base)
    fix t
    assume "base t = base (first_writes a b s)"
    then have "files t = files (first_writes a b s)" by (rule files_base)
    with that show "capped me t"
      by (simp add: capped_shipments [of t s] files_def first_writes_def set_shipment_counter_def
          set_token_contract_def Store.set_admin_def)
  qed
  moreover
  have "frame files (accept_admin_transfer E a)" "frame files (reset_circuit_breaker E a)" for a
    unfolding accept_admin_transfer_def reset_circuit_breaker_def manual_reset_def
      emit_breaker_reset_event_def
    by ((rule caps.frame_files_gov frame_rules | (rule files_of_core, rule frame_rules) |
        (rule files_core, simp; fail) | (simp add: files_def set_breaker_def; fail))+)
  note caps.ap_files [OF this(1), of me] caps.ap_files [OF this(2), of me]
  ultimately show ?thesis
    using caps.ap_files [OF frame_part [OF admin_exec_base [of c E] files_base]] by (cases c) (simp_all add: triple_def)
qed

interpretation navin_caps: contract_invariant "sys_legal tok me" "sys_entry tok me" sys_init
    "capped me" for tok me
proof
  show "capped me sys_init" by (simp add: capped_def sys_init_def store_init_def lookup_def)
next
  fix s :: "token_state store" and c
  assume s: "capped me s" and "sys_legal tok me c"
  have "wp (life_exec (navin_env tok me E) d) (\<lambda>_. capped me) s" for E d
    by (rule tripleD [OF caps.life_exec_keeps s]) auto
  note calls = this tripleD [OF admin_exec_capped s] tripleD [OF caps.gov_exec_keeps s]
  show "wp (sys_entry tok me c) (\<lambda>_. capped me) s"
  proof (cases c)
    case (Token_call Es d)
    have "wp (token_entry (Es, d)) (\<lambda>_ t. capped me (s\<lparr>tokens := t\<rparr>)) (tokens s)"
      using s by (auto simp: capped_shipments [of "s\<lparr>tokens := _\<rparr>" s] intro: wpI)
    with Token_call show ?thesis by (simp add: wp_simps)
  qed (use s calls in \<open>auto simp: wp_map_err wp_simps capped_expire capped_shipments [of "_\<lparr>k_IdempotencyWindow := _\<rparr>" s]\<close>)
qed

section \<open>Arithmetic within the bounds\<close>

lemma run_percentage:
  assumes "0 \<le> v" "v \<le> MAX_AMOUNT" "pct \<le> 100"
  shows "checked_mul_div_i128 v (int pct) 100 u = (Inr (v * int pct div 100), u)"
    "v * int pct div 100 \<le> v"
proof -
  have "v * int pct \<le> v * 100" using assms by (intro mult_left_mono) auto
  then have le: "v * int pct \<le> v * 100" "0 \<le> v * int pct" using assms(1) by auto
  then show "v * int pct div 100 \<le> v" by auto
  from le assms(2) have "in_i128 (v * int pct)" "v * int pct \<noteq> i128_min"
    by (auto simp: in_i128_def i128_max_def i128_min_def MAX_AMOUNT_def)
  with le show "checked_mul_div_i128 v (int pct) 100 u = (Inr (v * int pct div 100), u)"
    by (simp add: checked_mul_div_i128_def i128_checked_mul_def i128_div_def i128_quot_pos run_simps ok_or_def)
qed

text \<open>The parts of a plan, each rounded down, add up to no more than the whole.\<close>

definition plan_parts :: "int \<Rightarrow> (sym \<times> nat) list \<Rightarrow> int" where
  "plan_parts v ms = sum_list (map (\<lambda>m. v * int (snd m) div 100) ms)"

lemma plan_parts_le: "0 \<le> v \<Longrightarrow> 100 * plan_parts v ms \<le> v * int (sum_list (map snd ms))"
proof (induction ms)
  case (Cons m ms)
  have "100 * (v * int (snd m) div 100) \<le> v * int (snd m)" by simp
  with Cons show ?case by (simp add: plan_parts_def algebra_simps)
qed (simp add: plan_parts_def)

lemma plan_percentage: "milestone_plan ms \<Longrightarrow> m \<in> set ms \<Longrightarrow> snd m \<le> 100"
  using member_le_sum_list [of "snd m" "map snd ms"] by (auto simp: milestone_plan_def)

section \<open>Properties\<close>

lemmas reachable_capped = navin_caps.Inv_reachable [unfolded capped_def, rule_format]

text \<open>
  C3. The amounts of every shipment of a reachable state are ordered and bounded: its escrow lies
  between 0 and its deposit, and the deposit is at most \<open>MAX_AMOUNT\<close>. Its payment plan, when it has
  one, adds up to 100 per cent, and its sender is not the contract itself.
\<close>

theorem amounts_bounded:
  assumes "reachable (sys_legal tok me) (sys_entry tok me) sys_init s"
    and "storage_get_shipment i s = Some sh"
  shows "0 \<le> sh_escrow_amount sh \<and> sh_escrow_amount sh \<le> sh_total_escrow sh \<and>
    sh_total_escrow sh \<le> MAX_AMOUNT \<and> milestone_plan (sh_payment_milestones sh) \<and> sh_sender sh \<noteq> me"
  using reachable_vst(2,3) [OF assms] reachable_capped [OF assms] by simp

theorem amounts_bounded_witness:
  "\<exists>sh. storage_get_shipment 1 sample_staged = Some sh \<and> sh_escrow_amount sh = 500 \<and>
     sh_total_escrow sh \<le> MAX_AMOUNT \<and> milestone_plan (sh_payment_milestones sh)"
proof -
  obtain sh where "storage_get_shipment 1 sample_staged = Some sh" "sh_escrow_amount sh = 500"
    by (rule sample_staged_shipment)
  with amounts_bounded [OF sample_runs_reachable(2) this(1)] show ?thesis by blast
qed

text \<open>
  C17. The percentage arithmetic is exact and cannot overflow: in every reachable state, for the share
  of a partial delivery (at most 100) and for every milestone of the plan, the checked multiplication
  and division of a deposit succeed, with a share of the deposit rounded down as the result, and the
  shares of all milestones of the plan together are no more than the deposit.
\<close>

theorem percentages_exact:
  assumes "reachable (sys_legal tok me) (sys_entry tok me) sys_init s"
    and "storage_get_shipment i s = Some sh"
    and "pct \<le> 100 \<or> pct \<in> snd ` set (sh_payment_milestones sh)"
  shows "checked_mul_div_i128 (sh_total_escrow sh) (int pct) 100 u =
      (Inr (sh_total_escrow sh * int pct div 100), u) \<and>
    sh_total_escrow sh * int pct div 100 \<le> sh_total_escrow sh \<and>
    plan_parts (sh_total_escrow sh) (sh_payment_milestones sh) \<le> sh_total_escrow sh"
proof -
  have v: "0 \<le> sh_total_escrow sh" "sh_total_escrow sh \<le> MAX_AMOUNT"
    and plan: "milestone_plan (sh_payment_milestones sh)"
    using reachable_vst(2,3) [OF assms(1,2)] reachable_capped [OF assms(1,2)] by auto
  have "pct \<le> 100" using assms(3) plan_percentage [OF plan] by auto
  moreover have "plan_parts (sh_total_escrow sh) (sh_payment_milestones sh) \<le> sh_total_escrow sh"
    using plan_parts_le [OF v(1), of "sh_payment_milestones sh"] plan v(1)
    by (auto simp: milestone_plan_def plan_parts_def)
  ultimately show ?thesis using run_percentage [OF v] by blast
qed

theorem percentages_exact_witness:
  "\<exists>sh. storage_get_shipment 1 sample_staged = Some sh \<and>
     checked_mul_div_i128 (sh_total_escrow sh) (int 33) 100 sample_staged =
       (Inr (sh_total_escrow sh * 33 div 100), sample_staged)"
proof -
  obtain sh where "storage_get_shipment 1 sample_staged = Some sh"
    by (rule sample_staged_shipment)
  with percentages_exact [OF sample_runs_reachable(2) this, of 33 sample_staged] show ?thesis by simp
qed

end
