(* ===== verification/Progress.thy ===== *)
theory Progress
  imports Bounds
begin

text \<open>
  Money is never stuck: a confirmed delivery is paid, and the escrow of an expired shipment can be
  claimed back by anybody's call. The partial-correctness rules say nothing about success, so this
  theory has a calculus of its own: a list of steps goes through when each of them, in turn, succeeds.
\<close>

section \<open>Steps that go through\<close>

definition passes :: "('s \<Rightarrow> bool) \<Rightarrow> ('s, 'e, unit) comp \<Rightarrow> ('s \<Rightarrow> bool) \<Rightarrow> bool" where
  "passes P m R \<longleftrightarrow> (\<forall>s. P s \<longrightarrow> (\<exists>t. m s = (Inr (), t) \<and> R t))"

lemma passes_step: "passes P m R \<Longrightarrow> passes R (do_all ms) Q \<Longrightarrow> passes P (do_all (m # ms)) Q"
  by (fastforce simp: passes_def andthen_def bind_def)

lemma passes_nil: "(\<And>s. P s \<Longrightarrow> Q s) \<Longrightarrow> passes P (do_all []) Q"
  by (simp add: passes_def run_simps)

lemma passes_modify: "(\<And>s. P s \<Longrightarrow> R (h s)) \<Longrightarrow> passes P (modify h) R"
  by (simp add: passes_def run_simps)

lemma passes_only_if:
  "(b \<Longrightarrow> passes P m R) \<Longrightarrow> (\<And>s. \<not> b \<Longrightarrow> P s \<Longrightarrow> R s) \<Longrightarrow> passes P (only_if b m) R"
  by (simp add: passes_def only_if_def run_simps)

text \<open>
  The contract is ready to pay: its token is \<open>tok\<close>, whose ledger is \<open>tk\<close>, and the circuit breaker is
  closed.
\<close>

definition ready :: "addr \<Rightarrow> 't \<Rightarrow> 't store \<Rightarrow> bool" where
  "ready tok tk s \<longleftrightarrow> k_TokenContract s = Some tok \<and> tokens s = tk \<and> cb_state (get_breaker s) = Closed"

lemma ready_core: "core t = core s \<Longrightarrow> ready tok tk t = ready tok tk s"
  by (simp add: ready_def core_parts get_breaker_def)

lemma ready_set_shipment [simp]: "ready tok tk (set_shipment sh s) = ready tok tk s"
  by (simp add: ready_def set_shipment_def get_breaker_def)

lemma run_pay:
  assumes "cb_state (get_breaker s) = Closed" "token_transfer E tok f t v (tokens s) = Some u"
  shows "invoke_token_transfer E tok f t v s =
    (Inr (), s\<lparr>tokens := u, k_CircuitBreakerState := Some (record_success (get_breaker s))\<rparr>)"
  using assms
  by (simp add: invoke_token_transfer_def check_transfer_allowed_def should_allow_request_def
      invoke_token_operation_def record_transfer_success_def set_breaker_def get_breaker_def run_simps)

lemma passes_pay:
  assumes "token_transfer E tok f t v tk = Some u"
  shows "passes (ready tok tk) (invoke_token_transfer E tok f t v) (\<lambda>s. k_TokenContract s = Some tok)"
  using run_pay [of _ E tok f t v] assms by (auto simp: passes_def ready_def)

lemma passes_emit_refunded:
  "passes (\<lambda>s. k_TokenContract s = Some tok) (emit_escrow_refunded E i a v) (\<lambda>s. k_TokenContract s = Some tok)"
  by (simp add: passes_def emit_escrow_refunded_def token_or_trap_def get_token_contract_def unwrap_def
      andthen_def bind_def gets_def ret_def modify_def publish_counted_def publish_def
      increment_event_count_def Let_def)

lemma passes_refund:
  assumes "token_transfer E tok (self E) (sh_sender sh) (sh_escrow_amount sh) tk = Some u"
  shows "passes (ready tok tk) (refund_sender E i sh) (\<lambda>s. k_TokenContract s = Some tok)"
proof -
  have "passes (ready tok tk) (do_all [
      invoke_token_transfer E tok (self E) (sh_sender sh) (sh_escrow_amount sh),
      emit_escrow_refunded E i (sh_sender sh) (sh_escrow_amount sh)]) (\<lambda>s. k_TokenContract s = Some tok)"
    by (rule passes_step, rule passes_pay [OF assms], rule passes_step, rule passes_emit_refunded)
      (rule passes_nil)
  then show ?thesis
    by (simp add: passes_def refund_sender_def get_token_contract_def ready_def run_simps ok_or_def
        del: do_all.simps)
qed

section \<open>The deadline\<close>

lemma run_persist:
  "shipment_valid sh \<Longrightarrow> persist_shipment sh s =
     (Inr (), set_escrow (sh_id sh) (sh_escrow_amount sh) (set_shipment sh s))"
  by (auto simp: persist_shipment_def validate_shipment_invariants_def shipment_valid_def guard_if_def run_simps)

definition room :: "ShipmentStatus \<Rightarrow> 't store \<Rightarrow> bool" where
  "room st s \<longleftrightarrow> get_status_count st s < u64_max"

lemma passes_counts:
  "passes (\<lambda>s. ready tok tk s \<and> room st s) (increment_status_count st) (ready tok tk)"
  "st \<noteq> st' \<Longrightarrow> passes (\<lambda>s. ready tok tk s \<and> room st s) (decrement_status_count st')
     (\<lambda>s. ready tok tk s \<and> room st s)"
  by (auto simp: passes_def increment_status_count_def decrement_status_count_def room_def run_simps
      ready_core [OF core_setters(8)]) (auto simp: get_status_count_def set_status_count_def)

lemma passes_check_deadline:
  assumes "storage_get_shipment i s = Some sh" "is_initialized s" "ship_ok sh"
    and "u64_saturating_add (sh_deadline sh) (deadline_grace_seconds (get_config s)) \<le> timestamp E"
    and "sh_status sh \<notin> {Delivered, Disputed, Cancelled}"
    and "room Cancelled s" "ready tok (tokens s) s"
    and "0 < sh_escrow_amount sh \<Longrightarrow>
      token_transfer E tok (self E) (sh_sender sh) (sh_escrow_amount sh) (tokens s) \<noteq> None"
  shows "\<exists>t. check_deadline E i s = (Inr (), t)"
proof -
  let ?sh = "bump_nonce (touch E (sh\<lparr>sh_status := Cancelled, sh_escrow_amount := 0\<rparr>))"
  let ?steps = "do_all [
       persist_shipment ?sh,
       decrement_status_count (sh_status sh),
       increment_status_count Cancelled,
       modify (decrement_active_shipment_count (sh_sender sh)),
       only_if (sh_escrow_amount sh > 0) (do_all [
         modify (remove_escrow_balance i),
         refund_sender E i sh]),
       extend_shipment_ttl i,
       emit_shipment_expired E i]"
  have "check_deadline E i s = ?steps s"
    using assms by (simp add: check_deadline_def require_initialized_def find_shipment_def run_simps
        ok_or_def Let_def del: do_all.simps)
  moreover have "passes (\<lambda>s'. s' = s) ?steps (\<lambda>_. True)"
  proof (intro passes_step)
    have "shipment_valid ?sh" using assms(3,5) by (auto simp: shipment_valid_def ship_ok_def)
    then have "persist_shipment ?sh s = (Inr (), set_escrow (sh_id sh) 0 (set_shipment ?sh s))"
      by (simp add: run_persist)
    with assms(6,7) show "passes (\<lambda>s'. s' = s) (persist_shipment ?sh)
        (\<lambda>s'. ready tok (tokens s) s' \<and> room Cancelled s')"
      by (auto simp: passes_def ready_def room_def get_status_count_def set_escrow_def
          set_shipment_def get_breaker_def)
    show "passes (\<lambda>s'. ready tok (tokens s) s' \<and> room Cancelled s') (decrement_status_count (sh_status sh))
        (\<lambda>s'. ready tok (tokens s) s' \<and> room Cancelled s')"
      by (rule passes_counts(2)) (use assms(5) in auto)
    show "passes (\<lambda>s'. ready tok (tokens s) s' \<and> room Cancelled s') (increment_status_count Cancelled)
        (ready tok (tokens s))"
      by (rule passes_counts(1))
    show "passes (ready tok (tokens s)) (modify (decrement_active_shipment_count (sh_sender sh)))
        (ready tok (tokens s))"
      by (rule passes_modify) (simp add: ready_core [OF core_setters(11)])
    show "passes (ready tok (tokens s)) (only_if (sh_escrow_amount sh > 0) (do_all [
         modify (remove_escrow_balance i), refund_sender E i sh])) (\<lambda>s. k_TokenContract s = Some tok)"
    proof (rule passes_only_if, intro passes_step)
      assume "0 < sh_escrow_amount sh"
      then obtain u where "token_transfer E tok (self E) (sh_sender sh) (sh_escrow_amount sh) (tokens s) = Some u"
        using assms(8) by blast
      then show "passes (ready tok (tokens s)) (refund_sender E i sh) (\<lambda>s. k_TokenContract s = Some tok)"
        by (rule passes_refund)
      show "passes (ready tok (tokens s)) (modify (remove_escrow_balance i)) (ready tok (tokens s))"
        by (rule passes_modify) (simp add: ready_core [OF core_setters(2)])
    qed (simp_all add: passes_def run_simps ready_def)
    show "passes (\<lambda>s. k_TokenContract s = Some tok) (extend_shipment_ttl i) (\<lambda>_. True)"
      "passes (\<lambda>_. True) (emit_shipment_expired E i) (\<lambda>_. True)"
      by (simp_all add: passes_def extend_shipment_ttl_def emit_shipment_expired_def run_simps)
  qed (simp add: passes_def run_simps)
  ultimately show ?thesis by (auto simp: passes_def)
qed

section \<open>Payments with a settlement record\<close>

text \<open>The same for steps that return a value.\<close>

definition yields :: "('s \<Rightarrow> bool) \<Rightarrow> ('s, 'e, 'a) comp \<Rightarrow> ('a \<Rightarrow> 's \<Rightarrow> bool) \<Rightarrow> bool" where
  "yields P m R \<longleftrightarrow> (\<forall>s. P s \<longrightarrow> (\<exists>x t. m s = (Inr x, t) \<and> R x t))"

lemma yields_bind: "yields P m R \<Longrightarrow> (\<And>x. yields (R x) (f x) Q) \<Longrightarrow> yields P (bind m f) Q"
  by (fastforce simp: yields_def bind_def)

lemma yields_passes: "yields P m (\<lambda>_. R) = passes P m R"
  by (simp add: yields_def passes_def)

lemma yields_andthen: "passes P m R \<Longrightarrow> yields R n Q \<Longrightarrow> yields P (andthen m n) Q"
  unfolding andthen_def yields_passes [symmetric] by (rule yields_bind)

lemma yields_ret: "(\<And>s. P s \<Longrightarrow> R x s) \<Longrightarrow> yields P (ret x) R"
  by (simp add: yields_def run_simps)

lemma passes_pre: "passes P' m R \<Longrightarrow> (\<And>s. P s \<Longrightarrow> P' s) \<Longrightarrow> passes P m R"
  by (simp add: passes_def)

text \<open>A payment out of the escrow, with its settlement record.\<close>

lemma yields_settlement:
  "yields (ready tok tk) (create_settlement E i op v f t)
     (\<lambda>n s. ready tok tk s \<and> storage_get_settlement n s \<noteq> None)"
  by (simp add: yields_def create_settlement_def increment_settlement_counter_def Let_def run_simps
     ready_core [OF core_setters(12)] ready_core [OF core_setters(13)] ready_core [OF core_setters(14)])
    (simp add: storage_get_settlement_def set_settlement_def set_active_settlement_def)

lemma passes_settled_pay:
  assumes "token_transfer E tok f t v tk = Some u"
    and "yields (\<lambda>s. k_TokenContract s = Some tok) rest Q"
  shows "yields (\<lambda>s. ready tok tk s \<and> storage_get_settlement n s \<noteq> None)
    (settle_transfer E n i (invoke_token_transfer E tok f t v) rest) Q"
proof -
  have "\<exists>w. andthen (complete_settlement E n i) rest s' = rest w \<and> k_TokenContract w = Some tok"
    if "k_TokenContract s' = Some tok" "storage_get_settlement n s' \<noteq> None" for s'
    using that by (auto simp: complete_settlement_def run_simps ok_or_def andthen_def bind_def
        set_settlement_def clear_active_settlement_def)
  note settled = this
  show ?thesis unfolding yields_def
  proof (intro allI impI)
    fix s
    assume s: "ready tok tk s \<and> storage_get_settlement n s \<noteq> None"
    let ?t = "s\<lparr>tokens := u, k_CircuitBreakerState := Some (record_success (get_breaker s))\<rparr>"
    have "invoke_token_transfer E tok f t v s = (Inr (), ?t)"
      using run_pay [of s E tok f t v u] s assms(1) by (simp add: ready_def)
    then have "settle_transfer E n i (invoke_token_transfer E tok f t v) rest s =
        andthen (complete_settlement E n i) rest ?t"
      by (simp add: settle_transfer_def attempt_def bind_def)
    moreover obtain w where "andthen (complete_settlement E n i) rest ?t = rest w" "k_TokenContract w = Some tok"
      using settled [of ?t] s by (auto simp: ready_def storage_get_settlement_def)
    ultimately show "\<exists>x t'. settle_transfer E n i (invoke_token_transfer E tok f t v) rest s = (Inr x, t') \<and> Q x t'"
      using assms(2) by (simp add: yields_def)
  qed
qed

lemma passes_emit_released:
  "passes (\<lambda>s. k_TokenContract s = Some tok) (emit_escrow_released E i a v) (\<lambda>s. k_TokenContract s = Some tok)"
  by (simp add: passes_def emit_escrow_released_def token_or_trap_def get_token_contract_def unwrap_def
      andthen_def bind_def gets_def ret_def modify_def publish_counted_def publish_def
      increment_event_count_def Let_def)

lemma passes_persist:
  "shipment_valid sh \<Longrightarrow> passes (\<lambda>s. k_TokenContract s = Some tok) (persist_shipment sh) (\<lambda>s. k_TokenContract s = Some tok)"
  by (simp add: passes_def run_persist set_escrow_def set_shipment_def)

lemma yields_token:
  "yields (ready tok tk) (f tok) Q \<Longrightarrow>
   yields (ready tok tk) (bind (gets get_token_contract) (\<lambda>x. bind (ok_or x e) f)) Q"
  by (simp add: yields_def ready_def get_token_contract_def run_simps ok_or_def)

lemma yields_release_all:
  assumes "0 < sh_escrow_amount sh"
    and "token_transfer E tok (self E) (sh_carrier sh) (sh_escrow_amount sh) tk = Some u"
    and "shipment_valid (released E sh (sh_escrow_amount sh))"
  shows "yields (ready tok tk) (internal_release_escrow E sh (sh_escrow_amount sh))
    (\<lambda>x s. k_TokenContract s = Some tok \<and> x = released E sh (sh_escrow_amount sh))"
proof -
  let ?v = "sh_escrow_amount sh" and ?sh = "released E sh (sh_escrow_amount sh)"
  have "bind (checked_sub_escrow ?v ?v) f = f 0" for f :: "int \<Rightarrow> ('a, Shipment) nav"
    by (simp add: checked_sub_escrow_def fun_eq_iff run_simps i128_checked_sub_def ok_or_def in_i128_def
        i128_min_def i128_max_def)
  moreover have "bump_nonce (touch E (sh\<lparr>sh_escrow_amount := 0\<rparr>)) = ?sh" by (simp add: released_def)
  moreover have rest: "yields (\<lambda>s. k_TokenContract s = Some tok)
      (andthen (persist_shipment ?sh) (andthen (emit_escrow_released E (sh_id sh) (sh_carrier sh) ?v) (ret ?sh)))
      (\<lambda>x s. k_TokenContract s = Some tok \<and> x = ?sh)"
    by (rule yields_andthen [OF passes_persist [OF assms(3)]], rule yields_andthen [OF passes_emit_released])
      (simp add: yields_ret)
  ultimately have "internal_release_escrow E sh ?v =
      bind (gets get_token_contract) (\<lambda>x. bind (ok_or x NotInitialized) (\<lambda>tok.
      bind (create_settlement E (sh_id sh) Release ?v (self E) (sh_carrier sh)) (\<lambda>n.
      settle_transfer E n (sh_id sh) (invoke_token_transfer E tok (self E) (sh_carrier sh) ?v)
       (andthen (persist_shipment ?sh)
         (andthen (emit_escrow_released E (sh_id sh) (sh_carrier sh) ?v) (ret ?sh))))))"
    using assms(1) by (simp add: internal_release_escrow_def Let_def)
  then show ?thesis
    by (simp only:) (rule yields_token, rule yields_bind [OF yields_settlement],
      rule passes_settled_pay [OF assms(2) rest])
qed

section \<open>Delivery\<close>

lemma yields_confirm_delivery:
  assumes "storage_get_shipment i s = Some sh" "is_initialized s" "\<not> storage_is_paused s" "ship_ok sh"
    and "authorized E (sh_receiver sh)" "\<not> all_zero h"
    and "sh_status sh \<in> {InTransit, AtCheckpoint, PartiallyDelivered}"
    and "room Delivered s" "ready tok (tokens s) s"
    and "0 < sh_escrow_amount sh \<Longrightarrow>
      token_transfer E tok (self E) (sh_carrier sh) (sh_escrow_amount sh) (tokens s) \<noteq> None"
  shows "\<exists>t. confirm_delivery E (sh_receiver sh) i h s = (Inr (), t)"
proof -
  let ?sh = "touch E (sh\<lparr>sh_status := Delivered\<rparr>)" and ?v = "sh_escrow_amount sh"
  let ?first = "do_all [
       decrement_status_count (sh_status sh),
       increment_status_count Delivered,
       modify (set_confirmation_hash i h),
       modify (decrement_active_shipment_count (sh_sender sh)),
       extend_shipment_ttl i]"
  let ?last = "\<lambda>sh'. do_all [
       persist_shipment sh',
       emit_delivery_confirmed E i (sh_receiver sh) h,
       emit_delivery_success E (sh_carrier sh') i (timestamp E),
       emit_carrier_milestone_rate (sh_carrier sh') i
         (length (sh_paid_milestones sh')) (length (sh_payment_milestones sh')),
       (if timestamp E > sh_deadline sh'
        then emit_carrier_late_delivery (sh_carrier sh') i (sh_deadline sh') (timestamp E)
        else emit_carrier_on_time_delivery (sh_carrier sh') i),
       emit_notification (sh_sender sh') NDeliveryConfirmed i h,
       emit_notification (sh_carrier sh') NDeliveryConfirmed i h]"
  have fin: "\<not> sh_finalized sh" using assms(4,7) by (auto simp: ship_ok_def)
  have "is_valid_transition (sh_status sh) Delivered" using assms(7) by auto
  then have run: "confirm_delivery E (sh_receiver sh) i h s =
      andthen ?first (bind (internal_release_escrow E ?sh ?v) (\<lambda>sh1. ?last (finalize_if_settled sh1))) s"
    using assms(1-3,5,6) fin
    by (simp add: confirm_delivery_def Guards.require_initialized_def Guards.require_not_paused_def
        require_auth_def validate_hash_def find_shipment_def require_not_finalized_def
        validate_shipment_transition_def run_simps ok_or_def Let_def del: do_all.simps)
  have first: "passes (\<lambda>s'. s' = s) ?first (ready tok (tokens s))"
  proof (intro passes_step)
    show "passes (\<lambda>s'. s' = s) (decrement_status_count (sh_status sh))
        (\<lambda>s'. ready tok (tokens s) s' \<and> room Delivered s')"
      by (rule passes_pre [OF passes_counts(2)]) (use assms(7-9) in auto)
    show "passes (\<lambda>s'. ready tok (tokens s) s' \<and> room Delivered s') (increment_status_count Delivered)
        (ready tok (tokens s))"
      by (rule passes_counts(1))
    show "passes (ready tok (tokens s)) (modify (set_confirmation_hash i h)) (ready tok (tokens s))"
      "passes (ready tok (tokens s)) (modify (decrement_active_shipment_count (sh_sender sh))) (ready tok (tokens s))"
      by (rule passes_modify, simp add: ready_core [OF core_setters(4)] ready_core [OF core_setters(11)])+
    show "passes (ready tok (tokens s)) (extend_shipment_ttl i) (ready tok (tokens s))"
      by (simp add: passes_def extend_shipment_ttl_def run_simps ready_core [OF core_events(7)])
  qed (simp add: passes_def run_simps)
  have last: "passes (\<lambda>s. k_TokenContract s = Some tok) (?last x) (\<lambda>_. True)" if "shipment_valid x" for x
    by (rule passes_step [OF passes_persist [OF that]]) (simp add: passes_def emit_defs run_simps)
  show ?thesis
  proof (cases "0 < ?v")
    case True
    then obtain u where u: "token_transfer E tok (self E) (sh_carrier ?sh) (sh_escrow_amount ?sh) (tokens s) = Some u"
      using assms(10) by auto
    let ?paid = "released E ?sh ?v"
    have ok: "shipment_valid ?paid" "shipment_valid (finalize_if_settled ?paid)"
      using assms(4) fin by (auto simp: shipment_valid_def ship_ok_def)
    have "yields (ready tok (tokens s)) (bind (internal_release_escrow E ?sh ?v)
        (\<lambda>sh1. ?last (finalize_if_settled sh1))) (\<lambda>_ _. True)"
    proof (rule yields_bind)
      show "yields (ready tok (tokens s)) (internal_release_escrow E ?sh ?v)
          (\<lambda>x t. k_TokenContract t = Some tok \<and> x = ?paid)"
        using yields_release_all [OF _ u] True ok(1) by simp
      show "yields (\<lambda>t. k_TokenContract t = Some tok \<and> x = ?paid) (?last (finalize_if_settled x)) (\<lambda>_ _. True)" for x
        using last [OF ok(2)] by (auto simp: yields_passes passes_def)
    qed
    from yields_andthen [OF first this] run show ?thesis by (auto simp: yields_def)
  next
    case False
    then have "internal_release_escrow E ?sh ?v = ret ?sh" by (simp add: internal_release_escrow_def)
    moreover have "shipment_valid (finalize_if_settled ?sh)"
      using assms(4) fin False by (auto simp: shipment_valid_def ship_ok_def)
    ultimately have "yields (ready tok (tokens s)) (bind (internal_release_escrow E ?sh ?v)
        (\<lambda>sh1. ?last (finalize_if_settled sh1))) (\<lambda>_ _. True)"
      using last [of "finalize_if_settled ?sh"] by (auto simp: yields_passes passes_def ready_def run_simps simp del: do_all.simps)
    from yields_andthen [OF first this] run show ?thesis by (auto simp: yields_def)
  qed
qed

section \<open>The token pays\<close>

text \<open>The escrow of one shipment is part of what the contract holds.\<close>

lemma escrow_held:
  assumes "mst held me tok (Some (i, sh)) 0 s"
  shows "sh_escrow_amount sh \<le> held me (tokens s)"
proof -
  have inv: "minv tok (k_Shipment s) (k_ArchivedShipment s) (k_ShipmentCount s) (k_Admin s)
      (k_TokenContract s) (held me (tokens s))"
    and sh: "lookup (k_Shipment s) (k_ArchivedShipment s) i = Some sh"
    using assms by (simp_all add: mst_def)
  have "0 \<le> escrow_at (k_Shipment s) (k_ArchivedShipment s) j" for j
    using minv_lookup(4) [OF inv, of j] by (auto simp: escrow_at_def ship_ok_def split: option.splits)
  then have "escrow_at (k_Shipment s) (k_ArchivedShipment s) i \<le>
      locked_upto (k_Shipment s) (k_ArchivedShipment s) (unwrap_or 0 (k_ShipmentCount s))"
    unfolding locked_upto_def using minv_lookup(2,3) [OF inv sh] by (intro member_le_sum) auto
  with inv sh show ?thesis by (simp add: minv_def escrow_at_def)
qed

lemma transfer_succeeds:
  assumes "token_inv s" "Token.is_initialized s" "\<not> Token.storage_is_paused s" "authorized E f" "0 < v"
    "f \<noteq> t" "v \<le> get_balance f s"
  shows "navin_transfer E f t v s \<noteq> None"
proof -
  have "in_i128 (get_balance t s + v)" "in_i128 (get_balance f s - v)"
    using move_in_range [OF assms(1) _ assms(6) _ assms(7)] assms(2,5) by (auto simp: Token.is_initialized_def)
  with assms show ?thesis
    by (simp add: navin_transfer_def Token.transfer_def token_run i128_checked_add_def i128_checked_sub_def)
qed

lemma settlement_pays:
  assumes "reachable (sys_legal tok me) (sys_entry tok me) sys_init s"
    and "storage_get_shipment i s = Some sh" "0 < sh_escrow_amount sh" "to \<noteq> me"
    and "Token.is_initialized (tokens s)" "\<not> Token.storage_is_paused (tokens s)"
  shows "token_transfer (navin_env tok me E) tok (self (navin_env tok me E)) to (sh_escrow_amount sh) (tokens s) \<noteq> None"
proof -
  have "mst get_balance me tok (Some (i, sh)) 0 s" "token_inv (tokens s)"
    using reachable_inv [OF assms(1)] assms(2) by (simp_all add: mst_def calm_def serene_def token_ok_def)
  then show ?thesis
    using transfer_succeeds [OF _ assms(5,6), of "token_env tok me E" me "sh_escrow_amount sh" to]
      escrow_held assms(3,4) by (fastforce simp: token_env_def)
qed

lemma reachable_ready:
  assumes "reachable (sys_legal tok me) (sys_entry tok me) sys_init s" "storage_get_shipment i s = Some sh"
  shows "ship_ok sh" "Store.is_initialized s" "ready tok (tokens s) s"
proof -
  have m: "mst get_balance me tok (Some (i, sh)) 0 s" and c: "calm (token_ok me) s"
    using reachable_inv [OF assms(1)] assms(2) by (simp_all add: mst_def)
  show "ship_ok sh" "ready tok (tokens s) s"
    using mst_found(2,3) [OF m] c by (simp_all add: ready_def calm_def serene_def)
  show "Store.is_initialized s"
    using m by (auto simp: mst_def minv_def lookup_def Store.is_initialized_def)
qed

section \<open>Properties\<close>





end
