(* ===== verification/Statuses.thy ===== *)
theory Statuses
  imports Journeys
begin

text \<open>
  The life of a shipment as a state machine: whatever call about shipments succeeds, the status of each
  shipment stays, moves along an edge of \<open>is_valid_transition\<close>, or takes one of the three shortcuts
  that the cancelling and disputing calls leave open.
\<close>

section \<open>The machine\<close>

inductive life_step :: "ShipmentStatus \<Rightarrow> ShipmentStatus \<Rightarrow> bool" where
  same: "life_step a a"
| edge: "is_valid_transition a b \<Longrightarrow> life_step a b"
| late_dispute: "life_step Delivered Disputed"
| reopened: "life_step PartiallyRefunded Disputed"
| written_off: "life_step PartiallyRefunded Cancelled"

inductive_cases life_stepE: "life_step a b"

lemma life_step_iff:
  "life_step a b \<longleftrightarrow> a = b \<or> is_valid_transition a b \<or> a = Delivered \<and> b = Disputed \<or>
     a = PartiallyRefunded \<and> b \<in> {Disputed, Cancelled}"
  by (auto elim: life_stepE intro: life_step.intros)

lemma life_step_cancel: "a \<noteq> Delivered \<Longrightarrow> life_step a Cancelled"
  by (cases a) (simp_all add: life_step_iff)

lemma life_step_dispute: "a \<noteq> Cancelled \<Longrightarrow> life_step a Disputed"
  by (cases a) (simp_all add: life_step_iff)

lemma life_step_deliver: "a = InTransit \<or> a = AtCheckpoint \<or> a = PartiallyDelivered \<Longrightarrow>
   life_step a Delivered \<and> life_step a PartiallyDelivered"
  by (auto simp: life_step_iff)

lemmas life_steps = life_step.same life_step.edge life_step_cancel life_step_dispute life_step_deliver

section \<open>Rules\<close>

definition stored_as :: "nat \<Rightarrow> Shipment \<Rightarrow> 't store \<Rightarrow> bool" where
  "stored_as i sh s \<longleftrightarrow> storage_get_shipment i s = Some sh \<and> sh_id sh = i"

definition moved :: "nat \<Rightarrow> ShipmentStatus \<Rightarrow> 't store \<Rightarrow> bool" where
  "moved i st s \<longleftrightarrow> (\<exists>sh. storage_get_shipment i s = Some sh \<and> life_step st (sh_status sh))"

lemma st_files:
  assumes "frame files m"
  shows "triple (stored_as i sh) m (\<lambda>_. stored_as i sh)"
  unfolding keeps_def [symmetric] by (rule keeps_frame [OF assms]) (simp add: stored_as_def files_def)

lemma st_frame: "frame core m \<Longrightarrow> triple (stored_as i sh) m (\<lambda>_. stored_as i sh)"
  by (rule st_files) (rule files_of_core)

lemma st_done: "life_step st (sh_status sh) \<Longrightarrow> stored_as i sh s \<Longrightarrow> moved i st s"
  by (auto simp: stored_as_def moved_def)

lemma st_set_shipment: "sh_id sh' = i \<Longrightarrow> stored_as i sh' (set_shipment sh' s)"
  by (simp add: stored_as_def set_shipment_def)

lemma st_set:
  "sh_id sh' = i \<Longrightarrow> triple (stored_as i sh) (modify (set_shipment sh')) (\<lambda>_. stored_as i sh')"
  by (simp add: triple_def wp_simps st_set_shipment)

lemma st_persist:
  "sh_id sh' = i \<Longrightarrow> triple (stored_as i sh) (persist_shipment sh') (\<lambda>_. stored_as i sh')"
  by (simp add: triple_def wp_simps stored_as_def set_shipment_def set_escrow_def)

lemma st_ends:
  "life_step st (sh_status sh) \<Longrightarrow> frame core m \<Longrightarrow> triple (stored_as i sh) m (\<lambda>_. moved i st)"
  by (rule triple_conseq [OF st_frame]) (auto intro: st_done)

lemma st_end_set:
  "sh_id sh' = i \<Longrightarrow> life_step st (sh_status sh') \<Longrightarrow>
     triple (stored_as i sh) (modify (set_shipment sh')) (\<lambda>_. moved i st)"
  by (rule triple_conseq [OF st_set]) (auto intro: st_done)

lemma st_end_persist:
  "sh_id sh' = i \<Longrightarrow> life_step st (sh_status sh') \<Longrightarrow>
     triple (stored_as i sh) (persist_shipment sh') (\<lambda>_. moved i st)"
  by (rule triple_conseq [OF st_persist]) (auto intro: st_done)

lemmas st_ends_set = st_end_set st_end_persist

lemma st_find:
  "triple (stored_as i sh) (f sh) Q \<Longrightarrow> triple (stored_as i sh) (bind (find_shipment i) f) Q"
  by (auto simp: triple_def wp_simps stored_as_def)

lemma st_transition:
  "(is_valid_transition a b \<Longrightarrow> triple P n Q) \<Longrightarrow>
   triple P (andthen (validate_shipment_transition a b) n) Q"
  by (simp add: triple_def wp_simps)

lemma lock_status [simp]:
  "stored_as i sh (set_reentrancy_lock b s) = stored_as i sh s"
  "moved i st (set_reentrancy_lock b s) = moved i st s"
  by (simp_all add: stored_as_def moved_def set_reentrancy_lock_def)

lemma st_lock:
  "triple (stored_as i sh) m (\<lambda>_. moved i st) \<Longrightarrow>
   triple (stored_as i sh) (with_reentrancy_lock m) (\<lambda>_. moved i st)"
  by (simp add: triple_def wp_simps)

lemma st_settle:
  assumes "triple (stored_as i sh) rest Q"
  shows "triple (stored_as i sh) (settle_transfer E n j (invoke_token_transfer E tok f t v) rest) Q"
proof -
  have "triple (stored_as i sh) (andthen (invoke_token_transfer E tok f t v)
      (andthen (complete_settlement E n j) rest)) Q"
    by (rule triple_andthen [OF st_files [OF files_pay]], rule triple_andthen [OF st_frame assms])
      (rule frame_rules)
  then show ?thesis by (simp only: triple_def wp_andthen wp_settle_transfer)
qed

text \<open>After a release, the shipment in the hands of the handler has the status it had.\<close>

lemma st_release:
  assumes "sh_id sh = i"
    and "\<And>sh' x. sh_id sh' = i \<Longrightarrow> sh_status sh' = sh_status sh \<Longrightarrow> x = st0 \<or> x = sh' \<Longrightarrow>
      triple (stored_as i x) (f sh') Q"
  shows "triple (stored_as i st0) (bind (internal_release_escrow E sh v) f) Q"
  by (rule triple_release; ((rule st_settle | (rule triple_andthen, rule st_persist) |
      (rule triple_bind triple_andthen, rule st_frame, rule frame_rules) | rule assms(2) |
      (use assms(1) in \<open>simp; fail\<close>))+))

lemmas st_walk = mst_seq mst_seq_all mst_let mst_ok_or st_find st_transition st_release st_lock st_settle
  mst_flat mst_flat_cases
lemmas st_next = triple_andthen mst_do_all triple_bind


section \<open>The calls\<close>

lemma st_escrow_calls:
  assumes "sh_id sh = i"
  shows
    "triple (stored_as i sh) (deposit_escrow E a i v) (\<lambda>_. moved i (sh_status sh))"
    "triple (stored_as i sh) (release_escrow E a i) (\<lambda>_. moved i (sh_status sh))"
    "triple (stored_as i sh) (refund_escrow E a i) (\<lambda>_. moved i (sh_status sh))"
  unfolding deposit_escrow_def release_escrow_def refund_escrow_def
  by ((rule st_walk | (rule st_next, (rule st_set st_persist st_files [OF files_pay] st_files [OF files_fee] |
      (rule st_frame, (rule frame_rules)+))) | (rule st_ends_set) | (rule st_ends) |
      rule frame_rules | (use assms in \<open>simp add: life_steps\<close>; fail) | (use assms in \<open>auto simp: life_steps\<close>; fail))+)

lemma st_records:
  assumes "sh_id sh = i"
  shows
    "triple (stored_as i sh) (set_shipment_metadata E a i y z) (\<lambda>_. moved i (sh_status sh))"
    "triple (stored_as i sh) (append_note_hash E a i h) (\<lambda>_. moved i (sh_status sh))"
    "triple (stored_as i sh) (add_dispute_evidence_hash E a i h) (\<lambda>_. moved i (sh_status sh))"
    "triple (stored_as i sh) (report_geofence_event E a i ge h) (\<lambda>_. moved i (sh_status sh))"
    "triple (stored_as i sh) (update_eta E a i n h) (\<lambda>_. moved i (sh_status sh))"
    "triple (stored_as i sh) (lib_extend_shipment_ttl i) (\<lambda>_. moved i (sh_status sh))"
    "triple (stored_as i sh) (handoff_shipment E a b i h) (\<lambda>_. moved i (sh_status sh))"
    "triple (stored_as i sh) (update_status E a i st h) (\<lambda>_. moved i (sh_status sh))"
    "triple (stored_as i sh) (cancel_shipment E a i h) (\<lambda>_. moved i (sh_status sh))"
    "triple (stored_as i sh) (raise_dispute E a i h) (\<lambda>_. moved i (sh_status sh))"
  unfolding set_shipment_metadata_def append_note_hash_def add_dispute_evidence_hash_def
    update_status_def dependencies_met_def report_geofence_event_def update_eta_def
    lib_extend_shipment_ttl_def cancel_shipment_def raise_dispute_def handoff_shipment_def
  by ((rule st_walk | (rule st_next, (rule st_set st_persist | (rule st_frame, (rule frame_rules)+))) |
      rule st_ends_set st_ends | rule frame_rules | (use assms in \<open>simp add: life_steps\<close>; fail))+)

lemma files_refund_sender: "frame files (refund_sender E j sh)"
  unfolding refund_sender_def
  by ((rule files_pay frame_rules | (rule files_of_core, rule frame_rules))+)

lemma files_refund_removed:
  "frame files (do_all [modify (remove_escrow_balance k), refund_sender E j sh])"
  by ((rule files_refund_sender frame_rules | (rule files_core, simp; fail) | (rule files_of_core, rule frame_rules))+)

lemma st_payments:
  assumes "sh_id sh = i"
  shows
    "triple (stored_as i sh) (confirm_delivery E a i h) (\<lambda>_. moved i (sh_status sh))"
    "triple (stored_as i sh) (confirm_partial_delivery E a i h n) (\<lambda>_. moved i (sh_status sh))"
    "triple (stored_as i sh) (record_milestone E a i y h) (\<lambda>_. moved i (sh_status sh))"
    "triple (stored_as i sh) (release_milestone_payment E a i y) (\<lambda>_. moved i (sh_status sh))"
    "triple (stored_as i sh) (force_cancel_shipment E a i h) (\<lambda>_. moved i (sh_status sh))"
    "triple (stored_as i sh) (check_deadline E i) (\<lambda>_. moved i (sh_status sh))"
    "triple (stored_as i sh) (resolve_dispute E a i r h) (\<lambda>_. moved i (sh_status sh))"
  unfolding confirm_delivery_def confirm_partial_delivery_def record_milestone_def
    release_milestone_payment_def force_cancel_shipment_def check_deadline_def resolve_dispute_def
  by ((rule st_walk | (rule st_next, (rule st_set st_persist st_files [OF files_pay]
      st_files [OF frame_only_if(1) [OF files_refund_sender]]
      st_files [OF frame_only_if(1) [OF files_refund_removed]] | (rule st_frame, (rule frame_rules)+))) |
      rule st_ends_set st_ends | rule frame_rules | (use assms in \<open>simp add: life_steps\<close>; fail) |
      (use assms in \<open>auto simp: life_steps split: DisputeResolution.splits\<close>; fail))+)

lemma st_batch_loop:
  assumes "sh_id sh = i"
    and "\<And>sh' x. sh_id sh' = i \<Longrightarrow> sh_status sh' = sh_status sh \<Longrightarrow> triple (stored_as i x) (f sh') Q"
  shows "triple (stored_as i st0) (bind (record_batch_loop E c j items sh) f) Q"
  using assms
proof (induction items arbitrary: sh st0)
  case Nil
  with Nil(2) [of sh st0] show ?case by (simp add: triple_def wp_simps)
next
  case (Cons item items)
  obtain y h where item: "item = (y, h)" by fastforce
  show ?case
    unfolding record_batch_loop.simps record_batch_item_def item prod.case
    by ((rule mst_flat mst_flat_cases st_release Cons.IH | (rule st_next,
        (rule st_frame, (rule frame_rules)+)) | (use Cons.prems in \<open>simp; fail\<close>) | (rule Cons.prems(2), (simp add: Cons.prems; fail)+))+)
qed

lemma st_milestones_batch:
  assumes "sh_id sh = i"
  shows "triple (stored_as i sh) (record_milestones_batch E a i items) (\<lambda>_. moved i (sh_status sh))"
  unfolding record_milestones_batch_def
  by ((rule st_walk st_batch_loop | (rule st_next, (rule st_frame, (rule frame_rules)+)) | rule st_ends_set |
      (use assms in \<open>simp add: life_steps\<close>; fail))+)

lemma st_breach:
  assumes "sh_id sh = i"
  shows "triple (stored_as i sh) (report_condition_breach E a i br sv h) (\<lambda>_. moved i (sh_status sh))"
proof -
  have dispute: "triple (stored_as i sh) (do_all [bind (gets get_config) (\<lambda>cfg. only_if (b cfg)
      (do_all (modify (set_shipment sh') # ms)))]) (\<lambda>_. moved i (sh_status sh))"
    if "sh_id sh' = i" "\<And>cfg. b cfg \<Longrightarrow> life_step (sh_status sh) (sh_status sh')" "frame core (do_all ms)"
    for b sh' ms
  proof -
    have "triple (stored_as i sh) (only_if (b cfg) (do_all (modify (set_shipment sh') # ms)))
        (\<lambda>_. moved i (sh_status sh))" (is "triple _ (?d cfg) _") for cfg
    proof (cases "b cfg")
      case True
      then show ?thesis
        by (simp only: only_if_def if_True) (rule mst_do_all [OF st_set [OF that(1)] st_ends [OF that(2,3)]])
    qed (auto simp: only_if_def triple_def wp_simps intro: st_done life_step.same)
    then have "triple (stored_as i sh) (bind (gets get_config) ?d) (\<lambda>_. moved i (sh_status sh))"
      by (intro triple_bind [OF st_frame]) (rule frame_rules)
    then show ?thesis by (rule mst_do_all) (simp add: triple_def wp_simps)
  qed
  show ?thesis unfolding report_condition_breach_def
    by ((rule mst_seq mst_seq_all st_find dispute | (rule st_next, (rule st_frame, (rule frame_rules)+)) |
        rule frame_rules | (use assms in \<open>simp add: life_steps\<close>; fail))+)
qed

lemma st_archive:
  "triple (stored_as i sh) (archive_shipment E a j) (\<lambda>_. stored_as i sh)"
  by (rule archive_keeps) (simp add: stored_as_def)

lemma life_exec_moves:
  assumes "sh_id sh = target c" "target c \<noteq> 0"
  shows "triple (stored_as (target c) sh) (life_exec E c) (\<lambda>_. moved (target c) (sh_status sh))"
proof (cases c)
  case (C_archive_shipment a i)
  show ?thesis unfolding C_archive_shipment life_exec.simps target.simps
    by (rule triple_conseq [OF st_archive]) (auto intro: st_done life_step.same)
qed (use assms in \<open>simp_all add: st_escrow_calls st_records st_payments st_milestones_batch st_breach\<close>)

section \<open>Properties\<close>



end
