(* ===== verification/ErrorMap.thy ===== *)
theory ErrorMap
  imports Types
begin

text \<open>
  The catalogue of errors that wallets and indexers query, \<open>error_map.rs\<close>: per error its category, whether
  a retry can help, and a short message.
\<close>

section \<open>Definitions\<close>

datatype ErrorCategory =
    CatInvalidInput | CatUnauthorized | CatNotFound | CatInvalidState | CatLimitExceeded
  | CatTransient | CatConfiguration

datatype RetryGuidance = NoRetry | RetryAfterDelay | RetryAfterStateChange

record ContractErrorInfo =
  ei_code :: nat
  ei_category :: ErrorCategory
  ei_retry :: RetryGuidance
  ei_message :: sym

text \<open>The match of \<open>error_info\<close>, arm by arm; the text in its last column is dropped by the code.\<close>

primrec error_match :: "NavinError \<Rightarrow> nat \<times> ErrorCategory \<times> RetryGuidance \<times> string" where
  "error_match AlreadyInitialized = (1, CatConfiguration, NoRetry,
     ''Contract is already initialised; call init only once.'')"
| "error_match NotInitialized = (2, CatConfiguration, NoRetry,
     ''Contract has not been initialised; call init first.'')"
| "error_match Unauthorized = (3, CatUnauthorized, NoRetry,
     ''Caller does not hold the required role or signature.'')"
| "error_match ShipmentNotFound = (4, CatNotFound, NoRetry,
     ''Shipment ID does not exist.'')"
| "error_match InvalidStatus = (5, CatInvalidState, RetryAfterStateChange,
     ''State transition is not allowed from the current shipment status.'')"
| "error_match InvalidHash = (6, CatInvalidInput, NoRetry,
     ''Provided data hash does not match the stored value.'')"
| "error_match EscrowLocked = (7, CatInvalidState, RetryAfterStateChange,
     ''Escrow is locked; wait for the shipment to reach a terminal state.'')"
| "error_match InsufficientFunds = (8, CatInvalidInput, NoRetry,
     ''Caller balance is too low to cover the escrow deposit.'')"
| "error_match ShipmentAlreadyCompleted = (9, CatInvalidState, NoRetry,
     ''Shipment is already in a terminal state (Delivered or Disputed).'')"
| "error_match InvalidTimestamp = (10, CatInvalidInput, NoRetry,
     ''Timestamp is invalid (e.g. ETA is in the past).'')"
| "error_match CounterOverflow = (11, CatTransient, NoRetry,
     ''Internal counter overflowed; contact the contract operator.'')"
| "error_match InvalidAmount = (14, CatInvalidInput, NoRetry,
     ''Amount must be a positive non-zero value.'')"
| "error_match ReentrancyDetected = (15, CatInvalidState, RetryAfterDelay,
     ''Reentrancy lock is active; retry once the current escrow operation completes.'')"
| "error_match BatchTooLarge = (16, CatLimitExceeded, NoRetry,
     ''Batch exceeds the maximum allowed item count; split into smaller batches.'')"
| "error_match InvalidShipmentInput = (17, CatInvalidInput, NoRetry,
     ''Shipment parameters are invalid (e.g. receiver equals carrier).'')"
| "error_match MilestoneSumInvalid = (18, CatInvalidInput, NoRetry,
     ''Milestone percentages must sum to exactly 100.'')"
| "error_match MilestoneAlreadyPaid = (19, CatInvalidState, NoRetry,
     ''This milestone has already been paid.'')"
| "error_match MetadataLimitExceeded = (20, CatLimitExceeded, NoRetry,
     ''Maximum of 5 metadata entries per shipment reached.'')"
| "error_match RateLimitExceeded = (21, CatLimitExceeded, RetryAfterDelay,
     ''Minimum interval between status updates has not elapsed; retry later.'')"
| "error_match ProposalNotFound = (22, CatNotFound, NoRetry,
     ''Multi-sig proposal ID does not exist.'')"
| "error_match ProposalAlreadyExecuted = (23, CatInvalidState, NoRetry,
     ''Proposal has already been executed.'')"
| "error_match ProposalExpired = (24, CatInvalidState, NoRetry,
     ''Proposal has expired; create a new proposal.'')"
| "error_match AlreadyApproved = (25, CatInvalidState, NoRetry,
     ''This admin has already approved the proposal.'')"
| "error_match InsufficientApprovals = (26, CatInvalidState, RetryAfterStateChange,
     ''Not enough admin approvals; wait for additional signers.'')"
| "error_match NotAnAdmin = (27, CatUnauthorized, NoRetry,
     ''Caller is not in the admin list.'')"
| "error_match InvalidMultiSigConfig = (28, CatInvalidInput, NoRetry,
     ''Multi-sig config is invalid (e.g. threshold exceeds admin count).'')"
| "error_match NotExpired = (29, CatInvalidState, RetryAfterStateChange,
     ''Shipment deadline has not yet passed; wait for expiry.'')"
| "error_match ShipmentLimitReached = (30, CatLimitExceeded, RetryAfterStateChange,
     ''Company has reached its active shipment cap; close existing shipments first.'')"
| "error_match InvalidConfig = (31, CatInvalidInput, NoRetry,
     ''Configuration parameters are invalid.'')"
| "error_match CannotSelfRevoke = (32, CatInvalidInput, NoRetry,
     ''An admin cannot revoke their own role; use transfer_admin instead.'')"
| "error_match CarrierSuspended = (33, CatUnauthorized, RetryAfterStateChange,
     ''Carrier account is suspended; contact the contract operator.'')"
| "error_match ForceCancelReasonHashMissing = (34, CatInvalidInput, NoRetry,
     ''Force-cancel requires a non-zero reason hash.'')"
| "error_match ArithmeticError = (35, CatTransient, NoRetry,
     ''Arithmetic overflow/underflow in escrow calculation; check amounts.'')"
| "error_match DisputeReasonHashMissing = (36, CatInvalidInput, NoRetry,
     ''Dispute resolution requires a non-zero reason hash.'')"
| "error_match CompanySuspended = (37, CatUnauthorized, RetryAfterStateChange,
     ''Company account is suspended; contact the contract operator.'')"
| "error_match ShipmentFinalized = (38, CatInvalidState, NoRetry,
     ''Shipment is finalised and locked; no further mutations are allowed.'')"
| "error_match TokenTransferFailed = (39, CatTransient, RetryAfterDelay,
     ''Cross-contract token transfer failed; retry after verifying token contract state.'')"
| "error_match TokenMintFailed = (40, CatTransient, RetryAfterDelay,
     ''Cross-contract token mint failed; retry after verifying token contract state.'')"
| "error_match DuplicateAction = (41, CatInvalidInput, NoRetry,
     ''Action hash was already processed within the idempotency window.'')"
| "error_match ShipmentUnavailable = (42, CatInvalidState, RetryAfterStateChange,
     ''Shipment state is unavailable (archived or expired); restore before retrying.'')"
| "error_match ContractPaused = (43, CatInvalidState, RetryAfterStateChange,
     ''Contract is paused; wait for the operator to resume operations.'')"
| "error_match StatusHashNotFound = (44, CatNotFound, NoRetry,
     ''No status hash found for the given shipment and status.'')"
| "error_match DataHashMismatch = (45, CatInvalidInput, NoRetry,
     ''Provided hash does not match the stored hash; recompute and resubmit.'')"
| "error_match CircuitBreakerOpen = (46, CatTransient, RetryAfterDelay,
     ''Circuit breaker is open; token transfers are temporarily disabled.'')"
| "error_match InvalidMigrationEdge = (47, CatInvalidInput, NoRetry,
     ''Migration version transition is not permitted.'')"
| "error_match MilestoneLimitExceeded = (48, CatLimitExceeded, NoRetry,
     ''Maximum milestone events per shipment reached.'')"
| "error_match NoteLimitExceeded = (49, CatLimitExceeded, NoRetry,
     ''Maximum note events per shipment reached.'')"
| "error_match EvidenceLimitExceeded = (50, CatLimitExceeded, NoRetry,
     ''Maximum evidence entries per dispute reached.'')"
| "error_match BreachLimitExceeded = (51, CatLimitExceeded, NoRetry,
     ''Maximum condition breach events per shipment reached.'')"
| "error_match InvalidTokenDecimals = (52, CatInvalidInput, NoRetry,
     ''Token decimals do not match the expected value (7); use a Stellar-standard token.'')"
| "error_match CreationQuotaExceeded = (53, CatLimitExceeded, RetryAfterStateChange,
     ''Company has exceeded the shipment creation quota for the current time window.'')"
| "error_match DependenciesNotMet = (54, CatInvalidState, RetryAfterStateChange,
     ''Shipment cannot transition to InTransit or Delivered because its prerequisite shipments are not yet completed.'')"
| "error_match CircularDependency = (55, CatInvalidInput, NoRetry,
     ''A circular dependency was detected in the shipment prerequisites.'')"
| "error_match ProposalSaltReused = (56, CatInvalidInput, NoRetry,
     ''Proposal salt was already used in a prior proposal; replay attack prevented.'')"
| "error_match InvalidShipmentParticipants = (57, CatInvalidInput, NoRetry,
     ''Shipment sender, receiver, and carrier must be three distinct addresses.'')"
| "error_match InvalidShipmentDeadline = (58, CatInvalidInput, NoRetry,
     ''Shipment deadline must be strictly in the future.'')"
| "error_match InvalidPaymentMilestones = (59, CatInvalidInput, NoRetry,
     ''Payment milestone structure is invalid; each percentage must be 1-100.'')"
| "error_match DuplicatePaymentMilestone = (60, CatInvalidInput, NoRetry,
     ''Payment milestone checkpoint names must be unique.'')"
| "error_match InvalidTokenAddress = (61, CatInvalidInput, NoRetry,
     ''Shipment token address is invalid for this shipment.'')"
| "error_match InvalidPaymentMilestoneName = (62, CatInvalidInput, NoRetry,
     ''Payment milestone checkpoint name has an invalid format.'')"
| "error_match MetadataSymbolCollision = (63, CatInvalidInput, NoRetry,
     ''Metadata keys and values cannot be identical.'')"
| "error_match ExternalIntegrationFailed = (64, CatTransient, RetryAfterDelay,
     ''External integration failed.'')"
| "error_match InvalidSymbol = (65, CatInvalidInput, NoRetry,
     ''Symbol is invalid.'')"
| "error_match NoteNotFound = (66, CatNotFound, NoRetry,
     ''Note not found at the given index.'')"
| "error_match EvidenceNotFound = (67, CatNotFound, NoRetry,
     ''Evidence not found or index out of bounds.'')"
| "error_match RoleAlreadyAssigned = (68, CatInvalidInput, NoRetry,
     ''Address already holds the requested role.'')"
| "error_match CarrierAlreadyWhitelisted = (69, CatInvalidState, NoRetry,
     ''Carrier is already on the company's whitelist; duplicate addition is not allowed.'')"
| "error_match InvalidAddress = (70, CatInvalidInput, NoRetry,
     ''Address is invalid (e.g., zero-address sentinel).'')"
| "error_match RecoveryLimitExceeded = (71, CatLimitExceeded, NoRetry,
     ''Maximum allowed recovery action entries for a shipment has been reached.'')"

definition message_for :: "NavinError \<Rightarrow> sym" where
  "message_for e = (case e of
     AlreadyInitialized \<Rightarrow> ''already''
   | NotInitialized \<Rightarrow> ''not_init''
   | Unauthorized \<Rightarrow> ''unauth''
   | ShipmentNotFound \<Rightarrow> ''shipment''
   | InvalidStatus \<Rightarrow> ''invalid''
   | InvalidHash \<Rightarrow> ''hash_err''
   | TokenTransferFailed \<Rightarrow> ''token''
   | TokenMintFailed \<Rightarrow> ''token''
   | CircuitBreakerOpen \<Rightarrow> ''circuit''
   | _ \<Rightarrow> ''unknown'')"

definition error_info :: "NavinError \<Rightarrow> ContractErrorInfo" where
  "error_info e = (case error_match e of (code, category, retry, _) \<Rightarrow>
     \<lparr>ei_code = code, ei_category = category, ei_retry = retry, ei_message = message_for e\<rparr>)"

text \<open>The match of \<open>get_error_info\<close> on codes, and its last arm.\<close>

definition code_table :: "(nat \<times> NavinError) list" where
  "code_table = [
     (1, AlreadyInitialized), (2, NotInitialized), (3, Unauthorized), (4, ShipmentNotFound),
     (5, InvalidStatus), (6, InvalidHash), (7, EscrowLocked), (8, InsufficientFunds),
     (9, ShipmentAlreadyCompleted), (10, InvalidTimestamp), (11, CounterOverflow),
     (14, InvalidAmount), (15, ReentrancyDetected), (16, BatchTooLarge),
     (17, InvalidShipmentInput), (18, MilestoneSumInvalid), (19, MilestoneAlreadyPaid),
     (20, MetadataLimitExceeded), (21, RateLimitExceeded), (22, ProposalNotFound),
     (23, ProposalAlreadyExecuted), (24, ProposalExpired), (25, AlreadyApproved),
     (26, InsufficientApprovals), (27, NotAnAdmin), (28, InvalidMultiSigConfig), (29, NotExpired),
     (30, ShipmentLimitReached), (31, InvalidConfig), (32, CannotSelfRevoke),
     (33, CarrierSuspended), (34, ForceCancelReasonHashMissing), (35, ArithmeticError),
     (36, DisputeReasonHashMissing), (37, CompanySuspended), (38, ShipmentFinalized),
     (39, TokenTransferFailed), (40, TokenMintFailed), (41, DuplicateAction),
     (42, ShipmentUnavailable), (43, ContractPaused), (44, StatusHashNotFound),
     (45, DataHashMismatch), (46, CircuitBreakerOpen), (47, InvalidMigrationEdge),
     (48, MilestoneLimitExceeded), (49, NoteLimitExceeded), (50, EvidenceLimitExceeded),
     (51, BreachLimitExceeded), (52, InvalidTokenDecimals), (53, CreationQuotaExceeded),
     (54, DependenciesNotMet), (55, CircularDependency), (56, ProposalSaltReused),
     (57, InvalidShipmentParticipants), (58, InvalidShipmentDeadline),
     (59, InvalidPaymentMilestones), (60, DuplicatePaymentMilestone), (61, InvalidTokenAddress),
     (62, InvalidPaymentMilestoneName), (63, MetadataSymbolCollision),
     (64, ExternalIntegrationFailed), (65, InvalidSymbol), (66, NoteNotFound),
     (67, EvidenceNotFound), (68, RoleAlreadyAssigned), (69, CarrierAlreadyWhitelisted),
     (70, InvalidAddress), (71, RecoveryLimitExceeded)]"

definition get_error_info :: "nat \<Rightarrow> ContractErrorInfo" where
  "get_error_info code = (case map_of code_table code of
     Some e \<Rightarrow> error_info e
   | None \<Rightarrow> \<lparr>ei_code = code, ei_category = CatInvalidInput, ei_retry = NoRetry,
       ei_message = ''unknown''\<rparr>)"

section \<open>Properties\<close>

lemma code_of_info: "ei_code (error_info e) = error_code e"
  by (cases e) (simp_all add: error_info_def)

lemma table_lists_codes: "map_of code_table (error_code e) = Some e"
  by (cases e) (simp_all add: code_table_def)

lemma table_codes: "map_of code_table n = Some e \<Longrightarrow> error_code e = n"
  by (drule map_of_SomeD) (auto simp: code_table_def)

text \<open>
  C37. Codes and catalogue agree: querying the code of an error gives the entry of that error, the entry
  of every code that is queried carries this code, known or not, and exactly the codes of errors are
  known.
\<close>

theorem error_catalogue_roundtrip:
  "get_error_info (error_code e) = error_info e \<and> ei_code (get_error_info n) = n \<and>
   (map_of code_table n \<noteq> None \<longleftrightarrow> n \<in> range error_code)"
proof -
  have "ei_code (get_error_info n) = n"
    using table_codes by (auto simp: get_error_info_def code_of_info split: option.splits)
  moreover have "map_of code_table n \<noteq> None \<longleftrightarrow> n \<in> range error_code"
    using table_lists_codes table_codes by fastforce
  ultimately show ?thesis
    by (simp add: get_error_info_def table_lists_codes)
qed

end
