(* ===== verification/Queries.thy ===== *)
theory Queries
  imports Samples ErrorMap
begin

text \<open>
  The read-only entry points of \<open>lib.rs\<close>: single shipments, pages by offset and by cursor, company and
  carrier relations, stored hashes, the shipment reference, and restore diagnostics.
\<close>

section \<open>Single shipments\<close>

definition get_shipment :: "nat \<Rightarrow> ('t, Shipment) nav" where
  "get_shipment i = andthen require_initialized (find_shipment i)"

text \<open>The getters of one field: \<open>require_initialized\<close>, the shipment, the field.\<close>

definition shipment_field :: "(Shipment \<Rightarrow> 'a) \<Rightarrow> nat \<Rightarrow> ('t, 'a) nav" where
  "shipment_field f i = andthen require_initialized (bind (find_shipment i) (\<lambda>sh. ret (f sh)))"

definition get_shipment_creator :: "nat \<Rightarrow> ('t, addr) nav" where
  "get_shipment_creator = shipment_field sh_sender"

definition get_shipment_receiver :: "nat \<Rightarrow> ('t, addr) nav" where
  "get_shipment_receiver = shipment_field sh_receiver"

definition get_shipment_created_at :: "nat \<Rightarrow> ('t, nat) nav" where
  "get_shipment_created_at = shipment_field sh_created_at"

definition get_shipment_sender :: "nat \<Rightarrow> ('t, addr) nav" where
  "get_shipment_sender = shipment_field sh_sender"

definition get_shipment_updated_at :: "nat \<Rightarrow> ('t, nat) nav" where
  "get_shipment_updated_at = shipment_field sh_updated_at"

definition get_shipment_carrier :: "nat \<Rightarrow> ('t, addr) nav" where
  "get_shipment_carrier = shipment_field sh_carrier"

definition get_shipment_count :: "('t, nat) nav" where
  "get_shipment_count = gets storage_get_shipment_counter"

definition get_event_count :: "nat \<Rightarrow> ('t, nat) nav" where
  "get_event_count i =
     andthen require_initialized
    (andthen (shipment_must_exist i) (gets (storage_get_event_count i)))"

record PersistentRestoreDiagnostics =
  rd_shipment_id :: nat
  rd_state :: StoragePresenceState
  rd_persistent_shipment_present :: bool
  rd_archived_shipment_present :: bool
  rd_escrow_present :: bool
  rd_confirmation_hash_present :: bool
  rd_last_status_update_present :: bool
  rd_event_count_present :: bool

definition get_restore_diagnostics :: "nat \<Rightarrow> ('t, PersistentRestoreDiagnostics) nav" where
  "get_restore_diagnostics i =
     andthen require_initialized (gets (\<lambda>s.
       let per = has_persistent_shipment i s; arc = is_shipment_archived i s in
       \<lparr>rd_shipment_id = i,
        rd_state = (if per \<and> arc then InconsistentDualPresence
          else if per then ActivePersistent
          else if arc then ArchivedExpected
          else Missing),
        rd_persistent_shipment_present = per,
        rd_archived_shipment_present = arc,
        rd_escrow_present = has_escrow_entry i s,
        rd_confirmation_hash_present = has_confirmation_hash_entry i s,
        rd_last_status_update_present = has_last_status_update_entry i s,
        rd_event_count_present = has_event_count_entry i s\<rparr>))"

section \<open>Pages by offset\<close>

definition effective_batch_query_limit :: nat where
  "effective_batch_query_limit = 50"

definition get_shipments_batch :: "nat list \<Rightarrow> ('t, Shipment option list) nav" where
  "get_shipments_batch ids =
     andthen require_initialized
    (andthen (fail_if (length ids > effective_batch_query_limit) BatchTooLarge)
       (gets (\<lambda>s. map (\<lambda>i. storage_get_shipment i s) ids)))"

text \<open>
  The loop the four page queries share, over the numbers still to visit, with its two counters and
  the vector of matches.
\<close>

fun page_loop ::
    "(Shipment \<Rightarrow> bool) \<Rightarrow> nat \<Rightarrow> nat \<Rightarrow> nat list \<Rightarrow> nat \<Rightarrow> nat \<Rightarrow> Shipment list \<Rightarrow> 't store \<Rightarrow>
     Shipment list" where
  "page_loop p offset limit [] skipped collected matched s = matched"
| "page_loop p offset limit (i # ids) skipped collected matched s =
    (case storage_get_shipment i s of
       None \<Rightarrow> page_loop p offset limit ids skipped collected matched s
     | Some sh \<Rightarrow>
         if \<not> p sh then page_loop p offset limit ids skipped collected matched s
         else if skipped < offset
           then page_loop p offset limit ids (u32_saturating_add skipped 1) collected matched s
         else if u32_saturating_add collected 1 \<ge> limit then matched @ [sh]
         else page_loop p offset limit ids skipped (u32_saturating_add collected 1)
                (matched @ [sh]) s)"

definition page_query :: "(Shipment \<Rightarrow> bool) \<Rightarrow> nat \<Rightarrow> nat \<Rightarrow> ('t, Shipment list) nav" where
  "page_query p offset limit =
     andthen require_initialized
    (andthen (fail_if (limit = 0 \<or> limit > effective_batch_query_limit) InvalidConfig)
       (gets (\<lambda>s. page_loop p offset limit [1..<Suc (storage_get_shipment_counter s)] 0 0 [] s)))"

definition get_shipments_by_sender_page :: "addr \<Rightarrow> nat \<Rightarrow> nat \<Rightarrow> ('t, Shipment list) nav" where
  "get_shipments_by_sender_page a = page_query (\<lambda>sh. sh_sender sh = a)"

definition get_shipments_by_sender :: "addr \<Rightarrow> nat \<Rightarrow> ('t, Shipment list) nav" where
  "get_shipments_by_sender a limit = get_shipments_by_sender_page a 0 limit"

definition get_shipments_by_carrier_page :: "addr \<Rightarrow> nat \<Rightarrow> nat \<Rightarrow> ('t, Shipment list) nav" where
  "get_shipments_by_carrier_page a = page_query (\<lambda>sh. sh_carrier sh = a)"

definition get_shipments_by_carrier :: "addr \<Rightarrow> nat \<Rightarrow> ('t, Shipment list) nav" where
  "get_shipments_by_carrier a limit = get_shipments_by_carrier_page a 0 limit"

definition get_shipments_by_receiver_page :: "addr \<Rightarrow> nat \<Rightarrow> nat \<Rightarrow> ('t, Shipment list) nav" where
  "get_shipments_by_receiver_page a = page_query (\<lambda>sh. sh_receiver sh = a)"

definition get_shipments_by_receiver :: "addr \<Rightarrow> nat \<Rightarrow> ('t, Shipment list) nav" where
  "get_shipments_by_receiver a limit = get_shipments_by_receiver_page a 0 limit"

definition get_shipments_by_status_page ::
    "ShipmentStatus \<Rightarrow> nat \<Rightarrow> nat \<Rightarrow> ('t, Shipment list) nav" where
  "get_shipments_by_status_page st = page_query (\<lambda>sh. sh_status sh = st)"

definition get_shipments_by_status :: "ShipmentStatus \<Rightarrow> nat \<Rightarrow> ('t, Shipment list) nav" where
  "get_shipments_by_status st limit = get_shipments_by_status_page st 0 limit"

section \<open>Pages by cursor\<close>

text \<open>
  The loop \<open>while current_id < total\<close>, over the numbers \<open>current_id + 1, .., total\<close>; it stops when
  the page is full. The result is the page and the next cursor.
\<close>

fun cursor_loop ::
    "(Shipment \<Rightarrow> bool) \<Rightarrow> nat \<Rightarrow> nat \<Rightarrow> nat list \<Rightarrow> nat list \<Rightarrow> 't store \<Rightarrow> nat list \<times> nat option" where
  "cursor_loop p page_size tot [] found s = (found, None)"
| "cursor_loop p page_size tot (i # ids) found s =
    (case storage_get_shipment i s of
       None \<Rightarrow> cursor_loop p page_size tot ids found s
     | Some sh \<Rightarrow>
         if p sh then
           if length (found @ [i]) = page_size
           then (found @ [i], if i < tot then Some i else None)
           else cursor_loop p page_size tot ids (found @ [i]) s
         else cursor_loop p page_size tot ids found s)"

definition cursor_query ::
    "(Shipment \<Rightarrow> bool) \<Rightarrow> nat option \<Rightarrow> nat \<Rightarrow> ('t, nat list \<times> nat option) nav" where
  "cursor_query p cursor page_size =
     andthen require_initialized
    (andthen (fail_when (\<lambda>s. page_size = 0 \<or> page_size > batch_operation_limit (get_config s))
       InvalidConfig)
       (gets (\<lambda>s. let tot = storage_get_shipment_counter s in
          cursor_loop p page_size tot [Suc (unwrap_or 0 cursor)..<Suc tot] [] s)))"

definition search_shipments_by_status ::
    "ShipmentStatus \<Rightarrow> nat option \<Rightarrow> nat \<Rightarrow> ('t, nat list \<times> nat option) nav" where
  "search_shipments_by_status st = cursor_query (\<lambda>sh. sh_status sh = st)"

definition search_shipments_by_sender ::
    "addr \<Rightarrow> nat option \<Rightarrow> nat \<Rightarrow> ('t, nat list \<times> nat option) nav" where
  "search_shipments_by_sender a = cursor_query (\<lambda>sh. sh_sender sh = a)"

definition search_shipments_by_carrier ::
    "addr \<Rightarrow> nat option \<Rightarrow> nat \<Rightarrow> ('t, nat list \<times> nat option) nav" where
  "search_shipments_by_carrier a = cursor_query (\<lambda>sh. sh_carrier sh = a)"

definition search_shipments_by_receiver ::
    "addr \<Rightarrow> nat option \<Rightarrow> nat \<Rightarrow> ('t, nat list \<times> nat option) nav" where
  "search_shipments_by_receiver a = cursor_query (\<lambda>sh. sh_receiver sh = a)"

section \<open>Companies and carriers\<close>

definition is_company_carrier_allowed :: "addr \<Rightarrow> addr \<Rightarrow> ('t, bool) nav" where
  "is_company_carrier_allowed company carrier =
     andthen require_initialized (gets (\<lambda>s.
       if \<not> storage_is_carrier_whitelisted company carrier s then False
       else if storage_is_company_suspended company s then False
       else if storage_is_carrier_suspended carrier s then False
       else True))"

record CarrierRelationshipPage =
  cp_carriers :: "addr list"
  cp_next_cursor :: "nat option"
  cp_total_scanned :: nat

fun carriers_loop ::
    "addr \<Rightarrow> nat \<Rightarrow> nat \<Rightarrow> nat \<Rightarrow> addr list \<Rightarrow> addr list \<Rightarrow> nat \<Rightarrow> 't store \<Rightarrow>
     CarrierRelationshipPage" where
  "carriers_loop company page_size tot idx [] found scanned s =
     \<lparr>cp_carriers = found, cp_next_cursor = None, cp_total_scanned = scanned\<rparr>"
| "carriers_loop company page_size tot idx (c # cs) found scanned s =
    (if storage_is_carrier_whitelisted company c s then
       if length (found @ [c]) = page_size
       then \<lparr>cp_carriers = found @ [c],
             cp_next_cursor = (if idx + 1 < tot then Some (idx + 1) else None),
             cp_total_scanned = u32_saturating_add scanned 1\<rparr>
       else carriers_loop company page_size tot (idx + 1) cs (found @ [c])
              (u32_saturating_add scanned 1) s
     else carriers_loop company page_size tot (idx + 1) cs found (u32_saturating_add scanned 1) s)"

definition list_company_carriers ::
    "addr \<Rightarrow> addr list \<Rightarrow> nat \<Rightarrow> nat \<Rightarrow> ('t, CarrierRelationshipPage) nav" where
  "list_company_carriers company candidates cursor page_size =
     andthen require_initialized
    (andthen (fail_if (page_size = 0 \<or> page_size > 50) InvalidConfig)
       (gets (carriers_loop company page_size (length candidates) cursor
          (drop cursor candidates) [] 0)))"

section \<open>Hashes and references\<close>

definition verify_delivery_proof :: "nat \<Rightarrow> hash \<Rightarrow> ('t, bool) nav" where
  "verify_delivery_proof i h =
     andthen require_initialized
    (andthen (validate_hash h)
    (andthen (shipment_must_exist i) (gets (\<lambda>s. get_confirmation_hash i s = Some h))))"

definition get_status_hash :: "nat \<Rightarrow> ShipmentStatus \<Rightarrow> ('t, hash) nav" where
  "get_status_hash i st =
     andthen require_initialized
    (andthen (shipment_must_exist i)
    (bind (gets (storage_get_status_hash i st)) (\<lambda>x. ok_or x StatusHashNotFound)))"

definition verify_data_hash :: "nat \<Rightarrow> ShipmentStatus \<Rightarrow> hash \<Rightarrow> ('t, bool) nav" where
  "verify_data_hash i st h =
     andthen require_initialized
    (andthen (validate_hash h)
    (andthen (shipment_must_exist i)
    (bind (gets (storage_get_status_hash i st)) (\<lambda>x.
     bind (ok_or x StatusHashNotFound) (\<lambda>stored. ret (stored = h))))))"

definition assert_delivery_hash :: "nat \<Rightarrow> hash \<Rightarrow> ('t, unit) nav" where
  "assert_delivery_hash i h =
     andthen require_initialized
    (andthen (validate_hash h)
    (andthen (shipment_must_exist i)
    (bind (gets (get_confirmation_hash i)) (\<lambda>x.
     bind (ok_or x StatusHashNotFound) (\<lambda>stored. fail_if (stored \<noteq> h) DataHashMismatch)))))"

definition assert_data_hash :: "nat \<Rightarrow> ShipmentStatus \<Rightarrow> hash \<Rightarrow> ('t, unit) nav" where
  "assert_data_hash i st h =
     andthen require_initialized
    (andthen (validate_hash h)
    (andthen (shipment_must_exist i)
    (bind (gets (storage_get_status_hash i st)) (\<lambda>x.
     bind (ok_or x StatusHashNotFound) (\<lambda>stored. fail_if (stored \<noteq> h) DataHashMismatch)))))"

definition is_paused :: "('t, bool) nav" where
  "is_paused = andthen require_initialized (gets storage_is_paused)"

text \<open>Two hexadecimal digits per byte of the digest.\<close>

definition hex_digits :: "byte \<Rightarrow> string" where
  "hex_digits b = [''0123456789abcdef'' ! unat (drop_bit 4 b), ''0123456789abcdef'' ! unat (and b 15)]"

definition get_shipment_reference :: "'t env \<Rightarrow> nat \<Rightarrow> ('t, string) nav" where
  "get_shipment_reference E i =
     andthen require_initialized
    (andthen (shipment_must_exist i)
       (ret (concat (map hex_digits
          (sha256 E (network_id E @ addr_xdr E (self E) @ be_bytes 8 i))))))"

text \<open>The encoding \<open>to_xdr\<close> of a list of host values is the host's and an argument.\<close>

definition get_canonical_hash :: "'t env \<Rightarrow> ('v list \<Rightarrow> bytes) \<Rightarrow> 'v list \<Rightarrow> hash" where
  "get_canonical_hash E vals_xdr vals = sha256 E (vals_xdr vals)"

definition lib_get_error_info :: "nat \<Rightarrow> ('t, ContractErrorInfo) nav" where
  "lib_get_error_info code = ret (get_error_info code)"

section \<open>What the queries return\<close>

definition matching :: "(Shipment \<Rightarrow> bool) \<Rightarrow> nat list \<Rightarrow> 't store \<Rightarrow> nat list" where
  "matching p ids s = filter (\<lambda>i. case storage_get_shipment i s of None \<Rightarrow> False | Some sh \<Rightarrow> p sh) ids"

lemma matching_simps [simp]:
  "matching p [] s = []"
  "matching p (i # ids) s = (if (case storage_get_shipment i s of None \<Rightarrow> False | Some sh \<Rightarrow> p sh)
     then i # matching p ids s else matching p ids s)"
  by (simp_all add: matching_def)

definition found_shipments :: "(Shipment \<Rightarrow> bool) \<Rightarrow> nat list \<Rightarrow> 't store \<Rightarrow> Shipment list" where
  "found_shipments p ids s = filter p (List.map_filter (\<lambda>i. storage_get_shipment i s) ids)"

lemma found_shipments_simps [simp]:
  "found_shipments p [] s = []"
  "found_shipments p (i # ids) s = (case storage_get_shipment i s of
     None \<Rightarrow> found_shipments p ids s
   | Some sh \<Rightarrow> if p sh then sh # found_shipments p ids s else found_shipments p ids s)"
  by (simp_all add: found_shipments_def List.map_filter_def split: option.splits)

lemma page_loop_collect:
  "collected < limit \<Longrightarrow> limit \<le> u32_max \<Longrightarrow> \<not> skipped < offset \<Longrightarrow>
   page_loop p offset limit ids skipped collected matched s =
     matched @ take (limit - collected) (found_shipments p ids s)"
proof (induction ids arbitrary: collected matched)
  case Nil
  then show ?case by simp
next
  case (Cons i ids)
  then have sat: "u32_saturating_add collected 1 = Suc collected"
    by (simp add: u32_saturating_add_def)
  have take_Suc: "take (limit - collected) (sh # r) = sh # take (limit - Suc collected) r" for sh :: Shipment and r
    using Cons.prems by (simp add: take_Cons' )
  show ?case
  proof (cases "Suc collected < limit")
    case True
    with Cons sat show ?thesis by (auto simp: take_Suc split: option.splits)
  next
    case False
    with Cons.prems have "limit - collected = Suc 0" by simp
    with Cons sat False show ?thesis by (auto split: option.splits)
  qed
qed

lemma page_loop_skip:
  "0 < limit \<Longrightarrow> limit \<le> u32_max \<Longrightarrow> offset \<le> u32_max \<Longrightarrow> skipped \<le> offset \<Longrightarrow>
   page_loop p offset limit ids skipped 0 [] s =
     take limit (drop (offset - skipped) (found_shipments p ids s))"
proof (induction ids arbitrary: skipped)
  case Nil
  then show ?case by simp
next
  case (Cons i ids)
  show ?case
  proof (cases "skipped < offset")
    case True
    then have "u32_saturating_add skipped 1 = Suc skipped"
      "drop (offset - skipped) (sh # r) = drop (offset - Suc skipped) r" for sh :: Shipment and r
      using Cons.prems by (simp_all add: u32_saturating_add_def drop_Cons')
    with Cons True show ?thesis by (auto split: option.splits)
  next
    case False
    with Cons.prems show ?thesis
      using page_loop_collect [of 0 limit skipped offset p "i # ids" "[]" s] by simp
  qed
qed

text \<open>
  A page and what the next cursor still has to give make up what the cursor had to give; a page with
  a next cursor is full, and the cursor has moved on.
\<close>

lemma cursor_loop_split:
  "length found < n \<Longrightarrow> cursor_loop p n tot [Suc c..<Suc tot] found s = (r, nxt) \<Longrightarrow>
   r @ (case nxt of None \<Rightarrow> [] | Some d \<Rightarrow> matching p [Suc d..<Suc tot] s) =
     found @ matching p [Suc c..<Suc tot] s \<and>
   (\<forall>d. nxt = Some d \<longrightarrow> c < d \<and> d < tot \<and> length r = n)"
proof (induction "tot - c" arbitrary: c found)
  case 0
  then show ?case by auto
next
  case (Suc m)
  then have "Suc c < Suc tot" by linarith
  then have ids: "[Suc c..<Suc tot] = Suc c # [Suc (Suc c)..<Suc tot]"
    by (rule upt_conv_Cons)
  have m: "m = tot - Suc c" using Suc by simp
  show ?case
  proof (cases "case storage_get_shipment (Suc c) s of None \<Rightarrow> False | Some sh \<Rightarrow> p sh")
    case False
    then have "cursor_loop p n tot [Suc (Suc c)..<Suc tot] found s = (r, nxt)"
      using Suc.prems ids by (auto split: option.splits)
    from Suc.hyps(1) [OF m Suc.prems(1) this] False ids show ?thesis by auto
  next
    case True
    show ?thesis
    proof (cases "length (found @ [Suc c]) = n")
      case full: True
      then have "(r, nxt) = (found @ [Suc c], if Suc c < tot then Some (Suc c) else None)"
        using Suc.prems(2) True unfolding ids by (auto split: option.splits)
      with True full ids show ?thesis by auto
    next
      case more: False
      then have "cursor_loop p n tot [Suc (Suc c)..<Suc tot] (found @ [Suc c]) s = (r, nxt)"
        using Suc.prems(2) True unfolding ids by (auto split: option.splits)
      from Suc.hyps(1) [OF m _ this] more Suc.prems(1) True ids show ?thesis by auto
    qed
  qed
qed

text \<open>A client that follows the cursors, with a bound on the number of pages.\<close>

fun follow_pages ::
    "nat \<Rightarrow> (Shipment \<Rightarrow> bool) \<Rightarrow> nat option \<Rightarrow> nat \<Rightarrow> 't store \<Rightarrow> nat list option" where
  "follow_pages 0 p cursor n s = None"
| "follow_pages (Suc f) p cursor n s = (case cursor_query p cursor n s of
     (Inl _, _) \<Rightarrow> None
   | (Inr (ids, None), _) \<Rightarrow> Some ids
   | (Inr (ids, Some c), _) \<Rightarrow> map_option (append ids) (follow_pages f p (Some c) n s))"

lemma run_cursor_query:
  assumes "is_initialized s" "0 < n" "n \<le> batch_operation_limit (get_config s)"
  shows "cursor_query p cursor n s = (Inr (cursor_loop p n (storage_get_shipment_counter s)
    [Suc (unwrap_or 0 cursor)..<Suc (storage_get_shipment_counter s)] [] s), s)"
  using assms by (simp add: cursor_query_def require_initialized_def run_simps Let_def)

lemma follow_pages_eq:
  assumes "is_initialized s" "0 < n" "n \<le> batch_operation_limit (get_config s)"
    and "storage_get_shipment_counter s - unwrap_or 0 cursor < f"
  shows "follow_pages f p cursor n s =
    Some (matching p [Suc (unwrap_or 0 cursor)..<Suc (storage_get_shipment_counter s)] s)"
  using assms(4)
proof (induction f arbitrary: cursor)
  case 0
  then show ?case by simp
next
  case (Suc f)
  let ?tot = "storage_get_shipment_counter s" and ?c = "unwrap_or 0 cursor"
  obtain r nxt where loop: "cursor_loop p n ?tot [Suc ?c..<Suc ?tot] [] s = (r, nxt)" by fastforce
  have split: "r @ (case nxt of None \<Rightarrow> [] | Some d \<Rightarrow> matching p [Suc d..<Suc ?tot] s) =
      matching p [Suc ?c..<Suc ?tot] s" "\<And>d. nxt = Some d \<Longrightarrow> ?c < d \<and> d < ?tot"
    using cursor_loop_split [OF _ loop] assms(2) by auto
  show ?case
  proof (cases nxt)
    case None
    with split run_cursor_query [OF assms(1-3)] loop show ?thesis by simp
  next
    case (Some d)
    have "?tot - unwrap_or 0 (Some d) < f"
      using split(2) [OF Some] Suc.prems unfolding unwrap_or_simps by linarith
    from Suc.IH [OF this] Some split(1) run_cursor_query [OF assms(1-3)] loop show ?thesis by simp
  qed
qed

section \<open>Properties\<close>

text \<open>
  C25. Cursor pagination is complete and without repetition: a client that follows the cursors of
  \<open>search_shipments_by_status\<close> from the start, with any page size the contract admits, gets
  after finitely many pages exactly the numbers of the shipments in that status, in order.
\<close>

theorem cursor_pages_complete:
  assumes "is_initialized s" "0 < n" "n \<le> batch_operation_limit (get_config s)"
  shows "follow_pages (Suc (storage_get_shipment_counter s)) (\<lambda>sh. sh_status sh = st) None n s =
    Some (filter (\<lambda>i. \<exists>sh. storage_get_shipment i s = Some sh \<and> sh_status sh = st)
      [1..<Suc (storage_get_shipment_counter s)])"
proof -
  have "matching (\<lambda>sh. sh_status sh = st) ids s =
    filter (\<lambda>i. \<exists>sh. storage_get_shipment i s = Some sh \<and> sh_status sh = st) ids" for ids
    by (auto simp: matching_def intro!: filter_cong split: option.splits)
  then show ?thesis
    using follow_pages_eq [OF assms, of None "Suc (storage_get_shipment_counter s)"] by simp
qed

theorem cursor_pages_complete_witness:
  "follow_pages (Suc (storage_get_shipment_counter (holding (ship_in 3 InTransit 5))))
     (\<lambda>sh. sh_status sh = InTransit) None 2 (holding (ship_in 3 InTransit 5)) = Some [3]"
proof -
  have "is_initialized (holding (ship_in 3 InTransit 5))" "(0 :: nat) < 2"
    "2 \<le> batch_operation_limit (get_config (holding (ship_in 3 InTransit 5)))"
    by (simp_all add: samples is_initialized_def get_config_def default_config_def unwrap_or_def)
  from cursor_pages_complete [OF this, of InTransit] show ?thesis
    by (simp add: samples storage_get_shipment_def storage_get_shipment_counter_def unwrap_or_def
        upt_rec)
qed

text \<open>
  C36. A page by offset is the slice \<open>offset .. offset + limit\<close> of the list of all shipments of
  the sender, in the order of their numbers.
\<close>

theorem page_query_slice:
  assumes "is_initialized s" "0 < limit" "limit \<le> effective_batch_query_limit" "offset \<le> u32_max"
  shows "get_shipments_by_sender_page a offset limit s =
    (Inr (take limit (drop offset
       (found_shipments (\<lambda>sh. sh_sender sh = a) [1..<Suc (storage_get_shipment_counter s)] s))), s)"
proof -
  have "limit \<le> u32_max" using assms(3) by (simp add: effective_batch_query_limit_def u32_max_def)
  with assms show ?thesis
    by (simp add: get_shipments_by_sender_page_def page_query_def require_initialized_def
        page_loop_skip run_simps)
qed

theorem page_query_slice_witness:
  "get_shipments_by_sender_page 2 0 5 (holding (ship_in 3 InTransit 5)) =
     (Inr [ship_in 3 InTransit 5], holding (ship_in 3 InTransit 5))"
proof -
  have "is_initialized (holding (ship_in 3 InTransit 5))" "(0 :: nat) < 5"
    "5 \<le> effective_batch_query_limit" "0 \<le> u32_max"
    by (simp_all add: samples is_initialized_def effective_batch_query_limit_def)
  from page_query_slice [OF this] show ?thesis
    by (simp add: samples storage_get_shipment_def storage_get_shipment_counter_def unwrap_or_def
        upt_rec found_shipments_def)
qed

end
