(* ===== verification/Health.thy ===== *)
theory Health
  imports Queries
begin

text \<open>
  The checkers the contract offers its operators: the consistency scan of \<open>consistency.rs\<close>, the
  health check of \<open>diagnostics.rs\<close>, and the entry points of \<open>lib.rs\<close> that call them.
\<close>

section \<open>Consistency\<close>

definition DEFAULT_CONSISTENCY_SAMPLE_LIMIT :: nat where "DEFAULT_CONSISTENCY_SAMPLE_LIMIT = 100"

datatype ConsistencyViolation =
    EscrowMismatch nat
  | InvalidFinalization nat
  | MilestoneViolation nat
  | TimestampAnomaly nat
  | DeadlineAnomaly nat
  | MissingShipment nat
  | BatchSenderMismatch nat
  | BatchTimestampMismatch nat
  | StatusCountMismatch

definition flag :: "bool \<Rightarrow> 'v \<Rightarrow> 'v list" where
  "flag b v = (if b then [v] else [])"

definition check_shipment_invariants :: "nat \<Rightarrow> 't store \<Rightarrow> ConsistencyViolation list" where
  "check_shipment_invariants i s = (case storage_get_shipment i s of
     None \<Rightarrow> [MissingShipment i]
   | Some sh \<Rightarrow>
       flag (sh_escrow_amount sh \<noteq> get_escrow i s) (EscrowMismatch i) @
       flag (sh_finalized sh \<and> (\<not> (sh_status sh = Delivered \<or> sh_status sh = Cancelled) \<or>
          sh_escrow_amount sh \<noteq> 0)) (InvalidFinalization i) @
       flag (list_ex (\<lambda>paid. \<not> list_ex (\<lambda>m. fst m = paid) (sh_payment_milestones sh))
          (sh_paid_milestones sh)) (MilestoneViolation i) @
       flag (sh_updated_at sh < sh_created_at sh) (TimestampAnomaly i) @
       flag (sh_deadline sh \<le> sh_created_at sh) (DeadlineAnomaly i))"

text \<open>The second loop of \<open>check_batch_consistency\<close>, with the reference values of the first member.\<close>

fun batch_group ::
    "nat list \<Rightarrow> addr option \<Rightarrow> nat option \<Rightarrow> 't store \<Rightarrow> ConsistencyViolation list" where
  "batch_group [] ref_sender ref_created s = []"
| "batch_group (i # ids) ref_sender ref_created s = (case storage_get_shipment i s of
     None \<Rightarrow> batch_group ids ref_sender ref_created s
   | Some sh \<Rightarrow>
       flag (case ref_sender of None \<Rightarrow> False | Some a \<Rightarrow> a \<noteq> sh_sender sh) (BatchSenderMismatch i) @
       flag (case ref_created of None \<Rightarrow> False | Some t \<Rightarrow> t \<noteq> sh_created_at sh)
         (BatchTimestampMismatch i) @
       batch_group ids (Some (unwrap_or (sh_sender sh) ref_sender))
         (Some (unwrap_or (sh_created_at sh) ref_created)) s)"

definition check_batch_consistency :: "nat list \<Rightarrow> 't store \<Rightarrow> ConsistencyViolation list" where
  "check_batch_consistency ids s =
     concat (map (\<lambda>i. check_shipment_invariants i s) ids) @ batch_group ids None None s"

definition all_statuses :: "ShipmentStatus list" where
  "all_statuses = [Created, InTransit, AtCheckpoint, PartiallyDelivered, Delivered, Disputed,
     Cancelled, PartiallyRefunded]"

text \<open>The tally: how many of the shipments have a status.\<close>

definition count_status :: "nat list \<Rightarrow> ShipmentStatus \<Rightarrow> 't store \<Rightarrow> nat" where
  "count_status ids st s = length (matching (\<lambda>sh. sh_status sh = st) ids s)"

definition check_status_count_consistency_range ::
    "nat \<Rightarrow> nat \<Rightarrow> 't store \<Rightarrow> ConsistencyViolation list" where
  "check_status_count_consistency_range start_id end_id s =
    (let tot = storage_get_shipment_counter s in
     if start_id = 0 \<or> start_id > tot then []
     else let end_id = min end_id tot in
       flag (start_id = 1 \<and> end_id \<ge> tot \<and>
         list_ex (\<lambda>st. get_status_count st s \<noteq> count_status [start_id..<Suc end_id] st s) all_statuses)
         StatusCountMismatch)"

definition check_status_count_consistency :: "'t store \<Rightarrow> ConsistencyViolation list" where
  "check_status_count_consistency s =
     check_status_count_consistency_range 1 (storage_get_shipment_counter s) s"

definition check_all_consistency_range :: "nat \<Rightarrow> nat \<Rightarrow> 't store \<Rightarrow> ConsistencyViolation list" where
  "check_all_consistency_range start_id limit s =
    (let tot = storage_get_shipment_counter s in
     if start_id = 0 \<or> start_id > tot \<or> limit = 0 then []
     else let end_id = min (saturating_sub (u64_saturating_add start_id limit) 1) tot in
       concat (map (\<lambda>i. check_shipment_invariants i s) [start_id..<Suc end_id]) @
       check_status_count_consistency_range start_id end_id s)"

definition check_all_consistency :: "'t store \<Rightarrow> ConsistencyViolation list" where
  "check_all_consistency = check_all_consistency_range 1 DEFAULT_CONSISTENCY_SAMPLE_LIMIT"

section \<open>Diagnostics\<close>

definition DEFAULT_HEALTH_SAMPLE_LIMIT :: nat where "DEFAULT_HEALTH_SAMPLE_LIMIT = 100"

record SystemHealthStatus =
  hs_total_shipments :: nat
  hs_sum_of_escrow_balances :: int
  hs_active_shipments_counted :: nat
  hs_anomalous_shipment_ids :: "nat list"
  hs_storage_inconsistencies :: "nat list"

definition has_orphaned_counters :: "nat \<Rightarrow> 't store \<Rightarrow> bool" where
  "has_orphaned_counters i s \<longleftrightarrow>
     has_event_count_entry i s \<or> has_confirmation_hash_entry i s \<or>
     has_last_status_update_entry i s \<or> has_escrow_entry i s \<or>
     k_MilestoneEventCount s i \<noteq> None \<or> k_BreachEventCount s i \<noteq> None \<or>
     k_ActiveSettlement s i \<noteq> None \<or> k_EscrowFreezeReasonByShipment s i \<noteq> None \<or>
     k_ShipmentNoteCount s i \<noteq> None \<or> k_DisputeEvidenceCount s i \<noteq> None \<or>
     k_RecoveryRecordCount s i \<noteq> None"

text \<open>\<open>if b && !ids.contains(id) { ids.push_back(id) }\<close>\<close>

definition note_id :: "bool \<Rightarrow> nat \<Rightarrow> nat list \<Rightarrow> nat list" where
  "note_id b i ids = (if b \<and> i \<notin> set ids then ids @ [i] else ids)"

definition health_item ::
    "'t env \<Rightarrow> nat \<Rightarrow> Shipment \<Rightarrow> 't store \<Rightarrow> SystemHealthStatus \<Rightarrow> SystemHealthStatus" where
  "health_item E i sh s r =
    (let is_terminal = sh_status sh = Delivered \<or> sh_status sh = Cancelled \<or> sh_status sh = Disputed;
         has_persist = has_persistent_shipment i s
     in r\<lparr>hs_sum_of_escrow_balances :=
            i128_saturating_add (hs_sum_of_escrow_balances r) (sh_escrow_amount sh),
          hs_active_shipments_counted := (if \<not> is_terminal
            then hs_active_shipments_counted r + 1 else hs_active_shipments_counted r),
          hs_anomalous_shipment_ids := note_id (\<not> is_terminal \<and> sh_deadline sh < timestamp E \<and>
            sh_status sh = InTransit) i (hs_anomalous_shipment_ids r),
          hs_storage_inconsistencies :=
            note_id (\<not> has_persist \<and> is_terminal \<and> has_orphaned_counters i s) i
           (note_id (\<not> is_terminal \<and> \<not> has_persist) i
           (note_id (sh_escrow_amount sh \<noteq> get_escrow i s) i (hs_storage_inconsistencies r)))\<rparr>)"

text \<open>The \<open>u32\<close> count of active shipments cannot overflow: a scan covers at most 100 shipments.\<close>

fun health_loop :: "'t env \<Rightarrow> nat list \<Rightarrow> 't store \<Rightarrow> SystemHealthStatus \<Rightarrow> SystemHealthStatus" where
  "health_loop E [] s r = r"
| "health_loop E (i # ids) s r = health_loop E ids s (case storage_get_shipment i s of
     None \<Rightarrow> r\<lparr>hs_storage_inconsistencies := hs_storage_inconsistencies r @ [i]\<rparr>
   | Some sh \<Rightarrow> health_item E i sh s r)"

definition run_system_health_check_range ::
    "'t env \<Rightarrow> nat \<Rightarrow> nat \<Rightarrow> 't store \<Rightarrow> SystemHealthStatus" where
  "run_system_health_check_range E start_id limit s =
    (let tot = storage_get_shipment_counter s;
         r = \<lparr>hs_total_shipments = tot, hs_sum_of_escrow_balances = 0,
              hs_active_shipments_counted = 0, hs_anomalous_shipment_ids = [],
              hs_storage_inconsistencies = []\<rparr>
     in if start_id > 0 \<and> start_id \<le> tot \<and> limit > 0 then
          health_loop E
            [start_id..<Suc (min (saturating_sub (u64_saturating_add start_id limit) 1) tot)] s r
        else r)"

definition run_system_health_check :: "'t env \<Rightarrow> 't store \<Rightarrow> SystemHealthStatus" where
  "run_system_health_check E = run_system_health_check_range E 1 DEFAULT_HEALTH_SAMPLE_LIMIT"

section \<open>Entry points\<close>

definition check_contract_health :: "'t env \<Rightarrow> addr \<Rightarrow> ('t, SystemHealthStatus) nav" where
  "check_contract_health E admin =
     andthen require_initialized
    (andthen (require_auth E admin)
    (andthen (require_admin_or_operator admin) (gets (run_system_health_check E))))"

definition check_contract_health_paginated ::
    "'t env \<Rightarrow> addr \<Rightarrow> nat \<Rightarrow> nat \<Rightarrow> ('t, SystemHealthStatus) nav" where
  "check_contract_health_paginated E admin start_id limit =
     andthen require_initialized
    (andthen (require_auth E admin)
    (andthen (require_admin_or_operator admin)
    (andthen (fail_if (limit = 0 \<or> limit > effective_batch_query_limit) InvalidConfig)
       (gets (run_system_health_check_range E start_id limit)))))"

record TtlHealthSummary =
  th_total_shipment_count :: nat
  th_sampled_count :: nat
  th_persistent_count :: nat
  th_missing_or_archived_count :: nat
  th_persistent_percentage :: nat
  th_ttl_threshold :: nat
  th_ttl_extension :: nat
  th_current_ledger :: nat
  th_query_timestamp :: nat

definition get_ttl_health_summary :: "'t env \<Rightarrow> ('t, TtlHealthSummary) nav" where
  "get_ttl_health_summary E =
     andthen require_initialized (gets (\<lambda>s.
       let tot = storage_get_shipment_counter s;
           sampled = min tot 100;
           per = length (filter (\<lambda>i. has_persistent_shipment i s) [1..<Suc sampled]) in
       \<lparr>th_total_shipment_count = tot, th_sampled_count = sampled, th_persistent_count = per,
        th_missing_or_archived_count = saturating_sub sampled per,
        th_persistent_percentage = (if sampled = 0 then 0 else per * 100 div sampled),
        th_ttl_threshold = shipment_ttl_threshold (get_config s),
        th_ttl_extension = shipment_ttl_extension (get_config s),
        th_current_ledger = sequence E, th_query_timestamp = timestamp E\<rparr>))"

definition check_consistency_violations :: "'t env \<Rightarrow> addr \<Rightarrow> ('t, ConsistencyViolation list) nav" where
  "check_consistency_violations E admin =
     andthen require_initialized
    (andthen (require_auth E admin)
    (andthen (require_admin_or_operator admin) (gets check_all_consistency)))"

definition check_consistency_paginated ::
    "'t env \<Rightarrow> addr \<Rightarrow> nat \<Rightarrow> nat \<Rightarrow> ('t, ConsistencyViolation list) nav" where
  "check_consistency_paginated E admin start_id limit =
     andthen require_initialized
    (andthen (require_auth E admin)
    (andthen (require_admin_or_operator admin)
    (andthen (fail_if (limit = 0 \<or> limit > effective_batch_query_limit) InvalidConfig)
       (gets (check_all_consistency_range start_id limit)))))"

end
