(* ===== verification/Ledger.thy ===== *)
theory Ledger
  imports Statuses Bounds Health
begin

text \<open>
  The escrow of a shipment is stored twice: in its record and under a key of its own, the ledger.
  Every entry point keeps the two in agreement but two of them, and the consistency scan of
  \<open>consistency.rs\<close> looks for the shipments where they differ.
\<close>

section \<open>The ledger\<close>

text \<open>The records and the ledger, the part of the state the agreement depends on.\<close>

definition sheet :: "'t store \<Rightarrow> (nat \<Rightarrow> Shipment option) \<times> (nat \<Rightarrow> Shipment option) \<times> (nat \<Rightarrow> int option)" where
  "sheet s = (k_Shipment s, k_ArchivedShipment s, k_Escrow s)"

named_theorems sheet_rules \<open>frames of the helpers for the ledger\<close>

lemma sheet_hush: "sheet (hush s) = sheet s"
  by (simp add: sheet_def hush_def)

lemmas sheet_emit [sheet_rules] = hush_emit [THEN frame_hush [where v = sheet, OF sheet_hush]]

lemma sheet_writes [simp]:
  "sheet (Events.publish topic payload s) = sheet s"
  "sheet (increment_breach_event_count i s) = sheet s"
  "sheet (request_ttl b k th ex s) = sheet s"
  "sheet (storage_extend_shipment_ttl i th ex s) = sheet s"
  "sheet (set_escrow_freeze_reason i r s) = sheet s"
  "sheet (set_confirmation_hash i h s) = sheet s"
  "sheet (set_last_status_update i n s) = sheet s"
  "sheet (set_status_hash i st h s) = sheet s"
  "sheet (set_idempotency_window h n s) = sheet s"
  "sheet (set_status_count st n s) = sheet s"
  "sheet (set_active_shipment_count a n s) = sheet s"
  "sheet (increment_active_shipment_count a s) = sheet s"
  "sheet (decrement_active_shipment_count a s) = sheet s"
  "sheet (set_settlement_counter n s) = sheet s"
  "sheet (set_settlement st_r s) = sheet s"
  "sheet (set_active_settlement i n s) = sheet s"
  "sheet (clear_active_settlement i s) = sheet s"
  "sheet (storage_set_creation_quota a q s) = sheet s"
  "sheet (set_note_hash i n h s) = sheet s"
  "sheet (set_evidence_hash i n h s) = sheet s"
  "sheet (store_audit_entry e s) = sheet s"
  "sheet (remove_audit_entry n s) = sheet s"
  "sheet (set_shipment_counter n s) = sheet s"
  "sheet (set_breaker cb s) = sheet s"
  "sheet (s\<lparr>tokens := tk\<rparr>) = sheet s"
  "sheet (s\<lparr>tokens := tk, k_CircuitBreakerState := cs\<rparr>) = sheet s"
  "sheet (s\<lparr>k_TotalDisputes := td\<rparr>) = sheet s" "sheet (s\<lparr>k_TotalEscrowVolume := tv\<rparr>) = sheet s"
  "sheet (s\<lparr>k_ShipmentNoteCount := nc\<rparr>) = sheet s" "sheet (s\<lparr>k_DisputeEvidenceCount := ec\<rparr>) = sheet s"
  "sheet (s\<lparr>k_RecoveryRecord := rr\<rparr>) = sheet s" "sheet (s\<lparr>k_RecoveryRecordCount := rc\<rparr>) = sheet s"
  by (simp_all add: sheet_def
      set_escrow_freeze_reason_def set_confirmation_hash_def set_last_status_update_def
      set_status_hash_def set_idempotency_window_def set_status_count_def
      set_active_shipment_count_def increment_active_shipment_count_def
      decrement_active_shipment_count_def set_settlement_counter_def set_settlement_def
      set_active_settlement_def clear_active_settlement_def storage_set_creation_quota_def
      set_note_hash_def set_evidence_hash_def store_audit_entry_def increment_audit_entry_count_def
      remove_audit_entry_def request_ttl_def set_shipment_counter_def)

lemma sheet_helpers [sheet_rules]:
  "frame sheet (check_idempotency E p)" "frame sheet (extend_shipment_ttl i)"
  "frame sheet (extend_shipment_ttl_cached i th ex)" "frame sheet (increment_status_count st)"
  "frame sheet (decrement_status_count st)" "frame sheet increment_total_disputes"
  "frame sheet (add_total_escrow_volume x)" "frame sheet (create_settlement E i op x a b)"
  "frame sheet (complete_settlement E n i)" "frame sheet (log_entry E ty a b)"
  "frame sheet (increment_note_count i)" "frame sheet (increment_evidence_count i)"
  "frame sheet (append_recovery_record i r)" "frame sheet (invoke_token_transfer E tok f t v)"
  by (simp_all add: frame_def wp_simps Let_def increment_note_count_def increment_evidence_count_def
      append_recovery_record_def)

lemma sheet_quota [sheet_rules]:
  "frame sheet (check_and_update_creation_quota_by E a n)"
  "frame sheet (check_and_update_creation_quota E a)"
  unfolding check_and_update_creation_quota_def check_and_update_creation_quota_by_def
  by (auto intro!: frame_rules)

lemma sheet_fee [sheet_rules]: "frame sheet (collect_fee E tok j v)"
  unfolding collect_fee_def by (rule sheet_rules frame_rules)+

lemma sheet_refund [sheet_rules]: "frame sheet (refund_sender E j sh)"
  unfolding refund_sender_def by (rule sheet_rules frame_rules)+


section \<open>Agreement\<close>

definition agrees :: "'t store \<Rightarrow> bool" where
  "agrees s \<longleftrightarrow> (\<forall>i sh. storage_get_shipment i s = Some sh \<longrightarrow>
     sh_id sh = i \<and> get_escrow i s = sh_escrow_amount sh)"

text \<open>The ledger agrees, and \<open>sh\<close> is the record of shipment \<open>i\<close>.\<close>

definition led :: "nat \<Rightarrow> Shipment \<Rightarrow> 't store \<Rightarrow> bool" where
  "led i sh s \<longleftrightarrow> agrees s \<and> stored_as i sh s"

lemma agrees_sheet: "sheet t = sheet s \<Longrightarrow> agrees t = agrees s"
  by (simp add: sheet_def agrees_def get_escrow_def)

lemma led_sheet: "sheet t = sheet s \<Longrightarrow> led i sh t = led i sh s"
  by (simp add: sheet_def led_def agrees_def stored_as_def get_escrow_def)

lemma agrees_fewer:
  assumes "agrees s" "k_Escrow t = k_Escrow s"
    "\<And>i sh. storage_get_shipment i t = Some sh \<Longrightarrow> storage_get_shipment i s = Some sh"
  shows "agrees t"
  using assms(1,3) unfolding agrees_def get_escrow_def assms(2) by blast

lemma ag_frame: "frame sheet m \<Longrightarrow> triple agrees m (\<lambda>_. agrees)"
  unfolding keeps_def [symmetric] by (erule keeps_frame) (rule agrees_sheet)

lemma led_frame: "frame sheet m \<Longrightarrow> triple (led i sh) m (\<lambda>_. led i sh)"
  unfolding keeps_def [symmetric] by (erule keeps_frame) (rule led_sheet)

lemma led_agrees: "led i sh s \<Longrightarrow> agrees s"
  by (simp add: led_def)

lemma agrees_persist: "agrees s \<Longrightarrow> agrees (set_escrow (sh_id sh) (sh_escrow_amount sh) (set_shipment sh s))"
  by (simp add: agrees_def set_escrow_def set_shipment_def get_escrow_def)

lemma ag_persist: "triple agrees (persist_shipment sh) (\<lambda>_. agrees)"
  by (simp add: triple_def wp_simps agrees_persist)

lemma led_persist: "sh_id sh' = i \<Longrightarrow> triple (led i sh) (persist_shipment sh') (\<lambda>_. led i sh')"
  by (auto simp: triple_def wp_simps led_def agrees_def stored_as_def set_shipment_def set_escrow_def get_escrow_def)

lemma led_set:
  "sh_id sh' = i \<Longrightarrow> sh_escrow_amount sh' = sh_escrow_amount sh \<Longrightarrow>
   triple (led i sh) (modify (set_shipment sh')) (\<lambda>_. led i sh')"
  by (auto simp: triple_def wp_simps led_def agrees_def stored_as_def set_shipment_def get_escrow_def)

lemma led_entry:
  "sh_escrow_amount sh = v \<Longrightarrow> triple (led i sh) (modify (set_escrow i v)) (\<lambda>_. led i sh)"
  "sh_escrow_amount sh = 0 \<Longrightarrow> triple (led i sh) (modify (remove_escrow_balance i)) (\<lambda>_. led i sh)"
  by (auto simp: triple_def wp_simps led_def agrees_def stored_as_def get_escrow_def set_escrow_def
      remove_escrow_balance_def remove_escrow_def unwrap_or_def)

lemma led_ends:
  assumes "triple (led i sh) m (\<lambda>_. led i sh')"
  shows "triple (led i sh) m (\<lambda>_. agrees)"
  by (rule triple_conseq [OF assms]) (auto intro: led_agrees)

lemma led_find:
  "(\<And>sh. sh_id sh = i \<Longrightarrow> triple (led i sh) (f sh) Q) \<Longrightarrow> triple agrees (bind (find_shipment i) f) Q"
  by (fastforce simp: triple_def wp_simps led_def stored_as_def agrees_def)

lemma led_lock_keep [simp]:
  "agrees (set_reentrancy_lock b s) = agrees s" "led i sh (set_reentrancy_lock b s) = led i sh s"
  by (rule agrees_sheet led_sheet, simp add: sheet_def set_reentrancy_lock_def)+


lemma led_lock:
  "triple agrees m (\<lambda>_. agrees) \<Longrightarrow> triple agrees (with_reentrancy_lock m) (\<lambda>_. agrees)"
  by (simp add: triple_def wp_simps)

lemma led_settle:
  assumes "triple (led i sh) rest Q"
  shows "triple (led i sh) (settle_transfer E n j (invoke_token_transfer E tok f t v) rest) Q"
proof -
  have "triple (led i sh) (andthen (invoke_token_transfer E tok f t v)
      (andthen (complete_settlement E n j) rest)) Q"
    by (rule triple_andthen, rule led_frame, rule sheet_rules)+ (rule assms)
  then show ?thesis by (simp only: triple_def wp_andthen wp_settle_transfer)
qed

text \<open>After a release, the shipment in the hands of the handler has the escrow of the stored one.\<close>

lemma led_release:
  assumes "sh_id sh = i" "sh_escrow_amount sh = sh_escrow_amount st"
    and "\<And>sh' x. sh_id sh' = i \<Longrightarrow> sh_escrow_amount sh' = sh_escrow_amount x \<Longrightarrow> triple (led i x) (f sh') Q"
  shows "triple (led i st) (bind (internal_release_escrow E sh v) f) Q"
  by (rule triple_release; ((rule led_settle | (rule triple_andthen, rule led_persist) |
      (rule triple_bind triple_andthen, rule led_frame, rule sheet_rules frame_rules) | rule assms(3) |
      (use assms(1,2) in \<open>simp; fail\<close>))+))

lemma led_only_if:
  "triple (led i sh) m (\<lambda>_. led i sh) \<Longrightarrow> triple (led i sh) (only_if b m) (\<lambda>_. led i sh)"
  by (simp add: only_if_def triple_def wp_simps)

lemma led_removed:
  assumes "sh_escrow_amount sh = 0" "frame sheet m"
  shows "triple (led i sh) (only_if b (do_all [modify (remove_escrow_balance i), m])) (\<lambda>_. led i sh)"
  by (rule led_only_if, rule mst_do_all, rule led_entry(2) [OF assms(1)], rule led_frame)
    (rule frame_rules assms(2))+

lemmas led_steps = led_persist led_set led_entry led_removed
lemmas led_walk = mst_seq mst_seq_all mst_let mst_ok_or led_find led_release led_lock led_settle
  mst_flat mst_flat_cases
lemmas led_next = triple_andthen mst_do_all triple_bind

section \<open>The calls\<close>

text \<open>The calls that need no other rule, those of recovery but \<open>unlock_escrow\<close> among them.\<close>

lemma led_calls:
  "triple agrees (deposit_escrow E a i v) (\<lambda>_. agrees)"
  "triple agrees (release_escrow E a i) (\<lambda>_. agrees)"
  "triple agrees (refund_escrow E a i) (\<lambda>_. agrees)"
  "triple agrees (set_shipment_metadata E a i y z) (\<lambda>_. agrees)"
  "triple agrees (append_note_hash E a i h) (\<lambda>_. agrees)"
  "triple agrees (add_dispute_evidence_hash E a i h) (\<lambda>_. agrees)"
  "triple agrees (report_geofence_event E a i ge h) (\<lambda>_. agrees)"
  "triple agrees (update_eta E a i n h) (\<lambda>_. agrees)"
  "triple agrees (lib_extend_shipment_ttl i) (\<lambda>_. agrees)"
  "triple agrees (handoff_shipment E a b i h) (\<lambda>_. agrees)"
  "triple agrees (update_status E a i st h) (\<lambda>_. agrees)"
  "triple agrees (cancel_shipment E a i h) (\<lambda>_. agrees)"
  "triple agrees (raise_dispute E a i h) (\<lambda>_. agrees)"
  "triple agrees (confirm_delivery E a i h) (\<lambda>_. agrees)"
  "triple agrees (confirm_partial_delivery E a i h n) (\<lambda>_. agrees)"
  "triple agrees (record_milestone E a i y h) (\<lambda>_. agrees)"
  "triple agrees (release_milestone_payment E a i y) (\<lambda>_. agrees)"
  "triple agrees (force_cancel_shipment E a i h) (\<lambda>_. agrees)"
  "triple agrees (check_deadline E i) (\<lambda>_. agrees)"
  "triple agrees (resolve_dispute E a i r h) (\<lambda>_. agrees)"
  "triple agrees (recover_shipment E a i st h) (\<lambda>_. agrees)"
  "triple agrees (clear_finalization E a i h) (\<lambda>_. agrees)"
  "triple agrees (rollback_on_external_failure E a i st h) (\<lambda>_. agrees)"
  unfolding life_defs gov_defs dependencies_met_def lib_extend_shipment_ttl_def check_deadline_def
    verify_escrow_consistency_def
  by ((rule led_walk | (rule led_next, (rule led_steps | (rule led_frame, (rule sheet_rules frame_rules)+) |
      (rule ag_frame, (rule sheet_rules frame_rules)+))) |
      (rule led_ends, (rule led_steps | (rule led_frame, (rule sheet_rules frame_rules)+))) |
      (rule ag_frame, (rule sheet_rules frame_rules)+) | rule sheet_rules frame_rules | (simp; fail) |
      (simp split: DisputeResolution.splits; fail))+)

lemma led_batch_loop:
  assumes "sh_id sh = i" "sh_escrow_amount sh = sh_escrow_amount st"
    and "\<And>sh' x. sh_id sh' = i \<Longrightarrow> sh_escrow_amount sh' = sh_escrow_amount x \<Longrightarrow> triple (led i x) (f sh') Q"
  shows "triple (led i st) (bind (record_batch_loop E c j items sh) f) Q"
  using assms
proof (induction items arbitrary: sh st)
  case Nil
  with Nil(3) [of sh st] show ?case by (simp add: triple_def wp_simps)
next
  case (Cons item items)
  obtain y h where item: "item = (y, h)" by fastforce
  show ?case
    unfolding record_batch_loop.simps record_batch_item_def item prod.case
    by ((rule mst_flat mst_flat_cases led_release Cons.IH | (rule led_next,
        (rule led_frame, (rule sheet_rules frame_rules)+)) | (use Cons.prems in \<open>simp; fail\<close>) |
        (rule Cons.prems(3), (simp add: Cons.prems; fail)+))+)
qed

lemma led_milestones_batch: "triple agrees (record_milestones_batch E a i items) (\<lambda>_. agrees)"
  unfolding record_milestones_batch_def
  by ((rule led_walk led_batch_loop | (rule led_next, ((rule led_frame, (rule sheet_rules frame_rules)+) |
      (rule ag_frame, (rule sheet_rules frame_rules)+))) | (rule led_ends, rule led_steps) | (simp; fail))+)

lemma led_breach: "triple agrees (report_condition_breach E a i br sv h) (\<lambda>_. agrees)"
proof -
  have dispute: "triple (led i sh) (do_all [bind (gets get_config) (\<lambda>cfg. only_if (b cfg)
      (do_all (modify (set_shipment sh') # ms)))]) (\<lambda>_. agrees)"
    if "sh_id sh' = i" "sh_escrow_amount sh' = sh_escrow_amount sh" "frame sheet (do_all ms)" for b sh sh' ms
  proof -
    have "triple (led i sh) (only_if (b cfg) (do_all (modify (set_shipment sh') # ms))) (\<lambda>_. agrees)"
      (is "triple _ (?d cfg) _") for cfg
    proof (cases "b cfg")
      case True
      have "triple (led i sh) (do_all (modify (set_shipment sh') # ms)) (\<lambda>_. agrees)"
        by (rule led_ends, rule mst_do_all [OF led_set led_frame]) (use that in auto)
      with True show ?thesis by (simp only: only_if_def if_True)
    qed (auto simp: only_if_def triple_def wp_simps led_agrees)
    then have "triple (led i sh) (bind (gets get_config) ?d) (\<lambda>_. agrees)"
      by (intro triple_bind [OF led_frame]) (rule frame_rules)
    then show ?thesis by (rule mst_do_all) (simp add: triple_def wp_simps)
  qed
  show ?thesis unfolding report_condition_breach_def
    by ((rule mst_seq mst_seq_all led_find dispute | (rule led_next, ((rule led_frame, (rule sheet_rules frame_rules)+) |
      (rule ag_frame, (rule sheet_rules frame_rules)+))) |
        rule sheet_rules frame_rules | (simp; fail))+)
qed


lemma ag_stored: "frame sheet (do_all ms) \<Longrightarrow> triple agrees (do_all (persist_shipment sh # ms)) (\<lambda>_. agrees)"
  by (rule mst_do_all [OF ag_persist ag_frame])

lemma ag_create_shipment: "triple agrees (create_shipment E a b c h ms dl) (\<lambda>_. agrees)"
  unfolding create_shipment_def
  by ((rule led_next, (rule ag_stored | (rule ag_frame, (rule sheet_rules frame_rules)+))) |
      (rule ag_frame, (rule sheet_rules frame_rules)+) | rule sheet_rules frame_rules | (simp; fail))+

lemma ag_create_batch_loop: "triple agrees (create_batch_loop E c a inps) (\<lambda>_. agrees)"
proof (induction inps)
  case Nil
  show ?case by (simp add: ag_frame frame_rules)
next
  case (Cons inp inps)
  show ?case unfolding create_batch_loop.simps
    by ((rule led_next, (rule ag_stored Cons.IH | (rule ag_frame, (rule sheet_rules frame_rules)+))) |
      (rule ag_frame, (rule sheet_rules frame_rules)+) | rule sheet_rules frame_rules | (simp; fail))+
qed

lemma ag_create_shipments_batch: "triple agrees (create_shipments_batch E a inps) (\<lambda>_. agrees)"
  unfolding create_shipments_batch_def
  by ((rule led_next, (rule ag_frame, (rule sheet_rules frame_rules)+)) | rule ag_create_batch_loop |
      rule sheet_rules frame_rules | (simp; fail))+

text \<open>Archiving drops the ledger entry, which is right only when nothing is left in escrow.\<close>

lemma sheet_purges [simp]:
  "sheet (purge_status_hashes i s) = sheet s"
  "sheet (purge_recovery_records i s) = sheet s"
  "sheet (purge_dispute_evidence i s) = sheet s" "sheet (purge_shipment_notes i s) = sheet s"
  "sheet (remove_escrow_freeze_reason i s) = sheet s" "sheet (remove_breach_event_count i s) = sheet s"
  "sheet (remove_milestone_event_count i s) = sheet s" "sheet (remove_event_count i s) = sheet s"
  "sheet (remove_last_status_update i s) = sheet s" "sheet (remove_confirmation_hash i s) = sheet s"
proof -
  have "sheet (remove_status_hashes i sts s) = sheet s" for sts :: "ShipmentStatus list"
    by (induction sts arbitrary: s) (simp_all add: sheet_def)
  then show "sheet (purge_status_hashes i s) = sheet s" unfolding purge_status_hashes_def .
qed (simp_all add: sheet_def purge_recovery_records_def purge_dispute_evidence_def
      purge_shipment_notes_def remove_escrow_freeze_reason_def remove_breach_event_count_def
      remove_milestone_event_count_def remove_event_count_def remove_last_status_update_def
      remove_confirmation_hash_def Let_def)

lemma sheet_archive:
  "sheet (storage_archive_shipment i sh s) =
   ((k_Shipment s)(i := None), (k_ArchivedShipment s)(i \<mapsto> sh), (k_Escrow s)(i := None))"
  by (simp add: storage_archive_shipment_def) (simp add: sheet_def remove_escrow_def)

lemma archive_agrees:
  assumes "agrees s" "\<And>sh. storage_get_shipment i s = Some sh \<Longrightarrow> sh_escrow_amount sh = 0"
  shows "wp (archive_shipment E a i) (\<lambda>_. agrees) s"
proof -
  have "agrees (storage_archive_shipment i sh s)" if sh: "k_Shipment s i = Some sh" for sh
  proof -
    have entry: "k_Escrow (storage_archive_shipment i sh s) = (k_Escrow s)(i := None)"
      using sheet_archive [of i sh s] by (simp add: sheet_def)
    have "sh_escrow_amount sh = 0" "storage_get_shipment i s = Some sh"
      using assms(2) [of sh] sh by (simp_all add: lookup_def)
    with assms(1) show ?thesis unfolding agrees_def archive_finds(1) [OF sh] get_escrow_def entry
      by (auto simp: unwrap_or_def)
  qed
  then have "agrees (Events.publish k l (storage_archive_shipment i sh s))"
    if "k_Shipment s i = Some sh" for k l sh
    using that agrees_sheet [OF sheet_writes(1)] by blast
  then show ?thesis
    by (auto simp: archive_shipment_def wp_simps get_persistent_shipment_def emit_defs)
qed


lemma life_exec_agrees:
  assumes "agrees s" "\<And>a i sh. c = C_archive_shipment a i \<Longrightarrow> storage_get_shipment i s = Some sh \<Longrightarrow>
    sh_escrow_amount sh = 0"
  shows "wp (life_exec E c) (\<lambda>_. agrees) s"
proof (cases c)
  case (C_archive_shipment a i)
  with archive_agrees [OF assms(1), of i E a] assms(2) show ?thesis by simp
qed (use assms(1) in \<open>simp_all add: wp_void led_calls [THEN tripleD] ag_create_shipment [THEN tripleD]
    ag_create_shipments_batch [THEN tripleD] led_milestones_batch [THEN tripleD] led_breach [THEN tripleD]\<close>)

section \<open>Governance\<close>

lemma sheet_gov [simp]:
  "sheet (set_proposal p s) = sheet s" "sheet (set_proposal_counter n s) = sheet s"
  "sheet (set_admin_list as s) = sheet s" "sheet (set_multisig_threshold n s) = sheet s"
  "sheet (set_shipment_dependency i j s) = sheet s" "sheet (Store.set_admin a s) = sheet s"
  "sheet (set_proposal_salt_used h s) = sheet s" "sheet (set_proposal_digest i pd s) = sheet s"
  "sheet (set_version n s) = sheet s" "sheet (set_company_role a s) = sheet s"
  "sheet (s\<lparr>code_hash := w\<rparr>) = sheet s"
  by (simp_all add: sheet_def set_proposal_def set_proposal_counter_def set_admin_list_def
      set_multisig_threshold_def set_shipment_dependency_def Store.set_admin_def set_proposal_salt_used_def
      set_proposal_digest_def set_version_def set_company_role_def set_role_def)

lemma led_force_settle:
  assumes "\<And>a v. frame sheet (emit i a v)"
  shows "triple agrees (force_settle E i to emit st) (\<lambda>_. agrees)"
proof -
  have pay: "frame sheet (do_all [bind (gets get_token_contract) (\<lambda>x. case x of None \<Rightarrow> ret ()
      | Some tok \<Rightarrow> invoke_token_transfer E tok (self E) a v), emit i a v])" for a v
    by (rule sheet_rules frame_rules assms)+
  show ?thesis unfolding force_settle_def
    by ((rule led_walk | (rule led_next, (rule led_steps led_frame [OF frame_only_if(1) [OF pay]] |
      (rule led_frame, (rule sheet_rules frame_rules)+) |
      (rule ag_frame, (rule sheet_rules frame_rules)+))) | (rule led_ends, rule led_steps) |
      (rule led_ends, (rule led_frame, (rule sheet_rules frame_rules)+)) |
      rule sheet_rules frame_rules | (simp; fail))+)
qed

lemma led_execute_action: "triple agrees (execute_action E p act) (\<lambda>_. agrees)"
proof (cases act)
  case (Upgrade h)
  show ?thesis unfolding execute_action_def Upgrade AdminAction.case update_current_contract_wasm_def
    by (rule ag_frame) ((rule sheet_rules frame_rules | (simp; fail))+)
next
  case (TransferAdmin a)
  show ?thesis unfolding execute_action_def TransferAdmin AdminAction.case
    by (rule ag_frame) ((rule sheet_rules frame_rules | (simp; fail))+)
qed (simp_all add: execute_action_def led_force_settle sheet_rules)

lemma led_proposals:
  "triple agrees (init_multisig E a as n) (\<lambda>_. agrees)"
  "triple agrees (propose_action E a act) (\<lambda>_. agrees)"
  "triple agrees (propose_action_with_salt E a act h) (\<lambda>_. agrees)"
  "triple agrees (add_shipment_dependency E a i j) (\<lambda>_. agrees)"
  unfolding init_multisig_def propose_action_with_salt_def propose_action_def
    add_shipment_dependency_def would_create_cycle_def
  by (rule ag_frame, (rule sheet_rules frame_rules | (simp; fail))+)+

lemma led_execute_internal: "triple agrees (execute_proposal_internal E i) (\<lambda>_. agrees)"
  unfolding execute_proposal_internal_def
  by ((rule led_next, (rule led_execute_action | (rule ag_frame, ((rule frame_rules | (simp; fail))+; fail)))) |
      (rule ag_frame, ((rule frame_rules)+; fail)))+

lemma led_execution:
  "triple agrees (execute_proposal E i) (\<lambda>_. agrees)" "triple agrees (approve_action E a i) (\<lambda>_. agrees)"
proof -
  have vote: "triple agrees (bind (gets f) (\<lambda>x. only_if (b x) (execute_proposal_internal E i))) (\<lambda>_. agrees)"
    for f :: "'a store \<Rightarrow> 'c" and b
    using led_execute_internal [of E i] by (simp add: triple_def wp_simps)
  show "triple agrees (execute_proposal E i) (\<lambda>_. agrees)"
    unfolding execute_proposal_def by (rule triple_andthen [OF ag_frame led_execute_internal]) (rule frame_rules)
  show "triple agrees (approve_action E a i) (\<lambda>_. agrees)"
    unfolding approve_action_def
    by ((rule led_next, (rule vote | (rule ag_frame, ((rule frame_rules | (simp; fail))+; fail)))) |
        (rule ag_frame, ((rule frame_rules)+; fail)))+
qed


lemma ag_void: "triple agrees m (\<lambda>_. agrees) \<Longrightarrow> triple agrees (void m) (\<lambda>_. agrees)"
  by (simp add: triple_def wp_void)

lemma gov_exec_agrees:
  "\<forall>a i h. c \<noteq> C_unlock_escrow a i h \<Longrightarrow> triple agrees (gov_exec E c) (\<lambda>_. agrees)"
  by (cases c) (simp_all add: led_calls led_proposals led_execution ag_void)

section \<open>Administration\<close>

lemma sheet_admin [simp]:
  "sheet (set_role a r s) = sheet s" "sheet (set_carrier_role a s) = sheet s"
  "sheet (storage_revoke_role a r s) = sheet s" "sheet (storage_suspend_role a r s) = sheet s"
  "sheet (storage_reactivate_role a r s) = sheet s" "sheet (storage_suspend_carrier a s) = sheet s"
  "sheet (storage_reactivate_carrier a s) = sheet s" "sheet (storage_suspend_company a s) = sheet s"
  "sheet (storage_reactivate_company a s) = sheet s" "sheet (Store.set_paused b s) = sheet s"
  "sheet (set_treasury a s) = sheet s" "sheet (set_token_contract a s) = sheet s"
  "sheet (set_proposed_admin a s) = sheet s" "sheet (clear_proposed_admin s) = sheet s"
  "sheet (storage_set_shipment_limit n s) = sheet s"
  "sheet (storage_set_company_shipment_limit a n s) = sheet s"
  "sheet (storage_add_carrier_to_whitelist a c s) = sheet s"
  "sheet (storage_remove_carrier_from_whitelist a c s) = sheet s"
  "sheet (breaker_set_config bc s) = sheet s" "sheet (set_fee_config fc s) = sheet s"
  "sheet (set_config_checksum h s) = sheet s" "sheet (s\<lparr>k_ContractConfig := cc\<rparr>) = sheet s"
  "sheet (s\<lparr>k_ActorQuota := aq\<rparr>) = sheet s"
  by (simp_all add: sheet_def set_role_def set_carrier_role_def
      storage_revoke_role_def storage_suspend_role_def storage_reactivate_role_def
      storage_suspend_carrier_def storage_reactivate_carrier_def storage_suspend_company_def
      storage_reactivate_company_def Store.set_paused_def set_treasury_def set_token_contract_def
      set_proposed_admin_def clear_proposed_admin_def storage_set_shipment_limit_def
      storage_set_company_shipment_limit_def storage_add_carrier_to_whitelist_def
      storage_remove_carrier_from_whitelist_def breaker_set_config_def set_fee_config_def
      set_config_checksum_def)

lemma sheet_settings [sheet_rules]:
  "frame sheet (set_config E cfg)" "frame sheet (log_role_assigned E a b r)"
  "frame sheet (log_role_revoked E a b r)"
  "frame sheet (log_role_suspended E a b r)" "frame sheet (log_role_reactivated E a b r)"
  "frame sheet (log_admin_transferred E a b)" "frame sheet (log_carrier_whitelisted E a b c)"
  by (simp_all add: log_defs sheet_helpers) (simp add: frame_def wp_simps)

lemma admin_exec_sheet: "frame sheet (admin_exec E c)"
  by (cases c; simp only: admin_exec.simps Admin.initialize_def admin_defs emit_breaker_reset_event_def)
    ((rule sheet_rules frame_rules | (simp add: update_current_contract_wasm_def; fail))+)

section \<open>Orderly runs\<close>

text \<open>
  Two calls change one side of the books only: \<open>unlock_escrow\<close>, which writes the record and not the
  ledger, and \<open>archive_shipment\<close> of a shipment that still has escrow, which drops the ledger entry.
\<close>

fun disturbs :: "sys_call \<Rightarrow> token_state store \<Rightarrow> bool" where
  "disturbs (Gov_call E (C_unlock_escrow a i h)) s \<longleftrightarrow> True"
| "disturbs (Life_call E (C_archive_shipment a i)) s \<longleftrightarrow> (case storage_get_shipment i s of
     None \<Rightarrow> False | Some sh \<Rightarrow> sh_escrow_amount sh \<noteq> 0)"
| "disturbs _ s \<longleftrightarrow> False"

inductive orderly :: "addr \<Rightarrow> addr \<Rightarrow> token_state store \<Rightarrow> bool" for tok me where
  start: "orderly tok me sys_init"
| call: "orderly tok me s \<Longrightarrow> sys_legal tok me c \<Longrightarrow> \<not> disturbs c s \<Longrightarrow>
    invoke (sys_entry tok me c) s = (r, t) \<Longrightarrow> orderly tok me t"

lemma orderly_reachable: "orderly tok me s \<Longrightarrow> reachable (sys_legal tok me) (sys_entry tok me) sys_init s"
  by (induction rule: orderly.induct) (auto intro: reachable.intros)

lemma entry_agrees:
  assumes "agrees s" "\<not> disturbs c s"
  shows "wp (sys_entry tok me c) (\<lambda>_. agrees) s"
proof (cases c)
  case (Life_call E d)
  have "wp (life_exec (navin_env tok me E) d) (\<lambda>_. agrees) s"
    by (rule life_exec_agrees [OF assms(1)]) (use assms(2) Life_call in auto)
  with Life_call show ?thesis by (simp add: wp_map_err)
next
  case (Gov_call E d)
  have "triple agrees (gov_exec (navin_env tok me E) d) (\<lambda>_. agrees)"
    by (rule gov_exec_agrees) (use assms(2) Gov_call in auto)
  with Gov_call assms(1) show ?thesis by (simp add: wp_map_err triple_def)
next
  case (Admin_call E d)
  with tripleD [OF ag_frame [OF admin_exec_sheet] assms(1)] show ?thesis by (simp add: wp_map_err)
next
  case (Token_call Es d)
  show ?thesis unfolding Token_call sys_entry.simps wp_map_err wp_on_tokens
    by (rule wpI, rule agrees_sheet [THEN iffD2, OF _ assms(1)]) (rule sheet_writes)
next
  case (Expire_archived i)
  have "agrees (s\<lparr>k_ArchivedShipment := (k_ArchivedShipment s)(i := None)\<rparr>)"
    by (rule agrees_fewer [OF assms(1)]) (auto simp: lookup_def split: option.splits if_splits)
  with Expire_archived show ?thesis by (simp add: wp_simps)
next
  case (Expire_window h)
  have "agrees (s\<lparr>k_IdempotencyWindow := m\<rparr>) = agrees s" for m
    by (rule agrees_sheet) (simp add: sheet_def)
  with Expire_window assms(1) show ?thesis by (simp add: wp_simps)
qed

lemma orderly_agrees: "orderly tok me s \<Longrightarrow> agrees s"
proof (induction rule: orderly.induct)
  case start
  show ?case by (simp add: agrees_def sys_init_def store_init_def lookup_def)
next
  case (call s c r t)
  then show ?case using entry_agrees [of s c] by (cases r) (auto dest: invoke_Inl wpD)
qed

lemma run_calls_orderly:
  assumes "list_all (\<lambda>c. sys_legal tok me c \<and> (\<forall>s. \<not> disturbs c s)) cs"
  shows "orderly tok me (run_calls (sys_entry tok me) cs sys_init)"
proof -
  have "orderly tok me s \<Longrightarrow> orderly tok me (run_calls (sys_entry tok me) cs s)" for s
    using assms
  proof (induction cs arbitrary: s)
    case (Cons c cs)
    obtain r t where "invoke (sys_entry tok me c) s = (r, t)" by (cases "invoke (sys_entry tok me c) s")
    with Cons show ?case by (auto intro: orderly.call)
  qed simp
  then show ?thesis by (simp add: orderly.start)
qed

section \<open>Properties\<close>

lemma sample_sys_orderly: "orderly 50 99 sample_sys"
  unfolding sample_sys_def
  by (rule run_calls_orderly) (simp add: sample_calls_def outsider_def token_legal_def in_i128_def
      i128_max_def i128_min_def)

lemma in_flag: "v \<in> set (flag b w) \<longleftrightarrow> b \<and> v = w"
  by (auto simp: flag_def)

lemma scan_reports:
  "EscrowMismatch i \<in> set (check_all_consistency_range start limit s) \<Longrightarrow>
     \<exists>sh. storage_get_shipment i s = Some sh \<and> sh_escrow_amount sh \<noteq> get_escrow i s"
  "InvalidFinalization i \<in> set (check_all_consistency_range start limit s) \<Longrightarrow>
     \<exists>sh. storage_get_shipment i s = Some sh \<and> sh_finalized sh \<and>
       (sh_status sh \<notin> {Delivered, Cancelled} \<or> sh_escrow_amount sh \<noteq> 0)"
  by (auto simp: check_all_consistency_range_def check_status_count_consistency_range_def Let_def
      check_shipment_invariants_def in_flag split: if_splits option.splits)

text \<open>
  C7. The books agree. In every state that an orderly run reaches, what \<open>get_escrow_balance\<close> reports for
  a shipment is the escrow of its record, and the consistency scan reports neither an escrow mismatch
  nor an invalid finalisation for it, whatever part of the shipments it covers.
\<close>

theorem escrow_ledger_agrees:
  assumes "orderly tok me s" "storage_get_shipment i s = Some sh"
  shows "get_escrow_balance i s = (Inr (sh_escrow_amount sh), s) \<and>
    EscrowMismatch i \<notin> set (check_all_consistency_range start limit s) \<and>
    InvalidFinalization i \<notin> set (check_all_consistency_range start limit s)"
proof (intro conjI)
  have eq: "get_escrow i s = sh_escrow_amount sh"
    using orderly_agrees [OF assms(1)] assms(2) by (simp add: agrees_def)
  have m: "mst get_balance me tok (Some (i, sh)) 0 s"
    using reachable_inv [OF orderly_reachable [OF assms(1)]] assms(2) by (simp add: mst_def)
  then have "Store.is_initialized s" by (auto simp: mst_def minv_def lookup_def Store.is_initialized_def)
  with eq assms(2) show "get_escrow_balance i s = (Inr (sh_escrow_amount sh), s)"
    by (simp add: get_escrow_balance_def Guards.require_initialized_def shipment_must_exist_def run_simps
        storage_get_escrow_balance_def)
  show "EscrowMismatch i \<notin> set (check_all_consistency_range start limit s)"
    using scan_reports(1) [of i start limit s] eq assms(2) by auto
  show "InvalidFinalization i \<notin> set (check_all_consistency_range start limit s)"
    using scan_reports(2) [of i start limit s] mst_found(2) [OF m] assms(2) by (auto simp: ship_ok_def)
qed

theorem escrow_ledger_agrees_witness:
  "get_escrow_balance 1 sample_sys = (Inr 500, sample_sys) \<and>
   EscrowMismatch 1 \<notin> set (check_all_consistency_range 1 10 sample_sys)"
proof -
  obtain sh where "storage_get_shipment 1 sample_sys = Some sh" "sh_escrow_amount sh = 500"
    by (rule sample_shipment)
  with escrow_ledger_agrees [OF sample_sys_orderly this(1), of 1 10] show ?thesis by simp
qed

text \<open>
  A shipment that is set to \<open>Delivered\<close> by \<open>update_status\<close> keeps its escrow, can be archived, and is then
  reported by the scan: the ledger says 0, the record 500.
\<close>

lemma archived_unsettled_mismatch:
  "\<exists>t. life_exec (navin_env 50 99 (run_env 1300)) (C_archive_shipment 1 1)
      (run_calls (sys_entry 50 99) [Life_call (run_env 1200) (C_update_status 3 1 Delivered [9])] sample_sys) =
      (Inr (), t) \<and> EscrowMismatch 1 \<in> set (check_all_consistency t) \<and> get_escrow_balance 1 t = (Inr 0, t)"
proof -
  obtain t sh where t: "life_exec (navin_env 50 99 (run_env 1300)) (C_archive_shipment 1 1)
      (run_calls (sys_entry 50 99) [Life_call (run_env 1200) (C_update_status 3 1 Delivered [9])] sample_sys) =
      (Inr (), t)" "storage_get_shipment 1 t = Some sh" "sh_escrow_amount sh = 500" "k_Escrow t 1 = None"
      "storage_get_shipment_counter t = 1" "Store.is_initialized t"
    by (simp add: sample_run archive_shipment_def lookup_def del: kept)
  then have "EscrowMismatch 1 \<in> set (check_all_consistency t)" "get_escrow_balance 1 t = (Inr 0, t)"
    by (simp_all add: check_all_consistency_def check_all_consistency_range_def get_escrow_balance_def
      DEFAULT_CONSISTENCY_SAMPLE_LIMIT_def check_shipment_invariants_def flag_def Let_def run_simps
      get_escrow_def storage_get_escrow_balance_def Guards.require_initialized_def shipment_must_exist_def
      u64_saturating_add_def saturating_sub_def u64_max_def unwrap_or_def)
  with t(1) show ?thesis by blast
qed

end
