(* ===== verification/Settings.thy ===== *)
theory Settings
  imports Vault
begin

text \<open>
  The settings of the contract, the configuration with its checksum and the platform fee: only four
  administrative calls change them, and each of them lets through values in range only.
\<close>

section \<open>Who changes the settings\<close>

lemma settings_gov: "gov t = gov s \<Longrightarrow> settings t = settings s"
  by (simp add: gov_def)

lemma frame_settings_gov: "frame gov m \<Longrightarrow> frame settings m"
  by (erule frame_part) (rule settings_gov)

lemma settings_writes [simp]:
  "settings (set_proposal p s) = settings s" "settings (set_proposal_counter n s) = settings s"
  "settings (set_admin_list as s) = settings s" "settings (set_multisig_threshold n s) = settings s"
  "settings (set_shipment_dependency i j s) = settings s"
  by (simp_all add: settings_def set_proposal_def set_proposal_counter_def set_admin_list_def
      set_multisig_threshold_def set_shipment_dependency_def)

lemma proposals_settings:
  "frame settings (init_multisig E a as n)"
  "frame settings (propose_action E a act)"
  "frame settings (propose_action_with_salt E a act h)"
  "frame settings (execute_proposal E i)"
  "frame settings (approve_action E a i)"
  "frame settings (add_shipment_dependency E a i j)"
  unfolding init_multisig_def propose_action_with_salt_def propose_action_def execute_proposal_def
    approve_action_def execute_proposal_internal_def add_shipment_dependency_def would_create_cycle_def
  by ((rule frame_rules frame_settings_gov [OF execute_action_gov] | (rule frame_settings, rule frame_rules) |
      (rule core_settings, simp; fail) | (simp; fail))+)

lemma calls_settings:
  "frame settings (life_exec E c)" "frame settings (gov_exec E d)"
  by (cases c; simp add: frame_rules frame_settings_gov shipments_gov)
    (cases d; simp add: frame_rules frame_settings_gov recovery_gov proposals_settings)

section \<open>Settings in range\<close>

definition settings_ok :: "'t store \<Rightarrow> bool" where
  "settings_ok s \<longleftrightarrow> (\<forall>c. k_ContractConfig s = Some c \<longrightarrow> validate_config c = Inr ()) \<and>
     (\<forall>h. k_ConfigChecksum s = Some h \<longrightarrow> \<not> all_zero h) \<and>
     (\<forall>fee. k_FeeConfig s = Some fee \<longrightarrow> fee_bps fee \<le> 1000)"

lemma settings_ok_frame: "settings t = settings s \<Longrightarrow> settings_ok t = settings_ok s"
  by (simp add: settings_def settings_ok_def)

lemma default_config_valid: "validate_config default_config = Inr ()"
  by (simp add: validate_config_def default_config_def)

lemma get_config_valid: "settings_ok s \<Longrightarrow> validate_config (get_config s) = Inr ()"
  by (auto simp: settings_ok_def get_config_def unwrap_or_def default_config_valid split: option.splits)

lemma keeps_settings: "frame settings m \<Longrightarrow> keeps settings_ok m"
  by (erule keeps_frame) (rule settings_ok_frame)

lemma keeps_set_config:
  "validate_config c = Inr () \<Longrightarrow> keeps settings_ok (set_config E c)"
  by (auto simp: keeps_def triple_def set_config_def wp_simps settings_ok_def set_config_checksum_def)

lemma keeps_set_fee:
  "fee_bps fee \<le> 1000 \<Longrightarrow> keeps settings_ok (modify (set_fee_config fee))"
  by (simp add: keeps_def triple_def wp_simps settings_ok_def set_fee_config_def)

lemma valid_quota:
  "validate_config (c\<lparr>creation_quota_max := m, creation_quota_window_seconds := k\<rparr>) = validate_config c"
  by (simp add: validate_config_def)

lemma triple_config:
  "(\<And>c. validate_config c = Inr () \<Longrightarrow> triple settings_ok (f c) Q) \<Longrightarrow>
   triple settings_ok (bind (gets get_config) f) Q"
  using get_config_valid by (fastforce simp: triple_def wp_simps)

lemma keeps_map_err: "keeps P m \<Longrightarrow> keeps P (map_err g m)"
  by (rule keeps_wrappers)

lemma setters_keep:
  "triple settings_ok (Admin.initialize E a b) (\<lambda>_. settings_ok)"
  "triple settings_ok (update_config E a cfg) (\<lambda>_. settings_ok)"
  "triple settings_ok (set_platform_fee E a n b) (\<lambda>_. settings_ok)"
  "triple settings_ok (set_creation_quota E a m k) (\<lambda>_. settings_ok)"
proof -
  note config = keeps_set_config [unfolded keeps_def] keeps_map_err [OF keeps_set_config, unfolded keeps_def]
  note fee = keeps_set_fee [unfolded keeps_def]
  note other = keeps_settings [unfolded keeps_def]
  show "triple settings_ok (Admin.initialize E a b) (\<lambda>_. settings_ok)"
    "triple settings_ok (update_config E a cfg) (\<lambda>_. settings_ok)"
    "triple settings_ok (set_platform_fee E a n b) (\<lambda>_. settings_ok)"
    "triple settings_ok (set_creation_quota E a m k) (\<lambda>_. settings_ok)"
    unfolding Admin.initialize_def update_config_def set_platform_fee_def set_creation_quota_def
    by ((rule mst_seq mst_seq_all triple_config | (rule mst_do_all triple_andthen, (rule config fee |
        (rule other, (rule frame_rules | (rule frame_settings, rule frame_rules) | (rule core_settings, simp; fail) |
          (simp add: settings_def Store.set_admin_def set_token_contract_def set_shipment_counter_def; fail))+))) |
        (rule other, (rule frame_rules | (rule frame_settings, rule frame_rules) | (rule core_settings, simp; fail))+) |
        (simp add: default_config_valid valid_quota; fail))+)
qed

lemma admin_exec_settings: "triple settings_ok (admin_exec E c) (\<lambda>_. settings_ok)"
proof (cases "sets c \<or> (\<exists>a b. c = C_initialize a b)")
  case True
  then show ?thesis using setters_keep by (cases c) auto
next
  case False
  then have "frame settings (admin_exec E c)"
    using frame_settings [OF admin_exec_core [of c E]] frame_settings_gov [OF admin_key_gov(1)]
      frame_settings_gov [OF admin_key_gov(2)]
    by (cases "\<exists>a. c = C_accept_admin_transfer a \<or> c = C_reset_circuit_breaker a") auto
  then show ?thesis by (rule keeps_settings [unfolded keeps_def])
qed

interpretation navin_settings: contract_invariant "sys_legal tok me" "sys_entry tok me" sys_init
    settings_ok for tok me
proof
  show "settings_ok sys_init" by (simp add: settings_ok_def sys_init_def store_init_def)
next
  fix s :: "token_state store" and c
  assume s: "settings_ok s" and "sys_legal tok me c"
  note calls = tripleD [OF admin_exec_settings s] keepsD [OF keeps_settings s]
  show "wp (sys_entry tok me c) (\<lambda>_. settings_ok) s"
  proof (cases c)
    case (Token_call Es d)
    have "wp (token_entry (Es, d)) (\<lambda>_ t. settings_ok (s\<lparr>tokens := t\<rparr>)) (tokens s)"
      using s by (auto simp: settings_ok_def intro: wpI)
    with Token_call show ?thesis by (simp add: wp_map_err wp_on_tokens)
  qed (use s in \<open>simp_all add: wp_map_err calls calls_settings wp_basic settings_ok_def\<close>)
qed

section \<open>Properties\<close>

text \<open>
  C23. The settings stay in range: in every reachable state the configuration in force is one that
  \<open>validate_config\<close> accepts, a recorded checksum is not all zero, and the platform fee is at most ten
  per cent, so that the fee on a deposit of \<open>v\<close> is between 0 and \<open>v div 10\<close>.
\<close>

theorem settings_in_range:
  assumes "reachable (sys_legal tok me) (sys_entry tok me) sys_init s" and "0 \<le> v"
  shows "validate_config (get_config s) = Inr () \<and>
    (\<forall>h. get_config_checksum s = Some h \<longrightarrow> \<not> all_zero h) \<and>
    0 \<le> platform_fee (get_fee_config s) v \<and> platform_fee (get_fee_config s) v \<le> v div 10"
proof -
  have ok: "settings_ok s" by (rule navin_settings.Inv_reachable [OF assms(1)])
  have "v * int (fee_bps fee) div 10000 \<le> v div 10" if "k_FeeConfig s = Some fee" for fee
  proof -
    have "v * int (fee_bps fee) \<le> v * 1000"
      using ok that assms(2) by (intro mult_left_mono) (auto simp: settings_ok_def)
    then have "v * int (fee_bps fee) div 10000 \<le> v * 1000 div 10000" by (rule zdiv_mono1) simp
    then show ?thesis by simp
  qed
  with ok assms(2) show ?thesis
    by (auto simp: settings_ok_def get_config_checksum_def get_fee_config_def platform_fee_def
        get_config_valid [OF ok] div_int_pos_iff split: option.splits)
qed

theorem settings_in_range_witness:
  "validate_config (get_config sample_open) = Inr () \<and> platform_fee (get_fee_config sample_open) 500 = 12 \<and>
   platform_fee (get_fee_config sample_open) 500 \<le> 500 div 10"
proof -
  have "k_FeeConfig sample_open = Some \<lparr>fee_bps = 250, fee_treasury = 8\<rparr>"
    by (rule sample_open_shipment)
  then have "platform_fee (get_fee_config sample_open) 500 = 12"
    by (simp add: platform_fee_def get_fee_config_def)
  with settings_in_range [OF sample_runs_reachable(1), of 500] show ?thesis by simp
qed

end
