(* ===== verification/Controls.thy ===== *)
theory Controls
  imports Access Vault
begin

text \<open>
  The controls around the money: proposals of the admin group are carried out once and with enough
  approvals, creation quotas hold, and unlocking an escrow pays nobody.
\<close>

section \<open>Proposals\<close>

lemma storage_get_proposal_gov: "gov t = gov s \<Longrightarrow> storage_get_proposal i t = storage_get_proposal i s"
  by (simp add: gov_def polity_def storage_get_proposal_def)

definition executable_at :: "'t env \<Rightarrow> Proposal \<Rightarrow> 't store \<Rightarrow> bool" where
  "executable_at E p s \<longleftrightarrow> timestamp E \<le> pr_expires_at p \<and> \<not> pr_executed p \<and>
     unwrap_or 2 (get_multisig_threshold s) \<le> length (pr_approvals p)"

lemma wp_execute_internal:
  assumes "multisig_wf s"
  shows "wp (execute_proposal_internal E i) (\<lambda>_ t. \<exists>p. storage_get_proposal i s = Some p \<and>
    executable_at E p s \<and> storage_get_proposal i t = Some (p\<lparr>pr_executed := True\<rparr>)) s"
proof -
  have "wp (execute_action E a act) (\<lambda>_ t. storage_get_proposal i (publish y l t) = Some (p\<lparr>pr_executed := True\<rparr>))
      (set_proposal (p\<lparr>pr_executed := True\<rparr>) s)" if "k_Proposal s i = Some p" for a act p y l
    by (rule frame_wp [OF execute_action_gov])
      (use multisig_wf_proposal [OF assms that] in \<open>simp add: storage_get_proposal_gov [OF gov_core [OF core_events(1)]]
        set_proposal_def storage_get_proposal_def gov_def polity_def\<close>)
  then show ?thesis
    by (auto simp: execute_proposal_internal_def wp_simps executable_at_def storage_get_proposal_def)
qed

lemma run_executed:
  assumes "storage_get_proposal i t = Some p" "pr_executed p" "Store.is_initialized t"
  shows "execute_proposal E i t = (Inl (Err (if timestamp E > pr_expires_at p then ProposalExpired
     else ProposalAlreadyExecuted)), t)"
  using assms by (simp add: execute_proposal_def execute_proposal_internal_def Guards.require_initialized_def
    run_simps ok_or_def)

lemma wp_approve_action:
  assumes "multisig_wf s"
  shows "wp (approve_action E a i) (\<lambda>_ t. \<exists>p. storage_get_proposal i s = Some p \<and>
    authorized E a \<and> is_admin a s \<and> a \<notin> set (pr_approvals p) \<and> \<not> pr_executed p \<and>
    timestamp E \<le> pr_expires_at p \<and>
    storage_get_proposal i t = Some (p\<lparr>pr_approvals := pr_approvals p @ [a],
      pr_executed := unwrap_or 2 (get_multisig_threshold s) \<le> length (pr_approvals p) + 1\<rparr>)) s"
proof -
  have wf: "multisig_wf (publish y l (set_proposal (p\<lparr>pr_approvals := pr_approvals p @ [a]\<rparr>) s))"
    if "k_Proposal s i = Some p" "a \<notin> set (pr_approvals p)" for p y l
    using multisig_wf_proposal [OF assms that(1)] that(2)
    by (simp add: multisig_wf_writes multisig_wf_set_proposal [OF assms])
  have run: "wp (execute_proposal_internal E i) (\<lambda>_ t. storage_get_proposal i t =
      Some (p\<lparr>pr_approvals := pr_approvals p @ [a], pr_executed := True\<rparr>))
      (publish y l (set_proposal (p\<lparr>pr_approvals := pr_approvals p @ [a]\<rparr>) s))"
    if "k_Proposal s i = Some p" "a \<notin> set (pr_approvals p)" for p y l
    by (rule wp_mono [OF wp_execute_internal [OF wf [OF that]]])
      (use multisig_wf_proposal [OF assms that(1)] in \<open>auto simp: storage_get_proposal_def set_proposal_def publish_def\<close>)
  show ?thesis
    using multisig_wf_proposal [OF assms] run
    by (auto simp: approve_action_def wp_simps storage_get_proposal_def get_multisig_threshold_def
        set_proposal_def publish_def split: if_splits)
qed

section \<open>Creation quotas\<close>

text \<open>The tracker of a company as the window that runs now sees it.\<close>

definition quota_now :: "'t env \<Rightarrow> addr \<Rightarrow> 't store \<Rightarrow> CreationQuotaTracker" where
  "quota_now E a s = (case get_creation_quota a s of
     None \<Rightarrow> \<lparr>cq_count = 0, cq_window_start = timestamp E\<rparr>
   | Some q \<Rightarrow> if cq_window_start q + creation_quota_window_seconds (get_config s) \<le> timestamp E
       then \<lparr>cq_count = 0, cq_window_start = timestamp E\<rparr> else q)"

text \<open>A creation of \<open>n\<close> shipments fits the quota, and is counted.\<close>

definition quota_counted :: "'t env \<Rightarrow> addr \<Rightarrow> nat \<Rightarrow> 't store \<Rightarrow> 't store \<Rightarrow> bool" where
  "quota_counted E a n s t \<longleftrightarrow> (let q = quota_now E a s in
     cq_count q + n \<le> creation_quota_max (get_config s) \<and>
     get_creation_quota a t = Some (q\<lparr>cq_count := cq_count q + n\<rparr>))"

text \<open>The part of the state the quota of a creation is judged by.\<close>

definition quota_view :: "'t store \<Rightarrow> (addr \<Rightarrow> CreationQuotaTracker option) \<times> ContractConfig option" where
  "quota_view s = (k_CompanyCreationQuota s, k_ContractConfig s)"

lemma quota_viewD:
  assumes "quota_view t = quota_view s"
  shows "get_config t = get_config s" "quota_now E a t = quota_now E a s"
    "get_creation_quota a t = get_creation_quota a s"
proof -
  show "get_config t = get_config s" "get_creation_quota a t = get_creation_quota a s"
    using assms by (simp_all add: quota_view_def get_config_def get_creation_quota_def)
  then show "quota_now E a t = quota_now E a s" by (simp add: quota_now_def split: option.splits)
qed

lemma quota_step:
  assumes "creation_quota_max (get_config s) \<noteq> 0" "n \<noteq> 0"
  shows "triple (\<lambda>u. quota_view u = quota_view s) (check_and_update_creation_quota_by E a n)
    (\<lambda>_. quota_counted E a n s)"
proof (rule tripleI)
  fix u :: "'a store"
  assume u: "quota_view u = quota_view s"
  have "wp (check_and_update_creation_quota_by E a n) (\<lambda>_. quota_counted E a n u) u"
    using assms quota_viewD(1) [OF u]
    by (cases "get_creation_quota a u"; cases "the (get_creation_quota a u)")
      (auto simp: check_and_update_creation_quota_by_def wp_simps quota_counted_def quota_now_def Let_def
        get_creation_quota_def storage_set_creation_quota_def unwrap_or_def request_ttl_def)
  then show "wp (check_and_update_creation_quota_by E a n) (\<lambda>_. quota_counted E a n s) u"
    by (rule wp_mono) (use quota_viewD [OF u] in \<open>simp add: quota_counted_def\<close>)
qed

lemma frame_quota:
  "frame quota_view (persist_shipment sh)"
  "frame quota_view (modify (set_shipment_counter n))"
  "frame quota_view (increment_status_count st)"
  "frame quota_view (modify (increment_active_shipment_count a))"
  "frame quota_view (extend_shipment_ttl i)"
  "frame quota_view (extend_shipment_ttl_cached i th ex)"
  "frame quota_view (emit_shipment_created E i a b h)"
  "frame quota_view (emit_notification a nt i h)"
  "frame quota_view (check_idempotency E p)"
  by (simp_all add: frame_def wp_simps emit_defs set_escrow_def set_shipment_def set_shipment_counter_def
     set_status_count_def increment_active_shipment_count_def set_active_shipment_count_def
     storage_extend_shipment_ttl_def publish_counted_def publish_def increment_event_count_def Let_def
     request_ttl_def quota_view_def extend_shipment_ttl_cached_def set_idempotency_window_def)

lemma frame_quota_loop: "frame quota_view (create_batch_loop E c a inps)"
proof (induction inps)
  case Nil
  show ?case by (simp add: frame_rules)
next
  case (Cons inp inps)
  note batch = Cons.IH
  show ?case unfolding create_batch_loop.simps by (rule frame_quota batch frame_rules)+
qed

lemma creation_counted:
  assumes "creation_quota_max (get_config s) \<noteq> 0"
  shows "triple (\<lambda>u. quota_view u = quota_view s) (create_shipment E a b c h ms dl) (\<lambda>_. quota_counted E a 1 s)"
    "inps \<noteq> [] \<Longrightarrow> triple (\<lambda>u. quota_view u = quota_view s) (create_shipments_batch E a inps)
       (\<lambda>_. quota_counted E a (length inps) s)"
proof -
  let ?P = "\<lambda>u. quota_view u = quota_view s"
  have before: "triple ?P m (\<lambda>_. ?P)" if "frame quota_view m" for m :: "('a, 'b) nav"
    by (rule tripleI, rule frame_wp [OF that]) simp
  have after: "triple (quota_counted E a n s) m (\<lambda>_. quota_counted E a n s)"
    if "frame quota_view m" for n and m :: "('a, 'b) nav"
  proof (rule tripleI, rule frame_wp [OF that])
    fix u t :: "'a store"
    assume "quota_counted E a n s u" "quota_view t = quota_view u"
    then show "quota_counted E a n s t" using quota_viewD(3) [of t u a] by (simp add: quota_counted_def)
  qed
  note step = quota_step [OF assms]
  show "triple ?P (create_shipment E a b c h ms dl) (\<lambda>_. quota_counted E a 1 s)"
    unfolding create_shipment_def check_and_update_creation_quota_def
    by ((rule triple_andthen, rule step, simp) | (rule triple_andthen triple_bind, rule after, (rule frame_quota frame_rules)+) |
       (rule after, (rule frame_quota frame_rules)+) | (rule triple_andthen, rule before, (rule frame_quota frame_rules)+))+
  show "triple ?P (create_shipments_batch E a inps) (\<lambda>_. quota_counted E a (length inps) s)" if "inps \<noteq> []"
    unfolding create_shipments_batch_def
    by ((rule triple_andthen, rule step, simp add: that) | (rule after, rule frame_quota_loop) |
       (rule triple_andthen triple_bind, rule before, (rule frame_quota frame_rules)+))+
qed

section \<open>Unlocking an escrow\<close>

lemma unlock_escrow_vst:
  assumes "sh_id sh = i"
  shows "triple (vst held tok i V sh) (unlock_escrow E a i h)
    (\<lambda>_. ends_as held (put_cargo i (sh_status sh) 0 V))"
  unfolding unlock_escrow_def recovery_unlock_escrow_def
  by ((rule vst_find vst_ends | (rule triple_andthen mst_do_all, (rule vst_set | (rule vst_frame, (rule frame_rules)+))) |
      (use assms in \<open>simp; fail\<close>))+)

section \<open>Properties\<close>

lemma reachable_multisig:
  "reachable (sys_legal tok me) (sys_entry tok me) sys_init s \<Longrightarrow> multisig_wf s"
  using reachable_inv by blast


definition sample_single :: "token_state store" where
  "sample_single = run_calls (sys_entry 50 99) [
     Admin_call (run_env 1000) (C_initialize 1 50),
     Gov_call (run_env 1004) (C_init_multisig 1 [1, 5, 6] 1),
     Gov_call (run_env 1005) (C_propose_action 5 (TransferAdmin 6))] sys_init"

lemma sample_single_reachable: "reachable (sys_legal 50 99) (sys_entry 50 99) sys_init sample_single"
  unfolding sample_single_def by (rule run_calls_reachable) simp




text \<open>
  C34. Creation quotas: with a quota set, a company that creates \<open>n\<close> shipments, one by itself or several in
  a batch, stays within it together with what it created before in the running window, and the
  creations are counted; a window that is over starts again from the time of the call.
\<close>

theorem creation_quota_enforced:
  assumes "creation_quota_max (get_config s) \<noteq> 0" "q = quota_now E a s"
    and "c = C_create_shipment a b d h ms dl \<and> n = 1 \<or>
      c = C_create_shipments_batch a inps \<and> n = length inps \<and> n \<noteq> 0"
    and "life_exec E c s = (Inr (), t)"
  shows "cq_count q + n \<le> creation_quota_max (get_config s) \<and>
    get_creation_quota a t = Some (q\<lparr>cq_count := cq_count q + n\<rparr>)"
proof -
  have "wp (life_exec E c) (\<lambda>_. quota_counted E a n s) s"
    using assms(3) creation_counted [OF assms(1), THEN tripleD] by (auto simp: wp_void)
  from wpD [OF this assms(4)] assms(2) show ?thesis by (simp add: quota_counted_def Let_def)
qed

definition sample_quota :: "token_state store" where
  "sample_quota = run_calls (sys_entry 50 99)
     (take 6 sample_calls @ [Admin_call (run_env 1005) (C_set_creation_quota 1 2 3600)]) sys_init"

theorem creation_quota_enforced_witness:
  "\<exists>t. life_exec (navin_env 50 99 (run_env 1010)) (C_create_shipment 2 4 3 [7] [] 9000) sample_quota = (Inr (), t) \<and>
     get_creation_quota 2 t = Some \<lparr>cq_count = 1, cq_window_start = 1010\<rparr>"
proof -
  obtain t where t: "life_exec (navin_env 50 99 (run_env 1010)) (C_create_shipment 2 4 3 [7] [] 9000) sample_quota =
      (Inr (), t)"
    by (simp add: sample_quota_def sample_run set_creation_quota_def del: kept)
  have "creation_quota_max (get_config sample_quota) = 2" "get_creation_quota 2 sample_quota = None"
    by (simp_all add: sample_quota_def sample_run set_creation_quota_def del: kept)
  then show ?thesis
    using creation_quota_enforced [OF _ refl _ t, of 2 4 3 "[7]" "[]" 9000 1 "[]"] t
    by (simp add: quota_now_def)
qed

text \<open>
  C16. \<open>unlock_escrow\<close> writes off the escrow of a shipment: the admin's call sets it to nothing and keeps
  the status, and no balance changes, so the tokens stay with the contract and belong to no shipment.
\<close>

theorem unlock_moves_no_funds:
  assumes "reachable (sys_legal tok me) (sys_entry tok me) sys_init s"
    and "storage_get_shipment i s = Some sh"
    and "unlock_escrow (navin_env tok me E) a i h s = (Inr (), t)"
  shows "vault_of get_balance t = put_cargo i (sh_status sh) 0 (vault_of get_balance s)"
  using wpD [OF tripleD [OF unlock_escrow_vst] assms(3)] reachable_vst [OF assms(1,2)]
  by (simp add: ends_as_def)

theorem unlock_moves_no_funds_witness:
  "\<exists>t. unlock_escrow (navin_env 50 99 (run_env 1200)) 1 1 [9] sample_sys = (Inr (), t) \<and>
     vault_of get_balance t = put_cargo 1 InTransit 0 (vault_of get_balance sample_sys)"
proof -
  obtain t where t: "unlock_escrow (navin_env 50 99 (run_env 1200)) 1 1 [9] sample_sys = (Inr (), t)"
    by (simp add: sample_run unlock_escrow_def recovery_unlock_escrow_def recovery_record_def
        append_recovery_record_def storage_get_recovery_record_count_def
        MAX_RECOVERY_RECORDS_PER_SHIPMENT_def del: kept)
  obtain sh where "storage_get_shipment 1 sample_sys = Some sh" "sh_status sh = InTransit"
    by (simp add: sample_run del: kept)
  with unlock_moves_no_funds [OF sample_sys_reachable _ t] t show ?thesis by simp
qed

end
