(* ===== verification/Windows.thy ===== *)
theory Windows
  imports Access Vault
begin

text \<open>
  Idempotency windows over whole runs: a window that a call has opened stays open whatever calls
  follow, until the ledger lets it expire. The proofs go by the shape of the handlers, down to the
  single writes.
\<close>

section \<open>What keeps a window\<close>

abbreviation window :: "hash \<Rightarrow> 't store \<Rightarrow> bool" where
  "window k \<equiv> has_idempotency_window k"

named_theorems window_rules \<open>computations that keep the windows\<close>

lemma window_frame: "frame k_IdempotencyWindow m \<Longrightarrow> keeps (window k) m"
  by (erule keeps_frame) (simp add: has_idempotency_window_def)

lemma window_hush: "k_IdempotencyWindow (hush s) = k_IdempotencyWindow s"
  by (simp add: hush_def)

lemmas window_emit [window_rules] =
  hush_emit [THEN frame_hush [where v = k_IdempotencyWindow, OF window_hush], THEN window_frame]

lemmas window_tests [window_rules] = frame_access [THEN window_frame]
  frame_validation [THEN window_frame] frame_arith [THEN window_frame] frame_require_auth [THEN window_frame]
  frame_validate_symbol_chars [THEN window_frame] frame_validate_checkpoint_symbol [THEN window_frame]
  frame_validate_milestones [THEN window_frame] frame_atoms [THEN window_frame]

lemma window_opened [simp]: "window k (set_idempotency_window h n s) \<longleftrightarrow> k = h \<or> window k s"
  by (auto simp: has_idempotency_window_def set_idempotency_window_def request_ttl_def)

lemma window_idempotency [window_rules]: "keeps (window k) (check_idempotency E p)"
  by (simp add: keeps_def triple_def wp_simps Let_def)

lemmas setter_defs = set_shipment_def set_escrow_def remove_escrow_balance_def remove_escrow_def
  set_escrow_freeze_reason_def set_confirmation_hash_def set_last_status_update_def
  set_status_hash_def set_status_count_def set_active_shipment_count_def increment_active_shipment_count_def
  decrement_active_shipment_count_def set_settlement_counter_def set_settlement_def
  set_active_settlement_def clear_active_settlement_def storage_set_creation_quota_def
  set_note_hash_def set_evidence_hash_def store_audit_entry_def increment_audit_entry_count_def
  remove_audit_entry_def request_ttl_def set_shipment_counter_def set_breaker_def storage_extend_shipment_ttl_def
  increment_breach_event_count_def publish_def
  set_proposal_def set_proposal_counter_def set_admin_list_def
  set_multisig_threshold_def set_shipment_dependency_def Store.set_admin_def set_proposal_salt_used_def
  set_proposal_digest_def set_version_def set_company_role_def set_role_def set_carrier_role_def
  storage_revoke_role_def storage_suspend_role_def storage_reactivate_role_def
  storage_suspend_carrier_def storage_reactivate_carrier_def storage_suspend_company_def
  storage_reactivate_company_def Store.set_paused_def set_treasury_def set_token_contract_def
  set_proposed_admin_def clear_proposed_admin_def storage_set_shipment_limit_def
  storage_set_company_shipment_limit_def storage_add_carrier_to_whitelist_def
  storage_remove_carrier_from_whitelist_def breaker_set_config_def set_fee_config_def
  set_config_checksum_def update_current_contract_wasm_def set_reentrancy_lock_def

lemma window_helpers [window_rules]:
  "keeps (window k) (extend_shipment_ttl i)" "keeps (window k) (persist_shipment sh)"
  "keeps (window k) (extend_shipment_ttl_cached i th ex)" "keeps (window k) (increment_status_count st)"
  "keeps (window k) (decrement_status_count st)" "keeps (window k) increment_total_disputes"
  "keeps (window k) (add_total_escrow_volume x)" "keeps (window k) (create_settlement E i op x a b)"
  "keeps (window k) (complete_settlement E n i)" "keeps (window k) (log_entry E ty a b)"
  "keeps (window k) (increment_note_count i)" "keeps (window k) (increment_evidence_count i)"
  "keeps (window k) (append_recovery_record i r)" "keeps (window k) (invoke_token_transfer E tok f t v)"
  "keeps (window k) (set_config E cfg)"
  by (simp_all add: keeps_def triple_def has_idempotency_window_def wp_simps Let_def increment_note_count_def increment_evidence_count_def
      append_recovery_record_def setter_defs)


lemma window_modify:
  "(\<And>s. k_IdempotencyWindow (h s) = k_IdempotencyWindow s) \<Longrightarrow> keeps (window k) (modify h)"
  by (rule window_frame) (rule frame_modify)

lemmas window_more [window_rules] = frame_total_percentage [THEN window_frame]
  frame_percentage_of [THEN window_frame] frame_resolve [THEN window_frame]

lemma window_parts [window_rules]:
  "keeps (window k) (check_and_update_creation_quota_by E a n)"
  "keeps (window k) (check_and_update_creation_quota E a)"
  "keeps (window k) (collect_fee E tok j v)" "keeps (window k) (refund_sender E j sh)"
  unfolding check_and_update_creation_quota_def check_and_update_creation_quota_by_def collect_fee_def refund_sender_def
  by ((rule window_rules | (rule window_modify, simp add: setter_defs; fail) | rule keeps_rules | (simp; fail))+)

lemma window_locked [simp]: "window k (set_reentrancy_lock b s) = window k s"
  by (simp add: has_idempotency_window_def set_reentrancy_lock_def)

lemma window_lock [window_rules]: "keeps (window k) m \<Longrightarrow> keeps (window k) (with_reentrancy_lock m)"
  by (simp add: keeps_def triple_def wp_simps)

lemma window_release [window_rules]: "keeps (window k) (internal_release_escrow E sh v)"
  unfolding internal_release_escrow_def
  by ((rule window_rules keeps_settle | (rule window_modify, simp add: setter_defs; fail) | rule keeps_rules | (simp; fail))+)

lemma window_batches [window_rules]:
  "keeps (window k) (create_batch_loop E c a inps)"
  "keeps (window k) (record_batch_loop E a i items sh)"
proof -
  show "keeps (window k) (create_batch_loop E c a inps)"
  proof (induction inps)
    case (Cons inp inps)
    show ?case unfolding create_batch_loop.simps
      by ((rule window_rules Cons.IH | (rule window_modify, simp add: setter_defs; fail) | rule keeps_rules | (simp; fail))+)
  qed (simp add: keeps_rules)
  show "keeps (window k) (record_batch_loop E a i items sh)"
  proof (induction items arbitrary: sh)
    case (Cons item items)
    show ?case unfolding record_batch_loop.simps record_batch_item_def
      by ((rule window_rules Cons.IH | (rule window_modify, simp add: setter_defs; fail) | rule keeps_rules | (simp; fail))+)
  qed (simp add: keeps_rules)
qed

lemma window_archive [window_rules]: "keeps (window k) (modify (storage_archive_shipment i sh))"
proof (rule window_modify)
  have "k_IdempotencyWindow (remove_status_hashes i sts s) = k_IdempotencyWindow s"
    for sts and s :: "'a store"
    by (induction sts arbitrary: s) simp_all
  then show "k_IdempotencyWindow (storage_archive_shipment i sh s) = k_IdempotencyWindow s" for s :: "'a store"
    unfolding storage_archive_shipment_def purge_status_hashes_def
    by (simp del: remove_status_hashes.simps add: purge_recovery_records_def purge_dispute_evidence_def
      purge_shipment_notes_def remove_escrow_freeze_reason_def remove_breach_event_count_def
      remove_milestone_event_count_def remove_event_count_def remove_last_status_update_def
      remove_confirmation_hash_def clear_active_settlement_def remove_escrow_def Let_def)
qed

section \<open>The entry points\<close>

lemma life_exec_window: "keeps (window k) (life_exec E c)"
  by (cases c; simp only: life_exec.simps life_defs dependencies_met_def lib_extend_shipment_ttl_def check_deadline_def)
    ((rule window_rules keeps_settle navin_host.keeps_resolution | (rule window_modify, simp add: setter_defs; fail) | rule keeps_rules | (simp; fail))+)


lemma window_action [window_rules]: "keeps (window k) (execute_action E p act)"
  by (cases act; simp only: execute_action_def AdminAction.case force_settle_def)
    ((rule window_rules | (rule window_modify, simp add: setter_defs; fail) | rule keeps_rules | (simp; fail))+)

lemma window_execution [window_rules]: "keeps (window k) (execute_proposal_internal E i)"
  unfolding execute_proposal_internal_def
  by ((rule window_rules | (rule window_modify, simp add: setter_defs; fail) | rule keeps_rules | (simp; fail))+)

lemma gov_exec_window: "keeps (window k) (gov_exec E c)"
  by (cases c; simp only: gov_exec.simps gov_defs execute_proposal_def verify_escrow_consistency_def would_create_cycle_def)
    ((rule window_rules | (rule window_modify, simp add: setter_defs; fail) | rule keeps_rules | (simp; fail))+)

lemma admin_exec_window: "keeps (window k) (admin_exec E c)"
  by (cases c; simp only: admin_exec.simps Admin.initialize_def admin_defs emit_breaker_reset_event_def log_defs)
    ((rule window_rules | (rule window_modify, simp add: setter_defs; fail) | rule keeps_rules | (simp; fail))+)


lemma entry_window:
  assumes "c \<noteq> Expire_window k"
  shows "keeps (window k) (sys_entry tok me c)"
proof (cases c)
  case (Token_call Es d)
  have "wp (token_entry (Es, d)) (\<lambda>_ t. window k (s\<lparr>tokens := t\<rparr>)) (tokens s)" if "window k s" for s
    by (rule wpI) (use that in \<open>simp add: has_idempotency_window_def\<close>)
  then show ?thesis unfolding Token_call sys_entry.simps keeps_def triple_def wp_map_err wp_on_tokens by blast
qed (use assms in \<open>simp_all only: sys_entry.simps keeps_wrappers(2) life_exec_window gov_exec_window admin_exec_window,
    simp_all add: keeps_def triple_def wp_simps has_idempotency_window_def\<close>)

lemma run_calls_window:
  assumes "window k s" "Expire_window k \<notin> set cs"
  shows "window k (run_calls (sys_entry tok me) cs s)"
  using assms
proof (induction cs arbitrary: s)
  case (Cons c cs)
  obtain r t where rt: "invoke (sys_entry tok me c) s = (r, t)" by (cases "invoke (sys_entry tok me c) s")
  have "window k t"
    using rt Cons.prems keepsD [OF entry_window [of c k tok me], of s] 
    by (cases r) (auto dest: invoke_Inl wpD)
  with Cons rt show ?case by simp
qed simp


section \<open>Creations\<close>

lemma create_window:
  "triple (\<lambda>_. True) (create_shipment E a b c h ms dl) (\<lambda>_. window (sha256 E (addr_xdr E a @ h)))"
proof -
  let ?W = "window (sha256 E (addr_xdr E a @ h))"
  have opens: "triple (\<lambda>_. True) (check_idempotency E (addr_xdr E a @ h)) (\<lambda>_. ?W)"
    by (simp add: triple_def wp_simps)
  have skip: "triple (\<lambda>_. True) m (\<lambda>_ _. True)" for m :: "('a, 'b) nav"
    by (simp add: triple_def wp_top)
  have rest: "keeps ?W m \<Longrightarrow> triple ?W m (\<lambda>_. ?W)" for m :: "('a, 'b) nav" by (simp add: keeps_def)
  show ?thesis unfolding create_shipment_def
    by ((rule triple_andthen [OF opens rest] | rule triple_andthen [OF skip])+)
      ((rule window_rules | (rule window_modify, simp add: setter_defs; fail) | rule keeps_rules)+)
qed

lemma create_refused:
  assumes "window (sha256 E (addr_xdr E a @ h)) s"
  shows "wp (create_shipment E a b c h ms dl) (\<lambda>_ _. False) s"
proof -
  have stop: "wp (andthen (check_idempotency E (addr_xdr E a @ h)) m) (\<lambda>_ _. False) s" for m :: "('a, 'b) nav"
    using assms by (simp add: wp_andthen wp_check_idempotency)
  show ?thesis unfolding create_shipment_def
    by ((rule stop | rule walk_guard | (rule walk_skip, (rule frame_rules)+))+)
qed

section \<open>Properties\<close>

text \<open>
  C33. A creation is not repeated: once \<open>create_shipment\<close> has succeeded for a sender and a data hash,
  whatever calls follow, of anybody, a second creation with the same sender and hash fails until the
  ledger lets the window the first one opened expire.
\<close>

theorem creation_not_repeated:
  assumes "create_shipment (navin_env tok me E) a b c h ms dl s = (Inr i, t)"
    and "Expire_window (sha256 E (addr_xdr E a @ h)) \<notin> set cs" "u = run_calls (sys_entry tok me) cs t"
    and "sha256 E' = sha256 E" "addr_xdr E' = addr_xdr E"
  shows "create_shipment (navin_env tok me E') a b' c' h ms' dl' u \<noteq> (Inr j, w)"
proof -
  have env: "sha256 (navin_env tok me F) = sha256 F" "addr_xdr (navin_env tok me F) = addr_xdr F" for F
    by (simp_all add: navin_env_def)
  have "window (sha256 E (addr_xdr E a @ h)) t"
    using wpD [OF tripleD [OF create_window] assms(1)] by (simp add: env)
  then have "window (sha256 E (addr_xdr E a @ h)) u"
    unfolding assms(3) by (rule run_calls_window [OF _ assms(2)])
  then have "wp (create_shipment (navin_env tok me E') a b' c' h ms' dl') (\<lambda>_ _. False) u"
    by (intro create_refused) (simp add: env assms(4,5))
  from wpD [OF this] show ?thesis by blast
qed

theorem creation_not_repeated_witness:
  "\<exists>i t. create_shipment (navin_env 50 99 (run_env 1110)) 2 4 3 [17] [] 9000 sample_sys = (Inr i, t) \<and>
     (\<forall>j w. create_shipment (navin_env 50 99 (run_env 1120)) 2 4 3 [17] [] 9900
       (run_calls (sys_entry 50 99) [Life_call (run_env 1115) (C_confirm_delivery 4 1 [9]), Expire_window []] t) \<noteq>
       (Inr j, w))"
proof -
  obtain i t where t: "create_shipment (navin_env 50 99 (run_env 1110)) 2 4 3 [17] [] 9000 sample_sys =
      (Inr i, t)"
    by (simp add: sample_run del: kept)
  have "sha256 (run_env 1120) = sha256 (run_env 1110)" "addr_xdr (run_env 1120) = addr_xdr (run_env 1110)"
    "sha256 (run_env 1110) bs \<noteq> []" for bs
    by (simp_all add: fun_eq_iff run_env_def sample_ship_env_def)
  with creation_not_repeated [OF t _ refl this(1,2),
      of "[Life_call (run_env 1115) (C_confirm_delivery 4 1 [9]), Expire_window []]"] t
  show ?thesis by fastforce
qed

end
