(* ===== verification/Oversight.thy ===== *)
theory Oversight
  imports Access Vault Health
begin

text \<open>
  What the operators' health check reports, against a reference: the loop of \<open>diagnostics.rs\<close> computes
  the sum, the counts and the lists of a plain definition, and on reachable states its saturating sum
  is exact and covered by the tokens the contract holds.
\<close>

section \<open>The reference\<close>

text \<open>Shipments under way, those of them in transit past their deadline, and those badly stored.\<close>

definition active :: "Shipment \<Rightarrow> bool" where
  "active sh \<longleftrightarrow> sh_status sh \<notin> {Delivered, Cancelled, Disputed}"

definition overdue :: "'t env \<Rightarrow> Shipment \<Rightarrow> bool" where
  "overdue E sh \<longleftrightarrow> sh_status sh = InTransit \<and> sh_deadline sh < timestamp E"

definition astray :: "'t store \<Rightarrow> nat \<Rightarrow> bool" where
  "astray s i \<longleftrightarrow> (case storage_get_shipment i s of
     None \<Rightarrow> True
   | Some sh \<Rightarrow> sh_escrow_amount sh \<noteq> get_escrow i s \<or>
       \<not> has_persistent_shipment i s \<and> (active sh \<or> has_orphaned_counters i s))"

definition escrow_of :: "'t store \<Rightarrow> nat \<Rightarrow> int" where
  "escrow_of s = escrow_at (k_Shipment s) (k_ArchivedShipment s)"

text \<open>The report on the shipments \<open>ids\<close>.\<close>

definition health_report :: "'t env \<Rightarrow> 't store \<Rightarrow> nat list \<Rightarrow> SystemHealthStatus" where
  "health_report E s ids =
     \<lparr>hs_total_shipments = storage_get_shipment_counter s,
      hs_sum_of_escrow_balances = sum_list (map (escrow_of s) ids),
      hs_active_shipments_counted = length (matching active ids s),
      hs_anomalous_shipment_ids = matching (overdue E) ids s,
      hs_storage_inconsistencies = filter (astray s) ids\<rparr>"

section \<open>The loop\<close>

lemma note_id_new: "i \<notin> set ids \<Longrightarrow> note_id b i ids = ids @ flag b i"
  by (simp add: note_id_def flag_def)

lemma note_id_again: "i \<notin> set ids \<Longrightarrow> note_id b i (ids @ flag c i) = ids @ flag (b \<or> c) i"
  by (auto simp: note_id_def flag_def)

text \<open>What the rounds for \<open>ids\<close> add to a report.\<close>

definition widen :: "'t env \<Rightarrow> 't store \<Rightarrow> nat list \<Rightarrow> SystemHealthStatus \<Rightarrow> SystemHealthStatus" where
  "widen E s ids r = r\<lparr>
     hs_sum_of_escrow_balances := hs_sum_of_escrow_balances r + sum_list (map (escrow_of s) ids),
     hs_active_shipments_counted := hs_active_shipments_counted r + length (matching active ids s),
     hs_anomalous_shipment_ids := hs_anomalous_shipment_ids r @ matching (overdue E) ids s,
     hs_storage_inconsistencies := hs_storage_inconsistencies r @ filter (astray s) ids\<rparr>"

lemma health_item_widen:
  assumes "storage_get_shipment i s = Some sh" "i \<notin> set (hs_anomalous_shipment_ids r)"
    "i \<notin> set (hs_storage_inconsistencies r)"
    "0 \<le> hs_sum_of_escrow_balances r" "0 \<le> sh_escrow_amount sh"
    "hs_sum_of_escrow_balances r + sh_escrow_amount sh \<le> i128_max"
  shows "health_item E i sh s r = widen E s [i] r"
proof -
  have "i128_saturating_add (hs_sum_of_escrow_balances r) (sh_escrow_amount sh) =
      hs_sum_of_escrow_balances r + sh_escrow_amount sh"
    using assms(4-6) by (simp add: i128_saturating_add_def i128_min_def)
  moreover have "note_id (\<not> has_persistent_shipment i s \<and> \<not> active sh \<and> has_orphaned_counters i s) i
      (note_id (active sh \<and> \<not> has_persistent_shipment i s) i
        (note_id (sh_escrow_amount sh \<noteq> get_escrow i s) i (hs_storage_inconsistencies r))) =
      hs_storage_inconsistencies r @ flag (astray s i) i"
    using assms(1,3) unfolding note_id_new [OF assms(3)] note_id_again [OF assms(3)]
    by (auto simp: astray_def flag_def)
  moreover have "(sh_status sh = Delivered \<or> sh_status sh = Cancelled \<or> sh_status sh = Disputed) = (\<not> active sh)"
    by (auto simp: active_def)
  moreover have "(active sh \<and> sh_deadline sh < timestamp E \<and> sh_status sh = InTransit) = overdue E sh"
    by (auto simp: active_def overdue_def)
  ultimately show ?thesis
    using assms(1,2) unfolding health_item_def Let_def not_not
    by (simp add: widen_def note_id_new escrow_of_def escrow_at_def flag_def)
qed

lemma widen_twice: "widen E s ids (widen E s [i] r) = widen E s (i # ids) r"
  by (simp add: widen_def)

lemma health_loop_widen:
  assumes "distinct ids" "\<And>i. 0 \<le> escrow_of s i"
    and "set ids \<inter> (set (hs_anomalous_shipment_ids r) \<union> set (hs_storage_inconsistencies r)) = {}"
    and "0 \<le> hs_sum_of_escrow_balances r"
    "hs_sum_of_escrow_balances r + sum_list (map (escrow_of s) ids) \<le> i128_max"
  shows "health_loop E ids s r = widen E s ids r"
  using assms
proof (induction ids arbitrary: r)
  case Nil
  show ?case by (simp add: widen_def)
next
  case (Cons i ids)
  have nn: "0 \<le> sum_list (map (escrow_of s) ids)" using Cons.prems(2) by (intro sum_list_nonneg) auto
  have "health_loop E (i # ids) s r = health_loop E ids s (widen E s [i] r)"
  proof (cases "storage_get_shipment i s")
    case None
    then show ?thesis by (simp add: widen_def escrow_of_def escrow_at_def astray_def)
  next
    case (Some sh)
    then have "escrow_of s i = sh_escrow_amount sh" by (simp add: escrow_of_def escrow_at_def)
    with health_item_widen [OF Some, of r E] Cons.prems nn Cons.prems(2) [of i] Some show ?thesis by simp
  qed
  also have "\<dots> = widen E s (i # ids) r"
    using Cons.prems Cons.prems(2) [of i]
    by (subst Cons.IH) (auto simp: widen_twice, auto simp: widen_def split: if_splits)
  finally show ?case .
qed


section \<open>Reachable states\<close>

lemma escrow_of_nonneg:
  assumes "reachable (sys_legal tok me) (sys_entry tok me) sys_init s"
  shows "0 \<le> escrow_of s i"
  using reachable_vst(2) [OF assms] by (auto simp: escrow_of_def escrow_at_def split: option.splits)

lemma scanned_covered:
  assumes "reachable (sys_legal tok me) (sys_entry tok me) sys_init s" "0 < a"
    "b \<le> storage_get_shipment_counter s"
  shows "sum_list (map (escrow_of s) [a..<Suc b]) \<le> get_balance me (tokens s)"
proof -
  have "sum_list (map (escrow_of s) [a..<Suc b]) = sum (escrow_of s) {a..b}"
    by (simp add: sum_list_distinct_conv_sum_set atLeastLessThanSuc_atLeastAtMost del: upt_Suc)
  also have "\<dots> \<le> sum (escrow_of s) {1..storage_get_shipment_counter s}"
    using assms(2,3) escrow_of_nonneg [OF assms(1)] by (intro sum_mono2) auto
  also have "\<dots> = locked s" by (simp add: locked_def locked_upto_def escrow_of_def)
  also have "\<dots> \<le> get_balance me (tokens s)"
    using reachable_inv [OF assms(1)] by (simp add: mst_def minv_def locked_def storage_get_shipment_counter_def)
  finally show ?thesis .
qed

lemma run_admin_or_operator:
  "is_initialized s \<Longrightarrow> granted (Admin_or_operator a) s \<Longrightarrow> require_admin_or_operator a s = (Inr (), s)"
  by (auto simp: require_admin_or_operator_def Guards.require_initialized_def storage_get_admin_def
      is_initialized_def run_simps ok_or_def split: option.splits)

lemma health_range_report:
  assumes "reachable (sys_legal tok me) (sys_entry tok me) sys_init s"
    and "0 < a" "0 < n" "a + n \<le> u64_max"
  shows "run_system_health_check_range E a n s =
    health_report E s [a..<Suc (min (a + n - 1) (storage_get_shipment_counter s))]"
proof (cases "a \<le> storage_get_shipment_counter s")
  case True
  let ?ids = "[a..<Suc (min (a + n - 1) (storage_get_shipment_counter s))]"
  have "token_inv (tokens s)"
    using reachable_inv [OF assms(1)] by (simp add: calm_def serene_def token_ok_def)
  then have "get_balance me (tokens s) \<le> i128_max"
    using token_invD(4) [of "tokens s"] token_invD(5) [of "tokens s" me] by linarith
  then have "sum_list (map (escrow_of s) ?ids) \<le> i128_max"
    using scanned_covered [OF assms(1,2), of "min (a + n - 1) (storage_get_shipment_counter s)"] by simp
  then show ?thesis
    using True assms(2-4) escrow_of_nonneg [OF assms(1)]
    by (simp add: run_system_health_check_range_def Let_def health_loop_widen widen_def health_report_def
        saturating_sub_def u64_saturating_add_def del: upt_Suc)
qed (use assms in \<open>simp add: run_system_health_check_range_def health_report_def\<close>)

section \<open>Properties\<close>

text \<open>
  C35. The health check is exact. In every reachable state, for the admin or an operator, a page of
  \<open>check_contract_health_paginated\<close> is the report the reference gives for the shipments of that page: the
  saturating sum of their escrows is their sum, the counts and lists are those of the shipments under
  way, overdue and badly stored, and the sum is covered by the tokens the contract holds.
\<close>

theorem health_check_exact:
  assumes "reachable (sys_legal tok me) (sys_entry tok me) sys_init s" "is_initialized s"
    and "authorized E a" "granted (Admin_or_operator a) s"
    and "0 < start" "0 < n" "n \<le> effective_batch_query_limit" "start + n \<le> u64_max"
  shows "\<exists>r. check_contract_health_paginated E a start n s = (Inr r, s) \<and>
    r = health_report E s [start..<Suc (min (start + n - 1) (storage_get_shipment_counter s))] \<and>
    hs_sum_of_escrow_balances r \<le> get_balance me (tokens s)"
  using scanned_covered [OF assms(1,5), of "min (start + n - 1) (storage_get_shipment_counter s)"]
    health_range_report [OF assms(1,5,6,8), of E] run_admin_or_operator [OF assms(2,4)] assms(2,3,6,7)
  by (simp add: check_contract_health_paginated_def Guards.require_initialized_def require_auth_def
      andthen_def bind_def run_simps health_report_def del: upt_Suc granted.simps)

theorem health_check_exact_witness:
  "\<exists>r. check_contract_health_paginated (run_env 9500) 1 1 10 sample_sys = (Inr r, sample_sys) \<and>
     hs_sum_of_escrow_balances r = 500 \<and> hs_active_shipments_counted r = 1 \<and>
     hs_anomalous_shipment_ids r = [1] \<and> hs_storage_inconsistencies r = [] \<and>
     500 \<le> get_balance 99 (tokens sample_sys)"
proof -
  have s: "is_initialized sample_sys" "granted (Admin_or_operator 1) sample_sys"
    "storage_get_shipment_counter sample_sys = 1" "escrow_of sample_sys 1 = 500"
    "\<not> astray sample_sys 1"
    by (simp_all add: sample_run is_initialized_def escrow_of_def escrow_at_def astray_def
        has_persistent_shipment_def del: kept)
  obtain sh where "storage_get_shipment 1 sample_sys = Some sh" "active sh" "overdue (run_env 9500) sh"
    by (simp add: sample_run active_def overdue_def del: kept)
  with health_check_exact [OF sample_sys_reachable s(1) _ s(2), of "run_env 9500" 1 10] s show ?thesis
    by (auto simp: health_report_def u64_max_def effective_batch_query_limit_def)
qed

end
