(* ===== verification/Spec2Isabelle.thy ===== *)
theory Spec2Isabelle
  imports Progress Ledger Settings Controls Windows Oversight
begin

text \<open>
  \<^bold>\<open>Verification of the Navin contracts.\<close> The repository holds two Soroban contracts: the shipment
  contract (\<^verbatim>\<open>src/contracts/shipment\<close>), which tracks deliveries and keeps their payments in escrow,
  and the token contract it is paid in (\<^verbatim>\<open>src/contracts/token\<close>). This development models both, the
  host they run on, and their composition, and proves what makes them correct.

  \<^bold>\<open>The program.\<close> A company creates a shipment and deposits escrow for it; the carrier moves it along
  its statuses and records milestones, for which shares of the escrow are paid; the receiver confirms
  the delivery, wholly or in part, or a party raises a dispute that an admin or a guardian resolves;
  cancellation, the deadline and recovery end it otherwise. Administration (roles, suspension, limits,
  configuration, fees, pause, upgrade), a multi-signature group, a circuit breaker around token
  transfers, an audit log, events, read-only queries and health checks surround this core.

  \<^bold>\<open>How code is modelled.\<close> A contract function is a computation (\<open>Prelude\<close>): a function from the state
  to a result and a state, where a result is a value, an error the code returns, or a trap of the
  host. \<open>andthen\<close>, \<open>bind\<close> and \<open>do_all\<close> are its sequencing, \<open>fail_if\<close> and \<open>guard_if\<close> its early returns.
  The storage is a record with a field per storage key; Rust integers are \<open>nat\<close> and \<open>int\<close> with every
  checked, saturating or trapping operation written out at its width. \<open>invoke\<close> is the host's frame: a
  call that fails leaves the state as it was. Addresses are numbers, symbols strings, hashes lists of
  bytes. SHA-256, the XDR encodings and the invocation of another contract are fields of the
  environment of a call (\<open>Env\<close>), since their code is not in the repository; the token contract is, and
  \<open>System\<close> puts its model in for the token the shipment contract invokes.

  \<^bold>\<open>Definitions, by source file.\<close>
  \<^item> \<open>Host\<close>: ledger, authorisation, events, time-to-live requests of the host.
  \<^item> \<open>Token\<close>: \<^verbatim>\<open>token/src/lib.rs\<close>, \<^verbatim>\<open>storage.rs\<close>, \<^verbatim>\<open>errors.rs\<close>.
  \<^item> \<open>Types\<close>, \<open>ErrorMap\<close>: \<^verbatim>\<open>types.rs\<close>, \<^verbatim>\<open>errors.rs\<close>, \<^verbatim>\<open>error_map.rs\<close> and the structs of other files.
  \<^item> \<open>Store\<close>: \<^verbatim>\<open>storage.rs\<close>; functions whose names an entry point has too are written \<open>storage_\<dots>\<close>.
  \<^item> \<open>Config\<close>, \<open>Validation\<close>, \<open>Events\<close>, \<open>Breaker\<close>, \<open>AuditLog\<close>: \<^verbatim>\<open>config.rs\<close>, \<^verbatim>\<open>validation.rs\<close>, \<^verbatim>\<open>events.rs\<close> with
    \<^verbatim>\<open>event_topics.rs\<close>, \<^verbatim>\<open>circuit_breaker.rs\<close>, \<^verbatim>\<open>audit.rs\<close> with \<^verbatim>\<open>rate_limit.rs\<close>.
  \<^item> \<open>Guards\<close>, \<open>Escrow\<close>, \<open>Admin\<close>, \<open>Creation\<close>, \<open>Lifecycle\<close>, \<open>Multisig\<close>, \<open>Deps\<close>, \<open>Queries\<close>: the functions and
    entry points of \<^verbatim>\<open>lib.rs\<close>, in this order.
  \<^item> \<open>Recovery\<close>: \<^verbatim>\<open>recovery.rs\<close> with its entry points. \<open>Health\<close>: \<^verbatim>\<open>consistency.rs\<close>, \<^verbatim>\<open>diagnostics.rs\<close>.
  \<^item> \<open>System\<close>: the two contracts together. A step is a call of any entry point that changes state
    (\<open>admin_call\<close>, \<open>life_call\<close>, \<open>gov_call\<close>), a call of the token by somebody else, or the expiry of a
    temporary entry; \<open>reachable\<close> is the closure under such steps from the empty state.

  \<^bold>\<open>Interfaces.\<close>
  \<^item> \<open>contract_invariant\<close> (\<open>Prelude\<close>): a predicate that holds at the start and that every successful call
    keeps. Interpreted by \<open>Token\<close> (twice), \<open>System\<close>, \<open>Bounds\<close> and \<open>Settings\<close>.
  \<^item> \<open>token_ledger\<close> (\<open>Host\<close>), extended by \<open>custody\<close> (\<open>Money\<close>): what a transfer does to balances, and what the
    contract's account is worth. Interpreted by the token's \<open>transfer\<close> and by the system.
  \<^item> \<open>token_host\<close> (\<open>Calm\<close>): transfers keep the token's own invariant. Interpreted by \<open>System\<close>.
  \<^item> \<open>shelf\<close> (\<open>Shelf\<close>), extended by \<open>shelf_all\<close> (\<open>Bounds\<close>): predicates on the shipments on file, kept by every
    call about shipments. Interpreted in \<open>Journeys\<close> and in \<open>Bounds\<close>.

  \<^bold>\<open>Lemmas, by purpose.\<close>
  \<^item> \<open>Frames\<close>, \<open>Governance\<close>: what each helper and handler leaves alone (\<open>hush\<close>, \<open>core\<close>, \<open>gov\<close>, \<open>settings\<close>); proposals and
    dependencies stay well-formed, and the search for cycles ends with the right answer.
  \<^item> \<open>Money\<close>, \<open>Solvency\<close>, \<open>Calm\<close>, \<open>System\<close>: every handler keeps the money invariant and the calm between calls;
    hence solvency, well-formed shipments, a free lock and a closed breaker in all reachable states.
  \<^item> \<open>Vault\<close>: an abstract vault (accounts, and per shipment its status and escrow), and that deposits,
    settlements, partial deliveries, milestones and forced settlements implement its operations.
  \<^item> \<open>Access\<close>: the tables of signatures, authorities, parties and the pause, and that every call obeys them.
  \<^item> \<open>Shelf\<close>, \<open>Journeys\<close>, \<open>Statuses\<close>, \<open>Bounds\<close>, \<open>Settings\<close>: calls touch one shipment, final ones stay, statuses follow
    the machine, amounts and percentages are bounded, the settings stay in range.
  \<^item> \<open>Progress\<close>: a confirmed delivery is paid and an expired escrow can be claimed back, as statements of
    success.
  \<^item> \<open>Ledger\<close>: the escrow of a record and its separate storage entry agree after every run without the two
    calls that change only one of them; \<open>orderly\<close> is the step relation of such runs.
  \<^item> \<open>Oversight\<close>: the health check against a reference report, and its sum against the token balance.
  \<^item> \<open>Controls\<close>: proposals are carried out once and with enough approvals, creations stay within the quota,
    unlocking moves no funds. \<open>Windows\<close>: no call closes an idempotency window, so creations are not repeated.
  \<^item> \<open>Token\<close>, \<open>Breaker\<close>, \<open>Queries\<close>, \<open>ErrorMap\<close>: supply and transfers; the breaker's phases; pages by offset and by
    cursor are complete; the error catalogue is a bijection on its codes.
  \<^item> \<open>Samples\<close> and the sample runs of \<open>System\<close>, \<open>Vault\<close>, \<open>Journeys\<close>, \<open>Controls\<close>: concrete runs, by the simplifier.

  \<^bold>\<open>Loops and bounds.\<close> All loops are terminating recursions (\<open>fun\<close>) but the depth-first search of
  \<open>would_create_cycle\<close>, a \<open>partial_function (option)\<close> whose termination is proved for the finite
  dependency graphs of reachable states. No fuel is used. Events carry their topic and payload, and the
  trace of them is part of the state; the ledger's entry time-to-live is a trace of requests, and the
  expiry of the two kinds of temporary entries the code depends on is a step of the system.

  \<^bold>\<open>Assumptions.\<close> The statements about the system suppose that the contract is initialised with the token
  modelled here, that nobody can sign for the contract's own address, and that the token's admin does
  not burn from it (\<open>outsider\<close>). Numbers of arguments are not bounded by their machine width unless a
  statement depends on it.

  \<^bold>\<open>Not modelled.\<close> Tests, fuzz targets and cost benchmarks (\<^verbatim>\<open>test.rs\<close>, \<^verbatim>\<open>fuzz_*.rs\<close>, \<^verbatim>\<open>budget_bench.rs\<close> and the
  test modules at the end of the source files), the mint invocation that exists under \<^verbatim>\<open>cfg(test)\<close>
  only, and the derived trait implementations. Topic names stand in the emitters as literals. Persistent
  entries do not expire in the model, as the code extends their life and the host restores them.
\<close>

end
